(* ===== verification/Prelude.thy ===== *)
theory Prelude
  imports Main "HOL-Library.Word" "HOL-Library.AList" "HOL-Library.Multiset"
begin

text \<open>
  Shared vocabulary of the development.

  \<^item> Machine integers: \<open>u64\<close> and \<open>u32\<close> are words; \<open>i64\<close> values are integers, read from and
    written to words by the casts \<open>as_u64\<close> and \<open>as_i64\<close> (Rust's \<open>as\<close>).
  \<^item> Outcomes: \<open>Ok\<close> and \<open>Err\<close> are the two cases of Rust's \<open>Result\<close>; \<open>Panic\<close> stands for
    \<open>panic!\<close>, \<open>unwrap\<close>, \<open>expect\<close>, \<open>todo!\<close> and \<open>unimplemented!\<close>.
  \<^item> Effects: a stateful function returns its outcome and the state it leaves behind; an
    early return by \<open>?\<close> keeps the effects made so far, as there are no transactions.
  \<^item> Hash maps: an association list with distinct keys; its order is the iteration order of
    the map, which no statement of the development fixes.
\<close>

section \<open>Collections of facts\<close>

named_theorems monad_simps \<open>evaluation rules of the outcome and state operations\<close>
named_theorems hm_simps \<open>lookup rules of hash maps\<close>
named_theorems run_elims \<open>elimination rules for the steps of a run that succeeds\<close>
named_theorems keeps_rules \<open>invariants kept by the steps of a computation\<close>
named_theorems bit_rules \<open>bits of permission values\<close>

section \<open>Machine integers\<close>

type_synonym u8 = "8 word"
type_synonym u32 = "32 word"
type_synonym u64 = "64 word"

definition as_u64 :: "int \<Rightarrow> u64" where
  "as_u64 i = word_of_int i"

definition as_i64 :: "u64 \<Rightarrow> int" where
  "as_i64 w = sint w"

definition i64_max :: int where
  "i64_max = 2 ^ 63 - 1"

definition is_i64 :: "int \<Rightarrow> bool" where
  "is_i64 i \<longleftrightarrow> - (2 ^ 63) \<le> i \<and> i < 2 ^ 63"

lemma as_u64_as_i64 [simp]: "as_u64 (as_i64 w) = w"
  by (simp add: as_u64_def as_i64_def)

lemma is_i64_as_i64 [simp]: "is_i64 (as_i64 w)"
  using sint_greater_eq [of w] sint_lt [of w]
  by (simp add: is_i64_def as_i64_def)

lemma as_i64_as_u64: "is_i64 i \<Longrightarrow> as_i64 (as_u64 i) = i"
  by (simp add: is_i64_def as_i64_def as_u64_def sint_sbintrunc' signed_take_bit_int_eq_self)

section \<open>Outcomes\<close>

datatype ('e, 'a) outcome = Ok 'a | Err 'e | Panic string

primrec is_ok :: "('e, 'a) outcome \<Rightarrow> bool" where
  "is_ok (Ok x) = True"
| "is_ok (Err e) = False"
| "is_ok (Panic p) = False"

primrec is_panic :: "('e, 'a) outcome \<Rightarrow> bool" where
  "is_panic (Ok x) = False"
| "is_panic (Err e) = False"
| "is_panic (Panic p) = True"

primrec obind :: "('e, 'a) outcome \<Rightarrow> ('a \<Rightarrow> ('e, 'b) outcome) \<Rightarrow> ('e, 'b) outcome" where
  "obind (Ok x) f = f x"
| "obind (Err e) f = Err e"
| "obind (Panic p) f = Panic p"

definition ok_or :: "'e \<Rightarrow> 'a option \<Rightarrow> ('e, 'a) outcome" where
  "ok_or e x = (case x of None \<Rightarrow> Err e | Some v \<Rightarrow> Ok v)"

lemma ok_or_simps [simp, monad_simps]:
  "ok_or e None = Err e" "ok_or e (Some v) = Ok v"
  by (simp_all add: ok_or_def)

lemma obind_eq_Ok: "obind r f = Ok y \<longleftrightarrow> (\<exists>x. r = Ok x \<and> f x = Ok y)"
  by (cases r) auto

lemma ok_or_eq_Ok [simp]: "ok_or e x = Ok v \<longleftrightarrow> x = Some v"
  by (cases x) auto

lemma ok_or_eq_Err [simp]: "ok_or e x = Err e' \<longleftrightarrow> x = None \<and> e' = e"
  by (cases x) auto

lemma ok_or_not_Panic [simp]: "ok_or e x \<noteq> Panic p"
  by (cases x) auto

text \<open>\<open>iter().map(f).collect::<Result<Vec<_>>>()\<close>: the first error stops the walk.\<close>

fun collect_results :: "('a \<Rightarrow> ('e, 'b) outcome) \<Rightarrow> 'a list \<Rightarrow> ('e, 'b list) outcome" where
  "collect_results f [] = Ok []"
| "collect_results f (x # xs) =
     obind (f x) (\<lambda>y. obind (collect_results f xs) (\<lambda>ys. Ok (y # ys)))"

lemma collect_results_Ok:
  "collect_results f xs = Ok ys \<longleftrightarrow> list_all2 (\<lambda>x y. f x = Ok y) xs ys"
proof (induction xs arbitrary: ys)
  case Nil
  show ?case by auto
next
  case (Cons x xs)
  show ?case
    by (cases ys) (auto simp: obind_eq_Ok Cons.IH)
qed

section \<open>Stateful computations\<close>

type_synonym ('s, 'e, 'a) comp = "'s \<Rightarrow> ('e, 'a) outcome \<times> 's"

definition ret :: "'a \<Rightarrow> ('s, 'e, 'a) comp" where
  "ret x s = (Ok x, s)"

definition throw :: "'e \<Rightarrow> ('s, 'e, 'a) comp" where
  "throw e s = (Err e, s)"

definition panic :: "string \<Rightarrow> ('s, 'e, 'a) comp" where
  "panic p s = (Panic p, s)"

definition bindM :: "('s, 'e, 'a) comp \<Rightarrow> ('a \<Rightarrow> ('s, 'e, 'b) comp) \<Rightarrow> ('s, 'e, 'b) comp" where
  "bindM m f s =
     (case m s of
        (Ok x, s') \<Rightarrow> f x s'
      | (Err e, s') \<Rightarrow> (Err e, s')
      | (Panic p, s') \<Rightarrow> (Panic p, s'))"

definition lift :: "('e, 'a) outcome \<Rightarrow> ('s, 'e, 'a) comp" where
  "lift r s = (r, s)"

definition gets :: "('s \<Rightarrow> 'a) \<Rightarrow> ('s, 'e, 'a) comp" where
  "gets f s = (Ok (f s), s)"

definition modify :: "('s \<Rightarrow> 's) \<Rightarrow> ('s, 'e, unit) comp" where
  "modify f s = (Ok (), f s)"

text \<open>\<open>m.await.ok()\<close>: an error becomes \<open>None\<close>, its effects stay, a panic goes on.\<close>

definition attempt :: "('s, 'e, 'a) comp \<Rightarrow> ('s, 'e, 'a option) comp" where
  "attempt m s =
     (case m s of
        (Ok x, s') \<Rightarrow> (Ok (Some x), s')
      | (Err e, s') \<Rightarrow> (Ok None, s')
      | (Panic p, s') \<Rightarrow> (Panic p, s'))"

text \<open>\<open>if c { return Err(e); }\<close>\<close>

definition guard :: "bool \<Rightarrow> 'e \<Rightarrow> ('s, 'e, unit) comp" where
  "guard c e s = (if c then (Err e, s) else (Ok (), s))"

text \<open>\<open>unwrap\<close> and \<open>expect\<close> turn an error into a panic.\<close>

definition expect :: "string \<Rightarrow> ('s, 'e, 'a) comp \<Rightarrow> ('s, 'e, 'a) comp" where
  "expect reason m s =
     (case m s of (Err e, s') \<Rightarrow> (Panic reason, s') | r \<Rightarrow> r)"

text \<open>\<open>m.map_err(f)\<close>\<close>

definition map_err :: "('e \<Rightarrow> 'f) \<Rightarrow> ('s, 'e, 'a) comp \<Rightarrow> ('s, 'f, 'a) comp" where
  "map_err f m s =
     (case m s of
        (Ok x, s') \<Rightarrow> (Ok x, s') | (Err e, s') \<Rightarrow> (Err (f e), s') | (Panic p, s') \<Rightarrow> (Panic p, s'))"

fun for_each :: "'a list \<Rightarrow> ('a \<Rightarrow> ('s, 'e, unit) comp) \<Rightarrow> ('s, 'e, unit) comp" where
  "for_each [] f = ret ()"
| "for_each (x # xs) f = bindM (f x) (\<lambda>_. for_each xs f)"

lemmas comp_simps [simp, monad_simps] =
  ret_def throw_def panic_def lift_def gets_def modify_def

lemma bindM_Ok [simp, monad_simps]: "m s = (Ok x, s') \<Longrightarrow> bindM m f s = f x s'"
  by (simp add: bindM_def)

lemma bindM_Err [simp, monad_simps]: "m s = (Err e, s') \<Longrightarrow> bindM m f s = (Err e, s')"
  by (simp add: bindM_def)

lemma bindM_Panic [simp, monad_simps]: "m s = (Panic p, s') \<Longrightarrow> bindM m f s = (Panic p, s')"
  by (simp add: bindM_def)

lemma guard_simps [simp, monad_simps]:
  "guard True e s = (Err e, s)" "guard False e s = (Ok (), s)"
  by (simp_all add: guard_def)

lemma bindM_guard [simp, monad_simps]:
  "bindM (guard c e) f s = (if c then (Err e, s) else f () s)"
  by (simp add: bindM_def guard_def)

lemma bindM_eq_Ok:
  "bindM m f s = (Ok y, s'') \<longleftrightarrow> (\<exists>x s'. m s = (Ok x, s') \<and> f x s' = (Ok y, s''))"
  by (auto simp: bindM_def split: prod.splits outcome.splits)

lemma bindM_OkE [run_elims]:
  assumes "bindM m f s = (Ok y, s'')"
  obtains x s' where "m s = (Ok x, s')" and "f x s' = (Ok y, s'')"
  using assms by (auto simp: bindM_eq_Ok)

lemma guard_OkE [run_elims]:
  assumes "guard c e s = (Ok u, s')"
  obtains "\<not> c" and "s' = s"
  using assms by (auto simp: guard_def split: if_splits)

lemma lift_OkE [run_elims]:
  assumes "lift r s = (Ok x, s')"
  obtains "r = Ok x" and "s' = s"
  using assms by simp

lemma ret_OkE [run_elims]:
  assumes "ret v s = (Ok x, s')"
  obtains "x = v" and "s' = s"
  using assms by simp

lemma throw_OkE [run_elims]:
  assumes "throw e s = (Ok x, s')"
  obtains "False"
  using assms by simp

lemma panic_OkE [run_elims]:
  assumes "panic p s = (Ok x, s')"
  obtains "False"
  using assms by simp

lemma case_prod_runE [run_elims]:
  assumes "(case p of (a, b) \<Rightarrow> f a b) s = r"
  obtains a b where "p = (a, b)" and "f a b s = r"
  using assms by (cases p) auto

lemma let_runE [run_elims]:
  assumes "(let x = v in f x) s = r"
  obtains "f v s = r"
  using assms by simp

lemma bindM_assoc: "bindM (bindM m f) g = bindM m (\<lambda>x. bindM (f x) g)"
  by (rule ext) (auto simp: bindM_def split: prod.splits outcome.splits)

lemma attempt_not_Err [simp]: "attempt m s \<noteq> (Err e, s')"
  by (auto simp: attempt_def split: prod.splits outcome.splits)

text \<open>An invariant that every step keeps is kept by the sequence and by the loop.\<close>

definition keeps :: "('s \<Rightarrow> bool) \<Rightarrow> ('s, 'e, 'a) comp \<Rightarrow> bool" where
  "keeps I m \<longleftrightarrow> (\<forall>s. I s \<longrightarrow> I (snd (m s)))"

lemma keepsI [intro]: "(\<And>s. I s \<Longrightarrow> I (snd (m s))) \<Longrightarrow> keeps I m"
  by (simp add: keeps_def)

lemma keepsD: "keeps I m \<Longrightarrow> I s \<Longrightarrow> I (snd (m s))"
  by (simp add: keeps_def)

lemma keeps_bind [intro]:
  assumes "keeps I m" and "\<And>x. keeps I (f x)"
  shows "keeps I (bindM m f)"
proof (rule keepsI)
  fix s
  assume "I s"
  with assms show "I (snd (bindM m f s))"
    by (cases "m s") (auto simp: keeps_def bindM_def split: outcome.splits)
qed

lemma keeps_const [simp, intro]:
  "keeps I (ret x)" "keeps I (throw e)" "keeps I (panic p)" "keeps I (lift r)"
  "keeps I (gets g)" "keeps I (guard c e)"
  by (auto simp: keeps_def guard_def)

lemma keeps_attempt [intro]: "keeps I m \<Longrightarrow> keeps I (attempt m)"
  by (auto simp: keeps_def attempt_def split: prod.splits outcome.splits)

lemma keeps_for_each [intro]: "(\<And>x. keeps I (f x)) \<Longrightarrow> keeps I (for_each xs f)"
  by (induction xs) auto

lemma keeps_if: "keeps I m \<Longrightarrow> keeps I m' \<Longrightarrow> keeps I (if c then m else m')"
  by simp

lemma keeps_prod: "(\<And>a b. keeps I (f a b)) \<Longrightarrow> keeps I (case p of (a, b) \<Rightarrow> f a b)"
  by (simp split: prod.splits)

lemma keeps_option: "keeps I m \<Longrightarrow> (\<And>v. keeps I (f v)) \<Longrightarrow> keeps I (case x of None \<Rightarrow> m | Some v \<Rightarrow> f v)"
  by (simp split: option.splits)

lemma keeps_let: "(\<And>x. keeps I (f x)) \<Longrightarrow> keeps I (let x = v in f x)"
  by simp

lemma keeps_map_err [intro]: "keeps I m \<Longrightarrow> keeps I (map_err f m)"
  by (auto simp: keeps_def map_err_def split: prod.splits outcome.splits)

lemma keeps_expect [intro]: "keeps I m \<Longrightarrow> keeps I (expect p m)"
  by (auto simp: keeps_def expect_def split: prod.splits outcome.splits)

lemmas keeps_basic [keeps_rules] =
  keeps_bind keeps_const keeps_attempt keeps_for_each keeps_if keeps_prod keeps_option keeps_let
  keeps_map_err keeps_expect

text \<open>Failing leaves the state inside \<open>I\<close>.\<close>

definition fails_in :: "('s \<Rightarrow> bool) \<Rightarrow> ('s, 'e, 'a) comp \<Rightarrow> bool" where
  "fails_in I m \<longleftrightarrow> (\<forall>s. I s \<longrightarrow> \<not> is_ok (fst (m s)) \<longrightarrow> I (snd (m s)))"

lemma fails_inD: "fails_in I m \<Longrightarrow> I s \<Longrightarrow> m s = (r, s') \<Longrightarrow> \<not> is_ok r \<Longrightarrow> I s'"
  by (metis fails_in_def fst_conv snd_conv)

lemma keeps_fails_in: "keeps I m \<Longrightarrow> fails_in I m"
  by (simp add: keeps_def fails_in_def)

lemma fails_in_bind [intro]:
  assumes "keeps I m" and "\<And>x. fails_in I (f x)"
  shows "fails_in I (bindM m f)"
  unfolding fails_in_def
proof (intro allI impI)
  fix s
  assume "I s" "\<not> is_ok (fst (bindM m f s))"
  with assms keepsD [OF assms(1) \<open>I s\<close>] show "I (snd (bindM m f s))"
    by (cases "m s"; cases "fst (m s)") (auto simp: bindM_def fails_in_def)
qed

lemma fails_in_last:
  assumes "fails_in I m" and "\<And>x s. is_ok (fst (f x s))"
  shows "fails_in I (bindM m f)"
  unfolding fails_in_def
proof (intro allI impI)
  fix s
  assume s: "I s" "\<not> is_ok (fst (bindM m f s))"
  obtain r s' where m: "m s = (r, s')"
    by (cases "m s")
  then have "\<not> is_ok r"
    using s(2) assms(2) by (cases r) auto
  moreover from this have "snd (bindM m f s) = s'"
    using m by (cases r) simp_all
  ultimately show "I (snd (bindM m f s))"
    using fails_inD [OF assms(1) s(1) m] by simp
qed

lemma fails_in_let: "(\<And>x. fails_in I (f x)) \<Longrightarrow> fails_in I (let x = v in f x)"
  by simp

lemma fails_in_prod: "(\<And>a b. fails_in I (g a b)) \<Longrightarrow> fails_in I (case p of (a, b) \<Rightarrow> g a b)"
  by (simp split: prod.splits)

lemma is_ok_fst: "is_ok (fst r) \<Longrightarrow> \<exists>x s. r = (Ok x, s)"
  by (cases r; cases "fst r") auto

text \<open>A step that keeps every property of the state leaves the state as it is.\<close>

lemma reads_state: "keeps (\<lambda>s. s = w) m \<Longrightarrow> m w = (r, w') \<Longrightarrow> w' = w"
  using keepsD [of "\<lambda>s. s = w" m w] by simp

section \<open>Hash maps\<close>

type_synonym ('k, 'v) hmap = "('k \<times> 'v) list"

definition hm_ok :: "('k, 'v) hmap \<Rightarrow> bool" where
  "hm_ok m \<longleftrightarrow> distinct (map fst m)"

definition hm_get :: "('k, 'v) hmap \<Rightarrow> 'k \<Rightarrow> 'v option" where
  "hm_get m k = map_of m k"

definition hm_contains :: "('k, 'v) hmap \<Rightarrow> 'k \<Rightarrow> bool" where
  "hm_contains m k \<longleftrightarrow> hm_get m k \<noteq> None"

definition hm_insert :: "'k \<Rightarrow> 'v \<Rightarrow> ('k, 'v) hmap \<Rightarrow> ('k, 'v) hmap" where
  "hm_insert k v m = AList.update k v m"

definition hm_remove :: "'k \<Rightarrow> ('k, 'v) hmap \<Rightarrow> ('k, 'v) hmap" where
  "hm_remove k m = AList.delete k m"

definition hm_retain :: "('k \<Rightarrow> 'v \<Rightarrow> bool) \<Rightarrow> ('k, 'v) hmap \<Rightarrow> ('k, 'v) hmap" where
  "hm_retain p m = filter (\<lambda>(k, v). p k v) m"

definition hm_values :: "('k, 'v) hmap \<Rightarrow> 'v list" where
  "hm_values m = map snd m"

text \<open>\<open>if let Some(x) = m.get_mut(k) { *x = f(x) }\<close>\<close>

definition hm_modify :: "'k \<Rightarrow> ('v \<Rightarrow> 'v) \<Rightarrow> ('k, 'v) hmap \<Rightarrow> ('k, 'v) hmap" where
  "hm_modify k f m = map (\<lambda>(k', v). (k', if k' = k then f v else v)) m"

lemma hm_get_empty [simp, hm_simps]: "hm_get [] k = None"
  by (simp add: hm_get_def)

lemma hm_get_insert [simp, hm_simps]:
  "hm_get (hm_insert k v m) k' = (if k' = k then Some v else hm_get m k')"
  by (simp add: hm_get_def hm_insert_def update_conv')

lemma hm_get_remove [simp, hm_simps]:
  "hm_get (hm_remove k m) k' = (if k' = k then None else hm_get m k')"
  by (simp add: hm_get_def hm_remove_def delete_conv')

lemma hm_get_modify [simp, hm_simps]:
  "hm_get (hm_modify k f m) k' = (if k' = k then map_option f (hm_get m k) else hm_get m k')"
  by (induction m) (auto simp: hm_modify_def hm_get_def)

lemma hm_ok_empty [simp]: "hm_ok []"
  by (simp add: hm_ok_def)

lemma hm_ok_insert [simp, intro]: "hm_ok m \<Longrightarrow> hm_ok (hm_insert k v m)"
  by (simp add: hm_ok_def hm_insert_def distinct_update)

lemma hm_ok_remove [simp, intro]: "hm_ok m \<Longrightarrow> hm_ok (hm_remove k m)"
  by (simp add: hm_ok_def hm_remove_def distinct_delete)

lemma map_fst_hm_modify: "map fst (hm_modify k f m) = map fst m"
  by (induction m) (auto simp: hm_modify_def)

lemma hm_ok_modify [simp, intro]: "hm_ok m \<Longrightarrow> hm_ok (hm_modify k f m)"
  by (simp add: hm_ok_def map_fst_hm_modify)

lemma map_fst_filter_distinct: "distinct (map fst m) \<Longrightarrow> distinct (map fst (filter p m))"
  by (induction m) auto

lemma hm_ok_retain [simp, intro]: "hm_ok m \<Longrightarrow> hm_ok (hm_retain p m)"
  by (simp add: hm_ok_def hm_retain_def map_fst_filter_distinct)

lemma map_of_filter_distinct:
  "distinct (map fst m) \<Longrightarrow>
     map_of (filter (\<lambda>(k, v). p k v) m) k =
       (case map_of m k of None \<Rightarrow> None | Some v \<Rightarrow> if p k v then Some v else None)"
proof (induction m)
  case Nil
  show ?case by simp
next
  case (Cons a m)
  have none: "map_of m (fst a) = None"
    using Cons.prems by (simp add: map_of_eq_None_iff)
  show ?case
    using Cons none by (cases a) (auto split: option.splits)
qed

lemma hm_get_retain [hm_simps]:
  "hm_ok m \<Longrightarrow>
     hm_get (hm_retain p m) k =
       (case hm_get m k of None \<Rightarrow> None | Some v \<Rightarrow> if p k v then Some v else None)"
  by (simp add: hm_ok_def hm_get_def hm_retain_def map_of_filter_distinct)

lemma hm_values_mem: "hm_ok m \<Longrightarrow> v \<in> set (hm_values m) \<longleftrightarrow> (\<exists>k. hm_get m k = Some v)"
  by (force simp: hm_ok_def hm_values_def hm_get_def)

lemma hm_contains_iff [simp]: "hm_contains m k \<longleftrightarrow> hm_get m k \<noteq> None"
  by (simp add: hm_contains_def)

text \<open>
  The interface of a hash map, as its users rely on it: what a lookup returns after each
  operation, and that the operations keep the keys distinct.
\<close>

locale hash_map =
  fixes get :: "'m \<Rightarrow> 'k \<Rightarrow> 'v option"
    and insert :: "'k \<Rightarrow> 'v \<Rightarrow> 'm \<Rightarrow> 'm"
    and remove :: "'k \<Rightarrow> 'm \<Rightarrow> 'm"
    and ok :: "'m \<Rightarrow> bool"
  assumes get_insert: "ok m \<Longrightarrow> get (insert k v m) k' = (if k' = k then Some v else get m k')"
    and get_remove: "ok m \<Longrightarrow> get (remove k m) k' = (if k' = k then None else get m k')"
    and ok_insert: "ok m \<Longrightarrow> ok (insert k v m)"
    and ok_remove: "ok m \<Longrightarrow> ok (remove k m)"
begin

lemma remove_undoes_insert:
  "ok m \<Longrightarrow> get m k = None \<Longrightarrow> get (remove k (insert k v m)) = get m"
  by (rule ext) (simp add: get_insert get_remove ok_insert)

lemma insert_overwrites:
  "ok m \<Longrightarrow> get (insert k v (insert k w m)) = get (insert k v m)"
  by (rule ext) (simp add: get_insert ok_insert)

lemma insert_commutes:
  "ok m \<Longrightarrow> k \<noteq> l \<Longrightarrow> get (insert k v (insert l w m)) = get (insert l w (insert k v m))"
  by (rule ext) (simp add: get_insert ok_insert)

end

interpretation hm: hash_map hm_get hm_insert hm_remove hm_ok
  by unfold_locales simp_all

section \<open>Lists\<close>

lemma set_map_filter_iff: "x \<in> set (List.map_filter f xs) \<longleftrightarrow> (\<exists>y\<in>set xs. f y = Some x)"
  by (induction xs) (auto simp: map_filter_simps split: option.splits)

section \<open>Sorting\<close>

text \<open>
  \<open>v.sort_by(|a, b| b.0.cmp(&a.0))\<close>: a stable sort by descending key. HOL's \<open>sort_key\<close> is
  stable too, so equal keys keep the order in which they came.
\<close>

definition sort_desc :: "(int \<times> 'a) list \<Rightarrow> (int \<times> 'a) list" where
  "sort_desc xs = sort_key (\<lambda>p. - fst p) xs"

lemma set_sort_desc [simp]: "set (sort_desc xs) = set xs"
  by (simp add: sort_desc_def)

lemma mset_sort_desc [simp]: "mset (sort_desc xs) = mset xs"
  by (simp add: sort_desc_def)

lemma sorted_sort_desc: "sorted_wrt (\<lambda>p q. fst q \<le> fst p) (sort_desc xs)"
proof -
  have "sorted (map (\<lambda>p. - fst p) (sort_desc xs))"
    by (simp add: sort_desc_def)
  then show ?thesis
    by (simp add: sorted_wrt_map)
qed

text \<open>With distinct keys the result depends on the elements only, not on their order.\<close>

lemma sort_desc_unique:
  assumes "mset xs = mset ys" and "distinct (map fst xs)"
  shows "sort_desc xs = sort_desc ys"
proof -
  have "inj_on (\<lambda>p. - fst p) (set xs)"
    using assms(2) by (auto simp: distinct_map inj_on_def)
  with assms(1) show ?thesis
    unfolding sort_desc_def by (rule sort_key_eq_sort_key)
qed

end
