(* ===== verification/Results.thy ===== *)
theory Results
  imports Prelude
begin

text \<open>
  Errors of the API (\<open>crates/core/result\<close>): the error enumeration, the result type every
  database and route function returns, and the two HTTP responders (Rocket for the REST
  server, Axum for the micro-services) that turn an error into a response. The source has
  one flat enumeration of 96 variants, divided by comments; the sections are one datatype
  each here, wrapped by \<open>error_type\<close>.
\<close>

section \<open>The error enumeration\<close>

datatype user_error =
    UsernameTaken
  | InvalidUsername
  | DiscriminatorChangeRatelimited
  | UnknownUser
  | AlreadyFriends
  | AlreadySentRequest
  | Blocked
  | BlockedByOther
  | NotFriends
  | TooManyPendingFriendRequests nat

datatype channel_error =
    UnknownChannel
  | UnknownAttachment
  | UnknownMessage
  | CannotDeleteMessage
  | CannotEditMessage
  | CannotJoinCall
  | TooManyAttachments nat
  | TooManyEmbeds nat
  | TooManyReplies nat
  | TooManyChannels nat
  | EmptyMessage
  | PayloadTooLarge
  | CannotRemoveYourself
  | GroupTooLarge nat
  | AlreadyInGroup
  | NotInGroup
  | AlreadyPinned
  | NotPinned
  | InSlowmode u64

datatype server_error =
    CantCreateServers
  | UnknownServer
  | ServerSuspended
  | InvalidRole
  | Banned
  | TooManyServers nat
  | TooManyEmoji nat
  | TooManyRoles nat
  | AlreadyInServer
  | CannotTimeoutYourself

datatype bot_error =
    ReachedMaximumBots
  | IsBot
  | IsNotBot
  | BotIsPrivate
  | CannotReportYourself

datatype permission_error =
    MissingPermission string
  | MissingUserPermission string
  | NotElevated
  | NotPrivileged
  | CannotGiveMissingPermissions
  | NotOwner
  | IsElevated

datatype general_error =
    DatabaseError string string
  | InternalError
  | InvalidOperation
  | InvalidCredentials
  | InvalidProperty
  | InvalidSession
  | InvalidFlagValue
  | NotAuthenticated
  | DuplicateNonce
  | NotFound
  | NoEffect
  | FailedValidation string
  | HeaderTooLarge
  | OperationFailed
  | IncorrectData string

datatype service_error =
    LiveKitUnavailable
  | NotAVoiceChannel
  | AlreadyConnected
  | NotConnected
  | UnknownNode
  | ProxyError
  | FileTooSmall
  | FileTooLarge nat
  | FileTypeNotAllowed
  | ImageProcessingFailed
  | NoEmbedData
  | VosoUnavailable
  | FeatureDisabled string

datatype auth_error =
    RenderFail
  | MissingHeaders
  | CaptchaFailed
  | BlockedByShield
  | UnverifiedAccount
  | EmailFailed
  | InvalidToken
  | MissingInvite
  | InvalidInvite
  | CompromisedPassword
  | ShortPassword
  | Blacklisted
  | LockedOut
  | TotpAlreadyEnabled
  | DisallowedMFAMethod

datatype error_type =
    LabelMe
  | AlreadyOnboarded
  | UserErr user_error
  | ChannelErr channel_error
  | ServerErr server_error
  | BotErr bot_error
  | PermissionErr permission_error
  | GeneralErr general_error
  | ServiceErr service_error
  | AuthErr auth_error

type_synonym 'a result = "(error_type, 'a) outcome"

section \<open>Responders\<close>

datatype status =
    Status_BadRequest | Status_Unauthorized | Status_Forbidden | Status_NotFound
  | Status_Conflict | Status_UnprocessableEntity | Status_TooManyRequests
  | Status_InternalServerError

primrec rocket_user_error :: "user_error \<Rightarrow> status" where
  "rocket_user_error UnknownUser = Status_NotFound"
| "rocket_user_error InvalidUsername = Status_BadRequest"
| "rocket_user_error UsernameTaken = Status_Conflict"
| "rocket_user_error DiscriminatorChangeRatelimited = Status_TooManyRequests"
| "rocket_user_error AlreadyFriends = Status_Conflict"
| "rocket_user_error AlreadySentRequest = Status_Conflict"
| "rocket_user_error Blocked = Status_Conflict"
| "rocket_user_error BlockedByOther = Status_Forbidden"
| "rocket_user_error NotFriends = Status_Forbidden"
| "rocket_user_error (TooManyPendingFriendRequests a0) = Status_BadRequest"

primrec rocket_channel_error :: "channel_error \<Rightarrow> status" where
  "rocket_channel_error UnknownChannel = Status_NotFound"
| "rocket_channel_error UnknownMessage = Status_NotFound"
| "rocket_channel_error UnknownAttachment = Status_BadRequest"
| "rocket_channel_error CannotDeleteMessage = Status_Forbidden"
| "rocket_channel_error CannotEditMessage = Status_Forbidden"
| "rocket_channel_error CannotJoinCall = Status_BadRequest"
| "rocket_channel_error (TooManyAttachments a0) = Status_BadRequest"
| "rocket_channel_error (TooManyReplies a0) = Status_BadRequest"
| "rocket_channel_error EmptyMessage = Status_UnprocessableEntity"
| "rocket_channel_error PayloadTooLarge = Status_UnprocessableEntity"
| "rocket_channel_error CannotRemoveYourself = Status_BadRequest"
| "rocket_channel_error (GroupTooLarge a0) = Status_Forbidden"
| "rocket_channel_error AlreadyInGroup = Status_Conflict"
| "rocket_channel_error NotInGroup = Status_NotFound"
| "rocket_channel_error AlreadyPinned = Status_BadRequest"
| "rocket_channel_error NotPinned = Status_BadRequest"
| "rocket_channel_error (InSlowmode a0) = Status_TooManyRequests"
| "rocket_channel_error (TooManyEmbeds a0) = Status_BadRequest"
| "rocket_channel_error (TooManyChannels a0) = Status_BadRequest"

primrec rocket_server_error :: "server_error \<Rightarrow> status" where
  "rocket_server_error CantCreateServers = Status_Forbidden"
| "rocket_server_error UnknownServer = Status_NotFound"
| "rocket_server_error ServerSuspended = Status_Forbidden"
| "rocket_server_error InvalidRole = Status_NotFound"
| "rocket_server_error Banned = Status_Forbidden"
| "rocket_server_error AlreadyInServer = Status_Conflict"
| "rocket_server_error CannotTimeoutYourself = Status_BadRequest"
| "rocket_server_error (TooManyServers a0) = Status_BadRequest"
| "rocket_server_error (TooManyEmoji a0) = Status_BadRequest"
| "rocket_server_error (TooManyRoles a0) = Status_BadRequest"

primrec rocket_bot_error :: "bot_error \<Rightarrow> status" where
  "rocket_bot_error ReachedMaximumBots = Status_BadRequest"
| "rocket_bot_error IsBot = Status_BadRequest"
| "rocket_bot_error IsNotBot = Status_BadRequest"
| "rocket_bot_error BotIsPrivate = Status_Forbidden"
| "rocket_bot_error CannotReportYourself = Status_BadRequest"

primrec rocket_permission_error :: "permission_error \<Rightarrow> status" where
  "rocket_permission_error (MissingPermission a0) = Status_Forbidden"
| "rocket_permission_error (MissingUserPermission a0) = Status_Forbidden"
| "rocket_permission_error NotElevated = Status_Forbidden"
| "rocket_permission_error NotPrivileged = Status_Forbidden"
| "rocket_permission_error CannotGiveMissingPermissions = Status_Forbidden"
| "rocket_permission_error NotOwner = Status_Forbidden"
| "rocket_permission_error IsElevated = Status_Forbidden"

primrec rocket_general_error :: "general_error \<Rightarrow> status" where
  "rocket_general_error InvalidFlagValue = Status_BadRequest"
| "rocket_general_error (DatabaseError a0 a1) = Status_InternalServerError"
| "rocket_general_error InternalError = Status_InternalServerError"
| "rocket_general_error InvalidOperation = Status_BadRequest"
| "rocket_general_error InvalidCredentials = Status_Unauthorized"
| "rocket_general_error InvalidProperty = Status_BadRequest"
| "rocket_general_error InvalidSession = Status_Unauthorized"
| "rocket_general_error NotAuthenticated = Status_Unauthorized"
| "rocket_general_error DuplicateNonce = Status_Conflict"
| "rocket_general_error NotFound = Status_NotFound"
| "rocket_general_error NoEffect = Status_BadRequest"
| "rocket_general_error (FailedValidation a0) = Status_BadRequest"
| "rocket_general_error HeaderTooLarge = Status_BadRequest"
| "rocket_general_error OperationFailed = Status_InternalServerError"
| "rocket_general_error (IncorrectData a0) = Status_BadRequest"

primrec rocket_service_error :: "service_error \<Rightarrow> status" where
  "rocket_service_error LiveKitUnavailable = Status_BadRequest"
| "rocket_service_error NotAVoiceChannel = Status_BadRequest"
| "rocket_service_error AlreadyConnected = Status_BadRequest"
| "rocket_service_error NotConnected = Status_BadRequest"
| "rocket_service_error UnknownNode = Status_BadRequest"
| "rocket_service_error (FeatureDisabled a0) = Status_BadRequest"
| "rocket_service_error ProxyError = Status_BadRequest"
| "rocket_service_error FileTooSmall = Status_UnprocessableEntity"
| "rocket_service_error (FileTooLarge a0) = Status_UnprocessableEntity"
| "rocket_service_error FileTypeNotAllowed = Status_BadRequest"
| "rocket_service_error ImageProcessingFailed = Status_InternalServerError"
| "rocket_service_error NoEmbedData = Status_BadRequest"
| "rocket_service_error VosoUnavailable = Status_BadRequest"

primrec rocket_auth_error :: "auth_error \<Rightarrow> status" where
  "rocket_auth_error RenderFail = Status_InternalServerError"
| "rocket_auth_error MissingHeaders = Status_BadRequest"
| "rocket_auth_error CaptchaFailed = Status_BadRequest"
| "rocket_auth_error BlockedByShield = Status_BadRequest"
| "rocket_auth_error UnverifiedAccount = Status_Forbidden"
| "rocket_auth_error EmailFailed = Status_InternalServerError"
| "rocket_auth_error InvalidToken = Status_Unauthorized"
| "rocket_auth_error MissingInvite = Status_BadRequest"
| "rocket_auth_error InvalidInvite = Status_BadRequest"
| "rocket_auth_error CompromisedPassword = Status_BadRequest"
| "rocket_auth_error ShortPassword = Status_BadRequest"
| "rocket_auth_error Blacklisted = Status_Unauthorized"
| "rocket_auth_error LockedOut = Status_Forbidden"
| "rocket_auth_error TotpAlreadyEnabled = Status_BadRequest"
| "rocket_auth_error DisallowedMFAMethod = Status_BadRequest"

primrec rocket_status :: "error_type \<Rightarrow> status" where
  "rocket_status LabelMe = Status_InternalServerError"
| "rocket_status AlreadyOnboarded = Status_Forbidden"
| "rocket_status (UserErr e) = rocket_user_error e"
| "rocket_status (ChannelErr e) = rocket_channel_error e"
| "rocket_status (ServerErr e) = rocket_server_error e"
| "rocket_status (BotErr e) = rocket_bot_error e"
| "rocket_status (PermissionErr e) = rocket_permission_error e"
| "rocket_status (GeneralErr e) = rocket_general_error e"
| "rocket_status (ServiceErr e) = rocket_service_error e"
| "rocket_status (AuthErr e) = rocket_auth_error e"

primrec axum_user_error :: "user_error \<Rightarrow> status" where
  "axum_user_error UnknownUser = Status_NotFound"
| "axum_user_error InvalidUsername = Status_BadRequest"
| "axum_user_error UsernameTaken = Status_Conflict"
| "axum_user_error DiscriminatorChangeRatelimited = Status_TooManyRequests"
| "axum_user_error AlreadyFriends = Status_Conflict"
| "axum_user_error AlreadySentRequest = Status_Conflict"
| "axum_user_error Blocked = Status_Conflict"
| "axum_user_error BlockedByOther = Status_Forbidden"
| "axum_user_error NotFriends = Status_Forbidden"
| "axum_user_error (TooManyPendingFriendRequests a0) = Status_BadRequest"

primrec axum_channel_error :: "channel_error \<Rightarrow> status" where
  "axum_channel_error UnknownChannel = Status_NotFound"
| "axum_channel_error UnknownMessage = Status_NotFound"
| "axum_channel_error UnknownAttachment = Status_BadRequest"
| "axum_channel_error CannotDeleteMessage = Status_Forbidden"
| "axum_channel_error CannotEditMessage = Status_Forbidden"
| "axum_channel_error CannotJoinCall = Status_BadRequest"
| "axum_channel_error (TooManyAttachments a0) = Status_BadRequest"
| "axum_channel_error (TooManyReplies a0) = Status_BadRequest"
| "axum_channel_error EmptyMessage = Status_UnprocessableEntity"
| "axum_channel_error PayloadTooLarge = Status_UnprocessableEntity"
| "axum_channel_error CannotRemoveYourself = Status_BadRequest"
| "axum_channel_error (GroupTooLarge a0) = Status_Forbidden"
| "axum_channel_error AlreadyInGroup = Status_Conflict"
| "axum_channel_error NotInGroup = Status_NotFound"
| "axum_channel_error AlreadyPinned = Status_BadRequest"
| "axum_channel_error NotPinned = Status_BadRequest"
| "axum_channel_error (InSlowmode a0) = Status_TooManyRequests"
| "axum_channel_error (TooManyEmbeds a0) = Status_BadRequest"
| "axum_channel_error (TooManyChannels a0) = Status_BadRequest"

primrec axum_server_error :: "server_error \<Rightarrow> status" where
  "axum_server_error CantCreateServers = Status_Forbidden"
| "axum_server_error UnknownServer = Status_NotFound"
| "axum_server_error ServerSuspended = Status_Forbidden"
| "axum_server_error InvalidRole = Status_NotFound"
| "axum_server_error Banned = Status_Forbidden"
| "axum_server_error AlreadyInServer = Status_Conflict"
| "axum_server_error CannotTimeoutYourself = Status_BadRequest"
| "axum_server_error (TooManyServers a0) = Status_BadRequest"
| "axum_server_error (TooManyEmoji a0) = Status_BadRequest"
| "axum_server_error (TooManyRoles a0) = Status_BadRequest"

primrec axum_bot_error :: "bot_error \<Rightarrow> status" where
  "axum_bot_error ReachedMaximumBots = Status_BadRequest"
| "axum_bot_error IsBot = Status_BadRequest"
| "axum_bot_error IsNotBot = Status_BadRequest"
| "axum_bot_error BotIsPrivate = Status_Forbidden"
| "axum_bot_error CannotReportYourself = Status_BadRequest"

primrec axum_permission_error :: "permission_error \<Rightarrow> status" where
  "axum_permission_error (MissingPermission a0) = Status_Forbidden"
| "axum_permission_error (MissingUserPermission a0) = Status_Forbidden"
| "axum_permission_error NotElevated = Status_Forbidden"
| "axum_permission_error NotPrivileged = Status_Forbidden"
| "axum_permission_error CannotGiveMissingPermissions = Status_Forbidden"
| "axum_permission_error NotOwner = Status_Forbidden"
| "axum_permission_error IsElevated = Status_Forbidden"

primrec axum_general_error :: "general_error \<Rightarrow> status" where
  "axum_general_error (DatabaseError a0 a1) = Status_InternalServerError"
| "axum_general_error InternalError = Status_InternalServerError"
| "axum_general_error InvalidOperation = Status_BadRequest"
| "axum_general_error InvalidCredentials = Status_Unauthorized"
| "axum_general_error InvalidProperty = Status_BadRequest"
| "axum_general_error InvalidSession = Status_Unauthorized"
| "axum_general_error NotAuthenticated = Status_Unauthorized"
| "axum_general_error DuplicateNonce = Status_Conflict"
| "axum_general_error NotFound = Status_NotFound"
| "axum_general_error NoEffect = Status_BadRequest"
| "axum_general_error (FailedValidation a0) = Status_BadRequest"
| "axum_general_error InvalidFlagValue = Status_BadRequest"
| "axum_general_error HeaderTooLarge = Status_BadRequest"
| "axum_general_error OperationFailed = Status_InternalServerError"
| "axum_general_error (IncorrectData a0) = Status_BadRequest"

primrec axum_service_error :: "service_error \<Rightarrow> status" where
  "axum_service_error VosoUnavailable = Status_BadRequest"
| "axum_service_error LiveKitUnavailable = Status_BadRequest"
| "axum_service_error NotConnected = Status_BadRequest"
| "axum_service_error NotAVoiceChannel = Status_BadRequest"
| "axum_service_error AlreadyConnected = Status_BadRequest"
| "axum_service_error UnknownNode = Status_BadRequest"
| "axum_service_error (FeatureDisabled a0) = Status_BadRequest"
| "axum_service_error ProxyError = Status_BadRequest"
| "axum_service_error FileTooSmall = Status_UnprocessableEntity"
| "axum_service_error (FileTooLarge a0) = Status_UnprocessableEntity"
| "axum_service_error FileTypeNotAllowed = Status_BadRequest"
| "axum_service_error ImageProcessingFailed = Status_InternalServerError"
| "axum_service_error NoEmbedData = Status_BadRequest"

primrec axum_auth_error :: "auth_error \<Rightarrow> status" where
  "axum_auth_error RenderFail = Status_InternalServerError"
| "axum_auth_error MissingHeaders = Status_BadRequest"
| "axum_auth_error CaptchaFailed = Status_BadRequest"
| "axum_auth_error BlockedByShield = Status_BadRequest"
| "axum_auth_error UnverifiedAccount = Status_Forbidden"
| "axum_auth_error EmailFailed = Status_InternalServerError"
| "axum_auth_error InvalidToken = Status_Unauthorized"
| "axum_auth_error MissingInvite = Status_BadRequest"
| "axum_auth_error InvalidInvite = Status_BadRequest"
| "axum_auth_error CompromisedPassword = Status_BadRequest"
| "axum_auth_error ShortPassword = Status_BadRequest"
| "axum_auth_error Blacklisted = Status_Unauthorized"
| "axum_auth_error LockedOut = Status_Forbidden"
| "axum_auth_error TotpAlreadyEnabled = Status_BadRequest"
| "axum_auth_error DisallowedMFAMethod = Status_BadRequest"

primrec axum_status :: "error_type \<Rightarrow> status" where
  "axum_status LabelMe = Status_InternalServerError"
| "axum_status AlreadyOnboarded = Status_Forbidden"
| "axum_status (UserErr e) = axum_user_error e"
| "axum_status (ChannelErr e) = axum_channel_error e"
| "axum_status (ServerErr e) = axum_server_error e"
| "axum_status (BotErr e) = axum_bot_error e"
| "axum_status (PermissionErr e) = axum_permission_error e"
| "axum_status (GeneralErr e) = axum_general_error e"
| "axum_status (ServiceErr e) = axum_service_error e"
| "axum_status (AuthErr e) = axum_auth_error e"

text \<open>
  The body is the serialised error, except for blacklisted e-mail addresses, which get a
  fixed text. The Rocket responder sends that text without a content type.
\<close>

datatype body = Json_Of error_type | Disallowed_Contact_Support

record response =
  resp_status :: status
  resp_json_header :: bool
  resp_body :: body

definition respond_to :: "error_type \<Rightarrow> response" where
  "respond_to e =
     (if e = AuthErr Blacklisted
      then \<lparr>resp_status = Status_Unauthorized, resp_json_header = False,
            resp_body = Disallowed_Contact_Support\<rparr>
      else \<lparr>resp_status = rocket_status e, resp_json_header = True, resp_body = Json_Of e\<rparr>)"

definition into_response :: "error_type \<Rightarrow> response" where
  "into_response e =
     (if e = AuthErr Blacklisted
      then \<lparr>resp_status = Status_Unauthorized, resp_json_header = True,
            resp_body = Disallowed_Contact_Support\<rparr>
      else \<lparr>resp_status = axum_status e, resp_json_header = True, resp_body = Json_Of e\<rparr>)"

lemma status_agrees: "rocket_status e = axum_status e"
proof (cases e)
  case (UserErr x)
  then show ?thesis by (cases x) simp_all
next
  case (ChannelErr x)
  then show ?thesis by (cases x) simp_all
next
  case (ServerErr x)
  then show ?thesis by (cases x) simp_all
next
  case (BotErr x)
  then show ?thesis by (cases x) simp_all
next
  case (PermissionErr x)
  then show ?thesis by (cases x) simp_all
next
  case (GeneralErr x)
  then show ?thesis by (cases x) simp_all
next
  case (ServiceErr x)
  then show ?thesis by (cases x) simp_all
next
  case (AuthErr x)
  then show ?thesis by (cases x) simp_all
qed simp_all

text \<open>
  C40: the Rocket and the Axum responder build the same response (status, header and body)
  for every error except a blacklisted address, where only Axum declares the content type.
\<close>

theorem responders_agree: "respond_to e = into_response e \<longleftrightarrow> e \<noteq> AuthErr Blacklisted"
  by (simp add: respond_to_def into_response_def status_agrees)

end
