(* ===== verification/Permission_Values.thy ===== *)
theory Permission_Values
  imports Results
begin

unbundle bit_operations_syntax

text \<open>
  Permission values (\<open>crates/core/permissions/src/models\<close>): the flags of channel and user
  permissions, overrides and their database form, and the operations on the 64-bit value
  that accumulates them.
\<close>

section \<open>Permission flags\<close>

datatype channel_type = SavedMessages_T | DirectMessage_T | Group_T | ServerChannel_T | Unknown_T

datatype channel_permission =
    CP_ManageChannel
  | CP_ManageServer
  | CP_ManagePermissions
  | CP_ManageRole
  | CP_ManageCustomisation
  | CP_KickMembers
  | CP_BanMembers
  | CP_TimeoutMembers
  | CP_AssignRoles
  | CP_ChangeNickname
  | CP_ManageNicknames
  | CP_ChangeAvatar
  | CP_RemoveAvatars
  | CP_ViewChannel
  | CP_ReadMessageHistory
  | CP_SendMessage
  | CP_ManageMessages
  | CP_ManageWebhooks
  | CP_InviteOthers
  | CP_SendEmbeds
  | CP_UploadFiles
  | CP_Masquerade
  | CP_React
  | CP_BypassSlowmode
  | CP_Connect
  | CP_Speak
  | CP_Video
  | CP_MuteMembers
  | CP_DeafenMembers
  | CP_MoveMembers
  | CP_Listen
  | CP_MentionEveryone
  | CP_MentionRoles
  | CP_PingEveryoneAndRoles
  | CP_ViewAuditLogs
  | CP_GrantAllSafe
  | CP_GrantAll

primrec channel_permission_value :: "channel_permission \<Rightarrow> u64" where
  "channel_permission_value CP_ManageChannel = push_bit 0 1"
| "channel_permission_value CP_ManageServer = push_bit 1 1"
| "channel_permission_value CP_ManagePermissions = push_bit 2 1"
| "channel_permission_value CP_ManageRole = push_bit 3 1"
| "channel_permission_value CP_ManageCustomisation = push_bit 4 1"
| "channel_permission_value CP_KickMembers = push_bit 6 1"
| "channel_permission_value CP_BanMembers = push_bit 7 1"
| "channel_permission_value CP_TimeoutMembers = push_bit 8 1"
| "channel_permission_value CP_AssignRoles = push_bit 9 1"
| "channel_permission_value CP_ChangeNickname = push_bit 10 1"
| "channel_permission_value CP_ManageNicknames = push_bit 11 1"
| "channel_permission_value CP_ChangeAvatar = push_bit 12 1"
| "channel_permission_value CP_RemoveAvatars = push_bit 13 1"
| "channel_permission_value CP_ViewChannel = push_bit 20 1"
| "channel_permission_value CP_ReadMessageHistory = push_bit 21 1"
| "channel_permission_value CP_SendMessage = push_bit 22 1"
| "channel_permission_value CP_ManageMessages = push_bit 23 1"
| "channel_permission_value CP_ManageWebhooks = push_bit 24 1"
| "channel_permission_value CP_InviteOthers = push_bit 25 1"
| "channel_permission_value CP_SendEmbeds = push_bit 26 1"
| "channel_permission_value CP_UploadFiles = push_bit 27 1"
| "channel_permission_value CP_Masquerade = push_bit 28 1"
| "channel_permission_value CP_React = push_bit 29 1"
| "channel_permission_value CP_BypassSlowmode = push_bit 39 1"
| "channel_permission_value CP_Connect = push_bit 30 1"
| "channel_permission_value CP_Speak = push_bit 31 1"
| "channel_permission_value CP_Video = push_bit 32 1"
| "channel_permission_value CP_MuteMembers = push_bit 33 1"
| "channel_permission_value CP_DeafenMembers = push_bit 34 1"
| "channel_permission_value CP_MoveMembers = push_bit 35 1"
| "channel_permission_value CP_Listen = push_bit 36 1"
| "channel_permission_value CP_MentionEveryone = push_bit 37 1"
| "channel_permission_value CP_MentionRoles = push_bit 38 1"
| "channel_permission_value CP_PingEveryoneAndRoles = push_bit 41 1"
| "channel_permission_value CP_ViewAuditLogs = push_bit 40 1"
| "channel_permission_value CP_GrantAllSafe = 0xfffffffffffff"
| "channel_permission_value CP_GrantAll = - 1"

primrec channel_permission_name :: "channel_permission \<Rightarrow> string" where
  "channel_permission_name CP_ManageChannel = ''ManageChannel''"
| "channel_permission_name CP_ManageServer = ''ManageServer''"
| "channel_permission_name CP_ManagePermissions = ''ManagePermissions''"
| "channel_permission_name CP_ManageRole = ''ManageRole''"
| "channel_permission_name CP_ManageCustomisation = ''ManageCustomisation''"
| "channel_permission_name CP_KickMembers = ''KickMembers''"
| "channel_permission_name CP_BanMembers = ''BanMembers''"
| "channel_permission_name CP_TimeoutMembers = ''TimeoutMembers''"
| "channel_permission_name CP_AssignRoles = ''AssignRoles''"
| "channel_permission_name CP_ChangeNickname = ''ChangeNickname''"
| "channel_permission_name CP_ManageNicknames = ''ManageNicknames''"
| "channel_permission_name CP_ChangeAvatar = ''ChangeAvatar''"
| "channel_permission_name CP_RemoveAvatars = ''RemoveAvatars''"
| "channel_permission_name CP_ViewChannel = ''ViewChannel''"
| "channel_permission_name CP_ReadMessageHistory = ''ReadMessageHistory''"
| "channel_permission_name CP_SendMessage = ''SendMessage''"
| "channel_permission_name CP_ManageMessages = ''ManageMessages''"
| "channel_permission_name CP_ManageWebhooks = ''ManageWebhooks''"
| "channel_permission_name CP_InviteOthers = ''InviteOthers''"
| "channel_permission_name CP_SendEmbeds = ''SendEmbeds''"
| "channel_permission_name CP_UploadFiles = ''UploadFiles''"
| "channel_permission_name CP_Masquerade = ''Masquerade''"
| "channel_permission_name CP_React = ''React''"
| "channel_permission_name CP_BypassSlowmode = ''BypassSlowmode''"
| "channel_permission_name CP_Connect = ''Connect''"
| "channel_permission_name CP_Speak = ''Speak''"
| "channel_permission_name CP_Video = ''Video''"
| "channel_permission_name CP_MuteMembers = ''MuteMembers''"
| "channel_permission_name CP_DeafenMembers = ''DeafenMembers''"
| "channel_permission_name CP_MoveMembers = ''MoveMembers''"
| "channel_permission_name CP_Listen = ''Listen''"
| "channel_permission_name CP_MentionEveryone = ''MentionEveryone''"
| "channel_permission_name CP_MentionRoles = ''MentionRoles''"
| "channel_permission_name CP_PingEveryoneAndRoles = ''PingEveryoneAndRoles''"
| "channel_permission_name CP_ViewAuditLogs = ''ViewAuditLogs''"
| "channel_permission_name CP_GrantAllSafe = ''GrantAllSafe''"
| "channel_permission_name CP_GrantAll = ''GrantAll''"

text \<open>The operator \<open>+\<close> on flags is a bitwise or (\<open>impl_op_ex!\<close>).\<close>

definition flags_or :: "channel_permission list \<Rightarrow> u64" where
  "flags_or ps = fold (\<lambda>p acc. acc OR channel_permission_value p) ps 0"

definition ALLOW_IN_TIMEOUT :: u64 where
  "ALLOW_IN_TIMEOUT = flags_or [CP_ViewChannel, CP_ReadMessageHistory]"

definition DEFAULT_PERMISSION_VIEW_ONLY :: u64 where
  "DEFAULT_PERMISSION_VIEW_ONLY = flags_or [CP_ViewChannel, CP_ReadMessageHistory]"

text \<open>
  The composed defaults add an or-ed set of flags to a value with \<open>std::ops::Add\<close>: on two
  \<open>u64\<close> values that is arithmetic addition.
\<close>

definition DEFAULT_PERMISSION :: u64 where
  "DEFAULT_PERMISSION = DEFAULT_PERMISSION_VIEW_ONLY +
     flags_or [CP_SendMessage, CP_InviteOthers, CP_SendEmbeds, CP_UploadFiles, CP_Connect,
               CP_Speak, CP_Listen, CP_Video]"

definition DEFAULT_PERMISSION_SAVED_MESSAGES :: u64 where
  "DEFAULT_PERMISSION_SAVED_MESSAGES = channel_permission_value CP_GrantAllSafe"

definition DEFAULT_PERMISSION_DIRECT_MESSAGE :: u64 where
  "DEFAULT_PERMISSION_DIRECT_MESSAGE = DEFAULT_PERMISSION +
     flags_or [CP_ManageChannel, CP_React, CP_Masquerade]"

definition DEFAULT_PERMISSION_SERVER :: u64 where
  "DEFAULT_PERMISSION_SERVER = DEFAULT_PERMISSION +
     flags_or [CP_React, CP_ChangeNickname, CP_ChangeAvatar, CP_PingEveryoneAndRoles]"

definition DEFAULT_WEBHOOK_PERMISSIONS :: u64 where
  "DEFAULT_WEBHOOK_PERMISSIONS =
     flags_or [CP_SendMessage, CP_SendEmbeds, CP_Masquerade, CP_React]"

datatype relationship_status =
  RelNone | RelUser | RelFriend | RelOutgoing | RelIncoming | RelBlocked | RelBlockedOther

datatype user_permission = UP_Access | UP_ViewProfile | UP_SendMessage | UP_Invite

primrec user_permission_value :: "user_permission \<Rightarrow> u64" where
  "user_permission_value UP_Access = push_bit 0 1"
| "user_permission_value UP_ViewProfile = push_bit 1 1"
| "user_permission_value UP_SendMessage = push_bit 2 1"
| "user_permission_value UP_Invite = push_bit 3 1"

primrec user_permission_name :: "user_permission \<Rightarrow> string" where
  "user_permission_name UP_Access = ''Access''"
| "user_permission_name UP_ViewProfile = ''ViewProfile''"
| "user_permission_name UP_SendMessage = ''SendMessage''"
| "user_permission_name UP_Invite = ''Invite''"

section \<open>Overrides\<close>

record override =
  allow :: u64
  deny :: u64

record override_field =
  ov_a :: int
  ov_d :: int

definition default_override :: override where
  "default_override = \<lparr>allow = 0, deny = 0\<rparr>"

definition default_override_field :: override_field where
  "default_override_field = \<lparr>ov_a = 0, ov_d = 0\<rparr>"

definition override_into_field :: "override \<Rightarrow> override_field" where
  "override_into_field v = \<lparr>ov_a = as_i64 (allow v), ov_d = as_i64 (deny v)\<rparr>"

definition field_into_override :: "override_field \<Rightarrow> override" where
  "field_into_override v = \<lparr>allow = as_u64 (ov_a v), deny = as_u64 (ov_d v)\<rparr>"

section \<open>Permission values\<close>

definition pv_allow :: "u64 \<Rightarrow> u64 \<Rightarrow> u64" where
  "pv_allow p v = p OR v"

definition pv_revoke :: "u64 \<Rightarrow> u64 \<Rightarrow> u64" where
  "pv_revoke p v = p AND NOT v"

definition pv_revoke_all :: "u64 \<Rightarrow> u64" where
  "pv_revoke_all p = 0"

definition pv_restrict :: "u64 \<Rightarrow> u64 \<Rightarrow> u64" where
  "pv_restrict p v = p AND v"

definition pv_apply :: "u64 \<Rightarrow> override \<Rightarrow> u64" where
  "pv_apply p v = pv_revoke (pv_allow p (allow v)) (deny v)"

definition pv_has :: "u64 \<Rightarrow> u64 \<Rightarrow> bool" where
  "pv_has p v \<longleftrightarrow> p AND v = v"

definition has_user_permission :: "u64 \<Rightarrow> user_permission \<Rightarrow> bool" where
  "has_user_permission p q \<longleftrightarrow> pv_has p (user_permission_value q)"

definition has_channel_permission :: "u64 \<Rightarrow> channel_permission \<Rightarrow> bool" where
  "has_channel_permission p q \<longleftrightarrow> pv_has p (channel_permission_value q)"

definition throw_if_lacking_user_permission :: "u64 \<Rightarrow> user_permission \<Rightarrow> unit result" where
  "throw_if_lacking_user_permission p q =
     (if has_user_permission p q then Ok ()
      else Err (PermissionErr (MissingPermission (user_permission_name q))))"

definition throw_if_lacking_channel_permission ::
    "u64 \<Rightarrow> channel_permission \<Rightarrow> unit result" where
  "throw_if_lacking_channel_permission p q =
     (if has_channel_permission p q then Ok ()
      else Err (PermissionErr (MissingPermission (channel_permission_name q))))"

definition throw_permission_override :: "u64 \<Rightarrow> override option \<Rightarrow> override \<Rightarrow> unit result" where
  "throw_permission_override p current next =
     (case current of
        Some cur \<Rightarrow>
          if \<not> pv_has p (NOT (allow cur) AND allow next) \<or> \<not> pv_has p (deny cur AND NOT (deny next))
          then Err (PermissionErr CannotGiveMissingPermissions) else Ok ()
      | None \<Rightarrow>
          if \<not> pv_has p (allow next)
          then Err (PermissionErr CannotGiveMissingPermissions) else Ok ())"

section \<open>Bits\<close>

lemma bit_pv_allow [bit_rules]: "bit (pv_allow p v) n \<longleftrightarrow> bit p n \<or> bit v n"
  by (simp add: pv_allow_def bit_or_iff)

lemma bit_pv_revoke [bit_rules]: "bit (pv_revoke p v) n \<longleftrightarrow> bit p n \<and> \<not> bit v n"
  by (auto simp: pv_revoke_def bit_and_iff bit_not_iff dest: bit_imp_possible_bit)

lemma bit_pv_restrict [bit_rules]: "bit (pv_restrict p v) n \<longleftrightarrow> bit p n \<and> bit v n"
  by (simp add: pv_restrict_def bit_and_iff)

lemma bit_pv_apply [bit_rules]:
  "bit (pv_apply p v) n \<longleftrightarrow> (bit p n \<or> bit (allow v) n) \<and> \<not> bit (deny v) n"
  by (simp add: pv_apply_def bit_rules)

lemma pv_has_iff: "pv_has p v \<longleftrightarrow> (\<forall>n. bit v n \<longrightarrow> bit p n)"
proof
  assume "pv_has p v"
  then show "\<forall>n. bit v n \<longrightarrow> bit p n"
    unfolding pv_has_def by (metis bit_and_iff)
next
  assume "\<forall>n. bit v n \<longrightarrow> bit p n"
  then show "pv_has p v"
    unfolding pv_has_def by (intro bit_eqI) (auto simp: bit_and_iff)
qed

lemma pv_has_trans: "pv_has p v \<Longrightarrow> pv_has v w \<Longrightarrow> pv_has p w"
  by (simp add: pv_has_iff)

lemma pv_has_flag: "k < 64 \<Longrightarrow> pv_has p (push_bit k 1) \<longleftrightarrow> bit p k"
  by (auto simp: pv_has_iff bit_exp_iff)

end
