(* ===== verification/Permissions.thy ===== *)
theory Permissions
  imports Permission_Values "HOL-Library.Monad_Syntax"
begin

unbundle bit_operations_syntax

text \<open>
  Permission calculation (\<open>crates/core/permissions/src/impl.rs\<close> and \<open>trait.rs\<close>).

  The trait \<open>PermissionQuery\<close> is a record of methods over a query state \<open>'q\<close>: each method
  takes the state and returns its answer with the state it leaves (\<open>&mut self\<close>); \<open>None\<close>
  is a panic. The three calculators take that record as their first argument, as the source
  is generic in the trait. The locale \<open>permission_view\<close> is the contract an implementation
  must meet: its answers come from one view of the data, whatever it caches on the way.
\<close>

section \<open>The trait\<close>

type_synonym ('q, 'a) query_method = "'q \<Rightarrow> ('a \<times> 'q) option"

record 'q permission_query =
  are_we_privileged :: "('q, bool) query_method"
  are_we_a_bot :: "('q, bool) query_method"
  are_the_users_same :: "('q, bool) query_method"
  user_relationship :: "('q, relationship_status) query_method"
  user_is_bot :: "('q, bool) query_method"
  have_mutual_connection :: "('q, bool) query_method"
  are_we_server_owner :: "('q, bool) query_method"
  are_we_a_member :: "('q, bool) query_method"
  get_default_server_permissions :: "('q, u64) query_method"
  get_our_server_role_overrides :: "('q, override list) query_method"
  are_we_timed_out :: "('q, bool) query_method"
  do_we_have_publish_overwrites :: "('q, bool) query_method"
  do_we_have_receive_overwrites :: "('q, bool) query_method"
  get_channel_type :: "('q, channel_type) query_method"
  get_default_channel_permissions :: "('q, override) query_method"
  get_our_channel_role_overrides :: "('q, override list) query_method"
  do_we_own_the_channel :: "('q, bool) query_method"
  are_we_part_of_the_channel :: "('q, bool) query_method"
  set_recipient_as_user :: "('q, unit) query_method"
  set_server_from_channel :: "('q, unit) query_method"

section \<open>The calculators\<close>

text \<open>\<open>for role_override in overrides { permissions.apply(role_override); }\<close>\<close>

definition apply_overrides :: "override list \<Rightarrow> u64 \<Rightarrow> u64" where
  "apply_overrides vs p = fold (\<lambda>v acc. pv_apply acc v) vs p"

definition calculate_user_permissions ::
    "'q permission_query \<Rightarrow> 'q \<Rightarrow> (u64 \<times> 'q) option" where
  "calculate_user_permissions Q q = do {
     (privileged, q) \<leftarrow> are_we_privileged Q q;
     if privileged then Some (- 1, q) else do {
     (same, q) \<leftarrow> are_the_users_same Q q;
     if same then Some (- 1, q) else do {
     (relationship, q) \<leftarrow> user_relationship Q q;
     if relationship = RelFriend then Some (- 1, q)
     else if relationship = RelBlocked \<or> relationship = RelBlockedOther
     then Some (user_permission_value UP_Access, q)
     else do {
     let permissions =
       (if relationship = RelIncoming \<or> relationship = RelOutgoing
        then user_permission_value UP_Access else 0);
     (mutual, q) \<leftarrow> have_mutual_connection Q q;
     if mutual then do {
       let permissions = user_permission_value UP_Access + user_permission_value UP_ViewProfile;
       (user_bot, q) \<leftarrow> user_is_bot Q q;
       (any_bot, q) \<leftarrow> (if user_bot then Some (True, q) else are_we_a_bot Q q);
       Some (if any_bot then permissions + user_permission_value UP_SendMessage
             else permissions, q)
     }
     else Some (permissions, q)
   }}}}"

definition calculate_server_permissions ::
    "'q permission_query \<Rightarrow> 'q \<Rightarrow> (u64 \<times> 'q) option" where
  "calculate_server_permissions Q q = do {
     (privileged, q) \<leftarrow> are_we_privileged Q q;
     (all, q) \<leftarrow> (if privileged then Some (True, q) else are_we_server_owner Q q);
     if all then Some (channel_permission_value CP_GrantAllSafe, q) else do {
     (is_member, q) \<leftarrow> are_we_a_member Q q;
     if \<not> is_member then Some (0, q) else do {
     (permissions, q) \<leftarrow> get_default_server_permissions Q q;
     (overrides, q) \<leftarrow> get_our_server_role_overrides Q q;
     let permissions = apply_overrides overrides permissions;
     (publish, q) \<leftarrow> do_we_have_publish_overwrites Q q;
     let permissions =
       (if \<not> publish
        then pv_revoke (pv_revoke permissions (channel_permission_value CP_Speak))
               (channel_permission_value CP_Video)
        else permissions);
     (receive, q) \<leftarrow> do_we_have_receive_overwrites Q q;
     let permissions =
       (if \<not> receive then pv_revoke permissions (channel_permission_value CP_Listen)
        else permissions);
     (timed_out, q) \<leftarrow> are_we_timed_out Q q;
     Some (if timed_out then pv_restrict permissions ALLOW_IN_TIMEOUT else permissions, q)
   }}}"

definition calculate_channel_permissions ::
    "'q permission_query \<Rightarrow> 'q \<Rightarrow> (u64 \<times> 'q) option" where
  "calculate_channel_permissions Q q = do {
     (privileged, q) \<leftarrow> are_we_privileged Q q;
     if privileged then Some (channel_permission_value CP_GrantAllSafe, q) else do {
     (ty, q) \<leftarrow> get_channel_type Q q;
     case ty of
       SavedMessages_T \<Rightarrow> do {
         (own, q) \<leftarrow> do_we_own_the_channel Q q;
         Some (if own then DEFAULT_PERMISSION_SAVED_MESSAGES else 0, q)
       }
     | DirectMessage_T \<Rightarrow> do {
         (part, q) \<leftarrow> are_we_part_of_the_channel Q q;
         if part then do {
           (_, q) \<leftarrow> set_recipient_as_user Q q;
           (permissions, q) \<leftarrow> calculate_user_permissions Q q;
           Some (if has_user_permission permissions UP_SendMessage
                 then DEFAULT_PERMISSION_DIRECT_MESSAGE
                 else DEFAULT_PERMISSION_VIEW_ONLY, q)
         }
         else Some (0, q)
       }
     | Group_T \<Rightarrow> do {
         (own, q) \<leftarrow> do_we_own_the_channel Q q;
         if own then Some (channel_permission_value CP_GrantAllSafe, q) else do {
         (part, q) \<leftarrow> are_we_part_of_the_channel Q q;
         if part then do {
           (default_permissions, q) \<leftarrow> get_default_channel_permissions Q q;
           Some (DEFAULT_PERMISSION_VIEW_ONLY OR allow default_permissions, q)
         }
         else Some (0, q)
       }}
     | ServerChannel_T \<Rightarrow> do {
         (_, q) \<leftarrow> set_server_from_channel Q q;
         (owner, q) \<leftarrow> are_we_server_owner Q q;
         if owner then Some (channel_permission_value CP_GrantAllSafe, q) else do {
         (is_member, q) \<leftarrow> are_we_a_member Q q;
         if is_member then do {
           (permissions, q) \<leftarrow> calculate_server_permissions Q q;
           (default_permissions, q) \<leftarrow> get_default_channel_permissions Q q;
           let permissions = pv_apply permissions default_permissions;
           (overrides, q) \<leftarrow> get_our_channel_role_overrides Q q;
           let permissions = apply_overrides overrides permissions;
           (timed_out, q) \<leftarrow> are_we_timed_out Q q;
           let permissions =
             (if timed_out then pv_restrict permissions ALLOW_IN_TIMEOUT else permissions);
           Some (if \<not> has_channel_permission permissions CP_ViewChannel
                 then pv_revoke_all permissions else permissions, q)
         }
         else Some (0, q)
       }}
     | Unknown_T \<Rightarrow> Some (0, q)
   }}"

section \<open>Overrides bit by bit\<close>

text \<open>
  The specification of a list of overrides, from the most senior role down: the first
  override that mentions the permission decides it, and inside one override a denial
  beats a grant; when none mentions it, the value underneath stays.
\<close>

fun decide :: "override list \<Rightarrow> nat \<Rightarrow> bool \<Rightarrow> bool" where
  "decide [] n d = d"
| "decide (v # vs) n d =
     (if bit (deny v) n then False else if bit (allow v) n then True else decide vs n d)"

lemma decide_append: "decide (us @ vs) n d = decide us n (decide vs n d)"
  by (induction us) auto

lemma bit_apply_overrides [bit_rules]:
  "bit (apply_overrides vs p) n \<longleftrightarrow> decide (rev vs) n (bit p n)"
proof (induction vs arbitrary: p)
  case Nil
  show ?case by (simp add: apply_overrides_def)
next
  case (Cons v vs)
  have "apply_overrides (v # vs) p = apply_overrides vs (pv_apply p v)"
    by (simp add: apply_overrides_def)
  then show ?case
    by (simp add: Cons.IH decide_append bit_rules)
qed

lemma decide_false: "(\<And>v. v \<in> set vs \<Longrightarrow> \<not> bit (allow v) n) \<Longrightarrow> \<not> d \<Longrightarrow> \<not> decide vs n d"
  by (induction vs) auto

lemma decide_mentioned:
  "\<exists>v \<in> set vs. bit (deny v) n \<or> bit (allow v) n \<Longrightarrow> decide vs n d = decide vs n e"
  by (induction vs) auto

section \<open>The contract of the trait\<close>

text \<open>What the methods of a query answer, as a value.\<close>

record query_view =
  v_privileged :: bool
  v_bot :: bool
  v_same :: bool
  v_relationship :: relationship_status
  v_user_bot :: bool
  v_mutual :: bool
  v_owner :: bool
  v_member :: bool
  v_server_default :: u64
  v_server_roles :: "override list"
  v_timed_out :: bool
  v_publish :: bool
  v_receive :: bool
  v_channel_type :: channel_type
  v_channel_default :: override
  v_channel_roles :: "override list"
  v_own_channel :: bool
  v_part :: bool

text \<open>The calculators as functions of a view.\<close>

definition user_permissions_of :: "query_view \<Rightarrow> u64" where
  "user_permissions_of v =
     (if v_privileged v \<or> v_same v \<or> v_relationship v = RelFriend then - 1
      else if v_relationship v = RelBlocked \<or> v_relationship v = RelBlockedOther
      then user_permission_value UP_Access
      else if v_mutual v then
        user_permission_value UP_Access + user_permission_value UP_ViewProfile +
          (if v_user_bot v \<or> v_bot v then user_permission_value UP_SendMessage else 0)
      else if v_relationship v = RelIncoming \<or> v_relationship v = RelOutgoing
      then user_permission_value UP_Access else 0)"

definition revoke_muted :: "query_view \<Rightarrow> u64 \<Rightarrow> u64" where
  "revoke_muted v p =
     (let p = (if v_publish v then p
               else pv_revoke (pv_revoke p (channel_permission_value CP_Speak))
                      (channel_permission_value CP_Video))
      in if v_receive v then p else pv_revoke p (channel_permission_value CP_Listen))"

definition restrict_timeout :: "query_view \<Rightarrow> u64 \<Rightarrow> u64" where
  "restrict_timeout v p = (if v_timed_out v then pv_restrict p ALLOW_IN_TIMEOUT else p)"

definition server_permissions_of :: "query_view \<Rightarrow> u64" where
  "server_permissions_of v =
     (if v_privileged v \<or> v_owner v then channel_permission_value CP_GrantAllSafe
      else if \<not> v_member v then 0
      else restrict_timeout v
             (revoke_muted v (apply_overrides (v_server_roles v) (v_server_default v))))"

definition server_channel_permissions_of :: "query_view \<Rightarrow> u64" where
  "server_channel_permissions_of v =
     (if v_owner v then channel_permission_value CP_GrantAllSafe
      else if \<not> v_member v then 0
      else let p = restrict_timeout v (apply_overrides (v_channel_roles v)
                     (pv_apply (server_permissions_of v) (v_channel_default v)))
           in if has_channel_permission p CP_ViewChannel then p else 0)"

text \<open>
  The views of the query itself, of the query once the recipient is the selected user,
  and of the query once the server of the channel is the selected server.
\<close>

definition channel_permissions_of :: "query_view \<Rightarrow> query_view \<Rightarrow> query_view \<Rightarrow> u64" where
  "channel_permissions_of v recipient server =
     (if v_privileged v then channel_permission_value CP_GrantAllSafe
      else case v_channel_type v of
        SavedMessages_T \<Rightarrow> if v_own_channel v then DEFAULT_PERMISSION_SAVED_MESSAGES else 0
      | DirectMessage_T \<Rightarrow>
          if v_part v then
            if has_user_permission (user_permissions_of recipient) UP_SendMessage
            then DEFAULT_PERMISSION_DIRECT_MESSAGE else DEFAULT_PERMISSION_VIEW_ONLY
          else 0
      | Group_T \<Rightarrow>
          if v_own_channel v then channel_permission_value CP_GrantAllSafe
          else if v_part v then DEFAULT_PERMISSION_VIEW_ONLY OR allow (v_channel_default v)
          else 0
      | ServerChannel_T \<Rightarrow> server_channel_permissions_of server
      | Unknown_T \<Rightarrow> 0)"

text \<open>
  An implementation answers from its view: a method may cache (\<open>good\<close> and the view stay),
  and the membership-dependent answers are promised once membership is \<open>known\<close>, which
  asking for it establishes.
\<close>

definition yields ::
    "('q \<Rightarrow> query_view) \<Rightarrow> ('q \<Rightarrow> bool) \<Rightarrow> ('q \<Rightarrow> bool) \<Rightarrow> ('a \<times> 'q) option \<Rightarrow> 'q \<Rightarrow> 'a \<Rightarrow> bool"
  where
  "yields view good known r q x \<longleftrightarrow>
     (\<exists>q'. r = Some (x, q') \<and> view q' = view q \<and> good q' \<and> (known q \<longrightarrow> known q'))"

lemma yields_Some: "good q \<Longrightarrow> x = y \<Longrightarrow> yields view good known (Some (x, q)) q y"
  by (simp add: yields_def)

lemma yields_if:
  "(b \<Longrightarrow> yields view good known r q x) \<Longrightarrow> (\<not> b \<Longrightarrow> yields view good known s q x) \<Longrightarrow>
   yields view good known (if b then r else s) q x"
  by simp

lemma yields_or:
  "good q \<Longrightarrow> yields view good known r q x \<Longrightarrow>
   yields view good known (if b then Some (True, q) else r) q (b \<or> x)"
  by (auto simp: yields_def)

lemma yields_bind:
  assumes "yields view good known r q x"
    and "\<And>q'. view q' = view q \<Longrightarrow> good q' \<Longrightarrow> (known q \<Longrightarrow> known q') \<Longrightarrow>
           yields view good known (f x q') q' y"
  shows "yields view good known (r \<bind> (\<lambda>(a, b). f a b)) q y"
proof -
  from assms(1) obtain q' where q': "r = Some (x, q')" "view q' = view q" "good q'"
      "known q \<Longrightarrow> known q'"
    by (auto simp: yields_def)
  with assms(2) [of q'] show ?thesis
    by (auto simp: yields_def)
qed

lemmas yields_intros = yields_if yields_Some

locale permission_view =
  fixes Q :: "'q permission_query"
    and view :: "'q \<Rightarrow> query_view"
    and good :: "'q \<Rightarrow> bool"
    and known :: "'q \<Rightarrow> bool"
  assumes privileged: "good q \<Longrightarrow> yields view good known (are_we_privileged Q q) q (v_privileged (view q))"
    and bot: "good q \<Longrightarrow> yields view good known (are_we_a_bot Q q) q (v_bot (view q))"
    and same: "good q \<Longrightarrow> yields view good known (are_the_users_same Q q) q (v_same (view q))"
    and relationship:
      "good q \<Longrightarrow> yields view good known (user_relationship Q q) q (v_relationship (view q))"
    and user_bot: "good q \<Longrightarrow> yields view good known (user_is_bot Q q) q (v_user_bot (view q))"
    and mutual: "good q \<Longrightarrow> yields view good known (have_mutual_connection Q q) q (v_mutual (view q))"
    and owner: "good q \<Longrightarrow> yields view good known (are_we_server_owner Q q) q (v_owner (view q))"
    and member: "good q \<Longrightarrow> yields view good known (are_we_a_member Q q) q (v_member (view q))"
    and member_known:
      "good q \<Longrightarrow> are_we_a_member Q q = Some (True, q') \<Longrightarrow> known q'"
    and server_default:
      "good q \<Longrightarrow> yields view good known (get_default_server_permissions Q q) q (v_server_default (view q))"
    and server_roles:
      "good q \<Longrightarrow> known q \<Longrightarrow>
         yields view good known (get_our_server_role_overrides Q q) q (v_server_roles (view q))"
    and timed_out:
      "good q \<Longrightarrow> known q \<Longrightarrow> yields view good known (are_we_timed_out Q q) q (v_timed_out (view q))"
    and publish:
      "good q \<Longrightarrow> known q \<Longrightarrow>
         yields view good known (do_we_have_publish_overwrites Q q) q (v_publish (view q))"
    and receive:
      "good q \<Longrightarrow> known q \<Longrightarrow>
         yields view good known (do_we_have_receive_overwrites Q q) q (v_receive (view q))"
    and channel_type:
      "good q \<Longrightarrow> yields view good known (get_channel_type Q q) q (v_channel_type (view q))"
    and channel_default:
      "good q \<Longrightarrow> yields view good known (get_default_channel_permissions Q q) q (v_channel_default (view q))"
    and channel_roles:
      "good q \<Longrightarrow> known q \<Longrightarrow>
         yields view good known (get_our_channel_role_overrides Q q) q (v_channel_roles (view q))"
    and own_channel:
      "good q \<Longrightarrow> yields view good known (do_we_own_the_channel Q q) q (v_own_channel (view q))"
    and part: "good q \<Longrightarrow> yields view good known (are_we_part_of_the_channel Q q) q (v_part (view q))"
begin

lemma bind_member:
  assumes "good q"
    and "\<And>q'. view q' = view q \<Longrightarrow> good q' \<Longrightarrow> (known q \<Longrightarrow> known q') \<Longrightarrow>
           (v_member (view q) \<Longrightarrow> known q') \<Longrightarrow> yields view good known (f (v_member (view q)) q') q' y"
  shows "yields view good known (are_we_a_member Q q \<bind> (\<lambda>(a, b). f a b)) q y"
proof -
  from member [OF assms(1)] obtain q' where q': "are_we_a_member Q q = Some (v_member (view q), q')"
      "view q' = view q" "good q'" "known q \<Longrightarrow> known q'"
    by (auto simp: yields_def)
  moreover have "known q'" if "v_member (view q)"
    using member_known [OF assms(1)] q'(1) that by simp
  ultimately show ?thesis
    using assms(2) [of q'] by (auto simp: yields_def)
qed

lemmas query_steps =
  yields_bind [OF privileged] yields_bind [OF same] yields_bind [OF relationship]
  yields_bind [OF mutual] yields_bind [OF user_bot] yields_bind [OF owner] bind_member
  yields_bind [OF server_default] yields_bind [OF server_roles] yields_bind [OF timed_out]
  yields_bind [OF publish] yields_bind [OF receive] yields_bind [OF channel_type]
  yields_bind [OF channel_default] yields_bind [OF channel_roles] yields_bind [OF own_channel]
  yields_bind [OF part] yields_bind [OF yields_or [OF _ bot]] yields_bind [OF yields_or [OF _ owner]]

lemma user_permissions:
  assumes "good q"
  shows "yields view good known (calculate_user_permissions Q q) q (user_permissions_of (view q))"
  unfolding calculate_user_permissions_def Let_def
  by (intro query_steps yields_intros)
     (auto simp: user_permissions_of_def assms)

lemma server_permissions:
  assumes "good q"
  shows "yields view good known (calculate_server_permissions Q q) q (server_permissions_of (view q))"
  unfolding calculate_server_permissions_def Let_def
  by (intro query_steps yields_intros)
     (auto simp: server_permissions_of_def revoke_muted_def restrict_timeout_def Let_def assms)

end

text \<open>
  The contract for channels: the three questions asked first leave the query as it is, and
  selecting the recipient or the server of the channel moves the query to the view those
  selections have.
\<close>

locale channel_view = permission_view Q view good known
  for Q :: "'q permission_query" and view good known +
  fixes recipient_view server_view :: "'q \<Rightarrow> query_view"
  assumes privileged_fixed: "good q \<Longrightarrow> are_we_privileged Q q = Some (v_privileged (view q), q)"
    and channel_type_fixed: "good q \<Longrightarrow> get_channel_type Q q = Some (v_channel_type (view q), q)"
    and part_fixed: "good q \<Longrightarrow> are_we_part_of_the_channel Q q = Some (v_part (view q), q)"
    and set_recipient:
      "good q \<Longrightarrow> v_channel_type (view q) = DirectMessage_T \<Longrightarrow> v_part (view q) \<Longrightarrow>
         \<exists>q'. set_recipient_as_user Q q = Some ((), q') \<and> view q' = recipient_view q \<and> good q'"
    and set_server:
      "good q \<Longrightarrow> v_channel_type (view q) = ServerChannel_T \<Longrightarrow>
         \<exists>q'. set_server_from_channel Q q = Some ((), q') \<and> view q' = server_view q \<and> good q'"
begin

definition answers :: "(u64 \<times> 'q) option \<Rightarrow> u64 \<Rightarrow> bool" where
  "answers r p \<longleftrightarrow> (\<exists>q'. r = Some (p, q') \<and> good q')"

lemma yields_answers: "yields view good known r q p \<Longrightarrow> answers r p"
  by (auto simp: yields_def answers_def)

lemma server_channel_permissions:
  assumes "good q"
  shows "yields view good known (do {
         (owner, q) \<leftarrow> are_we_server_owner Q q;
         if owner then Some (channel_permission_value CP_GrantAllSafe, q) else do {
         (is_member, q) \<leftarrow> are_we_a_member Q q;
         if is_member then do {
           (permissions, q) \<leftarrow> calculate_server_permissions Q q;
           (default_permissions, q) \<leftarrow> get_default_channel_permissions Q q;
           let permissions = pv_apply permissions default_permissions;
           (overrides, q) \<leftarrow> get_our_channel_role_overrides Q q;
           let permissions = apply_overrides overrides permissions;
           (timed_out, q) \<leftarrow> are_we_timed_out Q q;
           let permissions =
             (if timed_out then pv_restrict permissions ALLOW_IN_TIMEOUT else permissions);
           Some (if \<not> has_channel_permission permissions CP_ViewChannel
                 then pv_revoke_all permissions else permissions, q)
         }
         else Some (0, q)
       }}) q (server_channel_permissions_of (view q))"
  unfolding Let_def
  by (intro query_steps yields_bind [OF server_permissions] yields_intros)
     (auto simp: server_channel_permissions_of_def restrict_timeout_def pv_revoke_all_def Let_def assms)

lemma channel_permissions:
  assumes "good q"
  shows "answers (calculate_channel_permissions Q q)
           (channel_permissions_of (view q) (recipient_view q) (server_view q))"
proof (cases "v_privileged (view q)")
  case True
  with assms show ?thesis
    by (simp add: calculate_channel_permissions_def privileged_fixed channel_permissions_of_def
        answers_def)
next
  case False
  note start = calculate_channel_permissions_def privileged_fixed channel_type_fixed assms False
    channel_permissions_of_def part_fixed
  show ?thesis
  proof (cases "v_channel_type (view q)")
    case SavedMessages_T
    show ?thesis
      by (rule yields_answers [of _ q], simp add: start SavedMessages_T)
         (intro conjI impI query_steps yields_intros, auto simp: assms)
  next
    case DirectMessage_T
    show ?thesis
    proof (cases "v_part (view q)")
      case True
      from set_recipient [OF assms DirectMessage_T True] obtain q'
        where q': "set_recipient_as_user Q q = Some ((), q')" "view q' = recipient_view q" "good q'"
        by blast
      from user_permissions [OF q'(3)] show ?thesis
        by (auto simp: start DirectMessage_T True q' yields_def answers_def)
    qed (simp add: start DirectMessage_T answers_def)
  next
    case Group_T
    show ?thesis
      by (rule yields_answers [of _ q], simp add: start Group_T)
         (intro conjI impI query_steps yields_intros, auto simp: assms)
  next
    case ServerChannel_T
    from set_server [OF assms ServerChannel_T] obtain q'
      where q': "set_server_from_channel Q q = Some ((), q')" "view q' = server_view q" "good q'"
      by blast
    from server_channel_permissions [OF q'(3)] show ?thesis
      by (auto simp: start ServerChannel_T q' intro: yields_answers)
  qed (simp add: start answers_def)
qed

end

end
