(* ===== verification/Models.thy ===== *)
theory Models
  imports Permission_Values
begin

text \<open>
  The database models (\<open>crates/core/database/src/models\<close>): files, users, servers with their
  roles, members, bans and channels, with the functions that touch no database. Fields carry
  the initial of their struct, as selectors of records share one name space; timestamps are
  milliseconds. The partial structs are the ones derived by \<open>auto_derived_partial!\<close>: every
  field optional, an absent field meaning no change.

  \<open>apply_options\<close> of users, servers, roles and members is generated by the crate
  \<open>revolt_optional_struct\<close>; it is a parameter (record \<open>optional_struct\<close>), and \<open>some_priority\<close>
  is what that crate documents: a field given as \<open>Some\<close> replaces, every other field stays.
  Channels implement \<open>apply_options\<close> by hand and are modelled in full.
\<close>

type_synonym timestamp = int

section \<open>Files\<close>

datatype metadata =
    Metadata_File
  | Metadata_Text
  | Metadata_Image (width: int) (height: int) (thumbhash: "u8 list option") (animated: "bool option")
  | Metadata_Video (width: int) (height: int)
  | Metadata_Audio

datatype file_used_for_type =
    Used_Message | Used_ServerBanner | Used_Emoji | Used_UserAvatar | Used_WebhookAvatar
  | Used_UserProfileBackground | Used_LegacyGroupIcon | Used_ChannelIcon | Used_ServerIcon
  | Used_RoleIcon

record file_used_for =
  uf_object_type :: file_used_for_type
  uf_id :: string

record file_t =
  f_id :: string
  f_tag :: string
  f_filename :: string
  f_hash :: "string option"
  f_uploaded_at :: "timestamp option"
  f_uploader_id :: "string option"
  f_used_for :: "file_used_for option"
  f_deleted :: "bool option"
  f_reported :: "bool option"
  f_metadata :: metadata
  f_content_type :: string
  f_size :: int
  f_message_id :: "string option"
  f_user_id :: "string option"
  f_server_id :: "string option"
  f_object_id :: "string option"

section \<open>Users\<close>

record relationship =
  rel_id :: string
  rel_status :: relationship_status

datatype presence = Online | Idle | Focus | Busy | Invisible

record user_status =
  us_text :: "string option"
  us_presence :: "presence option"

record user_profile =
  up_content :: "string option"
  up_background :: "file_t option"
  up_avatar_decoration :: "string option"

record bot_information =
  bi_owner :: string

record user =
  u_id :: string
  u_username :: string
  u_discriminator :: string
  u_display_name :: "string option"
  u_pronouns :: "string option"
  u_avatar :: "file_t option"
  u_relations :: "relationship list option"
  u_badges :: "int option"
  u_status :: "user_status option"
  u_profile :: "user_profile option"
  u_flags :: "int option"
  u_privileged :: bool
  u_bot :: "bot_information option"
  u_suspended_until :: "timestamp option"
  u_last_acknowledged_policy_change :: timestamp

record partial_user =
  pu_id :: "string option"
  pu_username :: "string option"
  pu_discriminator :: "string option"
  pu_display_name :: "string option"
  pu_pronouns :: "string option"
  pu_avatar :: "file_t option"
  pu_relations :: "relationship list option"
  pu_badges :: "int option"
  pu_status :: "user_status option"
  pu_profile :: "user_profile option"
  pu_flags :: "int option"
  pu_privileged :: "bool option"
  pu_bot :: "bot_information option"
  pu_suspended_until :: "timestamp option"
  pu_last_acknowledged_policy_change :: "timestamp option"

datatype fields_user =
    FieldsUser_Avatar | FieldsUser_StatusText | FieldsUser_StatusPresence
  | FieldsUser_ProfileContent | FieldsUser_ProfileBackground | FieldsUser_DisplayName
  | FieldsUser_Pronouns | FieldsUser_Suspension | FieldsUser_None

definition default_partial_user :: partial_user where
  "default_partial_user =
     \<lparr>pu_id = None, pu_username = None, pu_discriminator = None, pu_display_name = None,
      pu_pronouns = None, pu_avatar = None, pu_relations = None, pu_badges = None,
      pu_status = None, pu_profile = None, pu_flags = None, pu_privileged = None,
      pu_bot = None, pu_suspended_until = None, pu_last_acknowledged_policy_change = None\<rparr>"

definition default_user :: user where
  "default_user =
     \<lparr>u_id = [], u_username = [], u_discriminator = ''0000'', u_display_name = None,
      u_pronouns = None, u_avatar = None, u_relations = None, u_badges = None,
      u_status = None, u_profile = None, u_flags = None, u_privileged = False,
      u_bot = None, u_suspended_until = None, u_last_acknowledged_policy_change = 0\<rparr>"

fun user_remove_field :: "fields_user \<Rightarrow> user \<Rightarrow> user" where
  "user_remove_field FieldsUser_Avatar u = u\<lparr>u_avatar := None\<rparr>"
| "user_remove_field FieldsUser_StatusText u =
     u\<lparr>u_status := map_option (\<lambda>x. x\<lparr>us_text := None\<rparr>) (u_status u)\<rparr>"
| "user_remove_field FieldsUser_StatusPresence u =
     u\<lparr>u_status := map_option (\<lambda>x. x\<lparr>us_presence := None\<rparr>) (u_status u)\<rparr>"
| "user_remove_field FieldsUser_ProfileContent u =
     u\<lparr>u_profile := map_option (\<lambda>x. x\<lparr>up_content := None\<rparr>) (u_profile u)\<rparr>"
| "user_remove_field FieldsUser_ProfileBackground u =
     u\<lparr>u_profile := map_option (\<lambda>x. x\<lparr>up_background := None\<rparr>) (u_profile u)\<rparr>"
| "user_remove_field FieldsUser_DisplayName u = u\<lparr>u_display_name := None\<rparr>"
| "user_remove_field FieldsUser_Pronouns u = u\<lparr>u_pronouns := None\<rparr>"
| "user_remove_field FieldsUser_Suspension u = u\<lparr>u_suspended_until := None\<rparr>"
| "user_remove_field FieldsUser_None u = u"

text \<open>The first entry for the other user, as \<open>relations.iter().find\<close> returns it.\<close>

definition relationship_with :: "user \<Rightarrow> string \<Rightarrow> relationship_status" where
  "relationship_with a b =
     (if u_id a = b then RelUser
      else case u_relations a of
        None \<Rightarrow> RelNone
      | Some relations \<Rightarrow>
          (case find (\<lambda>x. rel_id x = b) relations of
             Some r \<Rightarrow> rel_status r
           | None \<Rightarrow> RelNone))"

definition is_friends_with :: "user \<Rightarrow> string \<Rightarrow> bool" where
  "is_friends_with a b \<longleftrightarrow> relationship_with a b \<in> {RelFriend, RelUser}"

section \<open>Servers and roles\<close>

record category =
  cat_id :: string
  cat_title :: string
  cat_channels :: "string list"

record system_message_channels =
  smc_user_joined :: "string option"
  smc_user_left :: "string option"
  smc_user_kicked :: "string option"
  smc_user_banned :: "string option"

record role =
  r_id :: string
  r_name :: string
  r_permissions :: override_field
  r_colour :: "string option"
  r_hoist :: bool
  r_rank :: int
  r_icon :: "file_t option"

record server =
  s_id :: string
  s_owner :: string
  s_name :: string
  s_description :: "string option"
  s_announcement :: "string option"
  s_channels :: "string list"
  s_categories :: "category list option"
  s_system_messages :: "system_message_channels option"
  s_roles :: "(string, role) hmap"
  s_default_permissions :: int
  s_icon :: "file_t option"
  s_banner :: "file_t option"
  s_flags :: "int option"
  s_nsfw :: bool
  s_analytics :: bool
  s_discoverable :: bool
  s_admin_suspended :: bool

record partial_role =
  pr_id :: "string option"
  pr_name :: "string option"
  pr_permissions :: "override_field option"
  pr_colour :: "string option"
  pr_hoist :: "bool option"
  pr_rank :: "int option"
  pr_icon :: "file_t option"

record partial_server =
  ps_id :: "string option"
  ps_owner :: "string option"
  ps_name :: "string option"
  ps_description :: "string option"
  ps_announcement :: "string option"
  ps_channels :: "string list option"
  ps_categories :: "category list option"
  ps_system_messages :: "system_message_channels option"
  ps_roles :: "(string, role) hmap option"
  ps_default_permissions :: "int option"
  ps_icon :: "file_t option"
  ps_banner :: "file_t option"
  ps_flags :: "int option"
  ps_nsfw :: "bool option"
  ps_analytics :: "bool option"
  ps_discoverable :: "bool option"
  ps_admin_suspended :: "bool option"

datatype fields_server =
    FieldsServer_Description | FieldsServer_Announcement | FieldsServer_Categories
  | FieldsServer_SystemMessages | FieldsServer_Icon | FieldsServer_Banner

datatype fields_role = FieldsRole_Colour | FieldsRole_Icon

definition default_partial_role :: partial_role where
  "default_partial_role =
     \<lparr>pr_id = None, pr_name = None, pr_permissions = None, pr_colour = None, pr_hoist = None,
      pr_rank = None, pr_icon = None\<rparr>"

definition default_partial_server :: partial_server where
  "default_partial_server =
     \<lparr>ps_id = None, ps_owner = None, ps_name = None, ps_description = None,
      ps_announcement = None, ps_channels = None, ps_categories = None,
      ps_system_messages = None, ps_roles = None, ps_default_permissions = None,
      ps_icon = None, ps_banner = None, ps_flags = None, ps_nsfw = None, ps_analytics = None,
      ps_discoverable = None, ps_admin_suspended = None\<rparr>"

fun server_remove_field :: "fields_server \<Rightarrow> server \<Rightarrow> server" where
  "server_remove_field FieldsServer_Description s = s\<lparr>s_description := None\<rparr>"
| "server_remove_field FieldsServer_Announcement s = s\<lparr>s_announcement := None\<rparr>"
| "server_remove_field FieldsServer_Categories s = s\<lparr>s_categories := None\<rparr>"
| "server_remove_field FieldsServer_SystemMessages s = s\<lparr>s_system_messages := None\<rparr>"
| "server_remove_field FieldsServer_Icon s = s\<lparr>s_icon := None\<rparr>"
| "server_remove_field FieldsServer_Banner s = s\<lparr>s_banner := None\<rparr>"

fun role_remove_field :: "fields_role \<Rightarrow> role \<Rightarrow> role" where
  "role_remove_field FieldsRole_Colour r = r\<lparr>r_colour := None\<rparr>"
| "role_remove_field FieldsRole_Icon r = r\<lparr>r_icon := None\<rparr>"

text \<open>
  \<open>generate_diff!\<close>: a removable field is recorded when it is set or removed, any other field
  when it is set.
\<close>

definition server_generate_diff ::
    "server \<Rightarrow> partial_server \<Rightarrow> fields_server list \<Rightarrow> partial_server" where
  "server_generate_diff s p remove =
     default_partial_server
       \<lparr>ps_owner := (if ps_owner p \<noteq> None then Some (s_owner s) else None),
        ps_name := (if ps_name p \<noteq> None then Some (s_name s) else None),
        ps_description :=
          (if ps_description p \<noteq> None \<or> FieldsServer_Description \<in> set remove
           then s_description s else None),
        ps_announcement :=
          (if ps_announcement p \<noteq> None \<or> FieldsServer_Announcement \<in> set remove
           then s_announcement s else None),
        ps_categories :=
          (if ps_categories p \<noteq> None \<or> FieldsServer_Categories \<in> set remove
           then s_categories s else None),
        ps_system_messages :=
          (if ps_system_messages p \<noteq> None \<or> FieldsServer_SystemMessages \<in> set remove
           then s_system_messages s else None),
        ps_roles := (if ps_roles p \<noteq> None then Some (s_roles s) else None),
        ps_default_permissions :=
          (if ps_default_permissions p \<noteq> None then Some (s_default_permissions s) else None),
        ps_icon :=
          (if ps_icon p \<noteq> None \<or> FieldsServer_Icon \<in> set remove then s_icon s else None),
        ps_banner :=
          (if ps_banner p \<noteq> None \<or> FieldsServer_Banner \<in> set remove then s_banner s else None),
        ps_nsfw := (if ps_nsfw p \<noteq> None then Some (s_nsfw s) else None),
        ps_analytics := (if ps_analytics p \<noteq> None then Some (s_analytics s) else None),
        ps_discoverable := (if ps_discoverable p \<noteq> None then Some (s_discoverable s) else None)\<rparr>"

definition role_generate_diff :: "role \<Rightarrow> partial_role \<Rightarrow> fields_role list \<Rightarrow> partial_role" where
  "role_generate_diff r p remove =
     default_partial_role
       \<lparr>pr_name := (if pr_name p \<noteq> None then Some (r_name r) else None),
        pr_permissions := (if pr_permissions p \<noteq> None then Some (r_permissions r) else None),
        pr_colour :=
          (if pr_colour p \<noteq> None \<or> FieldsRole_Colour \<in> set remove then r_colour r else None),
        pr_hoist := (if pr_hoist p \<noteq> None then Some (r_hoist r) else None),
        pr_rank := (if pr_rank p \<noteq> None then Some (r_rank r) else None),
        pr_icon := (if pr_icon p \<noteq> None \<or> FieldsRole_Icon \<in> set remove then r_icon r else None)\<rparr>"

definition role_into_optional :: "role \<Rightarrow> partial_role" where
  "role_into_optional r =
     \<lparr>pr_id = Some (r_id r), pr_name = Some (r_name r), pr_permissions = Some (r_permissions r),
      pr_colour = r_colour r, pr_hoist = Some (r_hoist r), pr_rank = Some (r_rank r),
      pr_icon = r_icon r\<rparr>"

definition ordered_roles :: "server \<Rightarrow> (string \<times> role) list" where
  "ordered_roles s = sort_key (\<lambda>(_, r). r_rank r) (s_roles s)"

definition into_channel_ids :: "system_message_channels \<Rightarrow> string set" where
  "into_channel_ids c =
     set_option (smc_user_joined c) \<union> set_option (smc_user_left c) \<union>
     set_option (smc_user_kicked c) \<union> set_option (smc_user_banned c)"

section \<open>Members and bans\<close>

record member_composite_key =
  mk_server :: string
  mk_user :: string

record member =
  m_id :: member_composite_key
  m_joined_at :: timestamp
  m_nickname :: "string option"
  m_pronouns :: "string option"
  m_avatar :: "file_t option"
  m_roles :: "string list"
  m_timeout :: "timestamp option"
  m_can_publish :: bool
  m_can_receive :: bool

record partial_member =
  pm_id :: "member_composite_key option"
  pm_joined_at :: "timestamp option"
  pm_nickname :: "string option"
  pm_pronouns :: "string option"
  pm_avatar :: "file_t option"
  pm_roles :: "string list option"
  pm_timeout :: "timestamp option"
  pm_can_publish :: "bool option"
  pm_can_receive :: "bool option"

datatype fields_member =
    FieldsMember_Nickname | FieldsMember_Pronouns | FieldsMember_Avatar | FieldsMember_Roles
  | FieldsMember_Timeout | FieldsMember_CanReceive | FieldsMember_CanPublish
  | FieldsMember_JoinedAt | FieldsMember_VoiceChannel

datatype removal_intention = Leave | Kick | Ban

record server_ban =
  sb_id :: member_composite_key
  sb_reason :: "string option"

definition default_member :: "timestamp \<Rightarrow> member" where
  "default_member now =
     \<lparr>m_id = \<lparr>mk_server = [], mk_user = []\<rparr>, m_joined_at = now, m_nickname = None,
      m_pronouns = None, m_avatar = None, m_roles = [], m_timeout = None,
      m_can_publish = True, m_can_receive = True\<rparr>"

definition default_partial_member :: partial_member where
  "default_partial_member =
     \<lparr>pm_id = None, pm_joined_at = None, pm_nickname = None, pm_pronouns = None,
      pm_avatar = None, pm_roles = None, pm_timeout = None, pm_can_publish = None,
      pm_can_receive = None\<rparr>"

fun member_remove_field :: "fields_member \<Rightarrow> member \<Rightarrow> member" where
  "member_remove_field FieldsMember_JoinedAt m = m"
| "member_remove_field FieldsMember_Avatar m = m\<lparr>m_avatar := None\<rparr>"
| "member_remove_field FieldsMember_Nickname m = m\<lparr>m_nickname := None\<rparr>"
| "member_remove_field FieldsMember_Pronouns m = m\<lparr>m_pronouns := None\<rparr>"
| "member_remove_field FieldsMember_Roles m = m\<lparr>m_roles := []\<rparr>"
| "member_remove_field FieldsMember_Timeout m = m\<lparr>m_timeout := None\<rparr>"
| "member_remove_field FieldsMember_CanReceive m = m\<lparr>m_can_receive := True\<rparr>"
| "member_remove_field FieldsMember_CanPublish m = m\<lparr>m_can_publish := True\<rparr>"
| "member_remove_field FieldsMember_VoiceChannel m = m"

definition member_generate_diff ::
    "member \<Rightarrow> partial_member \<Rightarrow> fields_member list \<Rightarrow> partial_member" where
  "member_generate_diff m p remove =
     default_partial_member
       \<lparr>pm_nickname :=
          (if pm_nickname p \<noteq> None \<or> FieldsMember_Nickname \<in> set remove
           then m_nickname m else None),
        pm_avatar :=
          (if pm_avatar p \<noteq> None \<or> FieldsMember_Avatar \<in> set remove then m_avatar m else None),
        pm_timeout :=
          (if pm_timeout p \<noteq> None \<or> FieldsMember_Timeout \<in> set remove then m_timeout m else None),
        pm_pronouns :=
          (if pm_pronouns p \<noteq> None \<or> FieldsMember_Pronouns \<in> set remove
           then m_pronouns m else None),
        pm_roles :=
          (if pm_roles p \<noteq> None \<or> FieldsMember_Roles \<in> set remove
           then Some (m_roles m) else None),
        pm_can_publish :=
          (if pm_can_publish p \<noteq> None \<or> FieldsMember_CanPublish \<in> set remove
           then Some (m_can_publish m) else None),
        pm_can_receive :=
          (if pm_can_receive p \<noteq> None \<or> FieldsMember_CanReceive \<in> set remove
           then Some (m_can_receive m) else None)\<rparr>"

text \<open>The loop over the roles a member holds; roles the server no longer has are skipped.\<close>

definition get_ranking :: "member \<Rightarrow> server \<Rightarrow> int" where
  "get_ranking m s =
     fold (\<lambda>id value.
             case hm_get (s_roles s) id of
               Some r \<Rightarrow> if r_rank r < value then r_rank r else value
             | None \<Rightarrow> value)
       (m_roles m) i64_max"

definition in_timeout :: "timestamp \<Rightarrow> member \<Rightarrow> bool" where
  "in_timeout now m \<longleftrightarrow> (case m_timeout m of Some t \<Rightarrow> t > now | None \<Rightarrow> False)"

section \<open>Derived options\<close>

text \<open>The functions derived by \<open>revolt_optional_struct\<close>, and what the crate promises of them.\<close>

record optional_struct =
  user_apply_options :: "partial_user \<Rightarrow> user \<Rightarrow> user"
  server_apply_options :: "partial_server \<Rightarrow> server \<Rightarrow> server"
  role_apply_options :: "partial_role \<Rightarrow> role \<Rightarrow> role"
  member_apply_options :: "partial_member \<Rightarrow> member \<Rightarrow> member"

definition or_else :: "'a option \<Rightarrow> 'a option \<Rightarrow> 'a option" where
  "or_else x y = (case x of Some v \<Rightarrow> Some v | None \<Rightarrow> y)"

definition unwrap_or :: "'a option \<Rightarrow> 'a \<Rightarrow> 'a" where
  "unwrap_or x d = (case x of Some v \<Rightarrow> v | None \<Rightarrow> d)"

lemma option_ops [simp]:
  "or_else (Some v) y = Some v" "or_else None y = y"
  "unwrap_or (Some v) d = v" "unwrap_or None d = d"
  by (simp_all add: or_else_def unwrap_or_def)

definition some_priority_user :: "partial_user \<Rightarrow> user \<Rightarrow> user" where
  "some_priority_user p u =
     \<lparr>u_id = unwrap_or (pu_id p) (u_id u),
      u_username = unwrap_or (pu_username p) (u_username u),
      u_discriminator = unwrap_or (pu_discriminator p) (u_discriminator u),
      u_display_name = or_else (pu_display_name p) (u_display_name u),
      u_pronouns = or_else (pu_pronouns p) (u_pronouns u),
      u_avatar = or_else (pu_avatar p) (u_avatar u),
      u_relations = or_else (pu_relations p) (u_relations u),
      u_badges = or_else (pu_badges p) (u_badges u),
      u_status = or_else (pu_status p) (u_status u),
      u_profile = or_else (pu_profile p) (u_profile u),
      u_flags = or_else (pu_flags p) (u_flags u),
      u_privileged = unwrap_or (pu_privileged p) (u_privileged u),
      u_bot = or_else (pu_bot p) (u_bot u),
      u_suspended_until = or_else (pu_suspended_until p) (u_suspended_until u),
      u_last_acknowledged_policy_change =
        unwrap_or (pu_last_acknowledged_policy_change p) (u_last_acknowledged_policy_change u)\<rparr>"

definition some_priority_server :: "partial_server \<Rightarrow> server \<Rightarrow> server" where
  "some_priority_server p s =
     \<lparr>s_id = unwrap_or (ps_id p) (s_id s),
      s_owner = unwrap_or (ps_owner p) (s_owner s),
      s_name = unwrap_or (ps_name p) (s_name s),
      s_description = or_else (ps_description p) (s_description s),
      s_announcement = or_else (ps_announcement p) (s_announcement s),
      s_channels = unwrap_or (ps_channels p) (s_channels s),
      s_categories = or_else (ps_categories p) (s_categories s),
      s_system_messages = or_else (ps_system_messages p) (s_system_messages s),
      s_roles = unwrap_or (ps_roles p) (s_roles s),
      s_default_permissions = unwrap_or (ps_default_permissions p) (s_default_permissions s),
      s_icon = or_else (ps_icon p) (s_icon s),
      s_banner = or_else (ps_banner p) (s_banner s),
      s_flags = or_else (ps_flags p) (s_flags s),
      s_nsfw = unwrap_or (ps_nsfw p) (s_nsfw s),
      s_analytics = unwrap_or (ps_analytics p) (s_analytics s),
      s_discoverable = unwrap_or (ps_discoverable p) (s_discoverable s),
      s_admin_suspended = unwrap_or (ps_admin_suspended p) (s_admin_suspended s)\<rparr>"

definition some_priority_role :: "partial_role \<Rightarrow> role \<Rightarrow> role" where
  "some_priority_role p r =
     \<lparr>r_id = unwrap_or (pr_id p) (r_id r),
      r_name = unwrap_or (pr_name p) (r_name r),
      r_permissions = unwrap_or (pr_permissions p) (r_permissions r),
      r_colour = or_else (pr_colour p) (r_colour r),
      r_hoist = unwrap_or (pr_hoist p) (r_hoist r),
      r_rank = unwrap_or (pr_rank p) (r_rank r),
      r_icon = or_else (pr_icon p) (r_icon r)\<rparr>"

definition some_priority_member :: "partial_member \<Rightarrow> member \<Rightarrow> member" where
  "some_priority_member p m =
     \<lparr>m_id = unwrap_or (pm_id p) (m_id m),
      m_joined_at = unwrap_or (pm_joined_at p) (m_joined_at m),
      m_nickname = or_else (pm_nickname p) (m_nickname m),
      m_pronouns = or_else (pm_pronouns p) (m_pronouns m),
      m_avatar = or_else (pm_avatar p) (m_avatar m),
      m_roles = unwrap_or (pm_roles p) (m_roles m),
      m_timeout = or_else (pm_timeout p) (m_timeout m),
      m_can_publish = unwrap_or (pm_can_publish p) (m_can_publish m),
      m_can_receive = unwrap_or (pm_can_receive p) (m_can_receive m)\<rparr>"

definition some_priority :: "optional_struct \<Rightarrow> bool" where
  "some_priority os \<longleftrightarrow>
     user_apply_options os = some_priority_user \<and>
     server_apply_options os = some_priority_server \<and>
     role_apply_options os = some_priority_role \<and>
     member_apply_options os = some_priority_member"

text \<open>An instance of the documented behaviour, for concrete runs.\<close>

definition some_priority_struct :: optional_struct where
  "some_priority_struct =
     \<lparr>user_apply_options = some_priority_user, server_apply_options = some_priority_server,
      role_apply_options = some_priority_role, member_apply_options = some_priority_member\<rparr>"

lemma some_priority_struct [simp]: "some_priority some_priority_struct"
  by (simp add: some_priority_def some_priority_struct_def)

section \<open>Rankings\<close>

text \<open>The ranks that count for a member: those of the roles it holds that the server has.\<close>

definition held_ranks :: "member \<Rightarrow> server \<Rightarrow> int set" where
  "held_ranks m s = {r_rank r | id r. id \<in> set (m_roles m) \<and> hm_get (s_roles s) id = Some r}"

lemma ranking_fold:
  "fold (\<lambda>id value.
           case hm_get rs id of
             Some r \<Rightarrow> if r_rank r < value then r_rank r else value
           | None \<Rightarrow> value) ids v =
     fold min (map r_rank (List.map_filter (hm_get rs) ids)) v"
  by (induction ids arbitrary: v) (auto simp: map_filter_simps min_def split: option.splits)

lemma get_ranking_Min: "get_ranking m s = Min (insert i64_max (held_ranks m s))"
proof -
  let ?ranks = "map r_rank (List.map_filter (hm_get (s_roles s)) (m_roles m))"
  have "held_ranks m s = set ?ranks"
    by (force simp: held_ranks_def List.map_filter_def)
  moreover have "get_ranking m s = Min (set (i64_max # ?ranks))"
    unfolding get_ranking_def ranking_fold by (simp only: Min.set_eq_fold)
  ultimately show ?thesis
    by simp
qed

end
