(* ===== verification/Channel_Model.thy ===== *)
theory Channel_Model
  imports Models
begin

text \<open>
  Channels (\<open>models/channels/model.rs\<close>): the enum with its four kinds, the partial channel,
  and the functions on channels that touch no database. Each variant's fields are a record.
\<close>

section \<open>Data\<close>

record voice_information =
  vi_max_users :: "nat option"

record saved_messages =
  sm_id :: string
  sm_user :: string

record direct_message =
  dm_id :: string
  dm_active :: bool
  dm_recipients :: "string list"
  dm_last_message_id :: "string option"

record group =
  g_id :: string
  g_name :: string
  g_owner :: string
  g_description :: "string option"
  g_recipients :: "string list"
  g_icon :: "file_t option"
  g_last_message_id :: "string option"
  g_permissions :: "int option"
  g_nsfw :: bool

record text_channel =
  tc_id :: string
  tc_server :: string
  tc_name :: string
  tc_description :: "string option"
  tc_icon :: "file_t option"
  tc_last_message_id :: "string option"
  tc_default_permissions :: "override_field option"
  tc_role_permissions :: "(string, override_field) hmap"
  tc_nsfw :: bool
  tc_voice :: "voice_information option"
  tc_slowmode :: "u64 option"
  tc_forum :: "string option"

datatype channel =
    SavedMessages saved_messages
  | DirectMessage direct_message
  | Group group
  | TextChannel text_channel

record partial_channel =
  pc_name :: "string option"
  pc_owner :: "string option"
  pc_description :: "string option"
  pc_icon :: "file_t option"
  pc_nsfw :: "bool option"
  pc_active :: "bool option"
  pc_permissions :: "int option"
  pc_role_permissions :: "(string, override_field) hmap option"
  pc_default_permissions :: "override_field option"
  pc_last_message_id :: "string option"
  pc_voice :: "voice_information option"
  pc_slowmode :: "u64 option"

datatype fields_channel =
    FieldsChannel_Description | FieldsChannel_Icon | FieldsChannel_DefaultPermissions
  | FieldsChannel_Voice | FieldsChannel_Slowmode

definition default_partial_channel :: partial_channel where
  "default_partial_channel =
     \<lparr>pc_name = None, pc_owner = None, pc_description = None, pc_icon = None, pc_nsfw = None,
      pc_active = None, pc_permissions = None, pc_role_permissions = None,
      pc_default_permissions = None, pc_last_message_id = None, pc_voice = None,
      pc_slowmode = None\<rparr>"

section \<open>Queries\<close>

fun is_direct_dm :: "channel \<Rightarrow> bool" where
  "is_direct_dm (DirectMessage _) = True"
| "is_direct_dm _ = False"

fun contains_user :: "channel \<Rightarrow> string \<Rightarrow> bool" where
  "contains_user (Group g) u = (u \<in> set (g_recipients g))"
| "contains_user (DirectMessage d) u = (u \<in> set (dm_recipients d))"
| "contains_user (SavedMessages s) u = (sm_user s = u)"
| "contains_user (TextChannel _) u = False"

fun channel_users :: "channel \<Rightarrow> string list result" where
  "channel_users (Group g) = Ok (g_recipients g)"
| "channel_users (DirectMessage d) = Ok (dm_recipients d)"
| "channel_users _ = Err (GeneralErr NotFound)"

fun channel_id :: "channel \<Rightarrow> string" where
  "channel_id (DirectMessage d) = dm_id d"
| "channel_id (Group g) = g_id g"
| "channel_id (SavedMessages s) = sm_id s"
| "channel_id (TextChannel t) = tc_id t"

fun channel_server :: "channel \<Rightarrow> string option" where
  "channel_server (TextChannel t) = Some (tc_server t)"
| "channel_server _ = None"

fun channel_voice :: "channel \<Rightarrow> voice_information option" where
  "channel_voice (DirectMessage _) = Some \<lparr>vi_max_users = None\<rparr>"
| "channel_voice (Group _) = Some \<lparr>vi_max_users = None\<rparr>"
| "channel_voice (TextChannel t) = tc_voice t"
| "channel_voice (SavedMessages _) = None"

section \<open>Updates\<close>

fun channel_remove_field :: "fields_channel \<Rightarrow> channel \<Rightarrow> channel" where
  "channel_remove_field FieldsChannel_Description (Group g) = Group (g\<lparr>g_description := None\<rparr>)"
| "channel_remove_field FieldsChannel_Description (TextChannel t) =
     TextChannel (t\<lparr>tc_description := None\<rparr>)"
| "channel_remove_field FieldsChannel_Icon (Group g) = Group (g\<lparr>g_icon := None\<rparr>)"
| "channel_remove_field FieldsChannel_Icon (TextChannel t) = TextChannel (t\<lparr>tc_icon := None\<rparr>)"
| "channel_remove_field FieldsChannel_DefaultPermissions (TextChannel t) =
     TextChannel (t\<lparr>tc_default_permissions := None\<rparr>)"
| "channel_remove_field FieldsChannel_Voice (TextChannel t) = TextChannel (t\<lparr>tc_voice := None\<rparr>)"
| "channel_remove_field FieldsChannel_Slowmode (TextChannel t) =
     TextChannel (t\<lparr>tc_slowmode := None\<rparr>)"
| "channel_remove_field _ c = c"

definition channel_remove_fields :: "fields_channel list \<Rightarrow> channel \<Rightarrow> channel" where
  "channel_remove_fields fs c = fold channel_remove_field fs c"

fun channel_apply_options :: "partial_channel \<Rightarrow> channel \<Rightarrow> channel" where
  "channel_apply_options p (SavedMessages s) = SavedMessages s"
| "channel_apply_options p (DirectMessage d) =
     DirectMessage (d\<lparr>dm_active := unwrap_or (pc_active p) (dm_active d)\<rparr>)"
| "channel_apply_options p (Group g) =
     Group (g\<lparr>g_name := unwrap_or (pc_name p) (g_name g),
              g_owner := unwrap_or (pc_owner p) (g_owner g),
              g_description := or_else (pc_description p) (g_description g),
              g_icon := or_else (pc_icon p) (g_icon g),
              g_nsfw := unwrap_or (pc_nsfw p) (g_nsfw g),
              g_permissions := or_else (pc_permissions p) (g_permissions g)\<rparr>)"
| "channel_apply_options p (TextChannel t) =
     TextChannel (t\<lparr>tc_name := unwrap_or (pc_name p) (tc_name t),
                    tc_description := or_else (pc_description p) (tc_description t),
                    tc_icon := or_else (pc_icon p) (tc_icon t),
                    tc_nsfw := unwrap_or (pc_nsfw p) (tc_nsfw t),
                    tc_role_permissions := unwrap_or (pc_role_permissions p) (tc_role_permissions t),
                    tc_default_permissions :=
                      or_else (pc_default_permissions p) (tc_default_permissions t),
                    tc_voice := or_else (pc_voice p) (tc_voice t)\<rparr>)"

fun channel_generate_diff ::
    "channel \<Rightarrow> partial_channel \<Rightarrow> fields_channel list \<Rightarrow> partial_channel" where
  "channel_generate_diff (SavedMessages s) p remove = default_partial_channel"
| "channel_generate_diff (DirectMessage d) p remove =
     default_partial_channel
       \<lparr>pc_active := (if pc_active p \<noteq> None then Some (dm_active d) else None),
        pc_last_message_id :=
          (if pc_last_message_id p \<noteq> None then dm_last_message_id d else None)\<rparr>"
| "channel_generate_diff (Group g) p remove =
     default_partial_channel
       \<lparr>pc_name := (if pc_name p \<noteq> None then Some (g_name g) else None),
        pc_owner := (if pc_owner p \<noteq> None then Some (g_owner g) else None),
        pc_description :=
          (if pc_description p \<noteq> None \<or> FieldsChannel_Description \<in> set remove
           then g_description g else None),
        pc_icon := (if pc_icon p \<noteq> None \<or> FieldsChannel_Icon \<in> set remove then g_icon g else None),
        pc_last_message_id :=
          (if pc_last_message_id p \<noteq> None then g_last_message_id g else None),
        pc_permissions := (if pc_permissions p \<noteq> None then g_permissions g else None),
        pc_nsfw := (if pc_nsfw p \<noteq> None then Some (g_nsfw g) else None)\<rparr>"
| "channel_generate_diff (TextChannel t) p remove =
     default_partial_channel
       \<lparr>pc_name := (if pc_name p \<noteq> None then Some (tc_name t) else None),
        pc_description :=
          (if pc_description p \<noteq> None \<or> FieldsChannel_Description \<in> set remove
           then tc_description t else None),
        pc_icon :=
          (if pc_icon p \<noteq> None \<or> FieldsChannel_Icon \<in> set remove then tc_icon t else None),
        pc_last_message_id :=
          (if pc_last_message_id p \<noteq> None then tc_last_message_id t else None),
        pc_default_permissions :=
          (if pc_default_permissions p \<noteq> None \<or> FieldsChannel_DefaultPermissions \<in> set remove
           then tc_default_permissions t else None),
        pc_role_permissions :=
          (if pc_role_permissions p \<noteq> None then Some (tc_role_permissions t) else None),
        pc_nsfw := (if pc_nsfw p \<noteq> None then Some (tc_nsfw t) else None),
        pc_voice :=
          (if pc_voice p \<noteq> None \<or> FieldsChannel_Voice \<in> set remove then tc_voice t else None),
        pc_slowmode := (if pc_slowmode p \<noteq> None then tc_slowmode t else None)\<rparr>"

section \<open>Identity of a channel under updates\<close>

lemma channel_id_remove_field [simp]: "channel_id (channel_remove_field f c) = channel_id c"
  by (cases f; cases c) simp_all

lemma channel_id_remove_fields [simp]: "channel_id (channel_remove_fields fs c) = channel_id c"
  unfolding channel_remove_fields_def by (induction fs arbitrary: c) simp_all

lemma channel_id_apply_options [simp]: "channel_id (channel_apply_options p c) = channel_id c"
  by (cases c) simp_all

lemma contains_user_remove_field [simp]:
  "contains_user (channel_remove_field f c) = contains_user c"
  by (rule ext) (cases f; cases c; simp)

lemma contains_user_remove_fields [simp]:
  "contains_user (channel_remove_fields fs c) = contains_user c"
  unfolding channel_remove_fields_def by (induction fs arbitrary: c) simp_all

lemma contains_user_apply_options [simp]:
  "contains_user (channel_apply_options p c) = contains_user c"
  by (rule ext) (cases c; simp)

end
