(* ===== verification/Message_Model.thy ===== *)
theory Message_Model
  imports Channel_Model
begin

unbundle bit_operations_syntax

text \<open>
  Messages (\<open>models/messages/model.rs\<close>, and the parts of \<open>v0/messages.rs\<close> and \<open>v0/embeds.rs\<close>
  they are made of): the message with its embeds, poll, interactions and system events, the
  message flags, and the functions on messages that touch no database. An \<open>IndexMap\<close> is an
  association list and an \<open>IndexSet\<close> a list without repetitions, both in insertion order.
\<close>

section \<open>Embeds\<close>

datatype image_size = Large | Preview

record image =
  im_url :: string
  im_width :: nat
  im_height :: nat
  im_size :: image_size

record video =
  vd_url :: string
  vd_width :: nat
  vd_height :: nat

datatype twitch_type = Twitch_Channel | Twitch_Video | Twitch_Clip
datatype lightspeed_type = Lightspeed_Channel
datatype bandcamp_type = Bandcamp_Album | Bandcamp_Track

datatype special =
    Special_None
  | Special_GIF
  | Special_YouTube string "string option"
  | Special_Lightspeed lightspeed_type string
  | Special_Twitch twitch_type string
  | Special_Spotify string string
  | Special_Soundcloud
  | Special_Bandcamp bandcamp_type string
  | Special_AppleMusic string "string option"
  | Special_Streamable string

record website_metadata =
  wm_url :: "string option"
  wm_original_url :: "string option"
  wm_special :: "special option"
  wm_title :: "string option"
  wm_description :: "string option"
  wm_image :: "image option"
  wm_video :: "video option"
  wm_site_name :: "string option"
  wm_icon_url :: "string option"
  wm_colour :: "string option"

record text_embed =
  te_icon_url :: "string option"
  te_url :: "string option"
  te_title :: "string option"
  te_description :: "string option"
  te_media :: "file_t option"
  te_colour :: "string option"

datatype embed =
    Embed_Website website_metadata
  | Embed_Image image
  | Embed_Video video
  | Embed_Text text_embed
  | Embed_None

record sendable_embed =
  se_icon_url :: "string option"
  se_url :: "string option"
  se_title :: "string option"
  se_description :: "string option"
  se_media :: "string option"
  se_colour :: "string option"

section \<open>Messages\<close>

datatype system_message =
    SM_Text string
  | SM_UserAdded (sm_target: string) (sm_by: string)
  | SM_UserRemove (sm_target: string) (sm_by: string)
  | SM_UserJoined (sm_target: string)
  | SM_UserLeft (sm_target: string)
  | SM_UserKicked (sm_target: string)
  | SM_UserBanned (sm_target: string)
  | SM_ChannelRenamed (sm_name: string) (sm_by: string)
  | SM_ChannelDescriptionChanged (sm_by: string)
  | SM_ChannelIconChanged (sm_by: string)
  | SM_ChannelOwnershipChanged (sm_from: string) (sm_to: string)
  | SM_MessagePinned (sm_target: string) (sm_by: string)
  | SM_MessageUnpinned (sm_target: string) (sm_by: string)
  | SM_CallStarted (sm_by: string) (sm_finished_at: "timestamp option")

record masquerade =
  mq_name :: "string option"
  mq_avatar :: "string option"
  mq_colour :: "string option"

record interactions =
  in_reactions :: "string list option"
  in_restrict_reactions :: bool

record poll_option =
  po_id :: string
  po_text :: string

record poll =
  pl_question :: string
  pl_options :: "poll_option list"
  pl_multiple :: bool
  pl_closed :: bool
  pl_closes_at :: "int option"
  pl_votes :: "(string \<times> string list) list"

record message_webhook =
  mw_name :: string
  mw_avatar :: "string option"

record message =
  ms_id :: string
  ms_nonce :: "string option"
  ms_channel :: string
  ms_author :: string
  ms_webhook :: "message_webhook option"
  ms_content :: "string option"
  ms_system :: "system_message option"
  ms_attachments :: "file_t list option"
  ms_edited :: "timestamp option"
  ms_embeds :: "embed list option"
  ms_mentions :: "string list option"
  ms_role_mentions :: "string list option"
  ms_replies :: "string list option"
  ms_reactions :: "(string \<times> string list) list"
  ms_interactions :: interactions
  ms_poll :: "poll option"
  ms_masquerade :: "masquerade option"
  ms_pinned :: "bool option"
  ms_flags :: "u32 option"

record partial_message =
  pms_id :: "string option"
  pms_nonce :: "string option"
  pms_channel :: "string option"
  pms_author :: "string option"
  pms_webhook :: "message_webhook option"
  pms_content :: "string option"
  pms_system :: "system_message option"
  pms_attachments :: "file_t list option"
  pms_edited :: "timestamp option"
  pms_embeds :: "embed list option"
  pms_mentions :: "string list option"
  pms_role_mentions :: "string list option"
  pms_replies :: "string list option"
  pms_reactions :: "(string \<times> string list) list option"
  pms_interactions :: "interactions option"
  pms_poll :: "poll option"
  pms_masquerade :: "masquerade option"
  pms_pinned :: "bool option"
  pms_flags :: "u32 option"

datatype fields_message = FM_Pinned

primrec message_remove_field :: "fields_message \<Rightarrow> message \<Rightarrow> message" where
  "message_remove_field FM_Pinned m = m\<lparr>ms_pinned := None\<rparr>"

text \<open>
  The derived \<open>apply_options\<close> is a parameter of the operations that use it; what
  \<open>revolt_optional_struct\<close> promises of it is this function.
\<close>

definition some_priority_message :: "partial_message \<Rightarrow> message \<Rightarrow> message" where
  "some_priority_message p m =
     \<lparr>ms_id = unwrap_or (pms_id p) (ms_id m),
      ms_nonce = or_else (pms_nonce p) (ms_nonce m),
      ms_channel = unwrap_or (pms_channel p) (ms_channel m),
      ms_author = unwrap_or (pms_author p) (ms_author m),
      ms_webhook = or_else (pms_webhook p) (ms_webhook m),
      ms_content = or_else (pms_content p) (ms_content m),
      ms_system = or_else (pms_system p) (ms_system m),
      ms_attachments = or_else (pms_attachments p) (ms_attachments m),
      ms_edited = or_else (pms_edited p) (ms_edited m),
      ms_embeds = or_else (pms_embeds p) (ms_embeds m),
      ms_mentions = or_else (pms_mentions p) (ms_mentions m),
      ms_role_mentions = or_else (pms_role_mentions p) (ms_role_mentions m),
      ms_replies = or_else (pms_replies p) (ms_replies m),
      ms_reactions = unwrap_or (pms_reactions p) (ms_reactions m),
      ms_interactions = unwrap_or (pms_interactions p) (ms_interactions m),
      ms_poll = or_else (pms_poll p) (ms_poll m),
      ms_masquerade = or_else (pms_masquerade p) (ms_masquerade m),
      ms_pinned = or_else (pms_pinned p) (ms_pinned m),
      ms_flags = or_else (pms_flags p) (ms_flags m)\<rparr>"

definition default_interactions :: interactions where
  "default_interactions = \<lparr>in_reactions = None, in_restrict_reactions = False\<rparr>"

definition default_message :: message where
  "default_message =
     \<lparr>ms_id = [], ms_nonce = None, ms_channel = [], ms_author = [], ms_webhook = None,
      ms_content = None, ms_system = None, ms_attachments = None, ms_edited = None,
      ms_embeds = None, ms_mentions = None, ms_role_mentions = None, ms_replies = None,
      ms_reactions = [], ms_interactions = default_interactions, ms_poll = None,
      ms_masquerade = None, ms_pinned = None, ms_flags = None\<rparr>"

definition system_author :: string where
  "system_author = replicate 26 (CHR ''0'')"

text \<open>\<open>into_message\<close> takes the identifier that \<open>Ulid::new()\<close> produced.\<close>

definition into_message :: "string \<Rightarrow> system_message \<Rightarrow> string \<Rightarrow> message" where
  "into_message new_id s channel =
     default_message\<lparr>ms_id := new_id, ms_channel := channel, ms_author := system_author,
                     ms_system := Some s\<rparr>"

section \<open>Flags\<close>

datatype message_flags = SuppressNotifications | MentionsEveryone | MentionsOnline

primrec message_flags_value :: "message_flags \<Rightarrow> nat" where
  "message_flags_value SuppressNotifications = 1"
| "message_flags_value MentionsEveryone = 2"
| "message_flags_value MentionsOnline = 3"

text \<open>\<open>MessageFlagsValue::has\<close> and \<open>set\<close>: the enum value is a bit index.\<close>

definition mf_has_value :: "u32 \<Rightarrow> nat \<Rightarrow> bool" where
  "mf_has_value v b \<longleftrightarrow> (let mask = push_bit b 1 in v AND mask = mask)"

definition mf_has :: "u32 \<Rightarrow> message_flags \<Rightarrow> bool" where
  "mf_has v f = mf_has_value v (message_flags_value f)"

definition mf_set_value :: "nat \<Rightarrow> bool \<Rightarrow> u32 \<Rightarrow> u32" where
  "mf_set_value b toggle v = (if toggle then v OR push_bit b 1 else v AND NOT (push_bit b 1))"

definition mf_set :: "message_flags \<Rightarrow> bool \<Rightarrow> u32 \<Rightarrow> u32" where
  "mf_set f toggle v = mf_set_value (message_flags_value f) toggle v"

text \<open>\<open>has_suppressed_notifications\<close>: here the enum value is a mask.\<close>

definition has_suppressed_notifications :: "message \<Rightarrow> bool" where
  "has_suppressed_notifications m \<longleftrightarrow>
     (case ms_flags m of
        Some flags \<Rightarrow>
          (let f = of_nat (message_flags_value SuppressNotifications) in flags AND f = f)
      | None \<Rightarrow> False)"

definition contains_mass_push_mention :: "message \<Rightarrow> bool" where
  "contains_mass_push_mention m \<longleftrightarrow>
     (case ms_flags m of Some flags \<Rightarrow> mf_has flags MentionsEveryone | None \<Rightarrow> False)
     \<or> ms_role_mentions m \<noteq> None"

lemma mf_has_value_bit:
  assumes "b < 32"
  shows "mf_has_value v b \<longleftrightarrow> bit v b"
proof
  assume "mf_has_value v b"
  then have "bit (v AND 2 ^ b) b \<longleftrightarrow> bit (2 ^ b :: u32) b"
    by (simp add: mf_has_value_def Let_def)
  with assms show "bit v b"
    by (simp add: bit_and_iff bit_exp_iff)
next
  assume "bit v b"
  then show "mf_has_value v b"
    unfolding mf_has_value_def Let_def
    by (intro bit_eqI) (auto simp: bit_and_iff bit_exp_iff)
qed

lemma mf_has_bit: "mf_has v f \<longleftrightarrow> bit v (message_flags_value f)"
  unfolding mf_has_def by (rule mf_has_value_bit) (cases f; simp)

lemma bit_mf_set_value:
  "b < 32 \<Longrightarrow> bit (mf_set_value b t v) n \<longleftrightarrow> (if n = b then t else bit v n)"
  by (auto simp: mf_set_value_def bit_or_iff bit_and_iff bit_not_iff bit_exp_iff
           dest: bit_imp_possible_bit)

lemma bit_mf_set:
  "bit (mf_set f t v) n \<longleftrightarrow> (if n = message_flags_value f then t else bit v n)"
  unfolding mf_set_def by (rule bit_mf_set_value) (cases f; simp)

lemma has_suppressed_notifications_bit:
  "has_suppressed_notifications m \<longleftrightarrow> (\<exists>flags. ms_flags m = Some flags \<and> bit flags 0)"
proof -
  have "flags AND 1 = 1 \<longleftrightarrow> bit flags 0" for flags :: u32
    by (simp add: and_one_eq odd_iff_mod_2_eq_one [symmetric] bit_0)
  then show ?thesis
    by (auto simp: has_suppressed_notifications_def Let_def split: option.splits)
qed

section \<open>Interactions\<close>

definition interactions_can_use :: "interactions \<Rightarrow> string \<Rightarrow> bool" where
  "interactions_can_use i emoji \<longleftrightarrow>
     (if in_restrict_reactions i
      then (case in_reactions i of Some rs \<Rightarrow> emoji \<in> set rs | None \<Rightarrow> False)
      else True)"

definition interactions_is_default :: "interactions \<Rightarrow> bool" where
  "interactions_is_default i \<longleftrightarrow> \<not> in_restrict_reactions i \<and> in_reactions i = None"

section \<open>Length of the content\<close>

text \<open>A running total of bytes: the content, then the description of every embed.\<close>

definition validate_sum :: "string option \<Rightarrow> sendable_embed list \<Rightarrow> nat \<Rightarrow> unit result" where
  "validate_sum content embeds max_length =
     (let running_total = (case content of Some c \<Rightarrow> length c | None \<Rightarrow> 0);
          running_total =
            fold (\<lambda>e acc. case se_description e of Some d \<Rightarrow> acc + length d | None \<Rightarrow> acc)
              embeds running_total
      in if running_total \<le> max_length then Ok () else Err (ChannelErr PayloadTooLarge))"

end
