(* ===== verification/World.thy ===== *)
theory World
  imports Message_Model "HOL-Library.Char_ord" "HOL-Library.List_Lexorder"
begin

text \<open>
  The state a request works on: the collections of the reference database
  (\<open>drivers/reference.rs\<close>) that the modelled code reads or writes, the events published so
  far (\<open>events/client.rs\<close>), the messages handed to the broker, and the tasks queued so far (\<open>tasks/ack.rs\<close>,
  \<open>tasks/last_message_id.rs\<close>, \<open>tasks/process_embeds.rs\<close>). Below the state come the operations
  of the reference database, one definition per method, in the order of the source; a lock
  is held for one method at a time, so each is one step.

  An event carries the database values it is built from; the conversion to the API structs
  is part of serialisation.
\<close>

section \<open>Events, tasks, audit log\<close>

datatype emoji_parent = Emoji_Server string | Emoji_Detached

record emoji =
  em_id :: string
  em_parent :: emoji_parent
  em_creator_id :: string
  em_name :: string
  em_animated :: bool
  em_nsfw :: bool

record partial_emoji =
  pe_id :: "string option"
  pe_parent :: "emoji_parent option"
  pe_creator_id :: "string option"
  pe_name :: "string option"
  pe_animated :: "bool option"
  pe_nsfw :: "bool option"

record webhook =
  wh_id :: string
  wh_name :: string
  wh_avatar :: "file_t option"
  wh_creator_id :: string
  wh_channel_id :: string
  wh_permissions :: u64
  wh_token :: "string option"

datatype invite =
    Invite_Server (iv_code: string) (iv_server: string) (iv_creator: string) (iv_channel: string)
  | Invite_Group (iv_code: string) (iv_creator: string) (iv_channel: string)

record channel_composite_key =
  ck_channel :: string
  ck_user :: string

record channel_unread =
  cu_id :: channel_composite_key
  cu_last_id :: "string option"
  cu_mentions :: "string list option"

datatype event =
    E_Message message "user option" "member option"
  | E_MessageUpdate (ev_id: string) (ev_channel: string) partial_message "fields_message list"
  | E_MessageAppend (ev_id: string) (ev_channel: string) "embed list option"
  | E_MessageDelete (ev_id: string) (ev_channel: string)
  | E_MessageReact (ev_id: string) (ev_channel: string) (ev_user: string) (ev_emoji: string)
  | E_MessageUnreact (ev_id: string) (ev_channel: string) (ev_user: string) (ev_emoji: string)
  | E_MessageRemoveReaction (ev_id: string) (ev_channel: string) (ev_emoji: string)
  | E_BulkMessageDelete (ev_channel: string) "string list"
  | E_ServerCreate (ev_id: string) server "channel list" "emoji list"
  | E_ServerUpdate (ev_id: string) partial_server "fields_server list"
  | E_ServerDelete (ev_id: string)
  | E_ServerMemberUpdate member_composite_key partial_member "fields_member list"
  | E_ServerMemberJoin (ev_id: string) (ev_user: string) member
  | E_ServerMemberLeave (ev_id: string) (ev_user: string) removal_intention
  | E_ServerRoleUpdate (ev_id: string) string partial_role "fields_role list"
  | E_ServerRoleDelete (ev_id: string) string
  | E_ServerRoleRanksUpdate (ev_id: string) "string list"
  | E_UserUpdate (ev_id: string) partial_user (ev_online: bool) "fields_user list" (ev_event_id: string)
  | E_UserRelationship (ev_id: string) (ev_subject: user) (ev_perspective: user)
  | E_ChannelCreate channel
  | E_ChannelUpdate (ev_id: string) partial_channel "fields_channel list"
  | E_ChannelDelete (ev_id: string)
  | E_ChannelGroupJoin (ev_id: string) (ev_user: string)
  | E_ChannelGroupLeave (ev_id: string) (ev_user: string)
  | E_ChannelAck (ev_id: string) (ev_user: string) (ev_message: string)
  | E_UserSlowmodes "(string \<times> u64 \<times> u64) list"
  | E_WebhookCreate webhook
  | E_WebhookDelete (ev_id: string)
  | E_EmojiCreate emoji
  | E_EmojiDelete (ev_id: string)

text \<open>
  A push notification is modelled by the message and channel it is made from.
\<close>

record push_notification =
  pn_message :: message
  pn_channel :: channel

datatype ack_event =
    ProcessMessage "(push_notification option \<times> message \<times> string list \<times> bool) list"
  | AckMessage string

datatype task =
    T_LastMessageId (t_channel: string) (t_id: string) (t_is_dm: bool)
  | T_Ack (t_channel: string) (t_user: "string option") (t_event: ack_event)
  | T_Embeds (t_channel: string) (t_id: string) (t_content: string)

text \<open>The messages handed to the broker; the callers log a failure and go on.\<close>

datatype amqp_message =
    FriendRequestAccepted user user
  | FriendRequestReceived user user
  | MessageSent "string list" push_notification
  | MassMentionSent string "push_notification list"
  | AckNotification string string string

datatype audit_log_entry_action =
    A_MessageDelete string string
  | A_MessageBulkDelete string nat
  | A_MessagePin string string string
  | A_MessageUnpin string string string
  | A_BanCreate string
  | A_BanDelete string
  | A_ChannelCreate string string
  | A_ChannelEdit string partial_channel partial_channel
  | A_ChannelRolePermissionsEdit string string override_field
  | A_ChannelDelete string string
  | A_MemberEdit string partial_member partial_member
  | A_MemberKick string
  | A_ServerEdit partial_server partial_server
  | A_RoleEdit string partial_role partial_role
  | A_RoleCreate string string
  | A_RoleDelete string string
  | A_RolesReorder "string list" "string list"
  | A_InviteCreate string string
  | A_InviteDelete string string
  | A_WebhookCreate string string string
  | A_WebhookDelete string string string
  | A_EmojiCreate string string
  | A_EmojiUpdate string partial_emoji partial_emoji
  | A_EmojiDelete string string

record audit_log_entry =
  al_id :: string
  al_expires_at :: timestamp
  al_server :: string
  al_reason :: "string option"
  al_user :: string
  al_target :: "string option"
  al_action :: audit_log_entry_action

section \<open>The state\<close>

record world =
  db_users :: "(string, user) hmap"
  db_servers :: "(string, server) hmap"
  db_server_members :: "(member_composite_key, member) hmap"
  db_server_bans :: "(member_composite_key, server_ban) hmap"
  db_channels :: "(string, channel) hmap"
  db_messages :: "(string, message) hmap"
  db_files :: "(string, file_t) hmap"
  db_emojis :: "(string, emoji) hmap"
  db_channel_webhooks :: "(string, webhook) hmap"
  db_channel_invites :: "(string, invite) hmap"
  db_channel_unreads :: "(channel_composite_key, channel_unread) hmap"
  db_audit_logs :: "(string, audit_log_entry) hmap"
  w_events :: "(string \<times> event) list"
  w_tasks :: "task list"
  w_amqp :: "amqp_message list"

type_synonym 'a io = "(world, error_type, 'a) comp"

definition empty_world :: world where
  "empty_world =
     \<lparr>db_users = [], db_servers = [], db_server_members = [], db_server_bans = [],
      db_channels = [], db_messages = [], db_files = [], db_emojis = [],
      db_channel_webhooks = [], db_channel_invites = [], db_channel_unreads = [], db_audit_logs = [],
      w_events = [], w_tasks = [], w_amqp = []\<rparr>"

section \<open>Publishing\<close>

definition publish :: "string \<Rightarrow> event \<Rightarrow> unit io" where
  "publish channel e = modify (\<lambda>w. w\<lparr>w_events := w_events w @ [(channel, e)]\<rparr>)"

definition publish_private :: "string \<Rightarrow> event \<Rightarrow> unit io" where
  "publish_private ident e = publish (ident @ ''!'') e"

definition publish_server :: "string \<Rightarrow> event \<Rightarrow> unit io" where
  "publish_server ident e = publish (ident @ ''u'') e"

text \<open>A queue holds 10,000 tasks; a task that does not fit is dropped.\<close>

definition same_queue :: "task \<Rightarrow> task \<Rightarrow> bool" where
  "same_queue s t \<longleftrightarrow>
     (case (s, t) of
        (T_LastMessageId _ _ _, T_LastMessageId _ _ _) \<Rightarrow> True
      | (T_Ack _ _ _, T_Ack _ _ _) \<Rightarrow> True
      | (T_Embeds _ _ _, T_Embeds _ _ _) \<Rightarrow> True
      | _ \<Rightarrow> False)"

definition queue_task :: "task \<Rightarrow> unit io" where
  "queue_task t = modify (\<lambda>w.
     if length (filter (same_queue t) (w_tasks w)) < 10000
     then w\<lparr>w_tasks := w_tasks w @ [t]\<rparr> else w)"

definition send_amqp :: "amqp_message \<Rightarrow> unit io" where
  "send_amqp a = modify (\<lambda>w. w\<lparr>w_amqp := w_amqp w @ [a]\<rparr>)"

section \<open>Users\<close>

abbreviation not_found :: error_type where
  "not_found \<equiv> GeneralErr NotFound"

definition insert_user :: "user \<Rightarrow> unit io" where
  "insert_user u w =
     (if hm_contains (db_users w) (u_id u)
      then (Err (GeneralErr (DatabaseError ''insert'' ''user'')), w)
      else (Ok (), w\<lparr>db_users := hm_insert (u_id u) u (db_users w)\<rparr>))"

definition fetch_user :: "string \<Rightarrow> user io" where
  "fetch_user ident w = (ok_or not_found (hm_get (db_users w) ident), w)"

definition fetch_users :: "string list \<Rightarrow> user list io" where
  "fetch_users ids w = (collect_results (\<lambda>ident. ok_or not_found (hm_get (db_users w) ident)) ids, w)"

definition update_user ::
    "optional_struct \<Rightarrow> string \<Rightarrow> partial_user \<Rightarrow> fields_user list \<Rightarrow> unit io" where
  "update_user os ident partial remove w =
     (if hm_contains (db_users w) ident
      then (Ok (), w\<lparr>db_users := hm_modify ident
              (\<lambda>u. user_apply_options os partial (fold user_remove_field remove u)) (db_users w)\<rparr>)
      else (Err not_found, w))"

definition retain_relations :: "string \<Rightarrow> user \<Rightarrow> user" where
  "retain_relations target u =
     u\<lparr>u_relations := map_option (filter (\<lambda>r. rel_id r \<noteq> target)) (u_relations u)\<rparr>"

definition pull_relationship :: "string \<Rightarrow> string \<Rightarrow> unit io" where
  "pull_relationship user_id target_id w =
     (if hm_contains (db_users w) user_id
      then (Ok (), w\<lparr>db_users := hm_modify user_id (retain_relations target_id) (db_users w)\<rparr>)
      else (Err not_found, w))"

definition push_relation :: "string \<Rightarrow> relationship_status \<Rightarrow> user \<Rightarrow> user" where
  "push_relation target status u =
     (let relation = \<lparr>rel_id = target, rel_status = status\<rparr>
      in u\<lparr>u_relations :=
             (case u_relations u of
                Some relations \<Rightarrow> Some (filter (\<lambda>r. rel_id r \<noteq> target) relations @ [relation])
              | None \<Rightarrow> Some [relation])\<rparr>)"

definition set_relationship_db :: "string \<Rightarrow> string \<Rightarrow> relationship_status \<Rightarrow> unit io" where
  "set_relationship_db user_id target_id status w =
     (if status = RelUser \<or> status = RelNone then pull_relationship user_id target_id w
      else if hm_contains (db_users w) user_id
      then (Ok (), w\<lparr>db_users := hm_modify user_id (push_relation target_id status) (db_users w)\<rparr>)
      else (Err not_found, w))"

definition delete_user :: "string \<Rightarrow> unit io" where
  "delete_user ident w =
     (if hm_contains (db_users w) ident
      then (Ok (), w\<lparr>db_users := hm_remove ident (db_users w)\<rparr>)
      else (Err not_found, w))"

definition clear_user_relationships :: "string \<Rightarrow> string list \<Rightarrow> unit io" where
  "clear_user_relationships target_id user_ids w =
     (Ok (), w\<lparr>db_users :=
        fold (\<lambda>ident users. hm_modify ident (retain_relations target_id) users) user_ids (db_users w)\<rparr>)"

text \<open>\<open>p_user\<close>: to the user's topic, then to every server the user is a member of.\<close>

definition publish_user :: "string \<Rightarrow> event \<Rightarrow> unit io" where
  "publish_user ident e = bindM (publish ident e) (\<lambda>_.
     bindM (gets (\<lambda>w. filter (\<lambda>m. mk_user (m_id m) = ident) (hm_values (db_server_members w))))
       (\<lambda>ms. for_each ms (\<lambda>m. publish_server (mk_server (m_id m)) e)))"

section \<open>Servers and roles\<close>

definition insert_server :: "server \<Rightarrow> unit io" where
  "insert_server s w =
     (if hm_contains (db_servers w) (s_id s)
      then (Err (GeneralErr (DatabaseError ''insert'' ''server'')), w)
      else (Ok (), w\<lparr>db_servers := hm_insert (s_id s) s (db_servers w)\<rparr>))"

definition fetch_server :: "string \<Rightarrow> server io" where
  "fetch_server ident w = (ok_or not_found (hm_get (db_servers w) ident), w)"

definition fetch_servers :: "string list \<Rightarrow> server list io" where
  "fetch_servers ids w =
     (collect_results (\<lambda>ident. ok_or not_found (hm_get (db_servers w) ident)) ids, w)"

definition fetch_owned_servers :: "string \<Rightarrow> server list io" where
  "fetch_owned_servers user_id w =
     (Ok (filter (\<lambda>s. s_owner s = user_id) (hm_values (db_servers w))), w)"

definition update_server ::
    "optional_struct \<Rightarrow> string \<Rightarrow> partial_server \<Rightarrow> fields_server list \<Rightarrow> unit io" where
  "update_server os ident partial remove w =
     (if hm_contains (db_servers w) ident
      then (Ok (), w\<lparr>db_servers := hm_modify ident
              (\<lambda>s. server_apply_options os partial (fold server_remove_field remove s))
              (db_servers w)\<rparr>)
      else (Err not_found, w))"

definition delete_server :: "string \<Rightarrow> unit io" where
  "delete_server ident w =
     (if hm_contains (db_servers w) ident
      then (Ok (), w\<lparr>db_servers := hm_remove ident (db_servers w)\<rparr>)
      else (Err not_found, w))"

definition insert_role :: "string \<Rightarrow> role \<Rightarrow> unit io" where
  "insert_role server_id r w =
     (if hm_contains (db_servers w) server_id
      then (Ok (), w\<lparr>db_servers := hm_modify server_id
              (\<lambda>s. s\<lparr>s_roles := hm_insert (r_id r) r (s_roles s)\<rparr>) (db_servers w)\<rparr>)
      else (Err not_found, w))"

definition update_role ::
    "optional_struct \<Rightarrow> string \<Rightarrow> string \<Rightarrow> partial_role \<Rightarrow> fields_role list \<Rightarrow> unit io" where
  "update_role os server_id role_id partial remove w =
     (case hm_get (db_servers w) server_id of
        Some s \<Rightarrow>
          if hm_contains (s_roles s) role_id
          then (Ok (), w\<lparr>db_servers := hm_modify server_id
                  (\<lambda>s. s\<lparr>s_roles := hm_modify role_id
                     (\<lambda>r. role_apply_options os partial (fold role_remove_field remove r))
                     (s_roles s)\<rparr>) (db_servers w)\<rparr>)
          else (Err not_found, w)
      | None \<Rightarrow> (Err not_found, w))"

definition delete_role :: "string \<Rightarrow> string \<Rightarrow> unit io" where
  "delete_role server_id role_id w =
     (case hm_get (db_servers w) server_id of
        Some s \<Rightarrow>
          if hm_contains (s_roles s) role_id
          then (Ok (), w\<lparr>db_servers := hm_modify server_id
                  (\<lambda>s. s\<lparr>s_roles := hm_remove role_id (s_roles s)\<rparr>) (db_servers w)\<rparr>)
          else (Err not_found, w)
      | None \<Rightarrow> (Err not_found, w))"

section \<open>Members and bans\<close>

definition insert_or_merge_member :: "member \<Rightarrow> member option io" where
  "insert_or_merge_member m w =
     (if hm_contains (db_server_members w) (m_id m)
      then (Err (GeneralErr (DatabaseError ''insert'' ''member'')), w)
      else (Ok None, w\<lparr>db_server_members := hm_insert (m_id m) m (db_server_members w)\<rparr>))"

definition fetch_member :: "string \<Rightarrow> string \<Rightarrow> member io" where
  "fetch_member server_id user_id w =
     (ok_or not_found
        (hm_get (db_server_members w) \<lparr>mk_server = server_id, mk_user = user_id\<rparr>), w)"

definition fetch_all_members :: "string \<Rightarrow> member list io" where
  "fetch_all_members server_id w =
     (Ok (filter (\<lambda>m. mk_server (m_id m) = server_id) (hm_values (db_server_members w))), w)"

definition fetch_all_members_with_roles :: "string \<Rightarrow> string list \<Rightarrow> member list io" where
  "fetch_all_members_with_roles server_id roles w =
     (Ok (filter (\<lambda>m. mk_server (m_id m) = server_id \<and>
                      filter (\<lambda>p. p \<in> set roles) (m_roles m) \<noteq> [])
            (hm_values (db_server_members w))), w)"

definition fetch_all_memberships :: "string \<Rightarrow> member list io" where
  "fetch_all_memberships user_id w =
     (Ok (filter (\<lambda>m. mk_user (m_id m) = user_id) (hm_values (db_server_members w))), w)"

definition fetch_members :: "string \<Rightarrow> string list \<Rightarrow> member list io" where
  "fetch_members server_id ids w =
     (Ok (List.map_filter
            (\<lambda>ident. hm_get (db_server_members w) \<lparr>mk_server = server_id, mk_user = ident\<rparr>) ids), w)"

definition fetch_member_count :: "string \<Rightarrow> nat io" where
  "fetch_member_count server_id w =
     (Ok (length (filter (\<lambda>m. mk_server (m_id m) = server_id)
                    (hm_values (db_server_members w)))), w)"

definition fetch_server_count :: "string \<Rightarrow> nat io" where
  "fetch_server_count user_id w =
     (Ok (length (filter (\<lambda>m. mk_user (m_id m) = user_id)
                    (hm_values (db_server_members w)))), w)"

definition update_member ::
    "optional_struct \<Rightarrow> member_composite_key \<Rightarrow> partial_member \<Rightarrow> fields_member list \<Rightarrow> unit io"
  where
  "update_member os ident partial remove w =
     (if hm_contains (db_server_members w) ident
      then (Ok (), w\<lparr>db_server_members := hm_modify ident
              (\<lambda>m. member_apply_options os partial (fold member_remove_field remove m))
              (db_server_members w)\<rparr>)
      else (Err not_found, w))"

definition soft_delete_member :: "timestamp \<Rightarrow> member_composite_key \<Rightarrow> unit io" where
  "soft_delete_member now ident w =
     (case hm_get (db_server_members w) ident of
        Some m \<Rightarrow>
          if in_timeout now m then (Panic ''Soft deletion is not implemented.'', w)
          else (Ok (), w\<lparr>db_server_members := hm_remove ident (db_server_members w)\<rparr>)
      | None \<Rightarrow> (Err not_found, w))"

definition force_delete_member :: "member_composite_key \<Rightarrow> unit io" where
  "force_delete_member ident w =
     (if hm_contains (db_server_members w) ident
      then (Ok (), w\<lparr>db_server_members := hm_remove ident (db_server_members w)\<rparr>)
      else (Err not_found, w))"

definition clear_memberships :: "string \<Rightarrow> unit io" where
  "clear_memberships user_id w =
     (Ok (), w\<lparr>db_server_members :=
        hm_retain (\<lambda>_ v. mk_user (m_id v) \<noteq> user_id) (db_server_members w)\<rparr>)"

definition insert_ban :: "server_ban \<Rightarrow> unit io" where
  "insert_ban b w =
     (if hm_contains (db_server_bans w) (sb_id b)
      then (Err (GeneralErr (DatabaseError ''insert'' ''ban'')), w)
      else (Ok (), w\<lparr>db_server_bans := hm_insert (sb_id b) b (db_server_bans w)\<rparr>))"

definition fetch_ban :: "string \<Rightarrow> string \<Rightarrow> server_ban io" where
  "fetch_ban server_id user_id w =
     (ok_or not_found
        (hm_get (db_server_bans w) \<lparr>mk_server = server_id, mk_user = user_id\<rparr>), w)"

definition fetch_bans :: "string \<Rightarrow> server_ban list io" where
  "fetch_bans server_id w =
     (Ok (filter (\<lambda>b. mk_server (sb_id b) = server_id) (hm_values (db_server_bans w))), w)"

definition delete_ban :: "member_composite_key \<Rightarrow> unit io" where
  "delete_ban ident w =
     (if hm_contains (db_server_bans w) ident
      then (Ok (), w\<lparr>db_server_bans := hm_remove ident (db_server_bans w)\<rparr>)
      else (Err not_found, w))"

section \<open>Channels\<close>

definition insert_channel :: "channel \<Rightarrow> unit io" where
  "insert_channel c w =
     (if hm_contains (db_channels w) (channel_id c)
      then (Err (GeneralErr (DatabaseError ''insert'' ''channel'')), w)
      else (Ok (), w\<lparr>db_channels := hm_insert (channel_id c) c (db_channels w)\<rparr>))"

definition fetch_channel :: "string \<Rightarrow> channel io" where
  "fetch_channel ident w = (ok_or not_found (hm_get (db_channels w) ident), w)"

definition fetch_channels :: "string list \<Rightarrow> channel list io" where
  "fetch_channels idents w =
     (collect_results (\<lambda>ident. ok_or not_found (hm_get (db_channels w) ident)) idents, w)"

definition find_direct_messages :: "string \<Rightarrow> channel list io" where
  "find_direct_messages user_id w =
     (Ok (filter (\<lambda>c. contains_user c user_id) (hm_values (db_channels w))), w)"

definition is_group_with :: "string \<Rightarrow> channel \<Rightarrow> bool" where
  "is_group_with user_id c = (case c of Group g \<Rightarrow> user_id \<in> set (g_recipients g) | _ \<Rightarrow> False)"

definition find_group_message_channels :: "string \<Rightarrow> channel list io" where
  "find_group_message_channels user_id w =
     (Ok (filter (is_group_with user_id) (hm_values (db_channels w))), w)"

definition find_saved_messages_channel :: "string \<Rightarrow> channel io" where
  "find_saved_messages_channel user_id w =
     (ok_or (GeneralErr (DatabaseError ''fetch'' ''channel'')) (hm_get (db_channels w) user_id), w)"

definition find_direct_message_channel :: "string \<Rightarrow> string \<Rightarrow> channel io" where
  "find_direct_message_channel user_a user_b w =
     (ok_or not_found
        (find (\<lambda>c. contains_user c user_a \<and> contains_user c user_b) (hm_values (db_channels w))), w)"

fun push_recipient :: "string \<Rightarrow> channel \<Rightarrow> channel" where
  "push_recipient user_id (Group g) = Group (g\<lparr>g_recipients := g_recipients g @ [user_id]\<rparr>)"
| "push_recipient user_id c = c"

definition add_user_to_group_db :: "string \<Rightarrow> string \<Rightarrow> unit io" where
  "add_user_to_group_db channel user_id w =
     (case hm_get (db_channels w) channel of
        Some (Group g) \<Rightarrow>
          (Ok (), w\<lparr>db_channels := hm_modify channel (push_recipient user_id) (db_channels w)\<rparr>)
      | _ \<Rightarrow> (Err (GeneralErr InvalidOperation), w))"

fun put_role_permission :: "string \<Rightarrow> override_field \<Rightarrow> channel \<Rightarrow> channel" where
  "put_role_permission role_id v (TextChannel t) =
     TextChannel (t\<lparr>tc_role_permissions :=
       hm_insert role_id v (hm_remove role_id (tc_role_permissions t))\<rparr>)"
| "put_role_permission role_id v c = c"

definition set_channel_role_permission :: "string \<Rightarrow> string \<Rightarrow> override_field \<Rightarrow> unit io" where
  "set_channel_role_permission channel role_id v w =
     (case hm_get (db_channels w) channel of
        Some (TextChannel t) \<Rightarrow>
          if hm_contains (tc_role_permissions t) role_id
          then (Ok (), w\<lparr>db_channels :=
                  hm_modify channel (put_role_permission role_id v) (db_channels w)\<rparr>)
          else (Err not_found, w)
      | _ \<Rightarrow> (Err not_found, w))"

definition update_channel :: "string \<Rightarrow> partial_channel \<Rightarrow> fields_channel list \<Rightarrow> unit io" where
  "update_channel ident partial remove w =
     (if hm_contains (db_channels w) ident
      then (Ok (), w\<lparr>db_channels := hm_modify ident
              (\<lambda>c. channel_remove_fields remove (channel_apply_options partial c))
              (db_channels w)\<rparr>)
      else (Err not_found, w))"

fun remove_recipient :: "string \<Rightarrow> channel \<Rightarrow> channel" where
  "remove_recipient user_id (Group g) =
     Group (g\<lparr>g_recipients := remove1 user_id (g_recipients g)\<rparr>)"
| "remove_recipient user_id c = c"

text \<open>\<open>position\<close> and \<open>remove(index)\<close>: the first occurrence goes.\<close>

definition remove_user_from_group_db :: "string \<Rightarrow> string \<Rightarrow> unit io" where
  "remove_user_from_group_db channel user_id w =
     (case hm_get (db_channels w) channel of
        Some (Group g) \<Rightarrow>
          if user_id \<in> set (g_recipients g)
          then (Ok (), w\<lparr>db_channels :=
                  hm_modify channel (remove_recipient user_id) (db_channels w)\<rparr>)
          else (Err not_found, w)
      | _ \<Rightarrow> (Err not_found, w))"

fun retain_recipients :: "string \<Rightarrow> channel \<Rightarrow> channel" where
  "retain_recipients user_id (Group g) =
     Group (g\<lparr>g_recipients := filter (\<lambda>r. r \<noteq> user_id) (g_recipients g)\<rparr>)"
| "retain_recipients user_id c = c"

definition remove_user_from_groups :: "string list \<Rightarrow> string \<Rightarrow> unit io" where
  "remove_user_from_groups idents user_id w =
     (Ok (), w\<lparr>db_channels :=
        fold (\<lambda>ident cs. hm_modify ident (retain_recipients user_id) cs) idents (db_channels w)\<rparr>)"

definition delete_channel_db :: "channel \<Rightarrow> unit io" where
  "delete_channel_db c w =
     (if hm_contains (db_channels w) (channel_id c)
      then (Ok (), w\<lparr>db_channels := hm_remove (channel_id c) (db_channels w)\<rparr>)
      else (Err not_found, w))"

section \<open>Messages\<close>

definition insert_message :: "message \<Rightarrow> unit io" where
  "insert_message m w =
     (if hm_contains (db_messages w) (ms_id m)
      then (Err (GeneralErr (DatabaseError ''insert'' ''message'')), w)
      else (Ok (), w\<lparr>db_messages := hm_insert (ms_id m) m (db_messages w)\<rparr>))"

definition fetch_message :: "string \<Rightarrow> message io" where
  "fetch_message ident w = (ok_or not_found (hm_get (db_messages w) ident), w)"

text \<open>\<open>try_join_all\<close>: all or the first error.\<close>

definition fetch_messages_by_id :: "string list \<Rightarrow> message list io" where
  "fetch_messages_by_id idents w =
     (collect_results (\<lambda>ident. ok_or not_found (hm_get (db_messages w) ident)) idents, w)"

definition update_message ::
    "(partial_message \<Rightarrow> message \<Rightarrow> message) \<Rightarrow> string \<Rightarrow> partial_message \<Rightarrow>
     fields_message list \<Rightarrow> unit io" where
  "update_message apply_options ident partial remove w =
     (if hm_contains (db_messages w) ident
      then (Ok (), w\<lparr>db_messages := hm_modify ident
              (\<lambda>m. fold message_remove_field remove (apply_options partial m)) (db_messages w)\<rparr>)
      else (Err not_found, w))"

definition append_message :: "string \<Rightarrow> embed list option \<Rightarrow> unit io" where
  "append_message ident embeds w =
     (if hm_contains (db_messages w) ident
      then (Ok (), w\<lparr>db_messages := hm_modify ident
              (\<lambda>m. case embeds of
                     Some (e # es) \<Rightarrow>
                       m\<lparr>ms_embeds := Some (unwrap_or (ms_embeds m) [] @ e # es)\<rparr>
                   | _ \<Rightarrow> m)
              (db_messages w)\<rparr>)
      else (Err not_found, w))"

text \<open>
  Reactions are an \<open>IndexMap\<close> of \<open>IndexSet\<close>s: an insertion appends when the key is new;
  \<open>swap_remove\<close> puts the last element in the place of the removed one.
\<close>

definition swap_remove_at :: "nat \<Rightarrow> 'a list \<Rightarrow> 'a list" where
  "swap_remove_at i xs = (if i < length xs then butlast (xs[i := last xs]) else xs)"

definition set_insert :: "'a \<Rightarrow> 'a list \<Rightarrow> 'a list" where
  "set_insert x xs = (if x \<in> set xs then xs else xs @ [x])"

definition set_swap_remove :: "'a \<Rightarrow> 'a list \<Rightarrow> 'a list" where
  "set_swap_remove x xs = swap_remove_at (length (takeWhile (\<lambda>y. y \<noteq> x) xs)) xs"

definition map_swap_remove :: "'k \<Rightarrow> ('k \<times> 'v) list \<Rightarrow> ('k \<times> 'v) list" where
  "map_swap_remove k xs = swap_remove_at (length (takeWhile (\<lambda>(l, _). l \<noteq> k) xs)) xs"

definition add_reaction_db :: "string \<Rightarrow> string \<Rightarrow> string \<Rightarrow> unit io" where
  "add_reaction_db ident emoji user_id w =
     (if hm_contains (db_messages w) ident
      then (Ok (), w\<lparr>db_messages := hm_modify ident
              (\<lambda>m. m\<lparr>ms_reactions :=
                 (if hm_contains (ms_reactions m) emoji
                  then hm_modify emoji (set_insert user_id) (ms_reactions m)
                  else ms_reactions m @ [(emoji, [user_id])])\<rparr>)
              (db_messages w)\<rparr>)
      else (Err not_found, w))"

definition remove_reaction_db :: "string \<Rightarrow> string \<Rightarrow> string \<Rightarrow> unit io" where
  "remove_reaction_db ident emoji user_id w =
     (if hm_contains (db_messages w) ident
      then (Ok (), w\<lparr>db_messages := hm_modify ident
              (\<lambda>m. m\<lparr>ms_reactions :=
                 hm_modify emoji (set_swap_remove user_id) (ms_reactions m)\<rparr>)
              (db_messages w)\<rparr>)
      else (Err not_found, w))"

definition clear_reaction_db :: "string \<Rightarrow> string \<Rightarrow> unit io" where
  "clear_reaction_db ident emoji w =
     (if hm_contains (db_messages w) ident
      then (Ok (), w\<lparr>db_messages := hm_modify ident
              (\<lambda>m. m\<lparr>ms_reactions := map_swap_remove emoji (ms_reactions m)\<rparr>)
              (db_messages w)\<rparr>)
      else (Err not_found, w))"

definition delete_message_db :: "string \<Rightarrow> unit io" where
  "delete_message_db ident w =
     (if hm_contains (db_messages w) ident
      then (Ok (), w\<lparr>db_messages := hm_remove ident (db_messages w)\<rparr>)
      else (Err not_found, w))"

definition delete_messages :: "string \<Rightarrow> string list \<Rightarrow> unit io" where
  "delete_messages channel idents w =
     (Ok (), w\<lparr>db_messages :=
        hm_retain (\<lambda>ident m. ms_channel m \<noteq> channel \<and> ident \<notin> set idents) (db_messages w)\<rparr>)"

text \<open>
  The threshold is \<open>Ulid::from_datetime(since).to_string()\<close>; identifiers compare as strings.
\<close>

definition authored_since :: "string list \<Rightarrow> string \<Rightarrow> string \<Rightarrow> string \<Rightarrow> message \<Rightarrow> bool" where
  "authored_since channels author threshold ident m \<longleftrightarrow>
     ms_author m = author \<and> ms_channel m \<in> set channels \<and> ident \<ge> threshold"

definition delete_messages_by_author_since ::
    "string list \<Rightarrow> string \<Rightarrow> string \<Rightarrow> (string, string list) hmap io" where
  "delete_messages_by_author_since channels author threshold w =
     (let doomed = filter (\<lambda>(ident, m). authored_since channels author threshold ident m)
                     (db_messages w);
          attachment_ids = concat (map (\<lambda>(_, m). map f_id (unwrap_or (ms_attachments m) [])) doomed);
          deleted = fold (\<lambda>(ident, m) acc.
                      hm_insert (ms_channel m)
                        (unwrap_or (hm_get acc (ms_channel m)) [] @ [ident]) acc) doomed []
      in (Ok deleted,
          w\<lparr>db_files := fold (\<lambda>a fs. hm_modify a (\<lambda>f. f\<lparr>f_deleted := Some True\<rparr>) fs)
                         attachment_ids (db_files w),
            db_messages :=
              hm_retain (\<lambda>ident m. \<not> authored_since channels author threshold ident m)
                (db_messages w)\<rparr>))"

record message_filter =
  mf_channel :: "string option"
  mf_author :: "string option"
  mf_query :: "string option"
  mf_pinned :: "bool option"

text \<open>\<open>str::contains\<close>; \<open>to_lowercase\<close> follows the Unicode tables and is a parameter.\<close>

definition str_contains :: "string \<Rightarrow> string \<Rightarrow> bool" where
  "str_contains text pattern \<longleftrightarrow>
     (\<exists>i\<in>set [0..<Suc (length text)]. take (length pattern) (drop i text) = pattern)"

definition message_matches :: "(string \<Rightarrow> string) \<Rightarrow> message_filter \<Rightarrow> message \<Rightarrow> bool" where
  "message_matches lower q m \<longleftrightarrow>
     (case mf_channel q of Some c \<Rightarrow> ms_channel m = c | None \<Rightarrow> True) \<and>
     (case mf_author q of Some a \<Rightarrow> ms_author m = a | None \<Rightarrow> True) \<and>
     (case mf_query q of
        Some t \<Rightarrow> (case ms_content m of Some c \<Rightarrow> str_contains (lower c) t | None \<Rightarrow> False)
      | None \<Rightarrow> True) \<and>
     (case mf_pinned q of Some p \<Rightarrow> unwrap_or (ms_pinned m) False \<noteq> p | None \<Rightarrow> True)"

definition fetch_messages :: "(string \<Rightarrow> string) \<Rightarrow> message_filter \<Rightarrow> message list io" where
  "fetch_messages lower q w =
     (Ok (filter (message_matches lower q) (hm_values (db_messages w))), w)"

definition delete_messages_by_user :: "string \<Rightarrow> unit io" where
  "delete_messages_by_user user_id w =
     (Ok (), w\<lparr>db_messages := hm_retain (\<lambda>_ m. ms_author m \<noteq> user_id) (db_messages w)\<rparr>)"

section \<open>Files\<close>

definition insert_attachment :: "file_t \<Rightarrow> unit io" where
  "insert_attachment f w =
     (if hm_contains (db_files w) (f_id f)
      then (Err (GeneralErr (DatabaseError ''insert'' ''attachment'')), w)
      else (Ok (), w\<lparr>db_files := hm_insert (f_id f) f (db_files w)\<rparr>))"

definition fetch_attachment :: "string \<Rightarrow> string \<Rightarrow> file_t io" where
  "fetch_attachment tag file_id w =
     ((case hm_get (db_files w) file_id of
         Some f \<Rightarrow> if f_tag f = tag then Ok f else Err not_found
       | None \<Rightarrow> Err not_found), w)"

definition fetch_deleted_attachments :: "file_t list io" where
  "fetch_deleted_attachments w =
     (Ok (filter (\<lambda>f. f_deleted f = Some True \<and> f_reported f \<noteq> Some True)
            (hm_values (db_files w))), w)"

definition fetch_dangling_files :: "file_t list io" where
  "fetch_dangling_files w =
     (Ok (filter (\<lambda>f. f_used_for f = None \<and> f_deleted f \<noteq> Some True)
            (hm_values (db_files w))), w)"

definition count_file_hash_references :: "string \<Rightarrow> nat io" where
  "count_file_hash_references hash w =
     (Ok (length (filter (\<lambda>f. f_hash f = Some hash) (hm_values (db_files w)))), w)"

definition find_and_use_attachment ::
    "string \<Rightarrow> string \<Rightarrow> file_used_for \<Rightarrow> string \<Rightarrow> file_t io" where
  "find_and_use_attachment ident tag used_for uploader_id w =
     (case hm_get (db_files w) ident of
        Some f \<Rightarrow>
          if f_tag f = tag
          then let f' = f\<lparr>f_uploader_id := Some uploader_id, f_used_for := Some used_for\<rparr>
               in (Ok f', w\<lparr>db_files := hm_modify ident (\<lambda>_. f') (db_files w)\<rparr>)
          else (Err not_found, w)
      | None \<Rightarrow> (Err not_found, w))"

definition mark_attachment_as_reported :: "string \<Rightarrow> unit io" where
  "mark_attachment_as_reported ident w =
     (if hm_contains (db_files w) ident
      then (Ok (), w\<lparr>db_files :=
              hm_modify ident (\<lambda>f. f\<lparr>f_reported := Some True\<rparr>) (db_files w)\<rparr>)
      else (Err not_found, w))"

definition mark_attachment_as_deleted :: "string \<Rightarrow> unit io" where
  "mark_attachment_as_deleted ident w =
     (if hm_contains (db_files w) ident
      then (Ok (), w\<lparr>db_files :=
              hm_modify ident (\<lambda>f. f\<lparr>f_deleted := Some True\<rparr>) (db_files w)\<rparr>)
      else (Err not_found, w))"

definition mark_attachments_as_deleted :: "string list \<Rightarrow> unit io" where
  "mark_attachments_as_deleted idents w =
     (if \<exists>ident\<in>set idents. \<not> hm_contains (db_files w) ident then (Err not_found, w)
      else (Ok (), w\<lparr>db_files :=
              fold (\<lambda>ident fs. hm_modify ident (\<lambda>f. f\<lparr>f_reported := Some True\<rparr>) fs)
                idents (db_files w)\<rparr>))"

definition delete_attachment :: "string \<Rightarrow> unit io" where
  "delete_attachment ident w =
     (if hm_contains (db_files w) ident
      then (Ok (), w\<lparr>db_files := hm_remove ident (db_files w)\<rparr>)
      else (Err not_found, w))"

text \<open>The \<open>File::use_*\<close> helpers: identifier, parent, uploader.\<close>

definition use_attachment :: "string \<Rightarrow> string \<Rightarrow> string \<Rightarrow> file_t io" where
  "use_attachment ident parent uploader_id =
     find_and_use_attachment ident ''attachments''
       \<lparr>uf_object_type = Used_Message, uf_id = parent\<rparr> uploader_id"

definition use_background :: "string \<Rightarrow> string \<Rightarrow> string \<Rightarrow> file_t io" where
  "use_background ident parent uploader_id =
     find_and_use_attachment ident ''backgrounds''
       \<lparr>uf_object_type = Used_UserProfileBackground, uf_id = parent\<rparr> uploader_id"

definition use_user_avatar :: "string \<Rightarrow> string \<Rightarrow> string \<Rightarrow> file_t io" where
  "use_user_avatar ident parent uploader_id =
     find_and_use_attachment ident ''avatars''
       \<lparr>uf_object_type = Used_UserAvatar, uf_id = parent\<rparr> uploader_id"

definition use_webhook_avatar :: "string \<Rightarrow> string \<Rightarrow> string \<Rightarrow> file_t io" where
  "use_webhook_avatar ident parent uploader_id =
     find_and_use_attachment ident ''avatars''
       \<lparr>uf_object_type = Used_WebhookAvatar, uf_id = parent\<rparr> uploader_id"

definition use_server_icon :: "string \<Rightarrow> string \<Rightarrow> string \<Rightarrow> file_t io" where
  "use_server_icon ident parent uploader_id =
     find_and_use_attachment ident ''icons''
       \<lparr>uf_object_type = Used_ServerIcon, uf_id = parent\<rparr> uploader_id"

definition use_channel_icon :: "string \<Rightarrow> string \<Rightarrow> string \<Rightarrow> file_t io" where
  "use_channel_icon ident parent uploader_id =
     find_and_use_attachment ident ''icons''
       \<lparr>uf_object_type = Used_ChannelIcon, uf_id = parent\<rparr> uploader_id"

definition use_server_banner :: "string \<Rightarrow> string \<Rightarrow> string \<Rightarrow> file_t io" where
  "use_server_banner ident parent uploader_id =
     find_and_use_attachment ident ''banners''
       \<lparr>uf_object_type = Used_ServerBanner, uf_id = parent\<rparr> uploader_id"

definition use_emoji :: "string \<Rightarrow> string \<Rightarrow> string \<Rightarrow> file_t io" where
  "use_emoji ident parent uploader_id =
     find_and_use_attachment ident ''emojis''
       \<lparr>uf_object_type = Used_Emoji, uf_id = parent\<rparr> uploader_id"

definition use_role_icon :: "string \<Rightarrow> string \<Rightarrow> string \<Rightarrow> file_t io" where
  "use_role_icon ident parent uploader_id =
     find_and_use_attachment ident ''icons''
       \<lparr>uf_object_type = Used_RoleIcon, uf_id = parent\<rparr> uploader_id"

section \<open>Emojis\<close>

definition insert_emoji :: "emoji \<Rightarrow> unit io" where
  "insert_emoji e w =
     (if hm_contains (db_emojis w) (em_id e)
      then (Err (GeneralErr (DatabaseError ''insert'' ''emoji'')), w)
      else (Ok (), w\<lparr>db_emojis := hm_insert (em_id e) e (db_emojis w)\<rparr>))"

definition fetch_emoji :: "string \<Rightarrow> emoji io" where
  "fetch_emoji ident w = (ok_or not_found (hm_get (db_emojis w) ident), w)"

definition fetch_emoji_by_parent_id :: "string \<Rightarrow> emoji list io" where
  "fetch_emoji_by_parent_id parent_id w =
     (Ok (filter (\<lambda>e. em_parent e = Emoji_Server parent_id) (hm_values (db_emojis w))), w)"

definition detach_emoji :: "emoji \<Rightarrow> unit io" where
  "detach_emoji e w =
     (if hm_contains (db_emojis w) (em_id e)
      then (Ok (), w\<lparr>db_emojis :=
              hm_modify (em_id e) (\<lambda>x. x\<lparr>em_parent := Emoji_Detached\<rparr>) (db_emojis w)\<rparr>)
      else (Err not_found, w))"

section \<open>Webhooks, invites, unreads\<close>

definition insert_webhook :: "webhook \<Rightarrow> unit io" where
  "insert_webhook h w =
     (if hm_contains (db_channel_webhooks w) (wh_id h)
      then (Err (GeneralErr (DatabaseError ''insert'' ''webhook'')), w)
      else (Ok (), w\<lparr>db_channel_webhooks := hm_insert (wh_id h) h (db_channel_webhooks w)\<rparr>))"

definition fetch_webhook :: "string \<Rightarrow> webhook io" where
  "fetch_webhook ident w = (ok_or not_found (hm_get (db_channel_webhooks w) ident), w)"

definition fetch_webhooks_for_channel :: "string \<Rightarrow> webhook list io" where
  "fetch_webhooks_for_channel channel w =
     (Ok (filter (\<lambda>h. wh_channel_id h = channel) (hm_values (db_channel_webhooks w))), w)"

definition delete_webhook_db :: "string \<Rightarrow> unit io" where
  "delete_webhook_db ident w =
     (if hm_contains (db_channel_webhooks w) ident
      then (Ok (), w\<lparr>db_channel_webhooks := hm_remove ident (db_channel_webhooks w)\<rparr>)
      else (Err not_found, w))"

definition insert_invite :: "invite \<Rightarrow> unit io" where
  "insert_invite i w =
     (if hm_contains (db_channel_invites w) (iv_code i)
      then (Err (GeneralErr (DatabaseError ''insert'' ''invite'')), w)
      else (Ok (), w\<lparr>db_channel_invites := hm_insert (iv_code i) i (db_channel_invites w)\<rparr>))"

definition fetch_invite :: "string \<Rightarrow> invite io" where
  "fetch_invite code w = (ok_or not_found (hm_get (db_channel_invites w) code), w)"

definition fetch_invites_for_server :: "string \<Rightarrow> invite list io" where
  "fetch_invites_for_server server_id w =
     (Ok (filter (\<lambda>i. case i of Invite_Server _ s _ _ \<Rightarrow> s = server_id | Invite_Group _ _ _ \<Rightarrow> False)
            (hm_values (db_channel_invites w))), w)"

definition delete_invite :: "string \<Rightarrow> unit io" where
  "delete_invite code w =
     (if hm_contains (db_channel_invites w) code
      then (Ok (), w\<lparr>db_channel_invites := hm_remove code (db_channel_invites w)\<rparr>)
      else (Err not_found, w))"

definition advance_unread :: "string \<Rightarrow> channel_unread \<Rightarrow> channel_unread" where
  "advance_unread message_id unread =
     (if (case cu_last_id unread of Some last_id \<Rightarrow> message_id \<ge> last_id | None \<Rightarrow> True)
      then unread\<lparr>cu_mentions := None, cu_last_id := Some message_id\<rparr>
      else unread)"

definition acknowledge_message :: "string \<Rightarrow> string \<Rightarrow> string \<Rightarrow> channel_unread option io" where
  "acknowledge_message channel user_id message_id w =
     (let key = \<lparr>ck_channel = channel, ck_user = user_id\<rparr>;
          unreads = (if hm_contains (db_channel_unreads w) key
                     then hm_modify key (advance_unread message_id) (db_channel_unreads w)
                     else hm_insert key
                            \<lparr>cu_id = key, cu_last_id = Some message_id, cu_mentions = None\<rparr>
                            (db_channel_unreads w))
      in (Ok (hm_get unreads key), w\<lparr>db_channel_unreads := unreads\<rparr>))"

text \<open>\<open>current_time\<close> is the identifier \<open>Ulid::new()\<close> produced.\<close>

definition acknowledge_channels :: "string \<Rightarrow> string \<Rightarrow> string list \<Rightarrow> unit io" where
  "acknowledge_channels current_time user_id channels =
     for_each channels (\<lambda>c. bindM (acknowledge_message c user_id current_time) (\<lambda>_. ret ()))"

definition put_mentions ::
    "string \<Rightarrow> string \<Rightarrow> string list \<Rightarrow> (channel_composite_key, channel_unread) hmap \<Rightarrow>
     (channel_composite_key, channel_unread) hmap" where
  "put_mentions channel user_id message_ids unreads =
     (let key = \<lparr>ck_channel = channel, ck_user = user_id\<rparr>
      in if hm_contains unreads key
         then hm_modify key (\<lambda>u. u\<lparr>cu_mentions := Some message_ids\<rparr>) unreads
         else hm_insert key
                \<lparr>cu_id = key, cu_last_id = None, cu_mentions = Some message_ids\<rparr> unreads)"

definition add_mention_to_unread :: "string \<Rightarrow> string \<Rightarrow> string list \<Rightarrow> unit io" where
  "add_mention_to_unread channel user_id message_ids w =
     (Ok (), w\<lparr>db_channel_unreads :=
        put_mentions channel user_id message_ids (db_channel_unreads w)\<rparr>)"

definition add_mention_to_many_unreads :: "string \<Rightarrow> string list \<Rightarrow> string list \<Rightarrow> unit io" where
  "add_mention_to_many_unreads channel user_ids message_ids w =
     (Ok (), w\<lparr>db_channel_unreads :=
        fold (\<lambda>u. put_mentions channel u message_ids) user_ids (db_channel_unreads w)\<rparr>)"

definition fetch_unread_mentions :: "string \<Rightarrow> channel_unread list io" where
  "fetch_unread_mentions user_id w =
     (Ok (filter (\<lambda>u. ck_user (cu_id u) = user_id \<and> cu_mentions u \<noteq> None)
            (hm_values (db_channel_unreads w))), w)"

definition fetch_unreads :: "string \<Rightarrow> channel_unread list io" where
  "fetch_unreads user_id w =
     (Ok (filter (\<lambda>u. ck_user (cu_id u) = user_id) (hm_values (db_channel_unreads w))), w)"

definition fetch_unread :: "string \<Rightarrow> string \<Rightarrow> channel_unread option io" where
  "fetch_unread user_id channel w =
     (Ok (hm_get (db_channel_unreads w) \<lparr>ck_channel = channel, ck_user = user_id\<rparr>), w)"

section \<open>Audit log\<close>

text \<open>The entry's identifier and expiry come from \<open>Ulid::new()\<close> and the configuration.\<close>

definition insert_audit_log_entry :: "audit_log_entry \<Rightarrow> unit io" where
  "insert_audit_log_entry e w =
     (Ok (), w\<lparr>db_audit_logs := hm_insert (al_id e) e (db_audit_logs w)\<rparr>)"

section \<open>References\<close>

definition as_server :: "string \<Rightarrow> server io" where
  "as_server ident = bindM (fetch_server ident) (\<lambda>server.
     bindM (guard (s_admin_suspended server) (ServerErr ServerSuspended)) (\<lambda>_. ret server))"

definition as_channel :: "string \<Rightarrow> channel io" where
  "as_channel ident = bindM (fetch_channel ident) (\<lambda>channel.
     case channel_server channel of
       Some server_id \<Rightarrow> bindM (fetch_server server_id) (\<lambda>server.
         bindM (guard (s_admin_suspended server) (ServerErr ServerSuspended)) (\<lambda>_. ret channel))
     | None \<Rightarrow> ret channel)"

definition as_message_in_channel :: "string \<Rightarrow> string \<Rightarrow> message io" where
  "as_message_in_channel ident channel = bindM (fetch_message ident) (\<lambda>msg.
     bindM (guard (ms_channel msg \<noteq> channel) not_found) (\<lambda>_. ret msg))"

end
