(* ===== verification/Db_Laws.thy ===== *)
theory Db_Laws
  imports World
begin

text \<open>
  What the reference database promises: the well-formedness of its collections, that every
  operation keeps it, and the laws of a collection with insert, fetch and delete, as a
  locale interpreted for users, servers, messages, webhooks, invites, members and bans.
\<close>

section \<open>Keyed maps\<close>

definition keyed :: "('v \<Rightarrow> 'k) \<Rightarrow> ('k, 'v) hmap \<Rightarrow> bool" where
  "keyed f m \<longleftrightarrow> hm_ok m \<and> (\<forall>k v. hm_get m k = Some v \<longrightarrow> f v = k)"

lemma keyed_empty [simp]: "keyed f []"
  by (simp add: keyed_def)

lemma keyed_insert [intro]: "keyed f m \<Longrightarrow> keyed f (hm_insert (f v) v m)"
  by (auto simp: keyed_def split: if_splits)

lemma keyed_remove [intro]: "keyed f m \<Longrightarrow> keyed f (hm_remove k m)"
  by (auto simp: keyed_def split: if_splits)

lemma keyed_modify [intro]: "keyed f m \<Longrightarrow> (\<And>v. f (g v) = f v) \<Longrightarrow> keyed f (hm_modify k g m)"
  by (auto simp: keyed_def split: if_splits)

lemma keyed_modify_at:
  "keyed f m \<Longrightarrow> (\<And>v. hm_get m k = Some v \<Longrightarrow> f (g v) = f v) \<Longrightarrow> keyed f (hm_modify k g m)"
  by (auto simp: keyed_def split: if_splits)

lemma keyed_retain [intro]: "keyed f m \<Longrightarrow> keyed f (hm_retain p m)"
  by (auto simp: keyed_def hm_get_retain split: option.splits if_splits)

lemma keyed_fold_modify:
  "keyed f m \<Longrightarrow> (\<And>v. f (g v) = f v) \<Longrightarrow> keyed f (fold (\<lambda>k m. hm_modify k g m) ks m)"
  by (induction ks arbitrary: m) auto

lemma keyed_get: "keyed f m \<Longrightarrow> hm_get m k = Some v \<Longrightarrow> f v = k"
  by (simp add: keyed_def)

section \<open>Well-formed states\<close>

definition world_ok :: "world \<Rightarrow> bool" where
  "world_ok w \<longleftrightarrow>
     keyed u_id (db_users w) \<and> keyed s_id (db_servers w) \<and>
     (\<forall>k s. hm_get (db_servers w) k = Some s \<longrightarrow> keyed r_id (s_roles s)) \<and>
     keyed m_id (db_server_members w) \<and> keyed sb_id (db_server_bans w) \<and>
     keyed channel_id (db_channels w) \<and> keyed ms_id (db_messages w) \<and>
     keyed f_id (db_files w) \<and> keyed em_id (db_emojis w) \<and> keyed wh_id (db_channel_webhooks w) \<and>
     keyed iv_code (db_channel_invites w) \<and> keyed cu_id (db_channel_unreads w) \<and>
     keyed al_id (db_audit_logs w)"

lemma world_ok_empty [simp]: "world_ok empty_world"
  by (simp add: world_ok_def empty_world_def)

lemma u_id_remove_field [simp]: "u_id (user_remove_field x u) = u_id u"
  by (cases x) simp_all

lemma u_id_remove_fields [simp]: "u_id (fold user_remove_field fs u) = u_id u"
  by (induction fs arbitrary: u) simp_all

lemma u_id_apply [simp]: "pu_id p = None \<Longrightarrow> u_id (some_priority_user p u) = u_id u"
  by (simp add: some_priority_user_def)

lemma s_id_remove_field [simp]: "s_id (server_remove_field x s) = s_id s"
  by (cases x) simp_all

lemma s_id_remove_fields [simp]: "s_id (fold server_remove_field fs s) = s_id s"
  by (induction fs arbitrary: s) simp_all

lemma s_roles_remove_field [simp]: "s_roles (server_remove_field x s) = s_roles s"
  by (cases x) simp_all

lemma s_roles_remove_fields [simp]: "s_roles (fold server_remove_field fs s) = s_roles s"
  by (induction fs arbitrary: s) simp_all

lemma s_id_apply [simp]: "ps_id p = None \<Longrightarrow> s_id (some_priority_server p s) = s_id s"
  by (simp add: some_priority_server_def)

lemma s_roles_apply [simp]:
  "s_roles (some_priority_server p s) = unwrap_or (ps_roles p) (s_roles s)"
  by (simp add: some_priority_server_def)

lemma r_id_remove_field [simp]: "r_id (role_remove_field x r) = r_id r"
  by (cases x) simp_all

lemma r_id_remove_fields [simp]: "r_id (fold role_remove_field fs r) = r_id r"
  by (induction fs arbitrary: r) simp_all

lemma r_id_apply [simp]: "pr_id p = None \<Longrightarrow> r_id (some_priority_role p r) = r_id r"
  by (simp add: some_priority_role_def)

lemma m_id_remove_field [simp]: "m_id (member_remove_field x m) = m_id m"
  by (cases x) simp_all

lemma m_id_remove_fields [simp]: "m_id (fold member_remove_field fs m) = m_id m"
  by (induction fs arbitrary: m) simp_all

lemma m_id_apply [simp]: "pm_id p = None \<Longrightarrow> m_id (some_priority_member p m) = m_id m"
  by (simp add: some_priority_member_def)

lemma channel_id_helpers [simp]:
  "channel_id (push_recipient u c) = channel_id c"
  "channel_id (put_role_permission r v c) = channel_id c"
  "channel_id (remove_recipient u c) = channel_id c"
  "channel_id (retain_recipients u c) = channel_id c"
  by (cases c; simp)+

lemma u_id_relations [simp]:
  "u_id (retain_relations t u) = u_id u" "u_id (push_relation t st u) = u_id u"
  by (simp_all add: retain_relations_def push_relation_def Let_def)

section \<open>Every operation keeps the state well-formed\<close>

lemma keeps_publish [intro, simp]:
  "keeps world_ok (publish c e)" "keeps world_ok (publish_private c e)"
  "keeps world_ok (publish_server c e)" "keeps world_ok (queue_task t)"
  "keeps world_ok (send_amqp a)"
  by (auto simp: keeps_def publish_def publish_private_def publish_server_def queue_task_def
      send_amqp_def world_ok_def)

lemma keeps_publish_user [intro, simp]: "keeps world_ok (publish_user c e)"
  unfolding publish_user_def by blast

lemma keeps_users [intro, simp]:
  "keeps world_ok (insert_user u)" "keeps world_ok (fetch_user i)"
  "keeps world_ok (fetch_users is)" "keeps world_ok (pull_relationship i t)"
  "keeps world_ok (set_relationship_db i t st)" "keeps world_ok (delete_user i)"
  "keeps world_ok (clear_user_relationships t is)"
  by (auto simp: keeps_def world_ok_def insert_user_def fetch_user_def fetch_users_def
      pull_relationship_def set_relationship_db_def delete_user_def clear_user_relationships_def
      intro: keyed_fold_modify)

lemma keeps_update_user [intro]:
  "some_priority os \<Longrightarrow> pu_id p = None \<Longrightarrow> keeps world_ok (update_user os i p fs)"
  by (auto simp: keeps_def world_ok_def update_user_def some_priority_def)

lemma keeps_servers [intro, simp]:
  "keeps world_ok (fetch_server i)"
  "keeps world_ok (fetch_servers is)" "keeps world_ok (fetch_owned_servers i)"
  "keeps world_ok (delete_server i)" "keeps world_ok (insert_role i r)"
  "keeps world_ok (delete_role i j)"
  by (auto simp: keeps_def world_ok_def fetch_server_def fetch_servers_def
      fetch_owned_servers_def delete_server_def insert_role_def delete_role_def
      split: option.splits if_splits intro!: keyed_insert [where f = r_id])

lemma keeps_insert_server [intro]:
  "keyed r_id (s_roles s) \<Longrightarrow> keeps world_ok (insert_server s)"
  by (auto simp: keeps_def world_ok_def insert_server_def split: if_splits)

lemma keeps_update_server [intro]:
  assumes "some_priority os" and "ps_id p = None"
    and "\<And>rs. ps_roles p = Some rs \<Longrightarrow> keyed r_id rs"
  shows "keeps world_ok (update_server os i p fs)"
  using assms
  by (cases "ps_roles p")
     (auto simp: keeps_def world_ok_def update_server_def some_priority_def split: if_splits)

lemma keeps_update_role [intro]:
  "some_priority os \<Longrightarrow> pr_id p = None \<Longrightarrow> keeps world_ok (update_role os i j p fs)"
  by (auto simp: keeps_def world_ok_def update_role_def some_priority_def
      split: option.splits if_splits)

lemma keeps_members [intro, simp]:
  "keeps world_ok (insert_or_merge_member m)" "keeps world_ok (fetch_member i j)"
  "keeps world_ok (fetch_all_members i)" "keeps world_ok (fetch_all_members_with_roles i rs)"
  "keeps world_ok (fetch_all_memberships i)" "keeps world_ok (fetch_members i is)"
  "keeps world_ok (fetch_member_count i)" "keeps world_ok (fetch_server_count i)"
  "keeps world_ok (soft_delete_member now k)" "keeps world_ok (force_delete_member k)"
  "keeps world_ok (clear_memberships i)" "keeps world_ok (insert_ban b)"
  "keeps world_ok (fetch_ban i j)" "keeps world_ok (fetch_bans i)" "keeps world_ok (delete_ban k)"
  by (auto simp: keeps_def world_ok_def insert_or_merge_member_def fetch_member_def
      fetch_all_members_def fetch_all_members_with_roles_def fetch_all_memberships_def
      fetch_members_def fetch_member_count_def fetch_server_count_def soft_delete_member_def
      force_delete_member_def clear_memberships_def insert_ban_def fetch_ban_def fetch_bans_def
      delete_ban_def split: option.splits)

lemma keeps_update_member [intro]:
  "some_priority os \<Longrightarrow> pm_id p = None \<Longrightarrow> keeps world_ok (update_member os k p fs)"
  by (auto simp: keeps_def world_ok_def update_member_def some_priority_def)

lemma keeps_channels [intro, simp]:
  "keeps world_ok (insert_channel c)" "keeps world_ok (fetch_channel i)"
  "keeps world_ok (fetch_channels is)" "keeps world_ok (find_direct_messages i)"
  "keeps world_ok (find_group_message_channels i)" "keeps world_ok (find_saved_messages_channel i)"
  "keeps world_ok (find_direct_message_channel i j)" "keeps world_ok (add_user_to_group_db i j)"
  "keeps world_ok (set_channel_role_permission i j v)" "keeps world_ok (update_channel i pc fc)"
  "keeps world_ok (remove_user_from_group_db i j)" "keeps world_ok (remove_user_from_groups is j)"
  "keeps world_ok (delete_channel_db c)"
  by (auto simp: keeps_def world_ok_def insert_channel_def fetch_channel_def fetch_channels_def
      find_direct_messages_def find_group_message_channels_def find_saved_messages_channel_def
      find_direct_message_channel_def add_user_to_group_db_def set_channel_role_permission_def
      update_channel_def remove_user_from_group_db_def remove_user_from_groups_def
      delete_channel_db_def split: option.splits channel.splits intro: keyed_fold_modify)

lemma keeps_messages [intro, simp]:
  "keeps world_ok (insert_message m)" "keeps world_ok (fetch_message i)"
  "keeps world_ok (fetch_messages_by_id is)" "keeps world_ok (append_message i es)"
  "keeps world_ok (add_reaction_db i e u)" "keeps world_ok (remove_reaction_db i e u)"
  "keeps world_ok (clear_reaction_db i e)" "keeps world_ok (delete_message_db i)"
  "keeps world_ok (delete_messages i is)" "keeps world_ok (delete_messages_by_user i)"
  "keeps world_ok (delete_messages_by_author_since is i t)"
  "keeps world_ok (fetch_messages lower q)"
  by (auto simp: keeps_def world_ok_def insert_message_def fetch_message_def
      fetch_messages_by_id_def append_message_def add_reaction_db_def remove_reaction_db_def
      clear_reaction_db_def delete_message_db_def delete_messages_def delete_messages_by_user_def
      delete_messages_by_author_since_def fetch_messages_def Let_def
      split: option.splits list.splits intro!: keyed_modify keyed_fold_modify)

lemma keeps_files [intro, simp]:
  "keeps world_ok (insert_attachment f)" "keeps world_ok (fetch_attachment i j)"
  "keeps world_ok fetch_deleted_attachments" "keeps world_ok fetch_dangling_files"
  "keeps world_ok (count_file_hash_references i)"
  "keeps world_ok (find_and_use_attachment i tag uf up)"
  "keeps world_ok (mark_attachment_as_reported i)" "keeps world_ok (mark_attachment_as_deleted i)"
  "keeps world_ok (mark_attachments_as_deleted is)" "keeps world_ok (delete_attachment i)"
  by (auto simp: keeps_def world_ok_def insert_attachment_def fetch_attachment_def
      fetch_deleted_attachments_def fetch_dangling_files_def count_file_hash_references_def
      find_and_use_attachment_def mark_attachment_as_reported_def mark_attachment_as_deleted_def
      mark_attachments_as_deleted_def delete_attachment_def Let_def
      split: option.splits intro!: keyed_modify_at keyed_fold_modify dest: keyed_get)

lemma keeps_emojis [intro, simp]:
  "keeps world_ok (insert_emoji e)" "keeps world_ok (fetch_emoji i)"
  "keeps world_ok (fetch_emoji_by_parent_id i)" "keeps world_ok (detach_emoji e)"
  "keeps world_ok (insert_audit_log_entry a)"
  by (auto simp: keeps_def world_ok_def insert_emoji_def fetch_emoji_def
      fetch_emoji_by_parent_id_def detach_emoji_def insert_audit_log_entry_def)

lemma keyed_put_mentions: "keyed cu_id m \<Longrightarrow> keyed cu_id (put_mentions c u ids m)"
proof -
  assume m: "keyed cu_id m"
  have "keyed cu_id (hm_insert (cu_id v) v m)" for v
    using m by (rule keyed_insert)
  from this [of "\<lparr>cu_id = \<lparr>ck_channel = c, ck_user = u\<rparr>, cu_last_id = None, cu_mentions = Some ids\<rparr>"]
  show ?thesis
    using m by (auto simp: put_mentions_def Let_def)
qed

lemma cu_id_advance [simp]: "cu_id (advance_unread i u) = cu_id u"
  by (simp add: advance_unread_def)

lemma keeps_acknowledge_message [intro, simp]: "keeps world_ok (acknowledge_message c u i)"
proof (rule keepsI)
  fix w
  assume "world_ok w"
  moreover from this have "keyed cu_id (hm_insert (cu_id v) v (db_channel_unreads w))" for v
    by (auto simp: world_ok_def)
  from this [of "\<lparr>cu_id = \<lparr>ck_channel = c, ck_user = u\<rparr>, cu_last_id = Some i, cu_mentions = None\<rparr>"]
  have "keyed cu_id (hm_insert \<lparr>ck_channel = c, ck_user = u\<rparr>
      \<lparr>cu_id = \<lparr>ck_channel = c, ck_user = u\<rparr>, cu_last_id = Some i, cu_mentions = None\<rparr>
      (db_channel_unreads w))"
    by simp
  ultimately show "world_ok (snd (acknowledge_message c u i w))"
    by (auto simp: world_ok_def acknowledge_message_def Let_def)
qed

lemma keyed_fold_put_mentions:
  "keyed cu_id m \<Longrightarrow> keyed cu_id (fold (\<lambda>u. put_mentions c u ids) us m)"
  by (induction us arbitrary: m) (simp_all add: keyed_put_mentions)

lemma keeps_unreads [intro, simp]:
  "keeps world_ok (acknowledge_channels i u cs)" "keeps world_ok (add_mention_to_unread c u is)"
  "keeps world_ok (add_mention_to_many_unreads c us is)" "keeps world_ok (fetch_unread_mentions u)"
  "keeps world_ok (fetch_unreads u)" "keeps world_ok (fetch_unread u c)"
  unfolding acknowledge_channels_def
  by (blast, auto simp: keeps_def world_ok_def add_mention_to_unread_def
      add_mention_to_many_unreads_def fetch_unread_mentions_def fetch_unreads_def fetch_unread_def
      keyed_put_mentions keyed_fold_put_mentions)

lemma keeps_webhooks_invites [intro, simp]:
  "keeps world_ok (insert_webhook h)" "keeps world_ok (fetch_webhook i)"
  "keeps world_ok (fetch_webhooks_for_channel i)" "keeps world_ok (delete_webhook_db i)"
  "keeps world_ok (insert_invite v)" "keeps world_ok (fetch_invite i)"
  "keeps world_ok (fetch_invites_for_server i)" "keeps world_ok (delete_invite i)"
  by (auto simp: keeps_def world_ok_def insert_webhook_def fetch_webhook_def
      fetch_webhooks_for_channel_def delete_webhook_db_def insert_invite_def fetch_invite_def
      fetch_invites_for_server_def delete_invite_def)

lemma ms_id_message_remove_fields [simp]: "ms_id (fold message_remove_field fs m) = ms_id m"
proof (induction fs arbitrary: m)
  case (Cons f fs)
  then show ?case by (cases f) simp
qed simp

lemma keeps_update_message [intro]:
  "pms_id p = None \<Longrightarrow> keeps world_ok (update_message some_priority_message i p fs)"
  by (auto simp: keeps_def world_ok_def update_message_def some_priority_message_def)

section \<open>Collections\<close>

text \<open>
  A collection of the database, as its users rely on it: which map of the state it is, the
  key of a document, and what insert, fetch and delete do to that map.
\<close>

locale collection =
  fixes docs :: "world \<Rightarrow> ('k, 'v) hmap"
    and key :: "'v \<Rightarrow> 'k"
    and put :: "'v \<Rightarrow> unit io"
    and fetch :: "'k \<Rightarrow> 'v io"
    and drop :: "'k \<Rightarrow> unit io"
  assumes put_new:
      "hm_get (docs w) (key v) = None \<Longrightarrow>
         \<exists>w'. put v w = (Ok (), w') \<and> docs w' = hm_insert (key v) v (docs w)"
    and put_taken:
      "hm_get (docs w) (key v) = Some u \<Longrightarrow>
         \<exists>op col. put v w = (Err (GeneralErr (DatabaseError op col)), w)"
    and fetch_docs: "fetch k w = (ok_or not_found (hm_get (docs w) k), w)"
    and drop_present:
      "hm_get (docs w) k = Some v \<Longrightarrow>
         \<exists>w'. drop k w = (Ok (), w') \<and> docs w' = hm_remove k (docs w)"
    and drop_absent: "hm_get (docs w) k = None \<Longrightarrow> drop k w = (Err not_found, w)"
begin

lemma put_then_fetch:
  "put v w = (Ok (), w') \<Longrightarrow> fst (fetch (key v) w') = Ok v"
  using put_new [of w v] put_taken [of w v] by (cases "hm_get (docs w) (key v)") (auto simp: fetch_docs)

lemma put_keeps_others:
  "put v w = (Ok (), w') \<Longrightarrow> k \<noteq> key v \<Longrightarrow> fst (fetch k w') = fst (fetch k w)"
  using put_new [of w v] put_taken [of w v] by (cases "hm_get (docs w) (key v)") (auto simp: fetch_docs)

lemma put_twice_fails:
  "put v w = (Ok (), w') \<Longrightarrow> key u = key v \<Longrightarrow> \<exists>e. put u w' = (Err e, w')"
  using put_new [of w v] put_taken [of w v] put_taken [of w' u]
  by (cases "hm_get (docs w) (key v)") auto

lemma drop_then_fetch: "drop k w = (Ok (), w') \<Longrightarrow> fst (fetch k w') = Err not_found"
  using drop_present [of w k] drop_absent [of w k] by (cases "hm_get (docs w) k") (auto simp: fetch_docs)

lemma put_drop_roundtrip:
  assumes "put v w = (Ok (), w')"
  shows "\<exists>w''. drop (key v) w' = (Ok (), w'') \<and> hm_get (docs w'') = hm_get (docs w)"
proof -
  from assms have none: "hm_get (docs w) (key v) = None"
    using put_taken [of w v] by (cases "hm_get (docs w) (key v)") auto
  with assms have "docs w' = hm_insert (key v) v (docs w)"
    using put_new [of w v] by auto
  with drop_present [of w' "key v" v] none show ?thesis
    by (auto intro!: ext)
qed

end

lemma composite_key_eta [simp]: "\<lparr>mk_server = mk_server k, mk_user = mk_user k\<rparr> = k"
  by (cases k) simp

interpretation users: collection db_users u_id insert_user fetch_user delete_user
  by unfold_locales
     (auto simp: insert_user_def fetch_user_def delete_user_def)

interpretation servers: collection db_servers s_id insert_server fetch_server delete_server
  by unfold_locales
     (auto simp: insert_server_def fetch_server_def delete_server_def)

interpretation messages: collection db_messages ms_id insert_message fetch_message delete_message_db
  by unfold_locales
     (auto simp: insert_message_def fetch_message_def delete_message_db_def)

interpretation webhooks: collection db_channel_webhooks wh_id insert_webhook fetch_webhook
    delete_webhook_db
  by unfold_locales
     (auto simp: insert_webhook_def fetch_webhook_def delete_webhook_db_def)

interpretation invites: collection db_channel_invites iv_code insert_invite fetch_invite delete_invite
  by unfold_locales
     (auto simp: insert_invite_def fetch_invite_def delete_invite_def)

interpretation bans: collection db_server_bans sb_id insert_ban
    "\<lambda>k. fetch_ban (mk_server k) (mk_user k)" delete_ban
  by unfold_locales
     (auto simp: insert_ban_def fetch_ban_def delete_ban_def)

interpretation members: collection db_server_members m_id
    "\<lambda>m. bindM (insert_or_merge_member m) (\<lambda>_. ret ())"
    "\<lambda>k. fetch_member (mk_server k) (mk_user k)" force_delete_member
  by unfold_locales
     (auto simp: insert_or_merge_member_def fetch_member_def force_delete_member_def bindM_def)

end
