(* ===== verification/Permission_Query.thy ===== *)
theory Permission_Query
  imports Permissions Db_Laws
begin

unbundle bit_operations_syntax

text \<open>
  \<open>DatabasePermissionQuery\<close> (\<open>util/permissions.rs\<close>): the implementation of the trait
  \<open>PermissionQuery\<close> that the routes use. It reads the database through five methods, kept
  as a record so that the theorems hold for every driver; \<open>reference_db\<close> is the driver of
  \<open>World\<close>, whose mutual-connection queries are \<open>todo!()\<close>. The implementation meets the
  contracts \<open>permission_view\<close> and \<open>channel_view\<close>.
\<close>

section \<open>The database seen by a query\<close>

record permission_db =
  pd_fetch_user :: "string \<Rightarrow> user result"
  pd_fetch_member :: "string \<Rightarrow> string \<Rightarrow> member result"
  pd_fetch_server :: "string \<Rightarrow> server result"
  pd_fetch_mutual_server_ids :: "string \<Rightarrow> string \<Rightarrow> string list result"
  pd_fetch_mutual_channel_ids :: "string \<Rightarrow> string \<Rightarrow> string list result"

definition reference_db :: "world \<Rightarrow> permission_db" where
  "reference_db w =
     \<lparr>pd_fetch_user = (\<lambda>i. fst (fetch_user i w)),
      pd_fetch_member = (\<lambda>s u. fst (fetch_member s u w)),
      pd_fetch_server = (\<lambda>i. fst (fetch_server i w)),
      pd_fetch_mutual_server_ids = (\<lambda>_ _. Panic ''not yet implemented''),
      pd_fetch_mutual_channel_ids = (\<lambda>_ _. Panic ''not yet implemented'')\<rparr>"

definition has_mutual_connection :: "permission_db \<Rightarrow> user \<Rightarrow> string \<Rightarrow> bool result" where
  "has_mutual_connection db u user_b =
     obind (pd_fetch_mutual_server_ids db (u_id u) user_b) (\<lambda>servers.
       if servers \<noteq> [] then Ok True
       else obind (pd_fetch_mutual_channel_ids db (u_id u) user_b) (\<lambda>channels.
         Ok (channels \<noteq> [])))"

section \<open>State and methods\<close>

record database_permission_query =
  dq_perspective :: user
  dq_user :: "user option"
  dq_channel :: "channel option"
  dq_server :: "server option"
  dq_member :: "member option"
  dq_cached_user_permission :: "u64 option"
  dq_cached_mutual_connection :: "bool option"
  dq_cached_permission :: "u64 option"

type_synonym 'a dq_method = "database_permission_query \<Rightarrow> ('a \<times> database_permission_query) option"

definition query_new :: "user \<Rightarrow> database_permission_query" where
  "query_new perspective =
     \<lparr>dq_perspective = perspective, dq_user = None, dq_channel = None, dq_server = None,
      dq_member = None, dq_cached_user_permission = None, dq_cached_mutual_connection = None,
      dq_cached_permission = None\<rparr>"

definition query_user :: "user \<Rightarrow> database_permission_query \<Rightarrow> database_permission_query" where
  "query_user u q = q\<lparr>dq_user := Some u\<rparr>"

definition query_channel :: "channel \<Rightarrow> database_permission_query \<Rightarrow> database_permission_query" where
  "query_channel c q = q\<lparr>dq_channel := Some c\<rparr>"

definition query_server :: "server \<Rightarrow> database_permission_query \<Rightarrow> database_permission_query" where
  "query_server s q = q\<lparr>dq_server := Some s\<rparr>"

definition query_member :: "member \<Rightarrow> database_permission_query \<Rightarrow> database_permission_query" where
  "query_member m q = q\<lparr>dq_member := Some m\<rparr>"

definition dq_are_we_privileged :: "bool dq_method" where
  "dq_are_we_privileged q = Some (u_privileged (dq_perspective q), q)"

definition dq_are_we_a_bot :: "bool dq_method" where
  "dq_are_we_a_bot q = Some (u_bot (dq_perspective q) \<noteq> None, q)"

definition dq_are_the_users_same :: "bool dq_method" where
  "dq_are_the_users_same q =
     Some (case dq_user q of
             Some other \<Rightarrow> u_id (dq_perspective q) = u_id other
           | None \<Rightarrow> False, q)"

definition relationship_towards :: "user \<Rightarrow> user \<Rightarrow> relationship_status" where
  "relationship_towards me other =
     (if u_id me = u_id other then RelUser
      else if (case u_bot other of Some b \<Rightarrow> u_id me = bi_owner b | None \<Rightarrow> False) then RelUser
      else case u_relations me of
        Some relations \<Rightarrow>
          (case find (\<lambda>entry. rel_id entry = u_id other) relations of
             Some entry \<Rightarrow> rel_status entry
           | None \<Rightarrow> RelNone)
      | None \<Rightarrow> RelNone)"

definition dq_user_relationship :: "relationship_status dq_method" where
  "dq_user_relationship q =
     Some (case dq_user q of
             Some other \<Rightarrow> relationship_towards (dq_perspective q) other
           | None \<Rightarrow> RelNone, q)"

definition dq_user_is_bot :: "bool dq_method" where
  "dq_user_is_bot q =
     Some (case dq_user q of Some other \<Rightarrow> u_bot other \<noteq> None | None \<Rightarrow> False, q)"

definition dq_have_mutual_connection :: "permission_db \<Rightarrow> bool dq_method" where
  "dq_have_mutual_connection db q =
     (case dq_cached_mutual_connection q of
        Some value \<Rightarrow> Some (value, q)
      | None \<Rightarrow>
          (case dq_user q of
             Some u \<Rightarrow>
               (case has_mutual_connection db (dq_perspective q) (u_id u) of
                  Ok value \<Rightarrow> Some (value, q\<lparr>dq_cached_mutual_connection := Some value\<rparr>)
                | Err _ \<Rightarrow> Some (False, q\<lparr>dq_cached_mutual_connection := Some False\<rparr>)
                | Panic _ \<Rightarrow> None)
           | None \<Rightarrow> Some (False, q)))"

definition dq_are_we_server_owner :: "bool dq_method" where
  "dq_are_we_server_owner q =
     Some (case dq_server q of
             Some server \<Rightarrow> s_owner server = u_id (dq_perspective q)
           | None \<Rightarrow> False, q)"

definition dq_are_we_a_member :: "permission_db \<Rightarrow> bool dq_method" where
  "dq_are_we_a_member db q =
     (case dq_server q of
        Some server \<Rightarrow>
          if dq_member q \<noteq> None then Some (True, q)
          else (case pd_fetch_member db (s_id server) (u_id (dq_perspective q)) of
                  Ok member \<Rightarrow> Some (True, q\<lparr>dq_member := Some member\<rparr>)
                | Err _ \<Rightarrow> Some (False, q)
                | Panic _ \<Rightarrow> None)
      | None \<Rightarrow> Some (False, q))"

definition dq_get_default_server_permissions :: "u64 dq_method" where
  "dq_get_default_server_permissions q =
     Some (case dq_server q of
             Some server \<Rightarrow> as_u64 (s_default_permissions server)
           | None \<Rightarrow> 0, q)"

definition member_roles_of :: "member option \<Rightarrow> string list" where
  "member_roles_of m = (case m of Some m \<Rightarrow> m_roles m | None \<Rightarrow> [])"

definition server_role_overrides :: "server \<Rightarrow> string list \<Rightarrow> override list" where
  "server_role_overrides server member_roles =
     map snd (sort_desc
       (map (\<lambda>(_, role). (r_rank role, field_into_override (r_permissions role)))
          (filter (\<lambda>(ident, _). ident \<in> set member_roles) (s_roles server))))"

definition dq_get_our_server_role_overrides :: "override list dq_method" where
  "dq_get_our_server_role_overrides q =
     Some (case dq_server q of
             Some server \<Rightarrow> server_role_overrides server (member_roles_of (dq_member q))
           | None \<Rightarrow> [], q)"

definition dq_are_we_timed_out :: "timestamp \<Rightarrow> bool dq_method" where
  "dq_are_we_timed_out now q =
     Some (case dq_member q of Some m \<Rightarrow> in_timeout now m | None \<Rightarrow> False, q)"

definition dq_do_we_have_publish_overwrites :: "bool dq_method" where
  "dq_do_we_have_publish_overwrites q =
     Some (case dq_member q of Some m \<Rightarrow> m_can_publish m | None \<Rightarrow> True, q)"

definition dq_do_we_have_receive_overwrites :: "bool dq_method" where
  "dq_do_we_have_receive_overwrites q =
     Some (case dq_member q of Some m \<Rightarrow> m_can_receive m | None \<Rightarrow> True, q)"

definition channel_type_of :: "channel option \<Rightarrow> channel_type" where
  "channel_type_of c =
     (case c of
        Some (DirectMessage _) \<Rightarrow> DirectMessage_T
      | Some (Group _) \<Rightarrow> Group_T
      | Some (SavedMessages _) \<Rightarrow> SavedMessages_T
      | Some (TextChannel _) \<Rightarrow> ServerChannel_T
      | None \<Rightarrow> Unknown_T)"

definition dq_get_channel_type :: "channel_type dq_method" where
  "dq_get_channel_type q = Some (channel_type_of (dq_channel q), q)"

definition default_channel_permissions :: "channel option \<Rightarrow> override" where
  "default_channel_permissions c =
     (case c of
        Some (Group g) \<Rightarrow>
          \<lparr>allow = as_u64 (unwrap_or (g_permissions g) (as_i64 DEFAULT_PERMISSION_DIRECT_MESSAGE)),
           deny = 0\<rparr>
      | Some (TextChannel t) \<Rightarrow>
          field_into_override (unwrap_or (tc_default_permissions t) default_override_field)
      | _ \<Rightarrow> default_override)"

definition dq_get_default_channel_permissions :: "override dq_method" where
  "dq_get_default_channel_permissions q = Some (default_channel_permissions (dq_channel q), q)"

definition channel_role_overrides :: "text_channel \<Rightarrow> server \<Rightarrow> string list \<Rightarrow> override list" where
  "channel_role_overrides t server member_roles =
     map snd (sort_desc
       (List.map_filter
          (\<lambda>(ident, permission).
             map_option (\<lambda>role. (r_rank role, field_into_override permission))
               (hm_get (s_roles server) ident))
          (filter (\<lambda>(ident, _). ident \<in> set member_roles) (tc_role_permissions t))))"

definition dq_get_our_channel_role_overrides :: "override list dq_method" where
  "dq_get_our_channel_role_overrides q =
     Some (case dq_channel q of
             Some (TextChannel t) \<Rightarrow>
               (case dq_server q of
                  Some server \<Rightarrow> channel_role_overrides t server (member_roles_of (dq_member q))
                | None \<Rightarrow> [])
           | _ \<Rightarrow> [], q)"

definition dq_do_we_own_the_channel :: "bool dq_method" where
  "dq_do_we_own_the_channel q =
     Some (case dq_channel q of
             Some (Group g) \<Rightarrow> g_owner g = u_id (dq_perspective q)
           | Some (SavedMessages s) \<Rightarrow> sm_user s = u_id (dq_perspective q)
           | _ \<Rightarrow> False, q)"

definition dq_are_we_part_of_the_channel :: "bool dq_method" where
  "dq_are_we_part_of_the_channel q =
     Some (case dq_channel q of
             Some (DirectMessage d) \<Rightarrow> u_id (dq_perspective q) \<in> set (dm_recipients d)
           | Some (Group g) \<Rightarrow> u_id (dq_perspective q) \<in> set (g_recipients g)
           | _ \<Rightarrow> False, q)"

definition dq_set_recipient_as_user :: "permission_db \<Rightarrow> unit dq_method" where
  "dq_set_recipient_as_user db q =
     (case dq_channel q of
        Some (DirectMessage d) \<Rightarrow>
          (case find (\<lambda>r. r \<noteq> u_id (dq_perspective q)) (dm_recipients d) of
             Some recipient \<Rightarrow>
               (case pd_fetch_user db recipient of
                  Ok u \<Rightarrow> Some ((), q\<lparr>dq_user := Some u\<rparr>)
                | Err _ \<Rightarrow> Some ((), q)
                | Panic _ \<Rightarrow> None)
           | None \<Rightarrow> None)
      | Some _ \<Rightarrow> None
      | None \<Rightarrow> Some ((), q))"

definition dq_set_server_from_channel :: "permission_db \<Rightarrow> unit dq_method" where
  "dq_set_server_from_channel db q =
     (case dq_channel q of
        Some (TextChannel t) \<Rightarrow>
          if (case dq_server q of Some known \<Rightarrow> tc_server t = s_id known | None \<Rightarrow> False)
          then Some ((), q)
          else (case pd_fetch_server db (tc_server t) of
                  Ok server \<Rightarrow> Some ((), q\<lparr>dq_server := Some server\<rparr>)
                | Err _ \<Rightarrow> Some ((), q)
                | Panic _ \<Rightarrow> None)
      | Some _ \<Rightarrow> None
      | None \<Rightarrow> Some ((), q))"

text \<open>\<open>get_member_rank\<close> unwraps the server when a member is known; \<open>None\<close> is that panic.\<close>

definition get_member_rank :: "database_permission_query \<Rightarrow> int option option" where
  "get_member_rank q =
     (case dq_member q of
        Some m \<Rightarrow> (case dq_server q of Some s \<Rightarrow> Some (Some (get_ranking m s)) | None \<Rightarrow> None)
      | None \<Rightarrow> Some None)"

definition DatabasePermissionQuery ::
    "permission_db \<Rightarrow> timestamp \<Rightarrow> database_permission_query permission_query" where
  "DatabasePermissionQuery db now =
     \<lparr>are_we_privileged = dq_are_we_privileged,
      are_we_a_bot = dq_are_we_a_bot,
      are_the_users_same = dq_are_the_users_same,
      user_relationship = dq_user_relationship,
      user_is_bot = dq_user_is_bot,
      have_mutual_connection = dq_have_mutual_connection db,
      are_we_server_owner = dq_are_we_server_owner,
      are_we_a_member = dq_are_we_a_member db,
      get_default_server_permissions = dq_get_default_server_permissions,
      get_our_server_role_overrides = dq_get_our_server_role_overrides,
      are_we_timed_out = dq_are_we_timed_out now,
      do_we_have_publish_overwrites = dq_do_we_have_publish_overwrites,
      do_we_have_receive_overwrites = dq_do_we_have_receive_overwrites,
      get_channel_type = dq_get_channel_type,
      get_default_channel_permissions = dq_get_default_channel_permissions,
      get_our_channel_role_overrides = dq_get_our_channel_role_overrides,
      do_we_own_the_channel = dq_do_we_own_the_channel,
      are_we_part_of_the_channel = dq_are_we_part_of_the_channel,
      set_recipient_as_user = dq_set_recipient_as_user db,
      set_server_from_channel = dq_set_server_from_channel db\<rparr>"

definition calc_user ::
    "permission_db \<Rightarrow> timestamp \<Rightarrow> database_permission_query \<Rightarrow> database_permission_query option" where
  "calc_user db now q =
     (if dq_cached_user_permission q \<noteq> None then Some q
      else if dq_user q = None then None
      else (case calculate_user_permissions (DatabasePermissionQuery db now) q of
              Some (p, q') \<Rightarrow> Some (q'\<lparr>dq_cached_user_permission := Some p\<rparr>)
            | None \<Rightarrow> None))"

section \<open>The view of a query\<close>

definition effective_member :: "permission_db \<Rightarrow> database_permission_query \<Rightarrow> member option" where
  "effective_member db q =
     (case dq_member q of
        Some m \<Rightarrow> Some m
      | None \<Rightarrow>
          (case dq_server q of
             Some s \<Rightarrow>
               (case pd_fetch_member db (s_id s) (u_id (dq_perspective q)) of
                  Ok m \<Rightarrow> Some m | _ \<Rightarrow> None)
           | None \<Rightarrow> None))"

definition effective_mutual :: "permission_db \<Rightarrow> database_permission_query \<Rightarrow> bool" where
  "effective_mutual db q =
     (case dq_cached_mutual_connection q of
        Some v \<Rightarrow> v
      | None \<Rightarrow>
          (case dq_user q of
             Some u \<Rightarrow> has_mutual_connection db (dq_perspective q) (u_id u) = Ok True
           | None \<Rightarrow> False))"

definition view_of :: "permission_db \<Rightarrow> timestamp \<Rightarrow> database_permission_query \<Rightarrow> query_view" where
  "view_of db now q =
     \<lparr>v_privileged = u_privileged (dq_perspective q),
      v_bot = (u_bot (dq_perspective q) \<noteq> None),
      v_same = (case dq_user q of Some u \<Rightarrow> u_id (dq_perspective q) = u_id u | None \<Rightarrow> False),
      v_relationship =
        (case dq_user q of Some u \<Rightarrow> relationship_towards (dq_perspective q) u | None \<Rightarrow> RelNone),
      v_user_bot = (case dq_user q of Some u \<Rightarrow> u_bot u \<noteq> None | None \<Rightarrow> False),
      v_mutual = effective_mutual db q,
      v_owner = (case dq_server q of Some s \<Rightarrow> s_owner s = u_id (dq_perspective q) | None \<Rightarrow> False),
      v_member = (dq_server q \<noteq> None \<and> effective_member db q \<noteq> None),
      v_server_default =
        (case dq_server q of Some s \<Rightarrow> as_u64 (s_default_permissions s) | None \<Rightarrow> 0),
      v_server_roles =
        (case dq_server q of
           Some s \<Rightarrow> server_role_overrides s (member_roles_of (effective_member db q))
         | None \<Rightarrow> []),
      v_timed_out =
        (case effective_member db q of Some m \<Rightarrow> in_timeout now m | None \<Rightarrow> False),
      v_publish = (case effective_member db q of Some m \<Rightarrow> m_can_publish m | None \<Rightarrow> True),
      v_receive = (case effective_member db q of Some m \<Rightarrow> m_can_receive m | None \<Rightarrow> True),
      v_channel_type = channel_type_of (dq_channel q),
      v_channel_default = default_channel_permissions (dq_channel q),
      v_channel_roles =
        (case dq_channel q of
           Some (TextChannel t) \<Rightarrow>
             (case dq_server q of
                Some s \<Rightarrow> channel_role_overrides t s (member_roles_of (effective_member db q))
              | None \<Rightarrow> [])
         | _ \<Rightarrow> []),
      v_own_channel =
        (case dq_channel q of
           Some (Group g) \<Rightarrow> g_owner g = u_id (dq_perspective q)
         | Some (SavedMessages s) \<Rightarrow> sm_user s = u_id (dq_perspective q)
         | _ \<Rightarrow> False),
      v_part =
        (case dq_channel q of
           Some (DirectMessage d) \<Rightarrow> u_id (dq_perspective q) \<in> set (dm_recipients d)
         | Some (Group g) \<Rightarrow> u_id (dq_perspective q) \<in> set (g_recipients g)
         | _ \<Rightarrow> False)\<rparr>"

lemma view_sels:
  "v_privileged (view_of db now q) = u_privileged (dq_perspective q)"
  "v_bot (view_of db now q) = (u_bot (dq_perspective q) \<noteq> None)"
  "v_same (view_of db now q) = (case dq_user q of Some u \<Rightarrow> u_id (dq_perspective
       q) = u_id u | None \<Rightarrow> False)"
  "v_relationship (view_of db now q) = (case dq_user q of Some u \<Rightarrow>
       relationship_towards (dq_perspective q) u | None \<Rightarrow> RelNone)"
  "v_user_bot (view_of db now q) = (case dq_user q of Some u \<Rightarrow> u_bot u \<noteq>
       None | None \<Rightarrow> False)"
  "v_mutual (view_of db now q) = effective_mutual db q"
  "v_owner (view_of db now q) = (case dq_server q of Some s \<Rightarrow> s_owner s = u_id
       (dq_perspective q) | None \<Rightarrow> False)"
  "v_member (view_of db now q) = (dq_server q \<noteq> None \<and> effective_member db q
       \<noteq> None)"
  "v_server_default (view_of db now q) = (case dq_server q of Some s \<Rightarrow> as_u64
       (s_default_permissions s) | None \<Rightarrow> 0)"
  "v_server_roles (view_of db now q) = (case dq_server q of Some s \<Rightarrow>
       server_role_overrides s (member_roles_of (effective_member db q)) | None \<Rightarrow>
       [])"
  "v_timed_out (view_of db now q) = (case effective_member db q of Some m \<Rightarrow>
       in_timeout now m | None \<Rightarrow> False)"
  "v_publish (view_of db now q) = (case effective_member db q of Some m \<Rightarrow>
       m_can_publish m | None \<Rightarrow> True)"
  "v_receive (view_of db now q) = (case effective_member db q of Some m \<Rightarrow>
       m_can_receive m | None \<Rightarrow> True)"
  "v_channel_type (view_of db now q) = channel_type_of (dq_channel q)"
  "v_channel_default (view_of db now q) = default_channel_permissions (dq_channel q)"
  "v_channel_roles (view_of db now q) = (case dq_channel q of Some (TextChannel t)
       \<Rightarrow> (case dq_server q of Some s \<Rightarrow> channel_role_overrides t s
       (member_roles_of (effective_member db q)) | None \<Rightarrow> []) | _ \<Rightarrow>
       [])"
  "v_own_channel (view_of db now q) = (case dq_channel q of Some (Group g) \<Rightarrow>
       g_owner g = u_id (dq_perspective q) | Some (SavedMessages s) \<Rightarrow> sm_user s =
       u_id (dq_perspective q) | _ \<Rightarrow> False)"
  "v_part (view_of db now q) = (case dq_channel q of Some (DirectMessage d) \<Rightarrow>
       u_id (dq_perspective q) \<in> set (dm_recipients d) | Some (Group g) \<Rightarrow>
       u_id (dq_perspective q) \<in> set (g_recipients g) | _ \<Rightarrow> False)"
  by (simp_all add: view_of_def)

text \<open>
  The condition under which no method panics: the three fetches answer, the mutual queries
  answer for the users they are asked about, and a direct message channel that we are part
  of has another recipient.
\<close>

definition other_recipient :: "user \<Rightarrow> direct_message \<Rightarrow> string option" where
  "other_recipient me d = find (\<lambda>r. r \<noteq> u_id me) (dm_recipients d)"

definition mutual_answers :: "permission_db \<Rightarrow> user \<Rightarrow> string \<Rightarrow> bool" where
  "mutual_answers db me other \<longleftrightarrow> \<not> is_panic (has_mutual_connection db me other)"

definition fetches_answer :: "permission_db \<Rightarrow> bool" where
  "fetches_answer db \<longleftrightarrow>
     (\<forall>i. \<not> is_panic (pd_fetch_user db i)) \<and> (\<forall>i. \<not> is_panic (pd_fetch_server db i)) \<and>
     (\<forall>s u. \<not> is_panic (pd_fetch_member db s u))"

definition query_good :: "permission_db \<Rightarrow> database_permission_query \<Rightarrow> bool" where
  "query_good db q \<longleftrightarrow>
     fetches_answer db \<and>
     (\<forall>u. dq_user q = Some u \<longrightarrow> mutual_answers db (dq_perspective q) (u_id u)) \<and>
     (\<forall>d. dq_channel q = Some (DirectMessage d) \<longrightarrow>
        u_id (dq_perspective q) \<in> set (dm_recipients d) \<longrightarrow>
        (\<exists>r. other_recipient (dq_perspective q) d = Some r \<and>
           (\<forall>u. pd_fetch_user db r = Ok u \<longrightarrow> mutual_answers db (dq_perspective q) (u_id u))))"

definition member_known :: "permission_db \<Rightarrow> database_permission_query \<Rightarrow> bool" where
  "member_known db q \<longleftrightarrow> dq_member q = effective_member db q"

definition recipient_selected :: "permission_db \<Rightarrow> database_permission_query \<Rightarrow> database_permission_query"
  where
  "recipient_selected db q =
     (case dq_set_recipient_as_user db q of Some (_, q') \<Rightarrow> q' | None \<Rightarrow> q)"

definition server_selected :: "permission_db \<Rightarrow> database_permission_query \<Rightarrow> database_permission_query"
  where
  "server_selected db q =
     (case dq_set_server_from_channel db q of Some (_, q') \<Rightarrow> q' | None \<Rightarrow> q)"

lemmas dq_defs =
  dq_are_we_privileged_def dq_are_we_a_bot_def dq_are_the_users_same_def dq_user_relationship_def
  dq_user_is_bot_def dq_are_we_server_owner_def dq_get_default_server_permissions_def
  dq_get_our_server_role_overrides_def dq_are_we_timed_out_def
  dq_do_we_have_publish_overwrites_def dq_do_we_have_receive_overwrites_def
  dq_get_channel_type_def dq_get_default_channel_permissions_def
  dq_get_our_channel_role_overrides_def dq_do_we_own_the_channel_def
  dq_are_we_part_of_the_channel_def

lemma fetches_answerD:
  assumes "fetches_answer db"
  shows "pd_fetch_user db i \<noteq> Panic p" "pd_fetch_server db i \<noteq> Panic p"
    "pd_fetch_member db s u \<noteq> Panic p"
  using assms by (auto simp: fetches_answer_def) (metis is_panic.simps(3))+

lemma effective_member_cached [simp]:
  "effective_member db (q\<lparr>dq_cached_mutual_connection := x\<rparr>) = effective_member db q"
  by (simp add: effective_member_def cong: option.case_cong)

lemma effective_mutual_member [simp]:
  "effective_mutual db (q\<lparr>dq_member := x\<rparr>) = effective_mutual db q"
  by (simp add: effective_mutual_def cong: option.case_cong)

lemma view_cached_member:
  assumes "effective_member db q = Some m"
  shows "view_of db now (q\<lparr>dq_member := Some m\<rparr>) = view_of db now q"
proof -
  have "effective_member db (q\<lparr>dq_member := Some m\<rparr>) = effective_member db q"
    using assms by (simp add: effective_member_def)
  then show ?thesis
    by (simp add: view_of_def cong: option.case_cong channel.case_cong)
qed

lemma view_cached_mutual:
  "view_of db now (q\<lparr>dq_cached_mutual_connection := Some (effective_mutual db q)\<rparr>) =
   view_of db now q"
proof -
  have "effective_mutual db (q\<lparr>dq_cached_mutual_connection := Some (effective_mutual db q)\<rparr>) =
      effective_mutual db q"
    by (subst effective_mutual_def) simp
  then show ?thesis
    by (simp add: view_of_def cong: option.case_cong channel.case_cong)
qed

lemma query_good_cached [simp]:
  "query_good db (q\<lparr>dq_member := x\<rparr>) = query_good db q"
  "query_good db (q\<lparr>dq_cached_mutual_connection := y\<rparr>) = query_good db q"
  by (simp_all add: query_good_def)

lemma member_yields:
  assumes "query_good db q"
  shows "yields (view_of db now) (query_good db) (member_known db) (dq_are_we_a_member db q) q
           (v_member (view_of db now q))"
proof (cases "dq_server q")
  case None
  with assms show ?thesis
    by (auto simp: dq_are_we_a_member_def view_sels intro: yields_Some)
next
  case (Some s)
  from assms have "fetches_answer db"
    by (simp add: query_good_def)
  note fetch = fetches_answerD(3) [OF this]
  show ?thesis
  proof (cases "dq_member q")
    case None
    show ?thesis
    proof (cases "pd_fetch_member db (s_id s) (u_id (dq_perspective q))")
      case (Ok m)
      with Some None have "effective_member db q = Some m"
        by (simp add: effective_member_def)
      with Some None Ok assms show ?thesis
        by (simp add: dq_are_we_a_member_def yields_def view_cached_member view_sels
            member_known_def effective_member_def)
    next
      case (Err e)
      with Some None have "effective_member db q = None"
        by (simp add: effective_member_def)
      with Some None Err assms show ?thesis
        by (auto simp: dq_are_we_a_member_def view_sels intro: yields_Some)
    next
      case (Panic x)
      with fetch show ?thesis
        by blast
    qed
  next
    case member: (Some m)
    with Some assms show ?thesis
      by (auto simp: dq_are_we_a_member_def view_sels effective_member_def intro: yields_Some)
  qed
qed

lemma mutual_yields:
  assumes "query_good db q"
  shows "yields (view_of db now) (query_good db) (member_known db)
           (dq_have_mutual_connection db q) q (v_mutual (view_of db now q))"
proof -
  have cached: "yields (view_of db now) (query_good db) (member_known db)
      (Some (v, q\<lparr>dq_cached_mutual_connection := Some v\<rparr>)) q v"
    if "effective_mutual db q = v" for v
    using assms that view_cached_mutual [of db now q]
    by (simp add: yields_def member_known_def)
  show ?thesis
  proof (cases "dq_cached_mutual_connection q = None \<and> dq_user q \<noteq> None")
    case True
    then obtain u where u: "dq_user q = Some u" "dq_cached_mutual_connection q = None"
      by auto
    with assms have "mutual_answers db (dq_perspective q) (u_id u)"
      by (simp add: query_good_def)
    with u have "dq_have_mutual_connection db q =
        Some (effective_mutual db q,
          q\<lparr>dq_cached_mutual_connection := Some (effective_mutual db q)\<rparr>)"
      by (cases "has_mutual_connection db (dq_perspective q) (u_id u)")
         (simp_all add: dq_have_mutual_connection_def effective_mutual_def mutual_answers_def)
    then show ?thesis
      by (simp add: cached view_sels)
  next
    case False
    with assms show ?thesis
      by (auto simp: dq_have_mutual_connection_def view_sels effective_mutual_def
          split: option.splits intro: yields_Some)
  qed
qed

interpretation dpq: permission_view "DatabasePermissionQuery db now" "view_of db now"
    "query_good db" "member_known db" for db now
proof unfold_locales
  fix q q'
  assume "query_good db q" and "are_we_a_member (DatabasePermissionQuery db now) q = Some (True, q')"
  then show "member_known db q'"
    by (auto simp: DatabasePermissionQuery_def dq_are_we_a_member_def member_known_def
        effective_member_def split: option.splits outcome.splits if_splits)
qed (simp_all add: DatabasePermissionQuery_def member_yields mutual_yields,
     simp_all add: dq_defs member_known_def yields_Some view_sels
       cong: option.case_cong channel.case_cong)

interpretation dcq: channel_view "DatabasePermissionQuery db now" "view_of db now"
    "query_good db" "member_known db" "\<lambda>q. view_of db now (recipient_selected db q)"
    "\<lambda>q. view_of db now (server_selected db q)" for db now
proof unfold_locales
  fix q
  assume good: "query_good db q"
  then have fetch: "fetches_answer db"
    by (simp add: query_good_def)
  note fetchD = fetches_answerD [OF fetch]
  show "are_we_privileged (DatabasePermissionQuery db now) q = Some (v_privileged (view_of db now q), q)"
    by (simp add: DatabasePermissionQuery_def dq_are_we_privileged_def view_sels)
  show "get_channel_type (DatabasePermissionQuery db now) q =
          Some (v_channel_type (view_of db now q), q)"
    by (simp add: DatabasePermissionQuery_def dq_get_channel_type_def view_sels)
  show "are_we_part_of_the_channel (DatabasePermissionQuery db now) q =
          Some (v_part (view_of db now q), q)"
    by (simp add: DatabasePermissionQuery_def dq_are_we_part_of_the_channel_def view_sels)
  show "\<exists>q'. set_recipient_as_user (DatabasePermissionQuery db now) q = Some ((), q') \<and>
          view_of db now q' = view_of db now (recipient_selected db q) \<and> query_good db q'"
    if "v_channel_type (view_of db now q) = DirectMessage_T" "v_part (view_of db now q)"
  proof -
    from that obtain d where d: "dq_channel q = Some (DirectMessage d)"
      "u_id (dq_perspective q) \<in> set (dm_recipients d)"
      by (auto simp: view_sels channel_type_of_def split: option.splits channel.splits)
    with good obtain r where r: "other_recipient (dq_perspective q) d = Some r"
      "\<And>u. pd_fetch_user db r = Ok u \<Longrightarrow> mutual_answers db (dq_perspective q) (u_id u)"
      by (auto simp: query_good_def)
    show ?thesis
      using d r good fetchD(1) [of r]
      by (cases "pd_fetch_user db r")
         (auto simp: DatabasePermissionQuery_def recipient_selected_def
            dq_set_recipient_as_user_def other_recipient_def query_good_def)
  qed
  show "\<exists>q'. set_server_from_channel (DatabasePermissionQuery db now) q = Some ((), q') \<and>
          view_of db now q' = view_of db now (server_selected db q) \<and> query_good db q'"
    if "v_channel_type (view_of db now q) = ServerChannel_T"
  proof -
    from that obtain t where t: "dq_channel q = Some (TextChannel t)"
      by (auto simp: view_sels channel_type_of_def split: option.splits channel.splits)
    show ?thesis
      using t good fetchD(2) [of "tc_server t"]
      by (cases "pd_fetch_server db (tc_server t)")
         (auto simp: DatabasePermissionQuery_def server_selected_def
            dq_set_server_from_channel_def query_good_def)
  qed
qed

end
