(* ===== verification/Samples.thy ===== *)
theory Samples
  imports Db_Laws
begin

text \<open>
  A small concrete state for the witnesses: a server with two roles, three members, a
  channel, a group and the users behind them.
\<close>

definition sample_user :: "string \<Rightarrow> user" where
  "sample_user i = default_user\<lparr>u_id := i, u_username := i\<rparr>"

definition sample_role :: "string \<Rightarrow> int \<Rightarrow> override_field \<Rightarrow> role" where
  "sample_role i rank v =
     \<lparr>r_id = i, r_name = i, r_permissions = v, r_colour = None, r_hoist = False, r_rank = rank,
      r_icon = None\<rparr>"

definition sample_member :: "string \<Rightarrow> string \<Rightarrow> string list \<Rightarrow> member" where
  "sample_member s u roles =
     (default_member 0)\<lparr>m_id := \<lparr>mk_server = s, mk_user = u\<rparr>, m_roles := roles\<rparr>"

text \<open>Role \<open>M\<close> (rank 0) may kick, ban and assign roles; role \<open>R\<close> (rank 1) may send.\<close>

definition sample_server :: server where
  "sample_server =
     \<lparr>s_id = ''S'', s_owner = ''O'', s_name = ''server'', s_description = None,
      s_announcement = None, s_channels = [], s_categories = None, s_system_messages = None,
      s_roles = [(''M'', sample_role ''M'' 0 \<lparr>ov_a = 0x3FFF, ov_d = 0\<rparr>),
                 (''R'', sample_role ''R'' 1 \<lparr>ov_a = 0x400000, ov_d = 0\<rparr>)],
      s_default_permissions = 0x300000, s_icon = None, s_banner = None, s_flags = None,
      s_nsfw = False, s_analytics = False, s_discoverable = False, s_admin_suspended = False\<rparr>"

definition sample_text_channel :: text_channel where
  "sample_text_channel =
     \<lparr>tc_id = ''C'', tc_server = ''S'', tc_name = ''general'', tc_description = None,
      tc_icon = None, tc_last_message_id = None, tc_default_permissions = None,
      tc_role_permissions = [(''R'', \<lparr>ov_a = 0, ov_d = 0x400000\<rparr>)], tc_nsfw = False,
      tc_voice = None, tc_slowmode = None, tc_forum = None\<rparr>"

definition sample_group :: group where
  "sample_group =
     \<lparr>g_id = ''G'', g_name = ''group'', g_owner = ''O'', g_description = None,
      g_recipients = [''O'', ''A''], g_icon = None, g_last_message_id = None,
      g_permissions = None, g_nsfw = False\<rparr>"

definition sample_dm :: direct_message where
  "sample_dm =
     \<lparr>dm_id = ''D'', dm_active = True, dm_recipients = [''A'', ''B''],
      dm_last_message_id = None\<rparr>"

definition sample_world :: world where
  "sample_world = empty_world
     \<lparr>db_users := [(''O'', sample_user ''O''), (''A'', sample_user ''A''), (''B'', sample_user ''B'')],
      db_servers := [(''S'', sample_server)],
      db_server_members :=
        [(\<lparr>mk_server = ''S'', mk_user = ''O''\<rparr>, sample_member ''S'' ''O'' []),
         (\<lparr>mk_server = ''S'', mk_user = ''A''\<rparr>, sample_member ''S'' ''A'' [''M'']),
         (\<lparr>mk_server = ''S'', mk_user = ''B''\<rparr>, sample_member ''S'' ''B'' [''R''])],
      db_channels :=
        [(''C'', TextChannel sample_text_channel), (''G'', Group sample_group),
         (''D'', DirectMessage sample_dm)]\<rparr>"

lemmas sample_defs =
  sample_user_def sample_role_def sample_member_def sample_server_def sample_text_channel_def
  sample_group_def sample_dm_def sample_world_def default_user_def default_member_def
  empty_world_def hm_get_def

end
