(* ===== verification/Access_Control.thy ===== *)
theory Access_Control
  imports Permission_Query Samples
begin

unbundle bit_operations_syntax

text \<open>
  What the permissions computed from the database mean: which roles decide a permission of a
  member in a server and in a channel, what a timeout leaves, who may write in a direct
  message, and that the order in which a hash map lists the roles plays no part.
\<close>

section \<open>Seniority\<close>

text \<open>The overrides of the roles a member holds, the most senior role (lowest rank) first.\<close>

definition senior_overrides :: "server \<Rightarrow> string list \<Rightarrow> override list" where
  "senior_overrides s member_roles =
     map (\<lambda>(_, r). field_into_override (r_permissions r))
       (filter (\<lambda>(ident, _). ident \<in> set member_roles) (ordered_roles s))"

definition ranks_distinct :: "server \<Rightarrow> bool" where
  "ranks_distinct s \<longleftrightarrow> distinct (map (\<lambda>(_, r). r_rank r) (s_roles s))"

lemma map_insort_key: "map g (insort_key (f \<circ> g) x xs) = insort_key f (g x) (map g xs)"
  by (induction xs) auto

lemma sort_key_map: "sort_key f (map g xs) = map g (sort_key (f \<circ> g) xs)"
  by (induction xs) (auto simp: map_insort_key [unfolded comp_def] comp_def)

lemma filter_key_singleton:
  "distinct (map k xs) \<Longrightarrow> x \<in> set xs \<Longrightarrow> filter (\<lambda>y. k x = k y) xs = [x]"
proof (induction xs)
  case (Cons a xs)
  then show ?case
    by (cases "x = a") (auto simp: filter_empty_conv image_iff)
qed simp

lemma rev_sort_desc:
  fixes k :: "'a \<Rightarrow> int"
  assumes "distinct (map k xs)"
  shows "rev (sort_key (\<lambda>x. - k x) xs) = sort_key k xs"
proof (rule sym, rule properties_for_sort_key)
  let ?ys = "rev (sort_key (\<lambda>x. - k x) xs)"
  show "mset ?ys = mset xs"
    by simp
  have "distinct (map k ?ys)"
  proof -
    have "mset (map k ?ys) = mset (map k xs)"
      by simp
    with assms show ?thesis
      by (metis distinct_count_atmost_1 mset_eq_setD)
  qed
  with assms show "filter (\<lambda>y. k x = k y) ?ys = filter (\<lambda>y. k x = k y) xs" if "x \<in> set ?ys" for x
    using that filter_key_singleton [of k ?ys x] filter_key_singleton [of k xs x] by simp
  have "sorted (map (\<lambda>x. - k x) (sort_key (\<lambda>x. - k x) xs))"
    by simp
  then show "sorted (map k ?ys)"
    by (simp add: rev_map [symmetric] sorted_wrt_rev sorted_wrt_map)
qed

lemma distinct_map_filter: "distinct (map f xs) \<Longrightarrow> distinct (map f (filter P xs))"
  by (induction xs) auto

lemma senior_overrides_rev:
  assumes "ranks_distinct s"
  shows "rev (server_role_overrides s roles) = senior_overrides s roles"
proof -
  let ?held = "filter (\<lambda>(ident, _). ident \<in> set roles) (s_roles s)"
  let ?rank = "\<lambda>(_ :: string, r). r_rank r"
  have "server_role_overrides s roles =
      map (\<lambda>(_, r). field_into_override (r_permissions r)) (sort_key (\<lambda>x. - ?rank x) ?held)"
    by (simp add: server_role_overrides_def sort_desc_def sort_key_map comp_def split_def)
  moreover have "rev (sort_key (\<lambda>x. - ?rank x) ?held) = sort_key ?rank ?held"
    using assms by (intro rev_sort_desc distinct_map_filter) (simp add: ranks_distinct_def)
  ultimately show ?thesis
    by (simp add: senior_overrides_def ordered_roles_def rev_map filter_sort)
qed

text \<open>Joining two maps lists the same entries whichever of the two is walked.\<close>

lemma map_filter_join:
  "List.map_filter (\<lambda>(i, x). map_option (h i x) (g i)) (filter (\<lambda>(i, _). P i) xs) =
   map (\<lambda>(i, x). h i x (the (g i))) (filter (\<lambda>(i, _). P i \<and> g i \<noteq> None) xs)"
  by (induction xs) (auto simp: map_filter_simps split: option.splits)

lemma mset_join:
  assumes "hm_ok a" and "hm_ok b"
  shows "mset (List.map_filter (\<lambda>(i, x). map_option (h i x) (hm_get b i)) (filter (\<lambda>(i, _). P i) a)) =
         mset (List.map_filter (\<lambda>(i, y). map_option (\<lambda>x. h i x y) (hm_get a i)) (filter (\<lambda>(i, _). P i) b))"
proof -
  let ?A = "map (\<lambda>(i, x). (i, x, the (hm_get b i))) (filter (\<lambda>(i, _). P i \<and> hm_get b i \<noteq> None) a)"
  let ?B = "map (\<lambda>(i, y). (i, the (hm_get a i), y)) (filter (\<lambda>(i, _). P i \<and> hm_get a i \<noteq> None) b)"
  have "set ?A = {(i, x, y). P i \<and> hm_get a i = Some x \<and> hm_get b i = Some y}"
    using assms(1) by (force simp: hm_ok_def hm_get_def)
  moreover have "set ?B = {(i, x, y). P i \<and> hm_get a i = Some x \<and> hm_get b i = Some y}"
    using assms(2) by (force simp: hm_ok_def hm_get_def)
  moreover have "distinct (map fst ?A)" "distinct (map fst ?B)"
    using assms by (simp_all add: hm_ok_def comp_def split_def map_fst_filter_distinct)
  then have "distinct ?A" "distinct ?B"
    unfolding distinct_map by blast+
  ultimately have "mset ?A = mset ?B"
    by (subst set_eq_iff_mset_eq_distinct [symmetric]) (simp_all only:)
  then have "mset (map (\<lambda>(i, x, y). h i x y) ?A) = mset (map (\<lambda>(i, x, y). h i x y) ?B)"
    by (simp only: mset_map)
  then show ?thesis
    unfolding map_filter_join map_filter_join [of "\<lambda>i y x. h i x y"] by (simp add: comp_def split_def)
qed

definition senior_channel_overrides :: "text_channel \<Rightarrow> server \<Rightarrow> string list \<Rightarrow> override list" where
  "senior_channel_overrides t s member_roles =
     List.map_filter
       (\<lambda>(ident, _). map_option field_into_override (hm_get (tc_role_permissions t) ident))
       (filter (\<lambda>(ident, _). ident \<in> set member_roles) (ordered_roles s))"

lemma senior_channel_overrides_rev:
  assumes "ranks_distinct s" and "hm_ok (s_roles s)" and "hm_ok (tc_role_permissions t)"
  shows "rev (channel_role_overrides t s roles) = senior_channel_overrides t s roles"
proof -
  let ?rank = "\<lambda>(_ :: string, r). r_rank r"
  let ?P = "\<lambda>i. i \<in> set roles"
  let ?L = "List.map_filter (\<lambda>(i, p). map_option (\<lambda>r. (r_rank r, field_into_override p))
              (hm_get (s_roles s) i)) (filter (\<lambda>(i, _). ?P i) (tc_role_permissions t))"
  let ?h = "\<lambda>(i, r). (r_rank r, field_into_override (the (hm_get (tc_role_permissions t) i)))"
  let ?R = "filter (\<lambda>(i, _). ?P i \<and> hm_get (tc_role_permissions t) i \<noteq> None) (s_roles s)"
  have L: "mset (map ?h ?R) = mset ?L"
    using mset_join [OF assms(3,2), of "\<lambda>_ p r. (r_rank r, field_into_override p)" ?P]
    unfolding map_filter_join [of "\<lambda>i r p. (r_rank r, field_into_override p)"] by (rule sym)
  have distinct: "distinct (map ?rank ?R)"
    using assms(1) by (simp add: ranks_distinct_def distinct_map_filter)
  then have "distinct (map fst (map ?h ?R))"
    by (simp add: comp_def split_def)
  with L have "sort_desc (map ?h ?R) = sort_desc ?L"
    by (rule sort_desc_unique)
  from this [symmetric] have "rev (channel_role_overrides t s roles) = map (snd \<circ> ?h) (rev (sort_key (\<lambda>x. - ?rank x) ?R))"
    by (simp add: channel_role_overrides_def sort_desc_def sort_key_map rev_map comp_def split_def)
  also have "\<dots> = map (snd \<circ> ?h) (sort_key ?rank ?R)"
    by (simp only: rev_sort_desc [OF distinct])
  also have "\<dots> = senior_channel_overrides t s roles"
    unfolding senior_channel_overrides_def ordered_roles_def
      map_filter_join [of "\<lambda>_ _. field_into_override"]
    by (simp add: filter_sort split_def comp_def)
  finally show ?thesis .
qed

section \<open>Permissions of a member\<close>

lemma bit_flag_values:
  "bit (channel_permission_value CP_Speak) n \<longleftrightarrow> n = 31"
  "bit (channel_permission_value CP_Video) n \<longleftrightarrow> n = 32"
  "bit (channel_permission_value CP_Listen) n \<longleftrightarrow> n = 36"
  "bit (channel_permission_value CP_ViewChannel) n \<longleftrightarrow> n = 20"
  by (auto simp del: push_bit_of_1 simp: bit_push_bit_iff bit_1_iff)

lemma bit_ALLOW_IN_TIMEOUT: "bit ALLOW_IN_TIMEOUT n \<longleftrightarrow> n = 20 \<or> n = 21"
  by (auto simp del: push_bit_of_1
      simp: ALLOW_IN_TIMEOUT_def flags_or_def bit_or_iff bit_push_bit_iff bit_1_iff)

lemma bit_revoke_muted:
  "bit (revoke_muted v p) n \<longleftrightarrow>
     bit p n \<and> (v_publish v \<or> n \<noteq> 31 \<and> n \<noteq> 32) \<and> (v_receive v \<or> n \<noteq> 36)"
  by (auto simp: revoke_muted_def Let_def bit_rules bit_flag_values
      simp del: channel_permission_value.simps)

lemma bit_restrict_timeout:
  "bit (restrict_timeout v p) n \<longleftrightarrow> bit p n \<and> (v_timed_out v \<longrightarrow> n = 20 \<or> n = 21)"
  by (auto simp: restrict_timeout_def bit_rules bit_ALLOW_IN_TIMEOUT)

lemma view_flag: "has_channel_permission p CP_ViewChannel \<longleftrightarrow> bit p 20"
  unfolding has_channel_permission_def channel_permission_value.simps by (rule pv_has_flag) simp

definition server_query :: "user \<Rightarrow> server \<Rightarrow> database_permission_query" where
  "server_query u s = query_server s (query_new u)"

definition channel_query :: "user \<Rightarrow> channel \<Rightarrow> database_permission_query" where
  "channel_query u c = query_channel c (query_new u)"

lemma server_query_good: "fetches_answer db \<Longrightarrow> query_good db (server_query u s)"
  by (simp add: query_good_def server_query_def query_server_def query_new_def)

lemma text_query_good: "fetches_answer db \<Longrightarrow> query_good db (channel_query u (TextChannel t))"
  by (simp add: query_good_def channel_query_def query_channel_def query_new_def)

lemma server_query_result:
  assumes "fetches_answer db"
  shows "\<exists>q'. calculate_server_permissions (DatabasePermissionQuery db now) (server_query u s) =
           Some (server_permissions_of (view_of db now (server_query u s)), q')"
  using dpq.server_permissions [OF server_query_good [OF assms], of now u s]
  by (auto simp: yields_def)

text \<open>One permission of a member in the server, decided from the roles.\<close>

definition server_bit :: "timestamp \<Rightarrow> server \<Rightarrow> member \<Rightarrow> nat \<Rightarrow> bool" where
  "server_bit now s m n \<longleftrightarrow>
     decide (senior_overrides s (m_roles m)) n (bit (as_u64 (s_default_permissions s)) n) \<and>
     (m_can_publish m \<or> n \<noteq> 31 \<and> n \<noteq> 32) \<and> (m_can_receive m \<or> n \<noteq> 36) \<and>
     (in_timeout now m \<longrightarrow> n = 20 \<or> n = 21)"

lemma server_permissions_of_bit:
  assumes "dq_server q = Some s" and "effective_member db q = Some m"
    and "\<not> u_privileged (dq_perspective q)" and "s_owner s \<noteq> u_id (dq_perspective q)"
    and "ranks_distinct s"
  shows "bit (server_permissions_of (view_of db now q)) n \<longleftrightarrow> server_bit now s m n"
  using assms
  by (auto simp: server_permissions_of_def view_sels bit_restrict_timeout bit_revoke_muted
      bit_apply_overrides member_roles_of_def senior_overrides_rev server_bit_def)

section \<open>Permissions in a server channel\<close>

text \<open>
  One permission of a member in a channel of the server: the channel's overrides for its
  roles, the channel's default, then the server.
\<close>

definition channel_bit ::
    "timestamp \<Rightarrow> server \<Rightarrow> text_channel \<Rightarrow> member \<Rightarrow> nat \<Rightarrow> bool" where
  "channel_bit now s t m n \<longleftrightarrow>
     decide (senior_channel_overrides t s (m_roles m)) n
       (decide [field_into_override (unwrap_or (tc_default_permissions t) default_override_field)] n
          (server_bit now s m n)) \<and>
     (in_timeout now m \<longrightarrow> n = 20 \<or> n = 21)"

lemma bit_pv_apply_decide: "bit (pv_apply p v) n \<longleftrightarrow> decide [v] n (bit p n)"
  by (simp add: bit_pv_apply)

lemma server_channel_bit:
  assumes "dq_server q = Some s" and "effective_member db q = Some m"
    and "dq_channel q = Some (TextChannel t)"
    and "\<not> u_privileged (dq_perspective q)" and "s_owner s \<noteq> u_id (dq_perspective q)"
    and "ranks_distinct s" and "hm_ok (s_roles s)" and "hm_ok (tc_role_permissions t)"
  shows "bit (server_channel_permissions_of (view_of db now q)) n \<longleftrightarrow>
           channel_bit now s t m 20 \<and> channel_bit now s t m n"
proof -
  let ?v = "view_of db now q"
  let ?p = "restrict_timeout ?v (apply_overrides (v_channel_roles ?v)
              (pv_apply (server_permissions_of ?v) (v_channel_default ?v)))"
  have p: "bit ?p k \<longleftrightarrow> channel_bit now s t m k" for k
    using server_permissions_of_bit [OF assms(1,2,4,5,6), of now k] assms(1-3)
    by (simp only: bit_restrict_timeout bit_apply_overrides bit_pv_apply_decide channel_bit_def)
       (simp add: view_sels member_roles_of_def default_channel_permissions_def
          senior_channel_overrides_rev [OF assms(6-8)])
  have "server_channel_permissions_of ?v = (if bit ?p 20 then ?p else 0)"
    using assms by (simp add: server_channel_permissions_of_def view_sels view_flag Let_def)
  then show ?thesis
    by (simp add: p)
qed

lemma text_query_view:
  assumes "fetches_answer db" and "pd_fetch_server db (tc_server t) = Ok s"
    and "\<not> u_privileged u"
  shows "\<exists>q'. calculate_channel_permissions (DatabasePermissionQuery db now)
             (channel_query u (TextChannel t)) =
           Some (server_channel_permissions_of
                   (view_of db now (query_server s (channel_query u (TextChannel t)))), q')"
proof -
  let ?q = "channel_query u (TextChannel t)"
  have sel: "server_selected db ?q = query_server s ?q"
    using assms(2)
    by (simp add: server_selected_def dq_set_server_from_channel_def channel_query_def
        query_channel_def query_new_def query_server_def)
  have "channel_permissions_of (view_of db now ?q) x (view_of db now (server_selected db ?q)) =
      server_channel_permissions_of (view_of db now (query_server s ?q))" for x
    using assms(3) sel
    by (simp add: channel_permissions_of_def view_sels channel_query_def query_channel_def
        query_new_def channel_type_of_def)
  with dcq.channel_permissions [OF text_query_good [OF assms(1)], of now u t] show ?thesis
    by (auto simp: dcq.answers_def)
qed

section \<open>Direct messages\<close>

lemma user_may_send:
  "has_user_permission (user_permissions_of v) UP_SendMessage \<longleftrightarrow>
     v_privileged v \<or> v_same v \<or> v_relationship v = RelFriend \<or>
     (v_relationship v \<notin> {RelBlocked, RelBlockedOther} \<and> v_mutual v \<and>
      (v_user_bot v \<or> v_bot v))"
  by (cases "v_relationship v")
     (auto simp: user_permissions_of_def has_user_permission_def pv_has_def)

section \<open>Properties\<close>

text \<open>
  C2: The server permissions computed for a member who is neither privileged nor the owner
  are, bit by bit: the most senior role the member holds that mentions the permission
  decides it (a denial beating a grant inside one role), else the server's default does; a
  voice-muted member lacks Speak and Video, a deafened one Listen, and a timed-out member
  keeps at most ViewChannel and ReadMessageHistory. The computation always returns.
\<close>

theorem member_permission_bits:
  assumes "fetches_answer db" and "\<not> u_privileged u" and "s_owner s \<noteq> u_id u"
    and "pd_fetch_member db (s_id s) (u_id u) = Ok m" and "ranks_distinct s"
  shows "\<exists>p q'. calculate_server_permissions (DatabasePermissionQuery db now) (server_query u s) =
             Some (p, q') \<and> (\<forall>n. bit p n \<longleftrightarrow> server_bit now s m n)"
proof -
  let ?q = "server_query u s"
  have "effective_member db ?q = Some m"
    using assms(4)
    by (simp add: effective_member_def server_query_def query_server_def query_new_def)
  then have "bit (server_permissions_of (view_of db now ?q)) n \<longleftrightarrow> server_bit now s m n" for n
    using assms(2,3,5)
    by (intro server_permissions_of_bit) (simp_all add: server_query_def query_server_def query_new_def)
  with server_query_result [OF assms(1)] show ?thesis
    by blast
qed

lemma reference_db_answers: "fetches_answer (reference_db w)"
  by (auto simp: fetches_answer_def reference_db_def fetch_user_def fetch_server_def
      fetch_member_def ok_or_def split: option.splits)

lemma sample_ranks: "ranks_distinct sample_server"
  by (simp add: ranks_distinct_def sample_defs)

theorem member_permission_bits_witness:
  "pd_fetch_member (reference_db sample_world) ''S'' ''A'' = Ok (sample_member ''S'' ''A'' [''M'']) \<and>
   (\<exists>p q'. calculate_server_permissions (DatabasePermissionQuery (reference_db sample_world) 0)
      (server_query (sample_user ''A'') sample_server) = Some (p, q') \<and>
      (\<forall>n. bit p n \<longleftrightarrow> server_bit 0 sample_server (sample_member ''S'' ''A'' [''M'']) n))"
proof -
  have fetch: "pd_fetch_member (reference_db sample_world) (s_id sample_server)
      (u_id (sample_user ''A'')) = Ok (sample_member ''S'' ''A'' [''M''])"
    by (simp add: reference_db_def fetch_member_def sample_defs)
  have ids: "\<not> u_privileged (sample_user ''A'')" "s_owner sample_server \<noteq> u_id (sample_user ''A'')"
    "s_id sample_server = ''S''" "u_id (sample_user ''A'') = ''A''"
    by (simp_all add: sample_defs)
  show ?thesis
    using member_permission_bits [OF reference_db_answers ids(1,2) fetch sample_ranks, of 0] fetch
    by (simp only: ids(3,4) simp_thms)
qed

text \<open>
  C1: In a channel of the server the same member has a permission exactly when it may view
  the channel and the channel's overrides for its roles (most senior first), then the
  channel's default, then the server grant it; so a channel it may not view leaves it no
  permission at all, and a timeout leaves at most viewing and reading there too.
\<close>

theorem channel_permission_bits:
  assumes "fetches_answer db" and "\<not> u_privileged u"
    and "pd_fetch_server db (tc_server t) = Ok s" and "s_owner s \<noteq> u_id u"
    and "pd_fetch_member db (s_id s) (u_id u) = Ok m" and "ranks_distinct s"
    and "hm_ok (s_roles s)" and "hm_ok (tc_role_permissions t)"
  shows "\<exists>p q'. calculate_channel_permissions (DatabasePermissionQuery db now)
               (channel_query u (TextChannel t)) = Some (p, q') \<and>
             (\<forall>n. bit p n \<longleftrightarrow> channel_bit now s t m 20 \<and> channel_bit now s t m n)"
proof -
  let ?q = "query_server s (channel_query u (TextChannel t))"
  have "effective_member db ?q = Some m"
    using assms(5)
    by (simp add: effective_member_def channel_query_def query_channel_def query_server_def
        query_new_def)
  then have "bit (server_channel_permissions_of (view_of db now ?q)) n \<longleftrightarrow>
      channel_bit now s t m 20 \<and> channel_bit now s t m n" for n
    using assms
    by (intro server_channel_bit)
       (simp_all add: channel_query_def query_channel_def query_server_def query_new_def)
  with text_query_view [OF assms(1,3,2), of now] show ?thesis
    by blast
qed

theorem channel_permission_bits_witness:
  "\<exists>p q'. calculate_channel_permissions (DatabasePermissionQuery (reference_db sample_world) 0)
      (channel_query (sample_user ''B'') (TextChannel sample_text_channel)) = Some (p, q') \<and>
      (\<forall>n. bit p n \<longleftrightarrow>
         channel_bit 0 sample_server sample_text_channel (sample_member ''S'' ''B'' [''R'']) 20 \<and>
         channel_bit 0 sample_server sample_text_channel (sample_member ''S'' ''B'' [''R'']) n)"
proof (rule channel_permission_bits [OF reference_db_answers])
  show "pd_fetch_server (reference_db sample_world) (tc_server sample_text_channel) = Ok sample_server"
    by (simp add: reference_db_def fetch_server_def sample_world_def sample_text_channel_def hm_get_def)
  show "pd_fetch_member (reference_db sample_world) (s_id sample_server) (u_id (sample_user ''B'')) =
      Ok (sample_member ''S'' ''B'' [''R''])"
    by (simp add: reference_db_def fetch_member_def sample_defs)
qed (simp_all add: sample_defs ranks_distinct_def hm_ok_def)

text \<open>
  C34: In a direct message with another user, a non-privileged participant may write exactly
  when the two are friends, or when neither has blocked the other, they share a server or a
  group, and one of the two is a bot; otherwise the participant may only view and read.
\<close>

theorem direct_message_permissions:
  assumes "fetches_answer db" and "\<not> u_privileged u"
    and "u_id u \<in> set (dm_recipients d)" and "other_recipient u d = Some r"
    and "pd_fetch_user db r = Ok v" and "u_id v = r" and "mutual_answers db u r"
  shows "\<exists>q'. calculate_channel_permissions (DatabasePermissionQuery db now)
               (channel_query u (DirectMessage d)) =
           Some (if relationship_towards u v = RelFriend \<or>
                    (relationship_towards u v \<notin> {RelBlocked, RelBlockedOther} \<and>
                     has_mutual_connection db u r = Ok True \<and> (u_bot v \<noteq> None \<or> u_bot u \<noteq> None))
                 then DEFAULT_PERMISSION_DIRECT_MESSAGE else DEFAULT_PERMISSION_VIEW_ONLY, q')"
proof -
  let ?q = "channel_query u (DirectMessage d)"
  have good: "query_good db ?q"
    using assms by (simp add: query_good_def channel_query_def query_channel_def query_new_def)
  have r: "r \<noteq> u_id u"
    using assms(4) by (auto simp: other_recipient_def find_Some_iff)
  have sel: "recipient_selected db ?q = query_user v ?q"
    using assms(4,5)
    by (simp add: recipient_selected_def dq_set_recipient_as_user_def channel_query_def
        query_channel_def query_new_def query_user_def other_recipient_def)
  have view: "v_privileged (view_of db now (query_user v ?q)) = False"
    "v_same (view_of db now (query_user v ?q)) = False"
    "v_relationship (view_of db now (query_user v ?q)) = relationship_towards u v"
    "v_mutual (view_of db now (query_user v ?q)) = (has_mutual_connection db u r = Ok True)"
    "v_user_bot (view_of db now (query_user v ?q)) = (u_bot v \<noteq> None)"
    "v_bot (view_of db now (query_user v ?q)) = (u_bot u \<noteq> None)"
    using assms r by (simp_all add: view_sels effective_mutual_def query_user_def channel_query_def
        query_channel_def query_new_def)
  have "channel_permissions_of (view_of db now ?q) (view_of db now (query_user v ?q)) x =
      (if has_user_permission (user_permissions_of (view_of db now (query_user v ?q))) UP_SendMessage
       then DEFAULT_PERMISSION_DIRECT_MESSAGE else DEFAULT_PERMISSION_VIEW_ONLY)" for x
    using assms(2,3)
    by (simp add: channel_permissions_of_def view_sels channel_query_def query_channel_def
        query_new_def channel_type_of_def)
  then show ?thesis
    using dcq.channel_permissions [OF good, of now]
    unfolding sel dcq.answers_def user_may_send view by auto
qed

theorem direct_message_permissions_witness:
  "\<exists>q'. calculate_channel_permissions
      (DatabasePermissionQuery ((reference_db sample_world)
         \<lparr>pd_fetch_mutual_server_ids := \<lambda>_ _. Ok [''S'']\<rparr>) 0)
      (channel_query (sample_user ''A'') (DirectMessage sample_dm)) =
    Some (DEFAULT_PERMISSION_VIEW_ONLY, q')"
proof -
  let ?db = "(reference_db sample_world)\<lparr>pd_fetch_mutual_server_ids := \<lambda>_ _. Ok [''S'']\<rparr>"
  have "fetches_answer ?db"
    using reference_db_answers [of sample_world] by (simp add: fetches_answer_def)
  moreover have "pd_fetch_user ?db ''B'' = Ok (sample_user ''B'')"
    by (simp add: reference_db_def fetch_user_def sample_defs)
  moreover have "mutual_answers ?db (sample_user ''A'') ''B''"
    by (simp add: mutual_answers_def has_mutual_connection_def)
  ultimately show ?thesis
    using direct_message_permissions [of ?db "sample_user ''A''" sample_dm "''B''" "sample_user ''B''" 0]
    by (simp add: other_recipient_def relationship_towards_def sample_defs)
qed

end
