(* ===== verification/Relationships.thy ===== *)
theory Relationships
  imports Access_Control
begin

text \<open>
  Friends and blocks (\<open>models/users/model.rs\<close> and the routes under \<open>routes/users\<close>). A request
  holds its own copies of the two users; every change goes to the database and to the copy.
  The four operations refine a small machine on the pair of statuses, and keep the two sides
  of every relationship in step.
\<close>

section \<open>Operations\<close>

definition set_local :: "string \<Rightarrow> relationship_status \<Rightarrow> user \<Rightarrow> user" where
  "set_local user_b status u =
     (if status = RelNone \<or> status = RelUser then retain_relations user_b u
      else push_relation user_b status u)"

definition set_relationship :: "user \<Rightarrow> user \<Rightarrow> relationship_status \<Rightarrow> user io" where
  "set_relationship self user_b status =
     bindM (set_relationship_db (u_id self) (u_id user_b) status)
       (\<lambda>_. ret (set_local (u_id user_b) status self))"

text \<open>The result is the pair of updated copies, first ours, then the target's.\<close>

definition apply_relationship ::
    "user \<Rightarrow> user \<Rightarrow> relationship_status \<Rightarrow> relationship_status \<Rightarrow> (user \<times> user) io" where
  "apply_relationship self target local remote =
     bindM (set_relationship target self remote) (\<lambda>target.
     bindM (set_relationship self target local) (\<lambda>self.
     bindM (publish_private (u_id target) (E_UserRelationship (u_id target) self target)) (\<lambda>_.
     bindM (publish_private (u_id self) (E_UserRelationship (u_id self) target self)) (\<lambda>_.
     ret (self, target)))))"

definition outgoing_count :: "user \<Rightarrow> nat" where
  "outgoing_count u =
     (case u_relations u of
        Some relations \<Rightarrow> length (filter (\<lambda>r. rel_status r = RelOutgoing) relations)
      | None \<Rightarrow> 0)"

text \<open>\<open>limit\<close> is \<open>self.limits().await.outgoing_friend_requests\<close>.\<close>

definition add_friend :: "nat \<Rightarrow> user \<Rightarrow> user \<Rightarrow> (user \<times> user) io" where
  "add_friend limit self target =
     (case relationship_with self (u_id target) of
        RelUser \<Rightarrow> throw (GeneralErr NoEffect)
      | RelFriend \<Rightarrow> throw (UserErr AlreadyFriends)
      | RelOutgoing \<Rightarrow> throw (UserErr AlreadySentRequest)
      | RelBlocked \<Rightarrow> throw (UserErr Blocked)
      | RelBlockedOther \<Rightarrow> throw (UserErr BlockedByOther)
      | RelIncoming \<Rightarrow>
          bindM (send_amqp (FriendRequestAccepted self target)) (\<lambda>_.
          apply_relationship self target RelFriend RelFriend)
      | RelNone \<Rightarrow>
          bindM (guard (outgoing_count self \<ge> limit)
                  (UserErr (TooManyPendingFriendRequests limit))) (\<lambda>_.
          bindM (send_amqp (FriendRequestReceived target self)) (\<lambda>_.
          apply_relationship self target RelOutgoing RelIncoming)))"

definition remove_friend :: "user \<Rightarrow> user \<Rightarrow> (user \<times> user) io" where
  "remove_friend self target =
     (case relationship_with self (u_id target) of
        RelFriend \<Rightarrow> apply_relationship self target RelNone RelNone
      | RelOutgoing \<Rightarrow> apply_relationship self target RelNone RelNone
      | RelIncoming \<Rightarrow> apply_relationship self target RelNone RelNone
      | _ \<Rightarrow> throw (GeneralErr NoEffect))"

definition block_user :: "user \<Rightarrow> user \<Rightarrow> (user \<times> user) io" where
  "block_user self target =
     (case relationship_with self (u_id target) of
        RelUser \<Rightarrow> throw (GeneralErr NoEffect)
      | RelBlocked \<Rightarrow> throw (GeneralErr NoEffect)
      | RelBlockedOther \<Rightarrow> apply_relationship self target RelBlocked RelBlocked
      | _ \<Rightarrow> apply_relationship self target RelBlocked RelBlockedOther)"

definition unblock_user :: "user \<Rightarrow> user \<Rightarrow> (user \<times> user) io" where
  "unblock_user self target =
     (case relationship_with self (u_id target) of
        RelBlocked \<Rightarrow>
          (case relationship_with target (u_id self) of
             RelBlocked \<Rightarrow> apply_relationship self target RelBlockedOther RelBlocked
           | RelBlockedOther \<Rightarrow> apply_relationship self target RelNone RelNone
           | _ \<Rightarrow> throw (GeneralErr InternalError))
      | _ \<Rightarrow> throw (GeneralErr NoEffect))"

section \<open>Routes\<close>

definition route_add :: "nat \<Rightarrow> user \<Rightarrow> string \<Rightarrow> (user \<times> user) io" where
  "route_add limit user target =
     bindM (fetch_user target) (\<lambda>target.
     bindM (guard (u_bot user \<noteq> None \<or> u_bot target \<noteq> None) (BotErr IsBot)) (\<lambda>_.
     add_friend limit user target))"

definition route_remove :: "user \<Rightarrow> string \<Rightarrow> (user \<times> user) io" where
  "route_remove user target =
     bindM (fetch_user target) (\<lambda>target.
     bindM (guard (u_bot user \<noteq> None \<or> u_bot target \<noteq> None) (BotErr IsBot)) (\<lambda>_.
     remove_friend user target))"

definition route_block :: "user \<Rightarrow> string \<Rightarrow> (user \<times> user) io" where
  "route_block user target = bindM (fetch_user target) (block_user user)"

definition route_unblock :: "user \<Rightarrow> string \<Rightarrow> (user \<times> user) io" where
  "route_unblock user target = bindM (fetch_user target) (unblock_user user)"

text \<open>\<open>clear_relationships\<close>: the user disappears from the lists of everyone it lists.\<close>

definition clear_relationships :: "user \<Rightarrow> unit io" where
  "clear_relationships u =
     clear_user_relationships (u_id u) (map rel_id (unwrap_or (u_relations u) []))"

section \<open>The machine on a pair of statuses\<close>

datatype rel_op = AddFriend | RemoveFriend | BlockUser | UnblockUser

text \<open>Our status, then theirs; \<open>None\<close> when the operation is refused.\<close>

fun rel_next :: "rel_op \<Rightarrow> relationship_status \<times> relationship_status \<Rightarrow>
    (relationship_status \<times> relationship_status) option" where
  "rel_next AddFriend (RelNone, _) = Some (RelOutgoing, RelIncoming)"
| "rel_next AddFriend (RelIncoming, _) = Some (RelFriend, RelFriend)"
| "rel_next RemoveFriend (RelFriend, _) = Some (RelNone, RelNone)"
| "rel_next RemoveFriend (RelOutgoing, _) = Some (RelNone, RelNone)"
| "rel_next RemoveFriend (RelIncoming, _) = Some (RelNone, RelNone)"
| "rel_next BlockUser (RelBlockedOther, _) = Some (RelBlocked, RelBlocked)"
| "rel_next BlockUser (RelNone, _) = Some (RelBlocked, RelBlockedOther)"
| "rel_next BlockUser (RelFriend, _) = Some (RelBlocked, RelBlockedOther)"
| "rel_next BlockUser (RelIncoming, _) = Some (RelBlocked, RelBlockedOther)"
| "rel_next BlockUser (RelOutgoing, _) = Some (RelBlocked, RelBlockedOther)"
| "rel_next UnblockUser (RelBlocked, RelBlocked) = Some (RelBlockedOther, RelBlocked)"
| "rel_next UnblockUser (RelBlocked, RelBlockedOther) = Some (RelNone, RelNone)"
| "rel_next _ _ = None"

fun mirrors :: "relationship_status \<Rightarrow> relationship_status \<Rightarrow> bool" where
  "mirrors RelNone RelNone = True"
| "mirrors RelFriend RelFriend = True"
| "mirrors RelOutgoing RelIncoming = True"
| "mirrors RelIncoming RelOutgoing = True"
| "mirrors RelBlocked RelBlockedOther = True"
| "mirrors RelBlockedOther RelBlocked = True"
| "mirrors RelBlocked RelBlocked = True"
| "mirrors _ _ = False"

text \<open>Either side may act.\<close>

inductive rel_step :: "relationship_status \<times> relationship_status \<Rightarrow>
    relationship_status \<times> relationship_status \<Rightarrow> bool" where
  ours: "rel_next op (a, b) = Some (a', b') \<Longrightarrow> rel_step (a, b) (a', b')"
| theirs: "rel_next op (b, a) = Some (b', a') \<Longrightarrow> rel_step (a, b) (a', b')"

inductive_cases rel_stepE: "rel_step x y"

lemma rel_next_mirrors: "rel_next op (a, b) = Some (a', b') \<Longrightarrow> mirrors a' b'"
  by (cases op; cases a; cases b) auto

lemma mirrors_sym: "mirrors a b \<Longrightarrow> mirrors b a"
  by (cases a; cases b) auto

lemma reachable_mirrors: "rel_step\<^sup>*\<^sup>* (RelNone, RelNone) (a, b) \<Longrightarrow> mirrors a b"
proof (induction "(a, b)" arbitrary: a b rule: rtranclp_induct)
  case (step y)
  then show ?case
    by (auto elim!: rel_stepE dest!: rel_next_mirrors intro: mirrors_sym)
qed simp

definition run_op :: "nat \<Rightarrow> rel_op \<Rightarrow> user \<Rightarrow> user \<Rightarrow> (user \<times> user) io" where
  "run_op limit op self target =
     (case op of
        AddFriend \<Rightarrow> add_friend limit self target
      | RemoveFriend \<Rightarrow> remove_friend self target
      | BlockUser \<Rightarrow> block_user self target
      | UnblockUser \<Rightarrow> unblock_user self target)"

section \<open>One entry of a relationship list\<close>

lemma find_filter_out: "find (\<lambda>r. rel_id r = c) (filter (\<lambda>r. rel_id r \<noteq> b) rs) =
    (if c = b then None else find (\<lambda>r. rel_id r = c) rs)"
  by (induction rs) auto

lemma find_append_one:
  "find P (xs @ [x]) = (case find P xs of Some y \<Rightarrow> Some y | None \<Rightarrow> if P x then Some x else None)"
  by (induction xs) auto

lemma u_id_set_local [simp]: "u_id (set_local b st u) = u_id u"
  by (simp add: set_local_def)

lemma relationship_set_local:
  assumes "st \<noteq> RelUser"
  shows "relationship_with (set_local b st u) c =
           (if c = b \<and> u_id u \<noteq> b then st else relationship_with u c)"
  using assms
  by (auto simp: relationship_with_def set_local_def retain_relations_def push_relation_def Let_def
      find_filter_out find_append_one split: option.splits)

section \<open>The two writes\<close>

definition users_after ::
    "user \<Rightarrow> user \<Rightarrow> relationship_status \<Rightarrow> relationship_status \<Rightarrow> world \<Rightarrow> (string, user) hmap" where
  "users_after self target local remote w =
     hm_modify (u_id self) (set_local (u_id target) local)
       (hm_modify (u_id target) (set_local (u_id self) remote) (db_users w))"

lemma set_local_fun:
  "set_local b st = (if st = RelNone \<or> st = RelUser then retain_relations b else push_relation b st)"
  by (rule ext) (simp add: set_local_def)

lemma set_relationship_db_Ok:
  "hm_get (db_users w) i = Some u \<Longrightarrow>
   set_relationship_db i j st w = (Ok (), w\<lparr>db_users := hm_modify i (set_local j st) (db_users w)\<rparr>)"
  by (auto simp: set_relationship_db_def pull_relationship_def set_local_fun)

lemma apply_relationship_Ok:
  assumes "hm_get (db_users w) (u_id self) = Some s" and "hm_get (db_users w) (u_id target) = Some t"
  shows "\<exists>w'. apply_relationship self target local remote w =
           (Ok (set_local (u_id target) local self, set_local (u_id self) remote target), w') \<and>
           db_users w' = users_after self target local remote w"
proof -
  let ?w1 = "w\<lparr>db_users := hm_modify (u_id target) (set_local (u_id self) remote) (db_users w)\<rparr>"
  have "\<exists>s'. hm_get (db_users ?w1) (u_id self) = Some s'"
    using assms by simp
  then show ?thesis
    using assms set_relationship_db_Ok [OF assms(2), of "u_id self" remote]
      set_relationship_db_Ok [of ?w1 "u_id self" _ "u_id target" local]
    by (auto simp: apply_relationship_def set_relationship_def bindM_def publish_private_def
        publish_def users_after_def)
qed

text \<open>A request works on the current copies of two different users.\<close>

definition current_pair :: "world \<Rightarrow> user \<Rightarrow> user \<Rightarrow> bool" where
  "current_pair w self target \<longleftrightarrow>
     hm_get (db_users w) (u_id self) = Some self \<and>
     hm_get (db_users w) (u_id target) = Some target \<and> u_id self \<noteq> u_id target"

definition relationship_pair :: "user \<Rightarrow> user \<Rightarrow> relationship_status \<times> relationship_status" where
  "relationship_pair a b = (relationship_with a (u_id b), relationship_with b (u_id a))"

text \<open>The outcome of an operation, as the machine predicts it.\<close>

definition op_outcome ::
    "(relationship_status \<times> relationship_status) option \<Rightarrow> user \<Rightarrow> user \<Rightarrow> world \<Rightarrow>
     (error_type, user \<times> user) outcome \<times> world \<Rightarrow> bool" where
  "op_outcome next self target w r \<longleftrightarrow>
     (case next of
        Some (l, rm) \<Rightarrow>
          (\<exists>w'. r = (Ok (set_local (u_id target) l self, set_local (u_id self) rm target), w') \<and>
                db_users w' = users_after self target l rm w)
      | None \<Rightarrow> (\<exists>e. r = (Err e, w)))"

lemma apply_relationship_outcome:
  "current_pair w self target \<Longrightarrow>
   op_outcome (Some (l, rm)) self target w (apply_relationship self target l rm w)"
  using apply_relationship_Ok [of w self self target target l rm]
  by (auto simp: current_pair_def op_outcome_def)

lemma amqp_outcome:
  assumes "current_pair w self target"
  shows "op_outcome (Some (l, rm)) self target w
           (bindM (send_amqp a) (\<lambda>_. apply_relationship self target l rm) w)"
proof -
  let ?w = "w\<lparr>w_amqp := w_amqp w @ [a]\<rparr>"
  have "current_pair ?w self target"
    using assms by (simp add: current_pair_def)
  from apply_relationship_outcome [OF this, of l rm] show ?thesis
    by (simp add: op_outcome_def send_amqp_def bindM_def users_after_def)
qed

lemma run_op_refines:
  assumes "current_pair w self target" and "op = AddFriend \<Longrightarrow> outgoing_count self < limit"
  shows "op_outcome (rel_next op (relationship_pair self target)) self target w
           (run_op limit op self target w)"
proof -
  note outcomes = apply_relationship_outcome [OF assms(1)] amqp_outcome [OF assms(1)]
  have refuse: "op_outcome None self target w (throw e w)" for e
    by (simp add: op_outcome_def)
  show ?thesis
  proof (cases op)
    case AddFriend
    then show ?thesis
      using assms(2) refuse
      by (cases "relationship_with self (u_id target)")
         (simp_all add: run_op_def add_friend_def relationship_pair_def outcomes not_le)
  next
    case RemoveFriend
    then show ?thesis
      using refuse
      by (cases "relationship_with self (u_id target)")
         (simp_all add: run_op_def remove_friend_def relationship_pair_def outcomes)
  next
    case BlockUser
    then show ?thesis
      using refuse
      by (cases "relationship_with self (u_id target)")
         (simp_all add: run_op_def block_user_def relationship_pair_def outcomes)
  next
    case UnblockUser
    then show ?thesis
      using refuse
      by (cases "relationship_with self (u_id target)"; cases "relationship_with target (u_id self)")
         (simp_all add: run_op_def unblock_user_def relationship_pair_def outcomes)
  qed
qed

section \<open>Both sides stay in step\<close>

definition friends_ok :: "world \<Rightarrow> bool" where
  "friends_ok w \<longleftrightarrow>
     (\<forall>i j a b. hm_get (db_users w) i = Some a \<longrightarrow> hm_get (db_users w) j = Some b \<longrightarrow> i \<noteq> j \<longrightarrow>
        mirrors (relationship_with a j) (relationship_with b i))"

lemma users_after_get:
  assumes "current_pair w self target"
  shows "hm_get (users_after self target l rm w) i =
    (if i = u_id self then Some (set_local (u_id target) l self)
     else if i = u_id target then Some (set_local (u_id self) rm target)
     else hm_get (db_users w) i)"
  using assms by (auto simp: users_after_def current_pair_def)

lemma users_after_mirrors:
  assumes "current_pair w self target" and "friends_ok w" and "mirrors l rm"
    and "db_users w' = users_after self target l rm w"
  shows "friends_ok w'"
  unfolding friends_ok_def
proof (intro allI impI)
  fix i j a b
  assume got: "hm_get (db_users w') i = Some a" "hm_get (db_users w') j = Some b" and "i \<noteq> j"
  have st: "l \<noteq> RelUser" "rm \<noteq> RelUser"
    using assms(3) by (cases l; cases rm; simp)+
  have old: "mirrors (relationship_with x n) (relationship_with y m)"
    if "hm_get (db_users w) m = Some x" "hm_get (db_users w) n = Some y" "m \<noteq> n" for m n x y
    using assms(2) that by (auto simp: friends_ok_def)
  have pair: "hm_get (db_users w) (u_id self) = Some self"
    "hm_get (db_users w) (u_id target) = Some target" "u_id self \<noteq> u_id target"
    using assms(1) by (simp_all add: current_pair_def)
  from got show "mirrors (relationship_with a j) (relationship_with b i)"
    using pair \<open>i \<noteq> j\<close> st assms(3) mirrors_sym [OF assms(3)] old
    unfolding assms(4) users_after_get [OF assms(1)]
    by (auto simp: relationship_set_local split: if_splits)
qed

section \<open>Requests that cross\<close>

text \<open>
  The writes of one friend request from \<open>a\<close> to \<open>b\<close>, in the order \<open>apply_relationship\<close> makes
  them; requests that read the database before either wrote may interleave them.
\<close>

definition request_writes :: "string \<Rightarrow> string \<Rightarrow> unit io list" where
  "request_writes a b =
     [set_relationship_db b a RelIncoming, set_relationship_db a b RelOutgoing]"

definition run_writes :: "unit io list \<Rightarrow> world \<Rightarrow> world" where
  "run_writes ws w = fold (\<lambda>f w. snd (f w)) ws w"

lemma sample_pair:
  "current_pair sample_world (sample_user ''A'') (sample_user ''B'')"
  "relationship_pair (sample_user ''A'') (sample_user ''B'') = (RelNone, RelNone)"
  "outgoing_count (sample_user ''A'') = 0"
  "u_id (sample_user i) = i"
  by (simp_all add: current_pair_def relationship_pair_def relationship_with_def outgoing_count_def
      sample_defs)

section \<open>Properties\<close>



text \<open>
  C6: If the two sides of every relationship in the database mirror each other, they still
  do after any of the four operations, whatever its outcome.
\<close>

theorem relationships_stay_mirrored:
  assumes "friends_ok w" and "current_pair w self target"
    and "op = AddFriend \<longrightarrow> outgoing_count self < limit"
  shows "friends_ok (snd (run_op limit op self target w))"
proof (cases "rel_next op (relationship_pair self target)")
  case None
  with run_op_refines [OF assms(2), of op limit] assms show ?thesis
    by (auto simp: op_outcome_def)
next
  case (Some p)
  obtain l r where p: "p = (l, r)"
    by (cases p)
  have "mirrors l r"
    using Some p by (cases "relationship_pair self target") (auto dest: rel_next_mirrors)
  with run_op_refines [OF assms(2), of op limit] users_after_mirrors [OF assms(2,1)] assms(3) Some p
  show ?thesis
    by (auto simp: op_outcome_def)
qed

theorem relationships_stay_mirrored_witness:
  "friends_ok (snd (run_op 1 BlockUser (sample_user ''A'') (sample_user ''B'') sample_world))"
proof (rule relationships_stay_mirrored)
  show "friends_ok sample_world"
    by (auto simp: friends_ok_def relationship_with_def sample_defs split: if_splits)
qed (simp_all add: sample_pair)



end
