(* ===== verification/Bulk_Permissions.thy ===== *)
theory Bulk_Permissions
  imports Access_Control
begin

unbundle bit_operations_syntax

text \<open>
  \<open>BulkDatabasePermissionQuery\<close> (\<open>util/bulk_permissions.rs\<close>): the permissions of many members
  in one server channel, computed from one pass over the database. It repeats the role walk of
  the calculators of \<open>Permissions\<close> without the mutes, without the second timeout and
  without the rule that an invisible channel leaves nothing; the theorem below shows that the
  answer its one caller asks for, who can see the channel, is still the answer of
  \<open>calculate_channel_permissions\<close>.
\<close>

record bulk_query =
  bq_server :: server
  bq_channel :: "channel option"
  bq_users :: "user list option"
  bq_members :: "member list option"
  bq_cached_users :: "user list option"
  bq_cached_members :: "member list option"
  bq_cached_member_perms :: "(string, u64) hmap option"

definition bulk_new :: "server \<Rightarrow> bulk_query" where
  "bulk_new s =
     \<lparr>bq_server = s, bq_channel = None, bq_users = None, bq_members = None,
      bq_cached_users = None, bq_cached_members = None, bq_cached_member_perms = None\<rparr>"

definition bulk_from_server_id :: "string \<Rightarrow> bulk_query io" where
  "bulk_from_server_id ident =
     bindM (expect ''called Result::unwrap() on an Err value'' (fetch_server ident))
       (\<lambda>s. ret (bulk_new s))"

definition bulk_channel :: "channel \<Rightarrow> bulk_query \<Rightarrow> bulk_query" where
  "bulk_channel c q = q\<lparr>bq_channel := Some c\<rparr>"

definition bulk_from_channel_id :: "string \<Rightarrow> bulk_query \<Rightarrow> bulk_query io" where
  "bulk_from_channel_id ident q =
     bindM (expect ''Valid channel id'' (fetch_channel ident)) (\<lambda>c. ret (bulk_channel c q))"

definition bulk_members :: "member list \<Rightarrow> bulk_query \<Rightarrow> bulk_query" where
  "bulk_members ms q =
     q\<lparr>bq_members := Some ms, bq_cached_member_perms := None, bq_users := None,
       bq_cached_members := None, bq_cached_users := None\<rparr>"

definition bulk_users :: "user list \<Rightarrow> bulk_query \<Rightarrow> bulk_query" where
  "bulk_users us q =
     q\<lparr>bq_users := Some us, bq_cached_member_perms := None, bq_members := None,
       bq_cached_members := None, bq_cached_users := None\<rparr>"

section \<open>The calculation\<close>

definition calculate_server_permissions_bulk ::
    "timestamp \<Rightarrow> server \<Rightarrow> user \<Rightarrow> member \<Rightarrow> u64" where
  "calculate_server_permissions_bulk now server user member =
     (if u_privileged user \<or> s_owner server = u_id user
      then channel_permission_value CP_GrantAllSafe
      else
        let permissions = as_u64 (s_default_permissions server);
            roles = map (\<lambda>(_, role). (r_rank role, field_into_override (r_permissions role)))
                      (filter (\<lambda>(ident, _). ident \<in> set (m_roles member)) (s_roles server));
            permissions = fold (\<lambda>(_, v) p. pv_apply p v) (sort_desc roles) permissions
        in if in_timeout now member then pv_restrict permissions ALLOW_IN_TIMEOUT
           else permissions)"

definition member_channel_permissions ::
    "timestamp \<Rightarrow> server \<Rightarrow> (string, override_field) hmap \<Rightarrow> override_field option \<Rightarrow>
     (string, member) hmap \<Rightarrow> user \<Rightarrow> u64" where
  "member_channel_permissions now server role_permissions default_permissions members user =
     (case hm_get members (u_id user) of
        None \<Rightarrow> 0
      | Some member \<Rightarrow>
          if u_privileged user then channel_permission_value CP_GrantAllSafe
          else if u_id user = s_owner server then channel_permission_value CP_GrantAllSafe
          else
            let permission = calculate_server_permissions_bulk now server user member;
                permission = (case default_permissions of
                                Some d \<Rightarrow> pv_apply permission (field_into_override d)
                              | None \<Rightarrow> permission);
                roles = List.map_filter
                          (\<lambda>(ident, p). map_option (\<lambda>role. (r_rank role, field_into_override p))
                             (hm_get (s_roles server) ident))
                          (filter (\<lambda>(ident, _). ident \<in> set (m_roles member)) role_permissions)
            in fold (\<lambda>(_, v) p. pv_apply p v) (sort_desc roles) permission)"

text \<open>
  The fetches fill the list that was not given: users of the members, or members of the users.
  The state is the database beside the query.
\<close>

definition bulk_load_users :: "bulk_query \<Rightarrow> bulk_query io" where
  "bulk_load_users q =
     (case bq_users q of
        Some _ \<Rightarrow> ret q
      | None \<Rightarrow>
          (case bq_members q of
             None \<Rightarrow> panic ''No users or members added to the query''
           | Some ms \<Rightarrow>
               bindM (expect ''Failed to get data from the db''
                       (fetch_users (map (\<lambda>m. mk_user (m_id m)) ms)))
                 (\<lambda>us. ret (q\<lparr>bq_cached_users := Some us, bq_users := Some us\<rparr>))))"

definition bulk_load_members :: "bulk_query \<Rightarrow> bulk_query io" where
  "bulk_load_members q =
     (case bq_members q of
        Some _ \<Rightarrow> ret q
      | None \<Rightarrow>
          (case bq_users q of
             None \<Rightarrow> panic ''No users or members added to the query''
           | Some us \<Rightarrow>
               bindM (expect ''Failed to get data from the db''
                       (fetch_members (s_id (bq_server q)) (map u_id us)))
                 (\<lambda>ms. ret (q\<lparr>bq_cached_members := Some ms, bq_members := Some ms\<rparr>))))"

definition members_by_user :: "member list \<Rightarrow> (string, member) hmap" where
  "members_by_user ms = fold (\<lambda>m. hm_insert (mk_user (m_id m)) m) ms []"

definition calculate_members_permissions ::
    "timestamp \<Rightarrow> bulk_query \<Rightarrow> ((string, u64) hmap \<times> bulk_query) io" where
  "calculate_members_permissions now q =
     (case bq_channel q of
        None \<Rightarrow> panic ''A channel must be assigned to calculate channel permissions''
      | Some (TextChannel t) \<Rightarrow>
          bindM (bulk_load_users q) (\<lambda>q. bindM (bulk_load_members q) (\<lambda>q.
            let members = members_by_user (unwrap_or (bq_members q) []);
                permission = member_channel_permissions now (bq_server q) (tc_role_permissions t)
                               (tc_default_permissions t) members
            in ret (fold (\<lambda>u. hm_insert (u_id u) (permission u)) (unwrap_or (bq_users q) []) [], q)))
      | Some _ \<Rightarrow> panic ''Calculation of member permissions must be done on a server channel'')"

definition members_can_see_channel :: "timestamp \<Rightarrow> bulk_query \<Rightarrow> ((string, bool) hmap \<times> bulk_query) io" where
  "members_can_see_channel now q =
     (let view = map (\<lambda>(m, p). (m, has_channel_permission p CP_ViewChannel))
      in case bq_cached_member_perms q of
           Some perms \<Rightarrow> ret (view perms, q)
         | None \<Rightarrow> bindM (calculate_members_permissions now q) (\<lambda>(perms, q). ret (view perms, q)))"

section \<open>Agreement with the calculators\<close>

lemma fold_overrides: "fold (\<lambda>(_, v) p. pv_apply p v) xs p = apply_overrides (map snd xs) p"
  by (induction xs arbitrary: p) (auto simp: apply_overrides_def)

lemma hm_get_members_by_user:
  assumes "distinct (map (\<lambda>m. mk_user (m_id m)) ms)" and "m \<in> set ms"
  shows "hm_get (members_by_user ms) (mk_user (m_id m)) = Some m"
proof -
  have "hm_get (fold (\<lambda>m. hm_insert (mk_user (m_id m)) m) ms acc) (mk_user (m_id m)) = Some m"
    if "distinct (map (\<lambda>m. mk_user (m_id m)) ms)" "m \<in> set ms \<or> hm_get acc (mk_user (m_id m)) = Some m \<and>
      mk_user (m_id m) \<notin> (\<lambda>m. mk_user (m_id m)) ` set ms" for acc
    using that
  proof (induction ms arbitrary: acc)
    case (Cons a ms)
    from Cons.prems show ?case
      by (simp, intro Cons.IH) auto
  qed simp
  from this [of "[]"] assms show ?thesis
    by (simp add: members_by_user_def)
qed

lemma hm_get_fold_insert:
  assumes "u \<in> set us" and "\<And>v. v \<in> set us \<Longrightarrow> u_id v = u_id u \<Longrightarrow> v = u"
  shows "hm_get (fold (\<lambda>u. hm_insert (u_id u) (f u)) us acc) (u_id u) = Some (f u)"
proof -
  have keep: "hm_get acc (u_id u) = Some (f u) \<Longrightarrow> (\<And>v. v \<in> set us \<Longrightarrow> u_id v = u_id u \<Longrightarrow> v = u) \<Longrightarrow>
      hm_get (fold (\<lambda>u. hm_insert (u_id u) (f u)) us acc) (u_id u) = Some (f u)" for acc us
  proof (induction us arbitrary: acc)
    case (Cons a us)
    have "hm_get (hm_insert (u_id a) (f a) acc) (u_id u) = Some (f u)"
      using Cons.prems(1) Cons.prems(2) [of a] by (cases "u_id a = u_id u") simp_all
    with Cons.IH Cons.prems(2) show ?case
      by simp
  qed simp
  from assms show ?thesis
  proof (induction us arbitrary: acc)
    case (Cons a us)
    then show ?case
      by (cases "a = u") (simp_all add: keep)
  qed simp
qed

lemma hm_get_map_value: "hm_get (map (\<lambda>(k, v). (k, g v)) xs) k = map_option g (hm_get xs k)"
  by (induction xs) (auto simp: hm_get_def)

lemma bulk_server_bit:
  assumes "\<not> u_privileged u" and "s_owner s \<noteq> u_id u" and "ranks_distinct s"
  shows "bit (calculate_server_permissions_bulk now s u m) 20 \<longleftrightarrow> server_bit now s m 20"
proof -
  have "apply_overrides (map snd (sort_desc
          (map (\<lambda>(_, role). (r_rank role, field_into_override (r_permissions role)))
             (filter (\<lambda>(ident, _). ident \<in> set (m_roles m)) (s_roles s))))) p =
      apply_overrides (server_role_overrides s (m_roles m)) p" for p
    by (simp add: server_role_overrides_def)
  with assms show ?thesis
    by (auto simp: calculate_server_permissions_bulk_def fold_overrides Let_def server_bit_def
        bit_rules bit_ALLOW_IN_TIMEOUT senior_overrides_rev)
qed

lemma bulk_channel_bit:
  assumes "hm_get members (u_id u) = Some m"
    and "\<not> u_privileged u" and "s_owner s \<noteq> u_id u"
    and "ranks_distinct s" and "hm_ok (s_roles s)" and "hm_ok (tc_role_permissions t)"
  shows "bit (member_channel_permissions now s (tc_role_permissions t) (tc_default_permissions t)
            members u) 20 \<longleftrightarrow> channel_bit now s t m 20"
proof -
  let ?p = "calculate_server_permissions_bulk now s u m"
  let ?d = "field_into_override (unwrap_or (tc_default_permissions t) default_override_field)"
  have "bit (case tc_default_permissions t of Some d \<Rightarrow> pv_apply ?p (field_into_override d) | None \<Rightarrow> ?p) 20
      \<longleftrightarrow> decide [?d] 20 (bit ?p 20)"
    by (auto simp: bit_pv_apply_decide field_into_override_def default_override_field_def as_u64_def
        split: option.splits)
  with assms bulk_server_bit [OF assms(2-4), of now m] show ?thesis
    by (auto simp: member_channel_permissions_def Let_def fold_overrides bit_apply_overrides
        channel_bit_def senior_channel_overrides_rev [OF assms(4-6), symmetric]
        channel_role_overrides_def)
qed

lemma grant_all_view: "bit (channel_permission_value CP_GrantAllSafe) 20"
  by (simp add: bit_numeral_rec)

lemma member_view_bit:
  assumes "hm_get members (u_id u) = Some m"
    and "ranks_distinct s" and "hm_ok (s_roles s)" and "hm_ok (tc_role_permissions t)"
  shows "bit (member_channel_permissions now s (tc_role_permissions t) (tc_default_permissions t)
            members u) 20 \<longleftrightarrow> u_privileged u \<or> s_owner s = u_id u \<or> channel_bit now s t m 20"
proof (cases "u_privileged u \<or> s_owner s = u_id u")
  case True
  with assms(1) grant_all_view show ?thesis
    by (auto simp: member_channel_permissions_def)
next
  case False
  with bulk_channel_bit [OF assms(1) _ _ assms(2-4)] show ?thesis
    by simp
qed

lemma privileged_query_view:
  assumes "fetches_answer db" and "u_privileged u"
  shows "\<exists>q'. calculate_channel_permissions (DatabasePermissionQuery db now)
             (channel_query u (TextChannel t)) = Some (channel_permission_value CP_GrantAllSafe, q')"
  using dcq.channel_permissions [OF text_query_good [OF assms(1)], of now u t] assms(2)
  by (auto simp: dcq.answers_def channel_permissions_of_def view_sels channel_query_def
      query_channel_def query_new_def)

lemma full_view_bit:
  assumes "fetches_answer db" and "pd_fetch_server db (tc_server t) = Ok s"
    and "pd_fetch_member db (s_id s) (u_id u) = Ok m"
    and "ranks_distinct s" and "hm_ok (s_roles s)" and "hm_ok (tc_role_permissions t)"
  shows "\<exists>p q'. calculate_channel_permissions (DatabasePermissionQuery db now)
             (channel_query u (TextChannel t)) = Some (p, q') \<and>
           (bit p 20 \<longleftrightarrow> u_privileged u \<or> s_owner s = u_id u \<or> channel_bit now s t m 20)"
proof (cases "u_privileged u")
  case True
  with privileged_query_view [OF assms(1)] grant_all_view show ?thesis
    by blast
next
  case False
  let ?q = "query_server s (channel_query u (TextChannel t))"
  have q: "dq_server ?q = Some s" "effective_member db ?q = Some m"
    "dq_channel ?q = Some (TextChannel t)" "dq_perspective ?q = u"
    using assms(3) by (simp_all add: effective_member_def channel_query_def query_channel_def
        query_server_def query_new_def)
  have "bit (server_channel_permissions_of (view_of db now ?q)) 20 \<longleftrightarrow>
      s_owner s = u_id u \<or> channel_bit now s t m 20"
  proof (cases "s_owner s = u_id u")
    case True
    with q grant_all_view show ?thesis
      by (simp add: server_channel_permissions_of_def view_sels)
  next
    case owner: False
    with server_channel_bit [OF q(1-3), unfolded q(4), OF False owner assms(4-6), of now 20]
    show ?thesis by simp
  qed
  with text_query_view [OF assms(1,2) False] False show ?thesis
    by blast
qed

section \<open>A run of the bulk query\<close>

lemma fetch_members_set:
  assumes "world_ok w" and "fetch_members sid ids w = (Ok ms, w)"
  shows "set (map (\<lambda>m. mk_user (m_id m)) ms) \<subseteq> set ids"
    and "m \<in> set ms \<longleftrightarrow> mk_user (m_id m) \<in> set ids \<and>
           hm_get (db_server_members w) \<lparr>mk_server = sid, mk_user = mk_user (m_id m)\<rparr> = Some m"
proof -
  have keyed: "keyed m_id (db_server_members w)"
    using assms(1) by (simp add: world_ok_def)
  have ms: "set ms = {m. \<exists>i\<in>set ids. hm_get (db_server_members w) \<lparr>mk_server = sid, mk_user = i\<rparr> = Some m}"
    using assms(2) set_map_filter_iff [of _ "\<lambda>i. hm_get (db_server_members w) \<lparr>mk_server = sid, mk_user = i\<rparr>" ids]
    by (auto simp: fetch_members_def)
  have "mk_user (m_id m) = i" if "hm_get (db_server_members w) \<lparr>mk_server = sid, mk_user = i\<rparr> = Some m" for i m
    using keyed_get [OF keyed that] by simp
  with ms show "set (map (\<lambda>m. mk_user (m_id m)) ms) \<subseteq> set ids"
    and "m \<in> set ms \<longleftrightarrow> mk_user (m_id m) \<in> set ids \<and>
           hm_get (db_server_members w) \<lparr>mk_server = sid, mk_user = mk_user (m_id m)\<rparr> = Some m"
    by auto
qed

lemma fetch_members_distinct:
  assumes "world_ok w" and "fetch_members sid ids w = (Ok ms, w)" and "distinct ids"
  shows "distinct (map (\<lambda>m. mk_user (m_id m)) ms)"
proof -
  have keyed: "keyed m_id (db_server_members w)"
    using assms(1) by (simp add: world_ok_def)
  have "map (\<lambda>m. mk_user (m_id m)) ms =
      filter (\<lambda>i. hm_get (db_server_members w) \<lparr>mk_server = sid, mk_user = i\<rparr> \<noteq> None) ids"
  proof -
    have "map (\<lambda>m. mk_user (m_id m))
        (List.map_filter (\<lambda>i. hm_get (db_server_members w) \<lparr>mk_server = sid, mk_user = i\<rparr>) ids) =
        filter (\<lambda>i. hm_get (db_server_members w) \<lparr>mk_server = sid, mk_user = i\<rparr> \<noteq> None) ids" for ids
      by (induction ids) (auto simp: map_filter_simps split: option.splits dest: keyed_get [OF keyed])
    with assms(2) show ?thesis
      by (auto simp: fetch_members_def)
  qed
  with assms(3) show ?thesis
    by simp
qed

lemma fetch_users_all:
  assumes "\<And>i. i \<in> set ids \<Longrightarrow> hm_contains (db_users w) i"
  shows "fetch_users ids w = (Ok (map (\<lambda>i. the (hm_get (db_users w) i)) ids), w)"
proof -
  have "collect_results (\<lambda>i. ok_or not_found (hm_get (db_users w) i)) ids =
      Ok (map (\<lambda>i. the (hm_get (db_users w) i)) ids)"
    unfolding collect_results_Ok list_all2_map2 using assms by (auto intro!: list.rel_refl_strong)
  then show ?thesis
    by (simp add: fetch_users_def)
qed

lemma members_can_see_users:
  assumes "members_can_see_channel now
      (bulk_members ms (bulk_channel (TextChannel t) (bulk_new s))) w = (Ok r, w')"
  shows "\<forall>m\<in>set ms. hm_contains (db_users w) (mk_user (m_id m))"
proof -
  from assms obtain us where "fetch_users (map (\<lambda>m. mk_user (m_id m)) ms) w = (Ok us, w)"
    by (auto simp: members_can_see_channel_def calculate_members_permissions_def bulk_load_users_def
        bulk_members_def bulk_channel_def bulk_new_def expect_def bindM_eq_Ok fetch_users_def
        split: outcome.splits)
  then have "list_all2 (\<lambda>m u. hm_get (db_users w) (mk_user (m_id m)) = Some u) ms us"
    by (simp add: fetch_users_def collect_results_Ok list_all2_map1)
  then show ?thesis
    by (auto simp: list_all2_conv_all_nth set_conv_nth)
qed

lemma members_can_see_run:
  assumes "world_ok w" and "fetch_members (s_id s) ids w = (Ok ms, w)" and "distinct ids"
    and "\<forall>m\<in>set ms. hm_contains (db_users w) (mk_user (m_id m))"
  shows "\<exists>seen q'. members_can_see_channel now
             (bulk_members ms (bulk_channel (TextChannel t) (bulk_new s))) w = (Ok (seen, q'), w) \<and>
           (\<forall>m\<in>set ms. \<forall>u. hm_get (db_users w) (mk_user (m_id m)) = Some u \<longrightarrow>
              hm_get (members_by_user ms) (u_id u) = Some m \<and>
              hm_get seen (mk_user (m_id m)) =
                Some (bit (member_channel_permissions now s (tc_role_permissions t)
                        (tc_default_permissions t) (members_by_user ms) u) 20))"
proof -
  let ?users = "map (\<lambda>m. the (hm_get (db_users w) (mk_user (m_id m)))) ms"
  let ?f = "member_channel_permissions now s (tc_role_permissions t) (tc_default_permissions t)
      (members_by_user ms)"
  let ?perms = "fold (\<lambda>u. hm_insert (u_id u) (?f u)) ?users []"
  let ?seen = "map (\<lambda>(m, p). (m, has_channel_permission p CP_ViewChannel)) ?perms"
  have keyed: "keyed u_id (db_users w)"
    using assms(1) by (simp add: world_ok_def)
  have ids: "hm_contains (db_users w) (mk_user (m_id m))" if "m \<in> set ms" for m
    using that assms(4) by blast
  then have "fetch_users (map (\<lambda>m. mk_user (m_id m)) ms) w = (Ok ?users, w)"
    by (subst fetch_users_all) (auto simp: comp_def)
  then have run: "\<exists>q'. members_can_see_channel now
      (bulk_members ms (bulk_channel (TextChannel t) (bulk_new s))) w = (Ok (?seen, q'), w)"
    by (simp add: members_can_see_channel_def calculate_members_permissions_def bulk_load_users_def
        bulk_load_members_def bulk_members_def bulk_channel_def bulk_new_def expect_def bindM_def)
  have user: "hm_get (members_by_user ms) (u_id u) = Some m \<and> hm_get ?seen (mk_user (m_id m)) = Some (bit (?f u) 20)"
    if m: "m \<in> set ms" and u: "hm_get (db_users w) (mk_user (m_id m)) = Some u" for m u
  proof -
    have uid: "u_id u = mk_user (m_id m)"
      using keyed_get [OF keyed u] .
    have "u \<in> set ?users"
      using m u by (auto intro!: image_eqI [of _ _ m])
    moreover have "v = u" if "v \<in> set ?users" "u_id v = u_id u" for v
    proof -
      from that(1) ids obtain k where "hm_get (db_users w) k = Some v"
        by fastforce
      with that(2) u uid show ?thesis
        using keyed_get [OF keyed] by fastforce
    qed
    ultimately have "hm_get ?perms (u_id u) = Some (?f u)"
      by (rule hm_get_fold_insert)
    moreover have "hm_get (members_by_user ms) (mk_user (m_id m)) = Some m"
      using fetch_members_distinct [OF assms(1-3)] m by (rule hm_get_members_by_user)
    ultimately show ?thesis
      using uid by (simp add: hm_get_map_value view_flag)
  qed
  with run show ?thesis
    by blast
qed

lemma full_view_seen:
  assumes "world_ok w" and "hm_get (db_servers w) (tc_server t) = Some s"
    and "fetch_members (s_id s) ids w = (Ok ms, w)"
    and "ranks_distinct s" and "hm_ok (tc_role_permissions t)"
    and "m \<in> set ms" and "hm_get (db_users w) (mk_user (m_id m)) = Some u"
    and "hm_get (members_by_user ms) (u_id u) = Some m"
  shows "\<exists>p q''. calculate_channel_permissions (DatabasePermissionQuery (reference_db w) now)
             (channel_query u (TextChannel t)) = Some (p, q'') \<and>
           (has_channel_permission p CP_ViewChannel \<longleftrightarrow>
              bit (member_channel_permissions now s (tc_role_permissions t) (tc_default_permissions t)
                    (members_by_user ms) u) 20)"
proof -
  have ok: "keyed u_id (db_users w)" "hm_ok (s_roles s)"
    using assms(1,2) by (auto simp: world_ok_def keyed_def)
  have server: "pd_fetch_server (reference_db w) (tc_server t) = Ok s"
    using assms(2) by (simp add: reference_db_def fetch_server_def)
  have "pd_fetch_member (reference_db w) (s_id s) (u_id u) = Ok m"
    using fetch_members_set(2) [OF assms(1,3), of m] assms(6) keyed_get [OF ok(1) assms(7)]
    by (simp add: reference_db_def fetch_member_def)
  from full_view_bit [OF reference_db_answers server this assms(4) ok(2) assms(5), of now]
  show ?thesis
    unfolding view_flag member_view_bit [OF assms(8,4) ok(2) assms(5)] .
qed

lemma members_can_see_agrees:
  assumes "world_ok w" and "hm_get (db_servers w) (tc_server t) = Some s"
    and "fetch_members (s_id s) ids w = (Ok ms, w)" and "distinct ids"
    and "ranks_distinct s" and "hm_ok (tc_role_permissions t)"
    and run: "members_can_see_channel now
        (bulk_members ms (bulk_channel (TextChannel t) (bulk_new s))) w = (Ok (seen, q'), w)"
    and mu: "m \<in> set ms" "hm_get (db_users w) (mk_user (m_id m)) = Some u"
  shows "\<exists>p q''. calculate_channel_permissions (DatabasePermissionQuery (reference_db w) now)
             (channel_query u (TextChannel t)) = Some (p, q'') \<and>
           hm_get seen (mk_user (m_id m)) = Some (has_channel_permission p CP_ViewChannel)"
  using members_can_see_run [OF assms(1,3,4) members_can_see_users [OF run], of now t] run mu
    full_view_seen [OF assms(1-3,5,6) mu, of now]
  by force


lemma sample_world_ok: "world_ok sample_world"
  by (auto simp: world_ok_def keyed_def hm_ok_def sample_world_def empty_world_def hm_get_def
      sample_user_def sample_server_def sample_role_def sample_member_def sample_text_channel_def
      sample_group_def sample_dm_def default_user_def default_member_def split: if_splits)

lemma sample_fetches:
  "fetch_members (s_id sample_server) [''A'', ''B''] sample_world =
     (Ok [sample_member ''S'' ''A'' [''M''], sample_member ''S'' ''B'' [''R'']], sample_world)"
  "hm_get (db_servers sample_world) (tc_server sample_text_channel) = Some sample_server"
  "hm_get (db_users sample_world) ''A'' = Some (sample_user ''A'')"
  "hm_get (db_users sample_world) ''B'' = Some (sample_user ''B'')"
  "hm_ok (tc_role_permissions sample_text_channel)"
  by (simp_all add: fetch_members_def map_filter_simps sample_world_def sample_text_channel_def
      sample_server_def hm_get_def hm_ok_def)


end
