(* ===== verification/Messaging.thy ===== *)
theory Messaging
  imports Bulk_Permissions
begin

unbundle bit_operations_syntax

text \<open>
  What happens to a message once it exists (\<open>models/messages/model.rs\<close>, the routes
  \<open>message_poll.rs\<close>): sending it with its events and tasks, updating, reacting, voting in its
  poll, deleting.
\<close>

section \<open>Authors\<close>

datatype message_author =
    MA_User user
  | MA_Webhook webhook
  | MA_System string "string option"

fun author_id :: "message_author \<Rightarrow> string" where
  "author_id (MA_User u) = u_id u"
| "author_id (MA_Webhook h) = wh_id h"
| "author_id (MA_System _ _) = system_author"

definition message_webhook_of :: "webhook \<Rightarrow> message_webhook" where
  "message_webhook_of h = \<lparr>mw_name = wh_name h, mw_avatar = map_option f_id (wh_avatar h)\<rparr>"

section \<open>Sending\<close>

definition send_without_notifications ::
    "message \<Rightarrow> user option \<Rightarrow> member option \<Rightarrow> bool \<Rightarrow> bool \<Rightarrow> bool \<Rightarrow> unit io" where
  "send_without_notifications m user member is_dm generate_embeds mentions_elsewhere =
     bindM (insert_message m) (\<lambda>_.
     bindM (publish (ms_channel m) (E_Message m user member)) (\<lambda>_.
     bindM (queue_task (T_LastMessageId (ms_channel m) (ms_id m) is_dm)) (\<lambda>_.
     bindM (case (mentions_elsewhere, ms_mentions m) of
              (False, Some mentions) \<Rightarrow>
                queue_task (T_Ack (ms_channel m) None
                  (ProcessMessage [(None, m, mentions, has_suppressed_notifications m)]))
            | _ \<Rightarrow> ret ()) (\<lambda>_.
     case (generate_embeds, ms_content m) of
       (True, Some content) \<Rightarrow> queue_task (T_Embeds (ms_channel m) (ms_id m) content)
     | _ \<Rightarrow> ret ()))))"

definition notified :: "message_author \<Rightarrow> channel \<Rightarrow> message \<Rightarrow> string list" where
  "notified author c m =
     (case c of
        DirectMessage d \<Rightarrow> filter (\<lambda>uid. uid \<noteq> author_id author) (dm_recipients d)
      | Group g \<Rightarrow> filter (\<lambda>uid. uid \<noteq> author_id author) (g_recipients g)
      | TextChannel _ \<Rightarrow> unwrap_or (ms_mentions m) []
      | SavedMessages _ \<Rightarrow> [])"

definition send_message ::
    "message \<Rightarrow> message_author \<Rightarrow> user option \<Rightarrow> member option \<Rightarrow> channel \<Rightarrow> bool \<Rightarrow> unit io" where
  "send_message m author user member c generate_embeds =
     bindM (send_without_notifications m user member
              (case c of DirectMessage _ \<Rightarrow> True | _ \<Rightarrow> False) generate_embeds True) (\<lambda>_.
     let is_dm_or_group = (case c of DirectMessage _ \<Rightarrow> True | Group _ \<Rightarrow> True | _ \<Rightarrow> False)
     in if \<not> has_suppressed_notifications m \<and>
           (is_dm_or_group \<or> ms_mentions m \<noteq> None \<or> contains_mass_push_mention m)
        then queue_task (T_Ack (ms_channel m) None
               (ProcessMessage [(Some \<lparr>pn_message = m, pn_channel = c\<rparr>, m, notified author c m, False)]))
        else ret ())"

section \<open>Updates, embeds\<close>

text \<open>\<open>update\<close> returns the changed local copy.\<close>

definition message_update ::
    "(partial_message \<Rightarrow> message \<Rightarrow> message) \<Rightarrow> message \<Rightarrow> partial_message \<Rightarrow> fields_message list \<Rightarrow>
     message io" where
  "message_update apply_options m partial remove =
     (let m = fold message_remove_field remove (apply_options partial m)
      in bindM (update_message apply_options (ms_id m) partial remove) (\<lambda>_.
         bindM (publish (ms_channel m) (E_MessageUpdate (ms_id m) (ms_channel m) partial remove)) (\<lambda>_.
         ret m)))"

definition message_append :: "string \<Rightarrow> string \<Rightarrow> embed list option \<Rightarrow> unit io" where
  "message_append ident channel embeds =
     bindM (append_message ident embeds) (\<lambda>_.
     publish channel (E_MessageAppend ident channel embeds))"

definition attach_sendable_embed :: "message \<Rightarrow> sendable_embed \<Rightarrow> message io" where
  "attach_sendable_embed m e =
     bindM (case se_media e of
              Some ident \<Rightarrow> bindM (use_attachment ident (ms_id m) (ms_author m)) (\<lambda>f. ret (Some f))
            | None \<Rightarrow> ret None) (\<lambda>media.
     let embed = Embed_Text \<lparr>te_icon_url = se_icon_url e, te_url = se_url e, te_title = se_title e,
                   te_description = se_description e, te_media = media, te_colour = se_colour e\<rparr>
     in ret (case ms_embeds m of
               Some embeds \<Rightarrow> m\<lparr>ms_embeds := Some (embeds @ [embed])\<rparr>
             | None \<Rightarrow> m\<lparr>ms_embeds := Some [embed]\<rparr>))"

section \<open>Reactions\<close>

text \<open>
  \<open>Emoji::can_use\<close>: an identifier must be a stored emoji, anything else a permissible Unicode
  emoji. \<open>Ulid::from_str\<close>, the removal of U+FE0F and the table read from \<open>unicode_emoji.txt\<close>
  are parameters.
\<close>

record emoji_rules =
  er_is_ulid :: "string \<Rightarrow> bool"
  er_sanitize :: "string \<Rightarrow> string"
  er_permissible :: "string \<Rightarrow> bool"

definition emoji_can_use :: "emoji_rules \<Rightarrow> string \<Rightarrow> bool io" where
  "emoji_can_use er emoji =
     (if er_is_ulid er emoji
      then bindM (fetch_emoji emoji) (\<lambda>_. ret True)
      else ret (er_permissible er (er_sanitize er emoji)))"

definition add_reaction :: "emoji_rules \<Rightarrow> nat \<Rightarrow> message \<Rightarrow> user \<Rightarrow> string \<Rightarrow> unit io" where
  "add_reaction er limit m user emoji =
     bindM (guard (length (ms_reactions m) \<ge> limit \<and> \<not> hm_contains (ms_reactions m) emoji)
             (GeneralErr InvalidOperation)) (\<lambda>_.
     bindM (guard (\<not> interactions_can_use (ms_interactions m) emoji)
             (GeneralErr InvalidOperation)) (\<lambda>_.
     bindM (emoji_can_use er emoji) (\<lambda>can_use.
     bindM (guard (\<not> can_use) (GeneralErr InvalidOperation)) (\<lambda>_.
     bindM (publish (ms_channel m) (E_MessageReact (ms_id m) (ms_channel m) (u_id user) emoji)) (\<lambda>_.
     add_reaction_db (ms_id m) emoji (u_id user))))))"

definition remove_reaction :: "message \<Rightarrow> string \<Rightarrow> string \<Rightarrow> unit io" where
  "remove_reaction m user emoji =
     (case hm_get (ms_reactions m) emoji of
        None \<Rightarrow> throw not_found
      | Some users \<Rightarrow>
          bindM (guard (user \<notin> set users) not_found) (\<lambda>_.
          bindM (publish (ms_channel m) (E_MessageUnreact (ms_id m) (ms_channel m) user emoji)) (\<lambda>_.
          if length users = 1 then clear_reaction_db (ms_id m) emoji
          else remove_reaction_db (ms_id m) emoji user)))"

definition clear_reaction :: "message \<Rightarrow> string \<Rightarrow> unit io" where
  "clear_reaction m emoji =
     bindM (publish (ms_channel m) (E_MessageRemoveReaction (ms_id m) (ms_channel m) emoji)) (\<lambda>_.
     clear_reaction_db (ms_id m) emoji)"

definition interactions_validate :: "emoji_rules \<Rightarrow> nat \<Rightarrow> interactions \<Rightarrow> u64 \<Rightarrow> unit io" where
  "interactions_validate er limit i permissions =
     (case in_reactions i of
        None \<Rightarrow> ret ()
      | Some reactions \<Rightarrow>
          bindM (lift (throw_if_lacking_channel_permission permissions CP_React)) (\<lambda>_.
          bindM (guard (length reactions > limit) (GeneralErr InvalidOperation)) (\<lambda>_.
          for_each reactions (\<lambda>reaction.
            bindM (emoji_can_use er reaction) (\<lambda>can_use.
            guard (\<not> can_use) (GeneralErr InvalidOperation))))))"

section \<open>Deletion\<close>

definition message_delete :: "message \<Rightarrow> unit io" where
  "message_delete m =
     (let file_ids = map f_id (unwrap_or (ms_attachments m) [])
      in bindM (if file_ids \<noteq> [] then mark_attachments_as_deleted file_ids else ret ()) (\<lambda>_.
         bindM (delete_message_db (ms_id m)) (\<lambda>_.
         publish (ms_channel m) (E_MessageDelete (ms_id m) (ms_channel m)))))"

definition bulk_delete :: "string \<Rightarrow> string list \<Rightarrow> unit io" where
  "bulk_delete channel ids =
     bindM (fetch_messages_by_id ids) (\<lambda>msgs.
     let valid_ids = map ms_id (filter (\<lambda>msg. ms_channel msg = channel) msgs)
     in bindM (delete_messages channel valid_ids) (\<lambda>_.
        publish channel (E_BulkMessageDelete channel valid_ids)))"

definition bulk_delete_by_author_since :: "string list \<Rightarrow> string \<Rightarrow> string \<Rightarrow> unit io" where
  "bulk_delete_by_author_since channels author threshold =
     bindM (delete_messages_by_author_since channels author threshold) (\<lambda>groups.
     for_each groups (\<lambda>(channel, ids).
       if ids \<noteq> [] then publish channel (E_BulkMessageDelete channel ids) else ret ()))"

section \<open>Polls\<close>

definition default_partial_message :: partial_message where
  "default_partial_message =
     \<lparr>pms_id = None, pms_nonce = None, pms_channel = None, pms_author = None, pms_webhook = None,
      pms_content = None, pms_system = None, pms_attachments = None, pms_edited = None,
      pms_embeds = None, pms_mentions = None, pms_role_mentions = None, pms_replies = None,
      pms_reactions = None, pms_interactions = None, pms_poll = None, pms_masquerade = None,
      pms_pinned = None, pms_flags = None\<rparr>"

text \<open>\<open>IndexSet::shift_remove\<close> keeps the order of the others.\<close>

definition cast_vote :: "string \<Rightarrow> string \<Rightarrow> bool \<Rightarrow> poll \<Rightarrow> poll" where
  "cast_vote user option_id selected p =
     (let votes = (if \<not> pl_multiple p \<and> selected
                   then map (\<lambda>(ident, voters). (ident, filter (\<lambda>v. v \<noteq> user) voters)) (pl_votes p)
                   else pl_votes p);
          votes = (if hm_contains votes option_id then votes else votes @ [(option_id, [])]);
          votes = hm_modify option_id
                    (if selected then set_insert user else filter (\<lambda>v. v \<noteq> user)) votes
      in p\<lparr>pl_votes := votes\<rparr>)"

text \<open>\<open>throw_channel\<close>: compute the permissions of the user in the channel and require some.\<close>

definition channel_permissions_io ::
    "(world \<Rightarrow> permission_db) \<Rightarrow> timestamp \<Rightarrow> user \<Rightarrow> channel \<Rightarrow> (u64 \<times> database_permission_query) io"
  where
  "channel_permissions_io pdb now user c w =
     (case calculate_channel_permissions (DatabasePermissionQuery (pdb w) now) (channel_query user c) of
        Some r \<Rightarrow> (Ok r, w)
      | None \<Rightarrow> (Panic ''permission query'', w))"

definition poll_vote ::
    "(world \<Rightarrow> permission_db) \<Rightarrow> (partial_message \<Rightarrow> message \<Rightarrow> message) \<Rightarrow> timestamp \<Rightarrow> int \<Rightarrow>
     user \<Rightarrow> string \<Rightarrow> string \<Rightarrow> string \<Rightarrow> bool \<Rightarrow> message io" where
  "poll_vote pdb apply_options now now_ms user target msg option_id selected =
     bindM (as_channel target) (\<lambda>channel.
     bindM (channel_permissions_io pdb now user channel) (\<lambda>(permissions, _).
     bindM (lift (throw_if_lacking_channel_permission permissions CP_ViewChannel)) (\<lambda>_.
     bindM (as_message_in_channel msg (channel_id channel)) (\<lambda>message.
     bindM (lift (ok_or (GeneralErr InvalidOperation) (ms_poll message))) (\<lambda>poll.
     bindM (guard (pl_closed poll \<or>
                   (case pl_closes_at poll of Some closes_at \<Rightarrow> now_ms \<ge> closes_at | None \<Rightarrow> False))
             (GeneralErr InvalidOperation)) (\<lambda>_.
     bindM (guard (\<not> list_ex (\<lambda>opt. po_id opt = option_id) (pl_options poll))
             (GeneralErr InvalidProperty)) (\<lambda>_.
     let poll = cast_vote (u_id user) option_id selected poll;
         message = message\<lparr>ms_poll := Some poll\<rparr>
     in message_update apply_options message (default_partial_message\<lparr>pms_poll := Some poll\<rparr>) [])))))))"

definition poll_close ::
    "(partial_message \<Rightarrow> message \<Rightarrow> message) \<Rightarrow> user \<Rightarrow> string \<Rightarrow> string \<Rightarrow> message io" where
  "poll_close apply_options user target msg =
     bindM (as_channel target) (\<lambda>channel.
     bindM (as_message_in_channel msg (channel_id channel)) (\<lambda>message.
     bindM (guard (ms_author message \<noteq> u_id user) not_found) (\<lambda>_.
     bindM (lift (ok_or (GeneralErr InvalidOperation) (ms_poll message))) (\<lambda>poll.
     let poll = poll\<lparr>pl_closed := True\<rparr>;
         message = message\<lparr>ms_poll := Some poll\<rparr>
     in message_update apply_options message (default_partial_message\<lparr>pms_poll := Some poll\<rparr>) []))))"

section \<open>Votes\<close>

definition voted :: "poll \<Rightarrow> string \<Rightarrow> string \<Rightarrow> bool" where
  "voted p user opt \<longleftrightarrow> user \<in> set (unwrap_or (hm_get (pl_votes p) opt) [])"

definition poll_ok :: "poll \<Rightarrow> bool" where
  "poll_ok p \<longleftrightarrow>
     hm_ok (pl_votes p) \<and> fst ` set (pl_votes p) \<subseteq> po_id ` set (pl_options p) \<and>
     (\<forall>opt voters. hm_get (pl_votes p) opt = Some voters \<longrightarrow> distinct voters) \<and>
     (\<not> pl_multiple p \<longrightarrow> (\<forall>user a b. voted p user a \<longrightarrow> voted p user b \<longrightarrow> a = b))"

lemma set_set_insert [simp]: "set (set_insert x xs) = insert x (set xs)"
  by (auto simp: set_insert_def)

lemma distinct_set_insert [simp]: "distinct (set_insert x xs) \<longleftrightarrow> distinct xs"
  by (auto simp: set_insert_def)

lemma hm_get_map_values:
  "hm_get (map (\<lambda>(k, v). (k, g v)) xs) k = map_option g (hm_get xs k)"
  by (induction xs) (auto simp: hm_get_def)

lemma hm_get_append_new:
  "hm_get m k = None \<Longrightarrow> hm_get (m @ [(k, v)]) l = (if l = k then Some v else hm_get m l)"
  by (auto simp: hm_get_def map_add_def split: option.splits)

lemma voted_cast_vote:
  "voted (cast_vote user opt selected p) v a \<longleftrightarrow>
     (if v = user \<and> a = opt then selected
      else if v = user \<and> \<not> pl_multiple p \<and> selected then False else voted p v a)"
  by (cases "hm_get (pl_votes p) opt"; cases "hm_get (pl_votes p) a")
     (auto simp: voted_def cast_vote_def Let_def hm_get_map_values hm_get_append_new)

lemma cast_vote_fields [simp]:
  "pl_options (cast_vote user opt selected p) = pl_options p"
  "pl_multiple (cast_vote user opt selected p) = pl_multiple p"
  by (simp_all add: cast_vote_def Let_def)

lemma cast_vote_votes: "cast_vote user opt selected p = p\<lparr>pl_votes := pl_votes (cast_vote user opt selected p)\<rparr>"
  by (simp add: cast_vote_def Let_def)

lemma map_fst_map_values: "map fst (map (\<lambda>(k, v). (k, g v)) xs) = map fst xs"
  by (induction xs) auto

lemma cast_vote_keys:
  "map fst (pl_votes (cast_vote user opt selected p)) =
     (if opt \<in> fst ` set (pl_votes p) then map fst (pl_votes p) else map fst (pl_votes p) @ [opt])"
proof -
  have "hm_get (pl_votes p) opt = None \<longleftrightarrow> opt \<notin> fst ` set (pl_votes p)"
    by (simp add: hm_get_def map_of_eq_None_iff)
  then show ?thesis
    by (cases "hm_get (pl_votes p) opt")
       (simp_all add: cast_vote_def Let_def map_fst_hm_modify map_fst_map_values hm_get_map_values
         split_beta)
qed

lemma poll_ok_cast_vote:
  assumes "poll_ok p" and "opt \<in> po_id ` set (pl_options p)"
  shows "poll_ok (cast_vote user opt selected p)"
proof -
  let ?p = "cast_vote user opt selected p"
  have keys: "hm_ok (pl_votes ?p)" "fst ` set (pl_votes ?p) \<subseteq> po_id ` set (pl_options ?p)"
    using assms cast_vote_keys [of user opt selected p]
    by (auto simp: poll_ok_def hm_ok_def simp flip: set_map split: if_splits)
  have "distinct voters" if "hm_get (pl_votes ?p) a = Some voters" for a voters
    using that assms(1)
    by (cases "hm_get (pl_votes p) opt"; cases "hm_get (pl_votes p) a")
       (auto simp: poll_ok_def cast_vote_def Let_def hm_get_map_values hm_get_append_new
          split: if_splits)
  moreover have "a = b" if "\<not> pl_multiple p" "voted ?p v a" "voted ?p v b" for v a b
    using that assms(1) by (auto simp: voted_cast_vote poll_ok_def split: if_splits)
  ultimately show ?thesis
    using keys by (simp add: poll_ok_def)
qed

lemma some_priority_poll:
  "some_priority_message (default_partial_message\<lparr>pms_poll := Some p\<rparr>) m = m\<lparr>ms_poll := Some p\<rparr>"
  by (simp add: some_priority_message_def default_partial_message_def)

lemma message_update_poll:
  assumes "world_ok w" and "hm_get (db_messages w) msg = Some m"
  shows "message_update some_priority_message (m\<lparr>ms_poll := Some p\<rparr>)
           (default_partial_message\<lparr>pms_poll := Some p\<rparr>) [] w =
         (Ok (m\<lparr>ms_poll := Some p\<rparr>),
          w\<lparr>db_messages := hm_modify msg (\<lambda>m. m\<lparr>ms_poll := Some p\<rparr>) (db_messages w),
            w_events := w_events w @ [(ms_channel m, E_MessageUpdate msg (ms_channel m)
              (default_partial_message\<lparr>pms_poll := Some p\<rparr>) [])]\<rparr>)"
proof -
  have "ms_id m = msg"
    using assms by (auto simp: world_ok_def dest: keyed_get)
  with assms(2) show ?thesis
    by (simp add: message_update_def some_priority_poll update_message_def publish_def bindM_def)
qed

lemma as_message_Ok:
  "as_message_in_channel i c w = (Ok m, w') \<longleftrightarrow>
     hm_get (db_messages w) i = Some m \<and> ms_channel m = c \<and> w' = w"
  by (auto simp: as_message_in_channel_def bindM_def fetch_message_def guard_def ok_or_def
      split: option.splits)

lemma as_channel_Ok: "as_channel i w = (Ok c, w') \<Longrightarrow> w' = w"
  by (auto simp: as_channel_def bindM_def fetch_channel_def fetch_server_def guard_def ok_or_def
      split: option.splits if_splits)

lemma channel_permissions_io_Ok: "channel_permissions_io pdb now u c w = (Ok r, w') \<Longrightarrow> w' = w"
  by (auto simp: channel_permissions_io_def split: option.splits)


definition sample_poll :: poll where
  "sample_poll =
     \<lparr>pl_question = ''?'',
      pl_options = [\<lparr>po_id = ''1'', po_text = ''yes''\<rparr>, \<lparr>po_id = ''2'', po_text = ''no''\<rparr>],
      pl_multiple = False, pl_closed = False, pl_closes_at = Some 100,
      pl_votes = [(''1'', [''B'', ''A''])]\<rparr>"

definition sample_message :: message where
  "sample_message = default_message
     \<lparr>ms_id := ''P'', ms_channel := ''C'', ms_author := ''A'', ms_content := Some ''vote'',
      ms_poll := Some sample_poll\<rparr>"

definition polled_world :: world where
  "polled_world = sample_world\<lparr>db_messages := [(''P'', sample_message)]\<rparr>"

lemma polled_world_ok: "world_ok polled_world"
proof -
  have "keyed ms_id [(''P'', sample_message)]"
    by (simp add: keyed_def hm_ok_def hm_get_def sample_message_def)
  with sample_world_ok show ?thesis
    by (simp add: polled_world_def world_ok_def)
qed

lemma sample_poll_ok: "poll_ok sample_poll"
  by (auto simp: poll_ok_def voted_def sample_poll_def hm_ok_def hm_get_def split: if_splits)


end
