(* ===== verification/Parser.thy ===== *)
theory Parser
  imports World
begin

text \<open>
  The message parser (\<open>crates/core/parser\<close>): which users, roles, channels and emojis a text
  mentions. The lexer is generated by the crate \<open>logos\<close> and is a parameter; its tokens are
  the input here. The iterator holds back the tokens of an open code block until it knows
  whether the block is closed; the collected tokens are those of a recursive definition
  without any buffer, and a closed code block hides what it contains.
\<close>

section \<open>Tokens and the iterator\<close>

datatype message_token =
    Escape
  | CodeblockMarker nat
  | UserMention string
  | RoleMention string
  | ChannelMention string
  | EmojiToken string
  | MentionEveryone
  | MentionOnline

record message_results =
  user_mentions :: "string list"
  role_mentions :: "string list"
  channel_mentions :: "string list"
  mr_emojis :: "string list"
  mentions_everyone :: bool
  mentions_online :: bool

definition default_results :: message_results where
  "default_results =
     \<lparr>user_mentions = [], role_mentions = [], channel_mentions = [], mr_emojis = [],
      mentions_everyone = False, mentions_online = False\<rparr>"

record message_parser_iterator =
  mp_inner :: "message_token list"
  mp_temp :: "message_token list"

text \<open>The loop after an opening marker; \<open>inner.next()\<close> takes the head of the list.\<close>

fun codeblock_loop ::
    "nat \<Rightarrow> message_token list \<Rightarrow> message_token list \<Rightarrow>
     message_token option \<times> message_parser_iterator" where
  "codeblock_loop ty [] temp = (Some (CodeblockMarker ty), \<lparr>mp_inner = [], mp_temp = temp\<rparr>)"
| "codeblock_loop ty (t # inner) temp =
     (if t = CodeblockMarker ty
      then (Some t, \<lparr>mp_inner = inner, mp_temp = [CodeblockMarker ty]\<rparr>)
      else codeblock_loop ty inner (temp @ [t]))"

definition parser_next ::
    "message_parser_iterator \<Rightarrow> message_token option \<times> message_parser_iterator" where
  "parser_next p =
     (case mp_temp p of
        t # temp \<Rightarrow> (Some t, p\<lparr>mp_temp := temp\<rparr>)
      | [] \<Rightarrow>
          (case mp_inner p of
             [] \<Rightarrow> (None, p)
           | Escape # inner \<Rightarrow> (Some Escape, p\<lparr>mp_inner := tl inner\<rparr>)
           | CodeblockMarker ty # inner \<Rightarrow> codeblock_loop ty inner []
           | t # inner \<Rightarrow> (Some t, p\<lparr>mp_inner := inner\<rparr>)))"

definition parse_message_iter :: "(string \<Rightarrow> message_token list) \<Rightarrow> string \<Rightarrow> message_parser_iterator" where
  "parse_message_iter lexer text = \<lparr>mp_inner = lexer text, mp_temp = []\<rparr>"

definition parser_size :: "message_parser_iterator \<Rightarrow> nat" where
  "parser_size p = 2 * length (mp_inner p) + length (mp_temp p)"

lemma codeblock_loop_found:
  "CodeblockMarker ty \<notin> set body \<Longrightarrow>
   codeblock_loop ty (body @ CodeblockMarker ty # rest) temp =
     (Some (CodeblockMarker ty), \<lparr>mp_inner = rest, mp_temp = [CodeblockMarker ty]\<rparr>)"
  by (induction body arbitrary: temp) auto

lemma codeblock_loop_open:
  "CodeblockMarker ty \<notin> set body \<Longrightarrow>
   codeblock_loop ty body temp =
     (Some (CodeblockMarker ty), \<lparr>mp_inner = [], mp_temp = temp @ body\<rparr>)"
  by (induction body arbitrary: temp) auto

lemma codeblock_loop_size:
  "codeblock_loop ty inner temp = (t, p') \<Longrightarrow>
   parser_size p' \<le> 2 * length inner + length temp"
  by (induction ty inner temp rule: codeblock_loop.induct)
     (force simp: parser_size_def split: if_splits)+

lemma parser_next_size: "parser_next p = (Some t, p') \<Longrightarrow> parser_size p' < parser_size p"
proof -
  assume nxt: "parser_next p = (Some t, p')"
  show ?thesis
  proof (cases "mp_temp p")
    case Nil
    with nxt show ?thesis
      by (auto simp: parser_next_def parser_size_def split: list.splits message_token.splits
          dest!: codeblock_loop_size)
  next
    case (Cons a temp)
    with nxt show ?thesis
      by (auto simp: parser_next_def parser_size_def)
  qed
qed

text \<open>The \<open>for\<close> loop over the iterator; it ends because every token uses up some input.\<close>

function collect_tokens :: "message_parser_iterator \<Rightarrow> message_token list" where
  "collect_tokens p =
     (case parser_next p of (None, _) \<Rightarrow> [] | (Some t, p') \<Rightarrow> t # collect_tokens p')"
  by pat_completeness auto
termination
  by (relation "measure parser_size") (auto dest!: parser_next_size [OF sym])

declare collect_tokens.simps [simp del]

fun add_token :: "message_token \<Rightarrow> message_results \<Rightarrow> message_results" where
  "add_token Escape r = r"
| "add_token (CodeblockMarker _) r = r"
| "add_token (UserMention ident) r = r\<lparr>user_mentions := set_insert ident (user_mentions r)\<rparr>"
| "add_token (RoleMention ident) r = r\<lparr>role_mentions := set_insert ident (role_mentions r)\<rparr>"
| "add_token (ChannelMention ident) r = r\<lparr>channel_mentions := set_insert ident (channel_mentions r)\<rparr>"
| "add_token (EmojiToken ident) r = r\<lparr>mr_emojis := set_insert ident (mr_emojis r)\<rparr>"
| "add_token MentionEveryone r = r\<lparr>mentions_everyone := True\<rparr>"
| "add_token MentionOnline r = r\<lparr>mentions_online := True\<rparr>"

definition parse_message :: "(string \<Rightarrow> message_token list) \<Rightarrow> string \<Rightarrow> message_results" where
  "parse_message lexer text =
     fold add_token (collect_tokens (parse_message_iter lexer text)) default_results"

section \<open>The tokens without a buffer\<close>

text \<open>
  A marker whose partner follows stands for both and hides what is between them; a marker
  without partner lets everything after it through as it is; an escape drops the next token.
\<close>

function visible :: "message_token list \<Rightarrow> message_token list" where
  "visible ts =
     (case ts of
        [] \<Rightarrow> []
      | Escape # rest \<Rightarrow> Escape # visible (tl rest)
      | CodeblockMarker ty # rest \<Rightarrow>
          if CodeblockMarker ty \<in> set rest
          then CodeblockMarker ty # CodeblockMarker ty #
                 visible (tl (dropWhile (\<lambda>t. t \<noteq> CodeblockMarker ty) rest))
          else ts
      | t # rest \<Rightarrow> t # visible rest)"
  by pat_completeness auto
termination
  by (relation "measure length")
     (auto simp: less_Suc_eq_le intro: le_trans [OF diff_le_self] length_dropWhile_le)

declare visible.simps [simp del]

lemma collect_temp: "collect_tokens \<lparr>mp_inner = inner, mp_temp = temp\<rparr> =
    temp @ collect_tokens \<lparr>mp_inner = inner, mp_temp = []\<rparr>"
proof (induction temp)
  case (Cons t temp)
  then show ?case
    by (subst collect_tokens.simps) (simp add: parser_next_def)
qed simp

lemma collect_done [simp]: "collect_tokens \<lparr>mp_inner = [], mp_temp = []\<rparr> = []"
  by (subst collect_tokens.simps) (simp add: parser_next_def)

lemma collect_plain:
  "t \<noteq> Escape \<Longrightarrow> (\<forall>ty. t \<noteq> CodeblockMarker ty) \<Longrightarrow>
   collect_tokens \<lparr>mp_inner = t # rest, mp_temp = []\<rparr> =
     t # collect_tokens \<lparr>mp_inner = rest, mp_temp = []\<rparr>"
  by (subst collect_tokens.simps) (cases t; simp add: parser_next_def)

lemma collect_escape:
  "collect_tokens \<lparr>mp_inner = Escape # rest, mp_temp = []\<rparr> =
     Escape # collect_tokens \<lparr>mp_inner = tl rest, mp_temp = []\<rparr>"
  by (subst collect_tokens.simps) (simp add: parser_next_def)

lemma collect_closed:
  assumes "CodeblockMarker ty \<notin> set body"
  shows "collect_tokens \<lparr>mp_inner = CodeblockMarker ty # body @ CodeblockMarker ty # rest, mp_temp = []\<rparr> =
           CodeblockMarker ty # CodeblockMarker ty # collect_tokens \<lparr>mp_inner = rest, mp_temp = []\<rparr>"
  using codeblock_loop_found [OF assms, of rest "[]"]
  by (subst collect_tokens.simps) (simp add: parser_next_def collect_temp [of _ "[_]"])

lemma collect_open:
  assumes "CodeblockMarker ty \<notin> set rest"
  shows "collect_tokens \<lparr>mp_inner = CodeblockMarker ty # rest, mp_temp = []\<rparr> = CodeblockMarker ty # rest"
  using codeblock_loop_open [OF assms, of "[]"]
  by (subst collect_tokens.simps) (simp add: parser_next_def collect_temp [of _ rest])

lemma visible_plain:
  "(\<And>t. t \<in> set pre \<Longrightarrow> t \<noteq> Escape \<and> (\<forall>ty. t \<noteq> CodeblockMarker ty)) \<Longrightarrow>
   visible (pre @ rest) = pre @ visible rest"
proof (induction pre)
  case (Cons t pre)
  then show ?case
    by (subst append_Cons, subst visible.simps) (cases t; fastforce)
qed simp

lemma visible_block:
  assumes "CodeblockMarker ty \<notin> set body"
  shows "visible (CodeblockMarker ty # body @ CodeblockMarker ty # rest) =
           CodeblockMarker ty # CodeblockMarker ty # visible rest"
proof -
  have "dropWhile (\<lambda>t. t \<noteq> CodeblockMarker ty) (body @ CodeblockMarker ty # rest) =
      CodeblockMarker ty # rest"
    using assms by (subst dropWhile_append2) auto
  then show ?thesis
    by (subst visible.simps) simp
qed

lemma collect_visible: "collect_tokens \<lparr>mp_inner = ts, mp_temp = []\<rparr> = visible ts"
proof (induction ts rule: length_induct)
  case (1 ts)
  show ?case
  proof (cases ts)
    case ts: (Cons t rest)
    have step: "collect_tokens \<lparr>mp_inner = xs, mp_temp = []\<rparr> = visible xs"
      if "length xs \<le> length rest" for xs
      using 1 that ts by simp
    consider ty where "t = CodeblockMarker ty" | "t = Escape" |
      "t \<noteq> Escape" "\<forall>ty. t \<noteq> CodeblockMarker ty"
      by blast
    then show ?thesis
    proof cases
      case (1 ty)
      show ?thesis
      proof (cases "t \<in> set rest")
        case True
        then obtain body after where "rest = body @ t # after" "t \<notin> set body"
          using split_list_first [OF True] by blast
        with 1 ts step [of after] show ?thesis
          by (simp add: collect_closed visible_block)
      next
        case False
        with 1 ts show ?thesis
          by (simp add: collect_open) (simp add: visible.simps)
      qed
    next
      case 2
      with ts step [of "tl rest"] show ?thesis
        by (simp add: collect_escape) (simp add: visible.simps [of "Escape # rest"])
    next
      case 3
      with ts step [of rest] visible_plain [of "[t]" rest] show ?thesis
        by (simp add: collect_plain)
    qed
  qed (simp add: visible.simps)
qed

section \<open>Properties\<close>

text \<open>
  C31: Whatever the lexer, the buffering iterator ends and finds exactly the mentions of the
  buffer-free reading of the tokens: an escape drops the token after it, a closed code block
  hides its body, and an opening marker that is never closed hides nothing after it.
\<close>

theorem parser_reads_visible_tokens:
  "parse_message lexer text = fold add_token (visible (lexer text)) default_results"
  by (simp add: parse_message_def parse_message_iter_def collect_visible)

text \<open>
  A closed code block outside any escape or earlier block contributes nothing: the
  mentions found are those of the text with the block cut out.
\<close>

theorem closed_codeblock_hides:
  assumes "lexer text = pre @ CodeblockMarker ty # body @ CodeblockMarker ty # post"
    and "lexer text2 = pre @ post" and "CodeblockMarker ty \<notin> set body"
    and "\<forall>t\<in>set pre. t \<noteq> Escape \<and> (\<forall>k. t \<noteq> CodeblockMarker k)"
  shows "parse_message lexer text = parse_message lexer text2"
proof -
  have pre: "visible (pre @ rest) = pre @ visible rest" for rest
    using assms(4) by (intro visible_plain) blast
  show ?thesis
    by (simp add: parse_message_def parse_message_iter_def collect_visible assms(1,2) pre
        visible_block [OF assms(3)])
qed

theorem closed_codeblock_hides_witness:
  "parse_message (\<lambda>text. if text = ''a'' then [UserMention ''U'', CodeblockMarker 3, MentionEveryone,
        RoleMention ''R'', CodeblockMarker 3, MentionOnline] else [UserMention ''U'', MentionOnline]) ''a'' =
   parse_message (\<lambda>text. if text = ''a'' then [UserMention ''U'', CodeblockMarker 3, MentionEveryone,
        RoleMention ''R'', CodeblockMarker 3, MentionOnline] else [UserMention ''U'', MentionOnline]) ''b''"
  by (rule closed_codeblock_hides [of _ _ "[UserMention ''U'']" 3 "[MentionEveryone, RoleMention ''R'']"
        "[MentionOnline]"]) simp_all

end
