(* ===== verification/Message_Create.thy ===== *)
theory Message_Create
  imports Messaging Parser
begin

unbundle bit_operations_syntax

text \<open>
  Creating a message: \<open>Message::create_from_api\<close> (\<open>models/messages/model.rs\<close>) and the route
  \<open>message_send.rs\<close>. The handler is one definition per stage, in the order of the source, and
  one that composes them.

  Configuration, limits, the clock, the fresh identifier, the lexer, the string functions of
  the standard library's Unicode tables, the idempotency key and the slowmode store (Redis)
  are fields of \<open>message_env\<close>.
\<close>

section \<open>Input\<close>

record poll_create =
  pcr_question :: string
  pcr_options :: "string list"
  pcr_multiple :: "bool option"
  pcr_duration :: "nat option"

record reply_intent =
  ri_id :: string
  ri_mention :: bool
  ri_fail_if_not_exists :: "bool option"

record data_message_send =
  dms_nonce :: "string option"
  dms_content :: "string option"
  dms_attachments :: "string list option"
  dms_replies :: "reply_intent list option"
  dms_embeds :: "sendable_embed list option"
  dms_masquerade :: "masquerade option"
  dms_interactions :: "interactions option"
  dms_poll :: "poll_create option"
  dms_flags :: "u32 option"

text \<open>What the store answers to \<open>SET key 1 NX EX n\<close> and, when the key is there, to \<open>TTL\<close>.\<close>

datatype slowmode_reply = NoConnection | SlowmodeSet | SlowmodeHeld int

text \<open>
  \<open>me_nonce\<close> is the outcome of \<open>consume_nonce\<close>: the key that goes into the message, or
  \<open>None\<close> when the nonce was seen before. \<open>me_account_age\<close> is the age in hours of the account
  that an identifier was generated for, \<open>None\<close> where reading it panics.
\<close>

record message_env =
  me_new_id :: string
  me_now :: timestamp
  me_now_ms :: int
  me_pdb :: "world \<Rightarrow> permission_db"
  me_mass_mentions_enabled :: bool
  me_message_replies :: nat
  me_message_embeds :: nat
  me_message_reactions :: nat
  me_message_length :: nat
  me_message_attachments :: nat
  me_lexer :: "string \<Rightarrow> message_token list"
  me_trim :: "string \<Rightarrow> string"
  me_lower :: "string \<Rightarrow> string"
  me_nonce :: "string option"
  me_emoji :: emoji_rules
  me_slowmode :: "string \<Rightarrow> string \<Rightarrow> u64 \<Rightarrow> slowmode_reply"
  me_account_age :: "string \<Rightarrow> nat option"

section \<open>Checks on the input\<close>

text \<open>\<open>is_none_or(is_empty)\<close>\<close>

definition missing :: "'a list option \<Rightarrow> bool" where
  "missing x \<longleftrightarrow> (case x of None \<Rightarrow> True | Some v \<Rightarrow> v = [])"

definition is_empty_message :: "data_message_send \<Rightarrow> bool" where
  "is_empty_message d \<longleftrightarrow>
     missing (dms_content d) \<and> missing (dms_attachments d) \<and> missing (dms_embeds d) \<and>
     dms_poll d = None"

text \<open>The flags of the request: suppress, everyone, online.\<close>

definition requested_flags ::
    "bool \<Rightarrow> user option \<Rightarrow> u32 option \<Rightarrow> (bool \<times> bool \<times> bool) result" where
  "requested_flags allow_mentions user flags =
     (case flags of
        None \<Rightarrow> Ok (False, False, False)
      | Some raw \<Rightarrow>
          if raw > 7 then Err (GeneralErr InvalidProperty)
          else
            let suppress = mf_has raw SuppressNotifications;
                everyone = (allow_mentions \<and> mf_has raw MentionsEveryone);
                online = (allow_mentions \<and> mf_has raw MentionsOnline)
            in if (case user of Some u \<Rightarrow> u_bot u = None | None \<Rightarrow> False) \<and> (everyone \<or> online)
               then Err (BotErr IsNotBot)
               else if everyone \<and> online then Err (GeneralErr InvalidFlagValue)
               else Ok (suppress, everyone, online))"

definition interactions_contradict :: "interactions option \<Rightarrow> bool" where
  "interactions_contradict i \<longleftrightarrow>
     (case i of
        Some i \<Rightarrow> in_restrict_reactions i \<and> missing (in_reactions i)
      | None \<Rightarrow> False)"

text \<open>\<open>any(|option| option.trim().is_empty() || !options.insert(..))\<close>\<close>

fun poll_options_bad :: "(string \<Rightarrow> string) \<Rightarrow> (string \<Rightarrow> string) \<Rightarrow> string list \<Rightarrow> string list \<Rightarrow> bool" where
  "poll_options_bad trim lower seen [] = False"
| "poll_options_bad trim lower seen (opt # opts) =
     (trim opt = [] \<or> lower (trim opt) \<in> set seen \<or>
      poll_options_bad trim lower (lower (trim opt) # seen) opts)"

fun decimal :: "nat \<Rightarrow> string" where
  "decimal n =
     (if n < 10 then [char_of (48 + n)] else decimal (n div 10) @ [char_of (48 + n mod 10)])"

declare decimal.simps [simp del]

definition new_poll :: "int \<Rightarrow> poll_create \<Rightarrow> poll" where
  "new_poll now_ms p =
     \<lparr>pl_question = pcr_question p,
      pl_options = map (\<lambda>(index, text). \<lparr>po_id = decimal (index + 1), po_text = text\<rparr>)
                     (enumerate 0 (pcr_options p)),
      pl_multiple = unwrap_or (pcr_multiple p) False,
      pl_closed = False,
      pl_closes_at = map_option (\<lambda>duration. now_ms + int duration * 1000) (pcr_duration p),
      pl_votes = []\<rparr>"

definition start_message ::
    "message_env \<Rightarrow> channel \<Rightarrow> data_message_send \<Rightarrow> message_author \<Rightarrow> message" where
  "start_message env c d author =
     default_message
       \<lparr>ms_id := me_new_id env, ms_channel := channel_id c, ms_masquerade := dms_masquerade d,
        ms_interactions := unwrap_or (dms_interactions d) default_interactions,
        ms_poll := map_option (new_poll (me_now_ms env)) (dms_poll d),
        ms_author := author_id author,
        ms_webhook := (case author of MA_Webhook h \<Rightarrow> Some (message_webhook_of h) | _ \<Rightarrow> None),
        ms_flags := dms_flags d\<rparr>"

section \<open>Mentions\<close>

text \<open>
  The author is converted to the API's user and back; of what a permission query reads, the
  conversion drops the relations.
\<close>

definition converted_author :: "user \<Rightarrow> user" where
  "converted_author u = u\<lparr>u_relations := None\<rparr>"

text \<open>Role mentions of roles the server does not have are dropped.\<close>

definition known_roles :: "message_env \<Rightarrow> bool \<Rightarrow> channel \<Rightarrow> string list \<Rightarrow> string list io" where
  "known_roles env allow_mentions c roles =
     (case c of
        TextChannel t \<Rightarrow>
          if allow_mentions \<and> me_mass_mentions_enabled env \<and> roles \<noteq> [] then
            bindM (expect ''Failed to fetch server'' (fetch_server (tc_server t))) (\<lambda>server.
            ret (filter (\<lambda>role_id. hm_contains (s_roles server) role_id) roles))
          else ret roles
      | _ \<Rightarrow> ret roles)"

text \<open>Who may mention everyone, everyone online, or roles: the result is what is left of the three.\<close>

definition mass_mentions ::
    "message_env \<Rightarrow> channel \<Rightarrow> message_author \<Rightarrow> bool \<Rightarrow> bool \<Rightarrow> string list \<Rightarrow>
     (bool \<times> bool \<times> string list) io" where
  "mass_mentions env c author everyone online roles =
     (if \<not> (everyone \<or> online \<or> roles \<noteq> []) then ret (everyone, online, roles)
      else if \<not> me_mass_mentions_enabled env then ret (False, False, [])
      else case author of
        MA_System _ _ \<Rightarrow> throw (GeneralErr InvalidProperty)
      | MA_Webhook _ \<Rightarrow> ret (everyone, online, roles)
      | MA_User u \<Rightarrow>
          bindM (channel_permissions_io (me_pdb env) (me_now env) (converted_author u) c) (\<lambda>(perms, _).
          bindM (guard (\<not> has_channel_permission perms CP_PingEveryoneAndRoles)
                  (PermissionErr (MissingPermission (channel_permission_name CP_PingEveryoneAndRoles))))
            (\<lambda>_. ret (everyone, online, roles))))"

text \<open>The loop over the replies: the mentions and the replies so far are its state.\<close>

fun resolve_replies ::
    "bool \<Rightarrow> reply_intent list \<Rightarrow> string list \<Rightarrow> string list \<Rightarrow> (string list \<times> string list) io" where
  "resolve_replies allow_mentions [] mentions replies = ret (mentions, replies)"
| "resolve_replies allow_mentions (r # entries) mentions replies = (\<lambda>w.
     (case fetch_message (ri_id r) w of
        (Ok m, w') \<Rightarrow>
          resolve_replies allow_mentions entries
            (if ri_mention r \<and> allow_mentions then set_insert (ms_author m) mentions else mentions)
            (if ms_id m \<in> set replies then replies else replies @ [ms_id m]) w'
      | (Err e, w') \<Rightarrow>
          if e \<noteq> not_found \<or> unwrap_or (ri_fail_if_not_exists r) True then (Err e, w')
          else resolve_replies allow_mentions entries mentions replies w'
      | (Panic p, w') \<Rightarrow> (Panic p, w')))"

definition verified_replies ::
    "message_env \<Rightarrow> bool \<Rightarrow> reply_intent list option \<Rightarrow> string list \<Rightarrow> (string list \<times> string list) io"
  where
  "verified_replies env allow_mentions entries mentions =
     (case entries of
        None \<Rightarrow> ret (mentions, [])
      | Some entries \<Rightarrow>
          bindM (guard (length entries > me_message_replies env)
                  (ChannelErr (TooManyReplies (me_message_replies env)))) (\<lambda>_.
          resolve_replies allow_mentions entries mentions []))"

text \<open>Mentions go to users who can see the channel; the result is the users and the roles left.\<close>

definition valid_mentions ::
    "message_env \<Rightarrow> channel \<Rightarrow> string list \<Rightarrow> string list \<Rightarrow> (string list \<times> string list) io" where
  "valid_mentions env c users roles =
     (if users = [] then ret (users, roles)
      else case c of
        DirectMessage d \<Rightarrow> ret (filter (\<lambda>m. m \<in> set (dm_recipients d)) users, [])
      | Group g \<Rightarrow> ret (filter (\<lambda>m. m \<in> set (g_recipients g)) users, [])
      | SavedMessages _ \<Rightarrow> ret ([], roles)
      | TextChannel t \<Rightarrow>
          bindM (map_err (\<lambda>_. GeneralErr InternalError) (fetch_members (tc_server t) users)) (\<lambda>valid_members.
          let users = filter (\<lambda>m. m \<in> set (map (\<lambda>x. mk_user (m_id x)) valid_members)) users
          in if users = [] then ret (users, roles)
             else
               bindM (bulk_from_server_id (tc_server t)) (\<lambda>query.
               bindM (members_can_see_channel (me_now env)
                       (bulk_members valid_members (bulk_channel c query))) (\<lambda>(seen, _).
               ret (filter (\<lambda>m. unwrap_or (hm_get seen m) False) users, roles)))))"

section \<open>The handler\<close>

definition final_flags :: "bool \<Rightarrow> bool \<Rightarrow> bool \<Rightarrow> u32" where
  "final_flags suppress everyone online =
     mf_set MentionsOnline online
       (mf_set MentionsEveryone everyone (mf_set SuppressNotifications suppress 0))"

fun use_attachments :: "string list \<Rightarrow> string \<Rightarrow> string \<Rightarrow> file_t list io" where
  "use_attachments [] message_id author = ret []"
| "use_attachments (i # is) message_id author =
     bindM (use_attachment i message_id author) (\<lambda>f.
     bindM (use_attachments is message_id author) (\<lambda>fs. ret (f # fs)))"

fun attach_embeds :: "sendable_embed list \<Rightarrow> message \<Rightarrow> message io" where
  "attach_embeds [] m = ret m"
| "attach_embeds (e # es) m = bindM (attach_sendable_embed m e) (attach_embeds es)"

definition too_many :: "'a list option \<Rightarrow> nat \<Rightarrow> bool" where
  "too_many x limit \<longleftrightarrow> (case x of Some v \<Rightarrow> length v > limit | None \<Rightarrow> False)"

definition some_nonempty :: "'a list \<Rightarrow> 'a list option" where
  "some_nonempty xs = (if xs = [] then None else Some xs)"

definition create_from_api ::
    "message_env \<Rightarrow> channel \<Rightarrow> data_message_send \<Rightarrow> message_author \<Rightarrow> user option \<Rightarrow>
     member option \<Rightarrow> bool \<Rightarrow> bool \<Rightarrow> message io" where
  "create_from_api env c d author user member generate_embeds allow_mentions =
     bindM (lift (validate_sum (dms_content d) (unwrap_or (dms_embeds d) []) (me_message_length env))) (\<lambda>_.
     bindM (lift (ok_or (GeneralErr InvalidOperation) (me_nonce env))) (\<lambda>key.
     bindM (guard (is_empty_message d) (ChannelErr EmptyMessage)) (\<lambda>_.
     bindM (lift (requested_flags allow_mentions user (dms_flags d))) (\<lambda>(suppress, everyone, online).
     bindM (guard (interactions_contradict (dms_interactions d)) (GeneralErr InvalidProperty)) (\<lambda>_.
     bindM (guard (case dms_poll d of
                     Some p \<Rightarrow> poll_options_bad (me_trim env) (me_lower env) [] (pcr_options p)
                   | None \<Rightarrow> False) (GeneralErr InvalidProperty)) (\<lambda>_.
     let message = start_message env c d author;
         found = (case dms_content d of
                    Some content \<Rightarrow> parse_message (me_lexer env) content
                  | None \<Rightarrow> default_results)
     in
     bindM (known_roles env allow_mentions c (role_mentions found)) (\<lambda>roles.
     bindM (mass_mentions env c author (mentions_everyone found \<or> everyone)
              (mentions_online found \<or> online) roles) (\<lambda>(everyone, online, roles).
     bindM (verified_replies env allow_mentions (dms_replies d) (user_mentions found)) (\<lambda>(users, replies).
     bindM (valid_mentions env c users roles) (\<lambda>(users, roles).
     let message = message
           \<lparr>ms_mentions := some_nonempty users, ms_role_mentions := some_nonempty roles,
            ms_replies := some_nonempty replies,
            ms_flags := Some (final_flags suppress everyone online)\<rparr>
     in
     bindM (guard (too_many (dms_attachments d) (me_message_attachments env))
             (ChannelErr (TooManyAttachments (me_message_attachments env)))) (\<lambda>_.
     bindM (guard (too_many (dms_embeds d) (me_message_embeds env))
             (ChannelErr (TooManyEmbeds (me_message_embeds env)))) (\<lambda>_.
     bindM (use_attachments (unwrap_or (dms_attachments d) []) (me_new_id env) (author_id author))
       (\<lambda>files.
     bindM (attach_embeds (unwrap_or (dms_embeds d) [])
              (message\<lparr>ms_attachments := some_nonempty files\<rparr>)) (\<lambda>message.
     let message = message\<lparr>ms_content := dms_content d, ms_nonce := Some key\<rparr>
     in bindM (send_message message author user member c generate_embeds) (\<lambda>_.
        ret message)))))))))))))))"

section \<open>The route\<close>

definition check_slowmode :: "message_env \<Rightarrow> user \<Rightarrow> channel \<Rightarrow> u64 \<Rightarrow> unit io" where
  "check_slowmode env user c permissions =
     (if has_channel_permission permissions CP_BypassSlowmode then ret ()
      else case c of
        TextChannel t \<Rightarrow>
          (case tc_slowmode t of
             Some slowmode \<Rightarrow>
               if slowmode > 0 then
                 (case me_slowmode env (u_id user) (tc_id t) slowmode of
                    NoConnection \<Rightarrow> ret ()
                  | SlowmodeSet \<Rightarrow>
                      publish_private (u_id user) (E_UserSlowmodes [(tc_id t, slowmode, slowmode)])
                  | SlowmodeHeld ttl \<Rightarrow>
                      if ttl > 0 then
                        bindM (publish_private (u_id user)
                                (E_UserSlowmodes [(tc_id t, slowmode, of_int ttl)])) (\<lambda>_.
                        throw (ChannelErr (InSlowmode (of_int ttl))))
                      else ret ())
               else ret ()
           | None \<Rightarrow> ret ())
      | _ \<Rightarrow> ret ())"

definition may_mention :: "message_env \<Rightarrow> user \<Rightarrow> server option \<Rightarrow> bool io" where
  "may_mention env user server =
     (case server of
        Some s \<Rightarrow>
          if s_discoverable s then
            (case me_account_age env (u_id user) of
               Some hours \<Rightarrow> ret (hours \<ge> 12)
             | None \<Rightarrow> panic ''account age'')
          else ret True
      | None \<Rightarrow> ret True)"

text \<open>
  \<open>validation\<close> is the outcome of the derived \<open>validate\<close>. The experience points awarded at the
  end go to MongoDB only.
\<close>

definition message_send ::
    "message_env \<Rightarrow> unit result \<Rightarrow> user \<Rightarrow> string \<Rightarrow> data_message_send \<Rightarrow> message io" where
  "message_send env validation user target d =
     bindM (lift validation) (\<lambda>_.
     bindM (as_channel target) (\<lambda>channel.
     bindM (channel_permissions_io (me_pdb env) (me_now env) user channel) (\<lambda>(permissions, query).
     bindM (lift (throw_if_lacking_channel_permission permissions CP_SendMessage)) (\<lambda>_.
     bindM (case dms_masquerade d of
              Some masq \<Rightarrow>
                bindM (lift (throw_if_lacking_channel_permission permissions CP_Masquerade)) (\<lambda>_.
                if mq_colour masq \<noteq> None
                then lift (throw_if_lacking_channel_permission permissions CP_ManageRole) else ret ())
            | None \<Rightarrow> ret ()) (\<lambda>_.
     bindM (if \<not> missing (dms_embeds d)
            then lift (throw_if_lacking_channel_permission permissions CP_SendEmbeds) else ret ()) (\<lambda>_.
     bindM (if \<not> missing (dms_attachments d)
            then lift (throw_if_lacking_channel_permission permissions CP_UploadFiles) else ret ()) (\<lambda>_.
     bindM (check_slowmode env user channel permissions) (\<lambda>_.
     bindM (case dms_interactions d of
              Some i \<Rightarrow> interactions_validate (me_emoji env) (me_message_reactions env) i permissions
            | None \<Rightarrow> ret ()) (\<lambda>_.
     bindM (may_mention env user (dq_server query)) (\<lambda>allow_mentions.
     bindM (\<lambda>w. case dq_are_we_a_member (me_pdb env w) query of
                  Some (_, query) \<Rightarrow> (Ok (dq_member query), w)
                | None \<Rightarrow> (Panic ''permission query'', w)) (\<lambda>member.
     create_from_api env channel d (MA_User user) (Some user) member
       (has_channel_permission permissions CP_SendEmbeds) allow_mentions)))))))))))"

section \<open>Frames\<close>

text \<open>Everything but the stored files is as in \<open>w0\<close>.\<close>

definition only_files :: "world \<Rightarrow> world \<Rightarrow> bool" where
  "only_files w0 w \<longleftrightarrow> w\<lparr>db_files := []\<rparr> = w0\<lparr>db_files := []\<rparr>"

lemma only_files_refl [simp]: "only_files w w"
  by (simp add: only_files_def)

lemma only_files_fields:
  assumes "only_files w0 w"
  shows "db_messages w = db_messages w0" "w_events w = w_events w0" "w_tasks w = w_tasks w0"
    "db_users w = db_users w0" "db_servers w = db_servers w0"
    "db_server_members w = db_server_members w0" "db_channels w = db_channels w0"
  using assms unfolding only_files_def by (auto dest: arg_cong [of _ _ db_messages] arg_cong [of _ _ w_events]
    arg_cong [of _ _ w_tasks] arg_cong [of _ _ db_users] arg_cong [of _ _ db_servers]
    arg_cong [of _ _ db_server_members] arg_cong [of _ _ db_channels])

lemma keeps_reads:
  "keeps I (fetch_server i)" "keeps I (fetch_members i is)" "keeps I (fetch_users is)"
  "keeps I (fetch_emoji i)" "keeps I (channel_permissions_io pdb now u c)"
  by (auto simp: keeps_def fetch_server_def fetch_members_def fetch_users_def fetch_emoji_def
      channel_permissions_io_def split: option.splits)

lemma keeps_channel:
  "(\<And>x. keeps I (f x)) \<Longrightarrow> (\<And>x. keeps I (g x)) \<Longrightarrow> (\<And>x. keeps I (h x)) \<Longrightarrow> (\<And>x. keeps I (k x)) \<Longrightarrow>
   keeps I (case c of SavedMessages x \<Rightarrow> f x | DirectMessage x \<Rightarrow> g x | Group x \<Rightarrow> h x | TextChannel x \<Rightarrow> k x)"
  by (cases c) simp_all

lemmas read_rules = keeps_rules keeps_reads

lemma keeps_bulk: "keeps I (bulk_from_server_id i)" "keeps I (members_can_see_channel now q)"
proof -
  show "keeps I (bulk_from_server_id i)"
    unfolding bulk_from_server_id_def by (intro read_rules)
  have users: "keeps I (bulk_load_users q)" for q
    unfolding bulk_load_users_def by (intro read_rules)
  have members: "keeps I (bulk_load_members q)" for q
    unfolding bulk_load_members_def by (intro read_rules)
  have "keeps I (calculate_members_permissions now q)"
    unfolding calculate_members_permissions_def
    by (auto split: option.splits channel.splits intro!: keeps_bind users members keeps_let)
  then show "keeps I (members_can_see_channel now q)"
    unfolding members_can_see_channel_def by (intro read_rules)
qed

lemma keeps_resolve_replies: "keeps I (resolve_replies a entries mentions replies)"
proof (induction entries arbitrary: mentions replies)
  case (Cons r entries)
  show ?case
  proof (rule keepsI)
    fix w
    assume "I w"
    with keepsD [OF Cons.IH this] show "I (snd (resolve_replies a (r # entries) mentions replies w))"
      by (auto simp: fetch_message_def split: outcome.splits)
  qed
qed simp

lemma keeps_known_roles: "keeps I (known_roles env a c roles)"
  unfolding known_roles_def by (intro read_rules keeps_channel)

lemma keeps_mass_mentions: "keeps I (mass_mentions env c author ev on roles)"
  unfolding mass_mentions_def by (cases author) (auto intro!: read_rules)

lemma keeps_verified_replies: "keeps I (verified_replies env a entries users)"
  unfolding verified_replies_def by (intro read_rules keeps_resolve_replies)

lemma keeps_valid_mentions: "keeps I (valid_mentions env c users roles)"
  unfolding valid_mentions_def by (intro read_rules keeps_bulk keeps_channel)

lemmas stage_rules =
  keeps_known_roles keeps_mass_mentions keeps_verified_replies keeps_valid_mentions

lemma keeps_use_attachments:
  "keeps (only_files w0) (use_attachment i m a)" "keeps (only_files w0) (use_attachments is m a)"
  "keeps (only_files w0) (attach_sendable_embed x e)" "keeps (only_files w0) (attach_embeds es x)"
proof -
  show use: "keeps (only_files w0) (use_attachment i m a)" for i m a
    by (auto simp: keeps_def use_attachment_def find_and_use_attachment_def only_files_def Let_def
        split: option.splits)
  show "keeps (only_files w0) (use_attachments is m a)"
    by (induction "is") (auto intro!: keeps_bind use)
  show embed: "keeps (only_files w0) (attach_sendable_embed x e)" for x e
    unfolding attach_sendable_embed_def by (intro keeps_rules use)
  show "keeps (only_files w0) (attach_embeds es x)"
    by (induction es arbitrary: x) (auto intro!: keeps_bind embed)
qed

lemma send_message_fails:
  "fails_in (only_files w0) (send_message m author user member c embeds)"
proof -
  have "is_ok (fst (queue_task t w))" "is_ok (fst (publish ch e w))" for t ch e w
    by (simp_all add: queue_task_def publish_def)
  then show ?thesis
    by (auto simp: fails_in_def send_message_def send_without_notifications_def bindM_def
        insert_message_def publish_def queue_task_def Let_def
        split: option.splits bool.splits if_splits)
qed

lemma create_fails_in: "fails_in (only_files w0) (create_from_api env c d author user member ge am)"
  unfolding create_from_api_def
  by (intro fails_in_bind fails_in_let fails_in_prod fails_in_last [OF send_message_fails]
      keeps_const stage_rules keeps_use_attachments) simp

section \<open>A successful creation\<close>

lemma attach_embeds_Ok:
  "attach_embeds es m w = (Ok m', w') \<Longrightarrow> \<exists>e. m' = m\<lparr>ms_embeds := e\<rparr>"
proof (induction es arbitrary: m w)
  case Nil
  then show ?case by (auto intro: exI [of _ "ms_embeds m"])
next
  case (Cons e es)
  then obtain m1 w1 where step: "attach_sendable_embed m e w = (Ok m1, w1)"
    "attach_embeds es m1 w1 = (Ok m', w')"
    by (auto simp: bindM_eq_Ok)
  then obtain x where "m1 = m\<lparr>ms_embeds := x\<rparr>"
    by (auto simp: attach_sendable_embed_def bindM_eq_Ok Let_def split: option.splits)
  with Cons.IH [OF step(2)] show ?case
    by auto
qed

lemma only_files_trans: "only_files w0 w1 \<Longrightarrow> only_files w1 w2 \<Longrightarrow> only_files w0 w2"
  by (simp add: only_files_def)

lemma attach_embeds_run:
  assumes "attach_embeds es m w = (Ok m', w')"
  shows "only_files w w' \<and> (\<exists>e. m' = m\<lparr>ms_embeds := e\<rparr>)"
  using attach_embeds_Ok [OF assms] keepsD [OF keeps_use_attachments(4) only_files_refl, of w es m]
    assms by simp

lemma use_attachments_run: "use_attachments is m a w = (r, w') \<Longrightarrow> only_files w w'"
  using keepsD [OF keeps_use_attachments(2) only_files_refl, of w "is" m a] by simp

lemma reads_run: "keeps (\<lambda>s. s = w) m \<Longrightarrow> m w = (r, w') \<longleftrightarrow> fst (m w) = r \<and> w' = w"
  using keepsD [of "\<lambda>s. s = w" m w] by (cases "m w") auto

lemmas stage_runs = stage_rules [THEN reads_run]

definition found_mentions :: "message_env \<Rightarrow> data_message_send \<Rightarrow> message_results" where
  "found_mentions env d =
     (case dms_content d of
        Some content \<Rightarrow> parse_message (me_lexer env) content | None \<Rightarrow> default_results)"

text \<open>The values the stages pass on when a message is created.\<close>

definition creation_stages ::
    "message_env \<Rightarrow> channel \<Rightarrow> data_message_send \<Rightarrow> message_author \<Rightarrow> user option \<Rightarrow> bool \<Rightarrow> world \<Rightarrow>
     bool \<Rightarrow> bool \<Rightarrow> bool \<Rightarrow> string list \<Rightarrow> string list \<Rightarrow> string list \<Rightarrow> string list \<Rightarrow> bool" where
  "creation_stages env c d author user am w suppress everyone online roles users0 users roles' \<longleftrightarrow>
     (\<exists>everyone0 online0 roles0 replies.
        requested_flags am user (dms_flags d) = Ok (suppress, everyone0, online0) \<and>
        known_roles env am c (role_mentions (found_mentions env d)) w = (Ok roles0, w) \<and>
        mass_mentions env c author (mentions_everyone (found_mentions env d) \<or> everyone0)
          (mentions_online (found_mentions env d) \<or> online0) roles0 w =
          (Ok (everyone, online, roles), w) \<and>
        verified_replies env am (dms_replies d) (user_mentions (found_mentions env d)) w =
          (Ok (users0, replies), w) \<and>
        valid_mentions env c users0 roles w = (Ok (users, roles'), w))"

lemma create_Ok:
  assumes "create_from_api env c d author user member ge am w = (Ok m, w')"
  obtains suppress everyone online roles users0 users roles' w1 where
    "creation_stages env c d author user am w suppress everyone online roles users0 users roles'"
    and "only_files w w1" and "send_message m author user member c ge w1 = (Ok (), w')"
    and "ms_id m = me_new_id env" and "ms_channel m = channel_id c"
    and "ms_mentions m = some_nonempty users" and "ms_role_mentions m = some_nonempty roles'"
    and "ms_flags m = Some (final_flags suppress everyone online)"
  using assms unfolding create_from_api_def found_mentions_def [symmetric]
proof (elim run_elims, goal_cases)
  case (1 _ s1 key s2 _ s3 flags s4 suppress b everyone0 online0 _ s5 _ s6 roles0 s7 mass s8
      everyone b' online roles rep s9 users0 replies val s10 users roles' _ s11 _ s12 files s13
      m1 s14 _ s15)
  have s: "s6 = w" "s7 = w" "s8 = w" "s9 = w" "s10 = w" "s12 = w"
    using 1 stage_rules [THEN reads_state] by metis+
  have "creation_stages env c d author user am w suppress everyone online roles users0 users roles'"
    unfolding creation_stages_def
    by (intro exI [of _ everyone0] exI [of _ online0] exI [of _ roles0] exI [of _ replies])
       (use 1 in \<open>simp add: s\<close>)
  moreover have "only_files w s14"
    using use_attachments_run [OF 1(24)] attach_embeds_run [OF 1(25)]
    by (auto simp: s intro: only_files_trans)
  moreover obtain e where "m1 = start_message env c d author
      \<lparr>ms_mentions := some_nonempty users, ms_role_mentions := some_nonempty roles',
       ms_replies := some_nonempty replies,
       ms_flags := Some (final_flags suppress everyone online),
       ms_attachments := some_nonempty files\<rparr>\<lparr>ms_embeds := e\<rparr>"
    using attach_embeds_run [OF 1(25)] by blast
  ultimately show thesis
    using 1 by (intro that [of suppress everyone online roles users0 users roles' s14])
      (simp_all add: start_message_def)
qed

end
