(* ===== verification/Message_Properties.thy ===== *)
theory Message_Properties
  imports Message_Create
begin

unbundle bit_operations_syntax

text \<open>
  What creating a message guarantees: it is all or nothing, its mentions reach only users who
  can read the channel, mass mentions need their permission, and (a defect) a request to
  suppress notifications is never honoured.
\<close>

section \<open>Sending\<close>

lemma queue_task_frame:
  "db_messages (snd (queue_task t w)) = db_messages w" "w_events (snd (queue_task t w)) = w_events w"
  "fst (queue_task t w) = Ok ()"
  by (simp_all add: queue_task_def)

lemma send_message_run:
  assumes "send_message m author user member c ge w = (Ok (), w')"
  shows "hm_get (db_messages w) (ms_id m) = None"
    and "db_messages w' = hm_insert (ms_id m) m (db_messages w)"
    and "w_events w' = w_events w @ [(ms_channel m, E_Message m user member)]"
  using assms
  by (auto simp: send_message_def send_without_notifications_def bindM_def insert_message_def
      publish_def queue_task_def Let_def split: option.splits bool.splits if_splits)

text \<open>
  C4: Creating a message is all or nothing: on success exactly the new message is added to
  the store and exactly one event announces it, on the topic of its channel; on an error or a
  panic no message is stored, no event published and no task queued.
\<close>

theorem create_all_or_nothing:
  "case create_from_api env c d author user member ge am w of
     (Ok m, w') \<Rightarrow>
       hm_get (db_messages w) (ms_id m) = None \<and>
       db_messages w' = hm_insert (ms_id m) m (db_messages w) \<and>
       w_events w' = w_events w @ [(channel_id c, E_Message m user member)]
   | (_, w') \<Rightarrow>
       db_messages w' = db_messages w \<and> w_events w' = w_events w \<and> w_tasks w' = w_tasks w"
proof -
  obtain r w' where run: "create_from_api env c d author user member ge am w = (r, w')"
    by (cases "create_from_api env c d author user member ge am w")
  show ?thesis
  proof (cases r)
    case (Ok m)
    with run have "create_from_api env c d author user member ge am w = (Ok m, w')"
      by simp
    then show ?thesis
    proof (rule create_Ok)
      fix w1
      assume w1: "only_files w w1" "send_message m author user member c ge w1 = (Ok (), w')"
        "ms_channel m = channel_id c"
      show ?thesis
        using send_message_run [OF w1(2)] only_files_fields [OF w1(1)] w1(3) run Ok by simp
    qed
  next
    case (Err e)
    with fails_inD [OF create_fails_in only_files_refl run] have "only_files w w'"
      by simp
    from only_files_fields [OF this] run Err show ?thesis
      by simp
  next
    case (Panic x)
    with fails_inD [OF create_fails_in only_files_refl run] have "only_files w w'"
      by simp
    from only_files_fields [OF this] run Panic show ?thesis
      by simp
  qed
qed

section \<open>Flags\<close>

lemma final_flags_bits:
  "mf_has (final_flags s e o') SuppressNotifications = s"
  "mf_has (final_flags s e o') MentionsEveryone = e"
  "mf_has (final_flags s e o') MentionsOnline = o'"
  "\<not> bit (final_flags s e o') 0"
  by (auto simp: final_flags_def mf_has_bit bit_mf_set)

lemma created_not_suppressed:
  assumes "ms_flags m = Some (final_flags s e o')"
  shows "\<not> has_suppressed_notifications m"
  using assms by (simp add: has_suppressed_notifications_bit final_flags_bits)

lemma requested_suppress:
  "requested_flags am user (Some raw) = Ok (s, e, o') \<Longrightarrow> s = mf_has raw SuppressNotifications"
  by (auto simp: requested_flags_def Let_def split: if_splits option.splits)

lemma group_send_notifies:
  assumes "send_message m author user member (Group g) ge w = (Ok (), w')"
    and "\<not> has_suppressed_notifications m" and "length (w_tasks w) + 3 \<le> 10000"
  shows "T_Ack (ms_channel m) None
           (ProcessMessage [(Some \<lparr>pn_message = m, pn_channel = Group g\<rparr>, m,
              filter (\<lambda>uid. uid \<noteq> author_id author) (g_recipients g), False)]) \<in> set (w_tasks w')"
proof -
  have few: "length (filter P (w_tasks w)) < 10000" "Suc (length (filter P (w_tasks w))) < 10000" for P
    using assms(3) length_filter_le [of P "w_tasks w"] by linarith+
  show ?thesis
    using assms(1,2)
    by (auto simp: few send_message_def send_without_notifications_def bindM_def insert_message_def
        publish_def queue_task_def Let_def notified_def same_queue_def split: option.splits bool.splits if_splits)
qed

text \<open>
  C35: A message sent to a group with the flag that asks for silent delivery still notifies
  every other member: the flag is stored at bit 1 and read at bit 0.
\<close>

theorem suppression_never_honoured:
  assumes "create_from_api env (Group g) d author user member ge am w = (Ok m, w')"
    and "dms_flags d = Some raw" and "mf_has raw SuppressNotifications"
    and "length (w_tasks w) + 3 \<le> 10000"
  shows "(\<exists>f. ms_flags m = Some f \<and> mf_has f SuppressNotifications) \<and>
         T_Ack (g_id g) None
           (ProcessMessage [(Some \<lparr>pn_message = m, pn_channel = Group g\<rparr>, m,
              filter (\<lambda>uid. uid \<noteq> author_id author) (g_recipients g), False)]) \<in> set (w_tasks w')"
  using assms(1)
proof (rule create_Ok)
  fix suppress everyone online roles users0 users roles' w1
  assume stages: "creation_stages env (Group g) d author user am w suppress everyone online roles
      users0 users roles'"
    and w1: "only_files w w1" "send_message m author user member (Group g) ge w1 = (Ok (), w')"
    and m: "ms_channel m = channel_id (Group g)" "ms_flags m = Some (final_flags suppress everyone online)"
  from stages assms(2,3) have "suppress"
    by (auto simp: creation_stages_def dest: requested_suppress)
  moreover have "T_Ack (ms_channel m) None
      (ProcessMessage [(Some \<lparr>pn_message = m, pn_channel = Group g\<rparr>, m,
         filter (\<lambda>uid. uid \<noteq> author_id author) (g_recipients g), False)]) \<in> set (w_tasks w')"
    using created_not_suppressed [OF m(2)] assms(4) only_files_fields(3) [OF w1(1)]
    by (intro group_send_notifies [OF w1(2)]) simp_all
  ultimately show ?thesis
    using m by (simp add: final_flags_bits)
qed

section \<open>Mass mentions\<close>

lemma mass_mentions_permitted:
  assumes "mass_mentions env c (MA_User u) everyone0 online0 roles0 w = (Ok (everyone, online, roles), w)"
    and "everyone \<or> online \<or> roles \<noteq> []"
  shows "me_mass_mentions_enabled env \<and>
         (\<exists>p q. calculate_channel_permissions (DatabasePermissionQuery (me_pdb env w) (me_now env))
                  (channel_query (converted_author u) c) = Some (p, q) \<and>
                has_channel_permission p CP_PingEveryoneAndRoles)"
  using assms
  by (cases "calculate_channel_permissions (DatabasePermissionQuery (me_pdb env w) (me_now env))
        (channel_query (converted_author u) c)")
     (auto simp: mass_mentions_def channel_permissions_io_def guard_def bindM_def split: if_splits)

lemma valid_mentions_roles:
  assumes "valid_mentions env c users roles w = (Ok (users', roles'), w)"
  shows "set roles' \<subseteq> set roles"
  using assms unfolding valid_mentions_def
  by (cases c) (auto simp: Let_def split: if_splits elim!: run_elims)

text \<open>
  C27: A message by a user that mentions everyone, everyone online or a role was created only
  where mass mentions are enabled and the author, taken without its relationships, has the
  permission to mention them in that channel.
\<close>

theorem mass_mention_needs_permission:
  assumes "create_from_api env c d (MA_User u) user member ge am w = (Ok m, w')"
    and "ms_flags m = Some f"
    and "mf_has f MentionsEveryone \<or> mf_has f MentionsOnline \<or> ms_role_mentions m \<noteq> None"
  shows "me_mass_mentions_enabled env \<and>
         (\<exists>p q. calculate_channel_permissions (DatabasePermissionQuery (me_pdb env w) (me_now env))
                  (channel_query (converted_author u) c) = Some (p, q) \<and>
                has_channel_permission p CP_PingEveryoneAndRoles)"
  using assms(1)
proof (rule create_Ok)
  fix suppress everyone online roles users0 users roles'
  assume stages: "creation_stages env c d (MA_User u) user am w suppress everyone online roles
      users0 users roles'"
    and m: "ms_role_mentions m = some_nonempty roles'"
      "ms_flags m = Some (final_flags suppress everyone online)"
  from stages have roles: "roles' \<noteq> [] \<Longrightarrow> roles \<noteq> []"
    by (auto simp: creation_stages_def dest: valid_mentions_roles)
  have "everyone \<or> online \<or> roles' \<noteq> []"
    using assms(2,3) m by (auto simp: final_flags_bits some_nonempty_def split: if_splits)
  with roles have "everyone \<or> online \<or> roles \<noteq> []"
    by blast
  with stages show ?thesis
    unfolding creation_stages_def by (elim exE conjE) (rule mass_mentions_permitted)
qed

section \<open>User mentions\<close>

lemma resolve_replies_distinct:
  "resolve_replies am entries mentions replies w = (Ok (mentions', replies'), w') \<Longrightarrow>
   distinct mentions \<Longrightarrow> distinct mentions'"
  by (induction entries arbitrary: mentions replies w) (auto split: prod.splits outcome.splits if_splits)

lemma found_mentions_distinct: "distinct (user_mentions (found_mentions env d))"
proof -
  have "distinct (user_mentions (add_token t r))" if "distinct (user_mentions r)" for t r
    using that by (cases t) auto
  then have "distinct (user_mentions (fold add_token ts r))" if "distinct (user_mentions r)" for ts r
    using that by (induction ts arbitrary: r) auto
  then show ?thesis
    by (auto simp: found_mentions_def parse_message_def default_results_def split: option.splits)
qed

lemma verified_replies_distinct:
  assumes "verified_replies env am entries mentions w = (Ok (users, replies), w')" and "distinct mentions"
  shows "distinct users"
  using assms unfolding verified_replies_def
  by (cases entries) (auto simp: bindM_eq_Ok guard_def dest: resolve_replies_distinct split: if_splits)

lemma text_mentions:
  assumes "valid_mentions env (TextChannel t) users0 roles w = (Ok (users, roles'), w)" and "i \<in> set users"
  obtains s ms seen q' m where "hm_get (db_servers w) (tc_server t) = Some s"
    and "fetch_members (tc_server t) users0 w = (Ok ms, w)"
    and "members_can_see_channel (me_now env)
           (bulk_members ms (bulk_channel (TextChannel t) (bulk_new s))) w = (Ok (seen, q'), w)"
    and "m \<in> set ms" and "mk_user (m_id m) = i" and "hm_get seen i = Some True"
proof -
  from assms(2) have "users \<noteq> []"
    by auto
  with assms obtain ms where ms: "fetch_members (tc_server t) users0 w = (Ok ms, w)"
    and rest: "bindM (bulk_from_server_id (tc_server t)) (\<lambda>query.
        bindM (members_can_see_channel (me_now env)
          (bulk_members ms (bulk_channel (TextChannel t) query))) (\<lambda>(seen, _).
        ret (filter (\<lambda>m. unwrap_or (hm_get seen m) False)
          (filter (\<lambda>m. m \<in> set (map (\<lambda>x. mk_user (m_id x)) ms)) users0), roles))) w = (Ok (users, roles'), w)"
    unfolding valid_mentions_def
    by (auto simp: Let_def bindM_eq_Ok map_err_def fetch_members_def split: if_splits)
  from rest show thesis
    unfolding bulk_from_server_id_def
  proof (elim run_elims, goal_cases)
    case (1 query w1 s w2 res w3 seen q')
    from 1 have s: "hm_get (db_servers w) (tc_server t) = Some s" "w2 = w"
      by (auto simp: expect_def fetch_server_def split: outcome.splits option.splits)
    from 1 assms(2) obtain m where "m \<in> set ms" "mk_user (m_id m) = i" "hm_get seen i = Some True"
      by (auto simp: unwrap_or_def split: option.splits)
    with that [OF s(1) ms] 1 s(2) show thesis
      by simp
  qed
qed


section \<open>Instances\<close>

definition sample_env :: "message_token list \<Rightarrow> message_env" where
  "sample_env tokens =
     \<lparr>me_new_id = ''N'', me_now = 0, me_now_ms = 0, me_pdb = reference_db,
      me_mass_mentions_enabled = True, me_message_replies = 5, me_message_embeds = 5,
      me_message_reactions = 20, me_message_length = 2000, me_message_attachments = 5,
      me_lexer = (\<lambda>_. tokens), me_trim = (\<lambda>s. s), me_lower = (\<lambda>s. s), me_nonce = Some ''nonce'',
      me_emoji = \<lparr>er_is_ulid = (\<lambda>_. False), er_sanitize = (\<lambda>s. s), er_permissible = (\<lambda>_. True)\<rparr>,
      me_slowmode = (\<lambda>_ _ _. NoConnection), me_account_age = (\<lambda>_. Some 24)\<rparr>"

definition sample_send :: "u32 option \<Rightarrow> data_message_send" where
  "sample_send flags =
     \<lparr>dms_nonce = None, dms_content = Some ''hello'', dms_attachments = None, dms_replies = None,
      dms_embeds = None, dms_masquerade = None, dms_interactions = None, dms_poll = None,
      dms_flags = flags\<rparr>"

theorem suppression_never_honoured_witness:
  "\<exists>m w'. create_from_api (sample_env []) (Group sample_group) (sample_send (Some 2))
       (MA_User (sample_user ''O'')) None None True True sample_world = (Ok m, w') \<and>
     T_Ack ''G'' None (ProcessMessage [(Some \<lparr>pn_message = m, pn_channel = Group sample_group\<rparr>, m,
       [''A''], False)]) \<in> set (w_tasks w')"
proof -
  have "is_ok (fst (create_from_api (sample_env []) (Group sample_group) (sample_send (Some 2))
      (MA_User (sample_user ''O'')) None None True True sample_world))"
    by code_simp
  then obtain m w' where run: "create_from_api (sample_env []) (Group sample_group)
      (sample_send (Some 2)) (MA_User (sample_user ''O'')) None None True True sample_world = (Ok m, w')"
    by (auto dest: is_ok_fst)
  have "dms_flags (sample_send (Some 2)) = Some 2" "mf_has 2 SuppressNotifications"
    "length (w_tasks sample_world) + 3 \<le> 10000"
    by (simp_all add: sample_send_def mf_has_bit bit_simps sample_world_def empty_world_def)
  from suppression_never_honoured [OF run this] run show ?thesis
    by (auto simp: sample_group_def sample_user_def)
qed

theorem mass_mention_needs_permission_witness:
  "\<exists>m w'. create_from_api (sample_env [MentionEveryone]) (TextChannel sample_text_channel)
       (sample_send None) (MA_User (sample_user ''O'')) None None True True sample_world = (Ok m, w') \<and>
     (\<exists>p q. calculate_channel_permissions (DatabasePermissionQuery (reference_db sample_world) 0)
        (channel_query (converted_author (sample_user ''O'')) (TextChannel sample_text_channel)) = Some (p, q) \<and>
        has_channel_permission p CP_PingEveryoneAndRoles)"
proof -
  let ?run = "create_from_api (sample_env [MentionEveryone]) (TextChannel sample_text_channel)
      (sample_send None) (MA_User (sample_user ''O'')) None None True True sample_world"
  have "(case ?run of (Ok m, w') \<Rightarrow> ms_flags m = Some 4 | _ \<Rightarrow> False)"
    by code_simp
  then obtain m w' where run: "?run = (Ok m, w')" "ms_flags m = Some 4"
    by (auto split: prod.splits outcome.splits)
  have "mf_has 4 MentionsEveryone \<or> mf_has 4 MentionsOnline \<or> ms_role_mentions m \<noteq> None"
    by (simp add: mf_has_bit bit_simps)
  from mass_mention_needs_permission [OF run this] run(1) show ?thesis
    by (auto simp: sample_env_def)
qed


end
