(* ===== verification/Reactions.thy ===== *)
theory Reactions
  imports Messaging
begin

text \<open>
  The reactions of a message as a set of (emoji, user) pairs. The message keeps them in an
  \<open>IndexMap\<close> of \<open>IndexSet\<close>s whose \<open>swap_remove\<close> reorders; the operations of \<open>Messaging\<close> refine
  insertion and removal on the set, and never leave an emoji without users.
\<close>

section \<open>Reactions as a set\<close>

definition reactions_ok :: "(string \<times> string list) list \<Rightarrow> bool" where
  "reactions_ok rs \<longleftrightarrow>
     hm_ok rs \<and> (\<forall>e us. hm_get rs e = Some us \<longrightarrow> us \<noteq> [] \<and> distinct us)"

definition reaction_pairs :: "(string \<times> string list) list \<Rightarrow> (string \<times> string) set" where
  "reaction_pairs rs = {(e, u). \<exists>us. hm_get rs e = Some us \<and> u \<in> set us}"

lemma mset_swap_remove_at:
  "i < length xs \<Longrightarrow> mset (swap_remove_at i xs) = mset xs - {#xs ! i#}"
proof -
  assume i: "i < length xs"
  then have ne: "xs[i := last xs] \<noteq> []" "xs \<noteq> []"
    by auto
  have "mset (butlast (xs[i := last xs])) = mset (xs[i := last xs]) - {#last (xs[i := last xs])#}"
    using ne(1) by (metis add_mset_remove_trivial append_butlast_last_id mset.simps(2)
        mset_append union_mset_add_mset_right mset_single_iff_right add.right_neutral mset.simps(1))
  also have "last (xs[i := last xs]) = last xs"
    using ne i by (simp add: last_list_update)
  finally show ?thesis
    using i by (simp add: swap_remove_at_def mset_update)
qed

lemma position_takeWhile:
  "x \<in> set xs \<Longrightarrow> length (takeWhile (\<lambda>y. y \<noteq> x) xs) < length xs \<and>
     xs ! length (takeWhile (\<lambda>y. y \<noteq> x) xs) = x"
  by (induction xs) auto

lemma set_swap_remove_distinct:
  assumes "distinct xs"
  shows "set (set_swap_remove x xs) = set xs - {x} \<and> distinct (set_swap_remove x xs)"
proof (cases "x \<in> set xs")
  case True
  note pos = position_takeWhile [OF True]
  then have m: "mset (set_swap_remove x xs) = mset xs - {#x#}"
    using mset_swap_remove_at [of "length (takeWhile (\<lambda>y. y \<noteq> x) xs)" xs]
    by (simp add: set_swap_remove_def)
  then have "mset (set_swap_remove x xs) = mset (remove1 x xs)"
    by simp
  then show ?thesis
    using assms by (metis distinct_remove1 mset_eq_imp_distinct_iff mset_eq_setD set_remove1_eq)
next
  case False
  then have "takeWhile (\<lambda>y. y \<noteq> x) xs = xs"
    by (auto simp: takeWhile_eq_all_conv)
  then have "set_swap_remove x xs = xs"
    by (simp only: set_swap_remove_def swap_remove_at_def less_irrefl if_False)
  with False assms show ?thesis
    by simp
qed

lemma hm_get_mset:
  assumes "hm_ok a" and "mset a = mset b"
  shows "hm_ok b" and "hm_get b = hm_get a"
proof -
  have "mset (map fst a) = mset (map fst b)"
    using assms(2) by simp
  with assms(1) show ok: "hm_ok b"
    unfolding hm_ok_def by (metis mset_eq_imp_distinct_iff)
  have "set a = set b"
    using assms(2) by (rule mset_eq_setD)
  with assms(1) ok have "map_of b = map_of a"
    by (simp add: hm_ok_def map_of_inject_set)
  then show "hm_get b = hm_get a"
    by (auto simp: hm_get_def)
qed

lemma remove1_hm:
  "hm_ok rs \<Longrightarrow> hm_get rs k = Some v \<Longrightarrow> remove1 (k, v) rs = hm_remove k rs"
proof (induction rs)
  case (Cons a rs)
  have "AList.delete k rs = rs" if "fst a = k"
    using Cons.prems(1) that by (auto simp: hm_ok_def intro!: AList.delete_id)
  with Cons show ?case
    by (cases a) (auto simp: hm_ok_def hm_get_def hm_remove_def split: if_splits)
qed simp

lemma map_swap_remove_ok:
  assumes "hm_ok rs"
  shows "hm_ok (map_swap_remove k rs)" and "hm_get (map_swap_remove k rs) = hm_get (hm_remove k rs)"
    and "length (map_swap_remove k rs) \<le> length rs"
proof -
  have "hm_ok (map_swap_remove k rs) \<and> hm_get (map_swap_remove k rs) = hm_get (hm_remove k rs)"
  proof (cases "hm_get rs k")
    case None
    then have "takeWhile (\<lambda>(l, _). l \<noteq> k) rs = rs"
      by (auto simp: hm_get_def map_of_eq_None_iff takeWhile_eq_all_conv rev_image_eqI)
    then have "map_swap_remove k rs = rs"
      by (simp only: map_swap_remove_def swap_remove_at_def less_irrefl if_False)
    with assms None show ?thesis
      by (auto intro!: ext)
  next
    case (Some v)
    then have "length (takeWhile (\<lambda>(l, _). l \<noteq> k) rs) < length rs \<and>
        rs ! length (takeWhile (\<lambda>(l, _). l \<noteq> k) rs) = (k, v)"
      by (induction rs) (auto simp: hm_get_def split: if_splits)
    then have "mset (map_swap_remove k rs) = mset (remove1 (k, v) rs)"
      using mset_swap_remove_at [of "length (takeWhile (\<lambda>(l, _). l \<noteq> k) rs)" rs]
      by (simp add: map_swap_remove_def)
    then have "mset (hm_remove k rs) = mset (map_swap_remove k rs)"
      using remove1_hm [OF assms Some] by simp
    from hm_get_mset [OF hm_ok_remove [OF assms] this] show ?thesis
      by (intro conjI) simp_all
  qed
  then show "hm_ok (map_swap_remove k rs)" "hm_get (map_swap_remove k rs) = hm_get (hm_remove k rs)"
    by simp_all
  show "length (map_swap_remove k rs) \<le> length rs"
    by (simp add: map_swap_remove_def swap_remove_at_def)
qed

datatype reaction_op = React user string | Unreact string string | ClearReaction string

definition run_reaction :: "emoji_rules \<Rightarrow> nat \<Rightarrow> message \<Rightarrow> reaction_op \<Rightarrow> unit io" where
  "run_reaction er limit m op =
     (case op of
        React user emoji \<Rightarrow> add_reaction er limit m user emoji
      | Unreact user emoji \<Rightarrow> remove_reaction m user emoji
      | ClearReaction emoji \<Rightarrow> clear_reaction m emoji)"

fun reaction_effect :: "reaction_op \<Rightarrow> (string \<times> string) set \<Rightarrow> (string \<times> string) set" where
  "reaction_effect (React user emoji) R = insert (emoji, u_id user) R"
| "reaction_effect (Unreact user emoji) R = R - {(emoji, user)}"
| "reaction_effect (ClearReaction emoji) R = {(e, u) \<in> R. e \<noteq> emoji}"

lemma emoji_can_use_state: "snd (emoji_can_use er e w) = w"
  by (simp add: emoji_can_use_def bindM_def fetch_emoji_def ok_or_def split: option.splits)

lemma reacted_ok:
  assumes "reactions_ok rs"
  shows "reactions_ok (if hm_contains rs e then hm_modify e (set_insert u) rs else rs @ [(e, [u])])"
    and "reaction_pairs (if hm_contains rs e then hm_modify e (set_insert u) rs else rs @ [(e, [u])]) =
           insert (e, u) (reaction_pairs rs)"
proof -
  have new: "hm_ok (rs @ [(e, [u])])" if "hm_get rs e = None"
    using assms that by (auto simp: reactions_ok_def hm_ok_def hm_get_def map_of_eq_None_iff)
  then show "reactions_ok (if hm_contains rs e then hm_modify e (set_insert u) rs else rs @ [(e, [u])])"
    using assms by (auto simp: reactions_ok_def hm_get_append_new set_insert_def split: if_splits)
  show "reaction_pairs (if hm_contains rs e then hm_modify e (set_insert u) rs else rs @ [(e, [u])]) =
      insert (e, u) (reaction_pairs rs)"
    by (auto simp: reaction_pairs_def hm_get_append_new split: if_splits)
qed

lemma cleared_ok:
  assumes "reactions_ok rs"
  shows "reactions_ok (map_swap_remove e rs)"
    and "reaction_pairs (map_swap_remove e rs) = {(x, u) \<in> reaction_pairs rs. x \<noteq> e}"
  using assms map_swap_remove_ok(1,2) [of rs e]
  by (auto simp: reactions_ok_def reaction_pairs_def split: if_splits)

lemma unreacted_ok:
  assumes "reactions_ok rs" and "hm_get rs e = Some us" and "u \<in> set us" and "length us \<noteq> 1"
  shows "reactions_ok (hm_modify e (set_swap_remove u) rs)"
    and "reaction_pairs (hm_modify e (set_swap_remove u) rs) = reaction_pairs rs - {(e, u)}"
proof -
  have us: "distinct us"
    using assms(1,2) by (simp add: reactions_ok_def)
  note remove = set_swap_remove_distinct [OF us, of u]
  have "set us \<noteq> {u}"
  proof
    assume "set us = {u}"
    with distinct_card [OF us] assms(4) show False
      by simp
  qed
  with assms(3) remove have "set_swap_remove u us \<noteq> []"
    by (metis Diff_eq_empty_iff set_empty subset_singletonD empty_iff insert_iff)
  with assms remove show "reactions_ok (hm_modify e (set_swap_remove u) rs)"
    by (auto simp: reactions_ok_def split: if_splits)
  have "hm_get (hm_modify e (set_swap_remove u) rs) x =
      (if x = e then Some (set_swap_remove u us) else hm_get rs x)" for x
    using assms(2) by simp
  then have "(x, v) \<in> reaction_pairs (hm_modify e (set_swap_remove u) rs) \<longleftrightarrow>
      (x, v) \<in> reaction_pairs rs - {(e, u)}" for x v
    using assms(2) remove by (simp add: reaction_pairs_def)
  then show "reaction_pairs (hm_modify e (set_swap_remove u) rs) = reaction_pairs rs - {(e, u)}"
    by auto
qed

definition reacted_to ::
    "world \<Rightarrow> message \<Rightarrow> nat \<Rightarrow> (string \<times> string list) list \<Rightarrow> (string \<times> string) set \<Rightarrow> bool" where
  "reacted_to w m limit rs R \<longleftrightarrow>
     hm_get (db_messages w) (ms_id m) = Some (m\<lparr>ms_reactions := rs\<rparr>) \<and> reactions_ok rs \<and>
     reaction_pairs rs = R \<and> length rs \<le> max limit (length (ms_reactions m))"

lemma react_effect:
  assumes "hm_get (db_messages w) (ms_id m) = Some m" and "reactions_ok (ms_reactions m)"
    and "add_reaction er limit m user emoji w = (Ok (), w')"
  shows "\<exists>rs. reacted_to w' m limit rs (insert (emoji, u_id user) (reaction_pairs (ms_reactions m)))"
proof -
  let ?rs = "if hm_contains (ms_reactions m) emoji
      then hm_modify emoji (set_insert (u_id user)) (ms_reactions m)
      else ms_reactions m @ [(emoji, [u_id user])]"
  obtain x where x: "emoji_can_use er emoji w = (x, w)"
    using emoji_can_use_state [of er emoji w] by (cases "emoji_can_use er emoji w") auto
  from assms(1,3) x
  have "hm_get (db_messages w') (ms_id m) = Some (m\<lparr>ms_reactions := ?rs\<rparr>)"
    and "hm_contains (ms_reactions m) emoji \<or> length (ms_reactions m) < limit"
    by (auto simp: add_reaction_def bindM_eq_Ok guard_def publish_def
        add_reaction_db_def split: if_splits)
  moreover from this(2) have "length ?rs \<le> max limit (length (ms_reactions m))"
    by (auto simp: hm_modify_def)
  ultimately show ?thesis
    using reacted_ok [OF assms(2), of emoji "u_id user"]
    by (intro exI [of _ ?rs]) (simp add: reacted_to_def)
qed

lemma cleared_effect:
  assumes "reactions_ok (ms_reactions m)"
    and "hm_get (db_messages w) (ms_id m) = Some (m\<lparr>ms_reactions := map_swap_remove emoji (ms_reactions m)\<rparr>)"
  shows "\<exists>rs. reacted_to w m limit rs {(e, u) \<in> reaction_pairs (ms_reactions m). e \<noteq> emoji}"
proof -
  have "length (map_swap_remove emoji (ms_reactions m)) \<le> max limit (length (ms_reactions m))"
    using map_swap_remove_ok(3) [of "ms_reactions m" emoji] assms(1)
    by (simp add: reactions_ok_def max.coboundedI2)
  with cleared_ok [OF assms(1), of emoji] assms(2) show ?thesis
    by (auto simp: reacted_to_def)
qed

lemma unreact_effect:
  assumes "hm_get (db_messages w) (ms_id m) = Some m" and "reactions_ok (ms_reactions m)"
    and "remove_reaction m user emoji w = (Ok (), w')"
  shows "\<exists>rs. reacted_to w' m limit rs (reaction_pairs (ms_reactions m) - {(emoji, user)})"
proof -
  from assms(3) obtain us where us: "hm_get (ms_reactions m) emoji = Some us" "user \<in> set us"
    by (auto simp: remove_reaction_def guard_def bindM_eq_Ok split: option.splits if_splits)
  show ?thesis
  proof (cases "length us = 1")
    case True
    have "hm_get (db_messages w') (ms_id m) =
        Some (m\<lparr>ms_reactions := map_swap_remove emoji (ms_reactions m)\<rparr>)"
      using assms(1,3) us True by (auto simp: remove_reaction_def publish_def clear_reaction_db_def)
    moreover have "{(x, u) \<in> reaction_pairs (ms_reactions m). x \<noteq> emoji} =
        reaction_pairs (ms_reactions m) - {(emoji, user)}"
      using True us by (auto simp: reaction_pairs_def length_Suc_conv)
    ultimately show ?thesis
      using cleared_effect [OF assms(2), of w' emoji] by simp
  next
    case False
    let ?rs = "hm_modify emoji (set_swap_remove user) (ms_reactions m)"
    have "hm_get (db_messages w') (ms_id m) = Some (m\<lparr>ms_reactions := ?rs\<rparr>)"
      using assms(1,3) us False by (auto simp: remove_reaction_def publish_def remove_reaction_db_def)
    with unreacted_ok [OF assms(2) us False] show ?thesis
      by (intro exI [of _ ?rs]) (simp add: reacted_to_def hm_modify_def)
  qed
qed

text \<open>
  C29: On a message whose copy is current, adding, removing and clearing reactions refine the
  set operations on (emoji, user) pairs: an accepted reaction adds its pair and nothing else,
  removing a reaction removes its pair, clearing an emoji removes its pairs; no emoji is left
  without users, the rest of the message stays as it is, and the number of distinct emojis
  never grows past the limit.
\<close>

theorem reactions_refine_set:
  assumes "hm_get (db_messages w) (ms_id m) = Some m" and "reactions_ok (ms_reactions m)"
    and "run_reaction er limit m op w = (Ok (), w')"
  shows "\<exists>rs. hm_get (db_messages w') (ms_id m) = Some (m\<lparr>ms_reactions := rs\<rparr>) \<and> reactions_ok rs \<and>
           reaction_pairs rs = reaction_effect op (reaction_pairs (ms_reactions m)) \<and>
           length rs \<le> max limit (length (ms_reactions m))"
proof -
  have "\<exists>rs. reacted_to w' m limit rs (reaction_effect op (reaction_pairs (ms_reactions m)))"
  proof (cases op)
    case (ClearReaction emoji)
    with assms(1,3) have "hm_get (db_messages w') (ms_id m) =
        Some (m\<lparr>ms_reactions := map_swap_remove emoji (ms_reactions m)\<rparr>)"
      by (auto simp: run_reaction_def clear_reaction_def publish_def clear_reaction_db_def)
    from cleared_effect [OF assms(2) this, of limit] ClearReaction show ?thesis
      by simp
  qed (use react_effect [OF assms(1,2)] unreact_effect [OF assms(1,2)] assms(3) in
        \<open>auto simp: run_reaction_def\<close>)
  then show ?thesis
    by (simp add: reacted_to_def)
qed

definition reacted_message :: message where
  "reacted_message = sample_message\<lparr>ms_reactions := [(''x'', [''A'']), (''y'', [''A'', ''B''])]\<rparr>"

theorem reactions_refine_set_witness:
  "\<exists>w' rs. run_reaction \<lparr>er_is_ulid = (\<lambda>_. False), er_sanitize = (\<lambda>e. e), er_permissible = (\<lambda>_. True)\<rparr> 20
       reacted_message (Unreact ''A'' ''y'') (sample_world\<lparr>db_messages := [(''P'', reacted_message)]\<rparr>) =
       (Ok (), w') \<and>
     reactions_ok rs \<and> reaction_pairs rs = {(''x'', ''A''), (''y'', ''B'')}"
proof -
  let ?er = "\<lparr>er_is_ulid = (\<lambda>_. False), er_sanitize = (\<lambda>e. e), er_permissible = (\<lambda>_. True)\<rparr>"
  let ?w = "sample_world\<lparr>db_messages := [(''P'', reacted_message)]\<rparr>"
  let ?op = "Unreact ''A'' ''y''"
  have rs: "ms_reactions reacted_message = [(''x'', [''A'']), (''y'', [''A'', ''B''])]"
    "ms_id reacted_message = ''P''"
    by (simp_all add: reacted_message_def sample_message_def)
  have "is_ok (fst (run_reaction ?er 20 reacted_message ?op ?w))"
    by code_simp
  then obtain w' where run: "run_reaction ?er 20 reacted_message ?op ?w = (Ok (), w')"
    by (auto dest: is_ok_fst)
  have "hm_get (db_messages ?w) (ms_id reacted_message) = Some reacted_message"
    by (simp add: rs hm_get_def)
  moreover have "reactions_ok (ms_reactions reacted_message)"
    by (auto simp: rs reactions_ok_def hm_ok_def hm_get_def split: if_splits)
  moreover have "reaction_effect ?op (reaction_pairs (ms_reactions reacted_message)) =
      {(''x'', ''A''), (''y'', ''B'')}"
    by (auto simp: rs reaction_pairs_def hm_get_def split: if_splits)
  ultimately show ?thesis
    using reactions_refine_set [OF _ _ run] run by auto
qed

end
