(* ===== verification/Channels.thy ===== *)
theory Channels
  imports Messaging
begin

unbundle bit_operations_syntax

text \<open>
  Creating, changing and leaving channels: the operations of \<open>models/channels/model.rs\<close> and
  the routes of \<open>routes/channels\<close> and \<open>routes/users/open_dm.rs\<close> that use them.

  What a request reads from outside the database is in \<open>route_env\<close>: the clock, the identifiers
  that \<open>Ulid::new()\<close> produces (numbered in the order a handler asks for them), the limits of
  the configuration, the derived \<open>apply_options\<close>, and the voice service. The voice service
  keeps its state in Redis and LiveKit and changes nothing in the database; its answers are
  fields of \<open>voice_client\<close>.
\<close>

section \<open>Environment\<close>

record voice_client =
  vc_enabled :: bool
  vc_channel_in_server :: "string \<Rightarrow> string \<Rightarrow> string option result"
  vc_in_channel :: "string \<Rightarrow> string \<Rightarrow> bool result"
  vc_remove :: "string \<Rightarrow> string \<Rightarrow> unit result"
  vc_delete_channel :: "string \<Rightarrow> unit result"
  vc_sync :: "channel \<Rightarrow> server option \<Rightarrow> string option \<Rightarrow> unit result"
  vc_sync_user :: "user \<Rightarrow> string \<Rightarrow> unit result"
  vc_move :: "user \<Rightarrow> channel \<Rightarrow> string \<Rightarrow> unit result"

record route_env =
  re_now :: timestamp
  re_pdb :: "world \<Rightarrow> permission_db"
  re_os :: optional_struct
  re_ids :: "nat \<Rightarrow> string"
  re_audit_id :: string
  re_expires :: timestamp
  re_threshold :: "nat \<Rightarrow> string"
  re_group_size :: nat
  re_server_channels :: nat
  re_server_roles :: nat
  re_servers :: nat
  re_restrict_server_creation :: "string list"
  re_voice :: voice_client

section \<open>Audit log\<close>

text \<open>
  \<open>insert\<close> hands the entry to a task of its own whose failure is only reported, so the request
  goes on either way.
\<close>

definition audit_insert ::
    "route_env \<Rightarrow> audit_log_entry_action \<Rightarrow> string \<Rightarrow> string option \<Rightarrow> string \<Rightarrow> string option \<Rightarrow>
     unit io" where
  "audit_insert env action server reason user target =
     bindM (attempt (insert_audit_log_entry
       \<lparr>al_id = re_audit_id env, al_expires_at = re_expires env, al_server = server,
        al_reason = reason, al_user = user, al_target = target, al_action = action\<rparr>)) (\<lambda>_. ret ())"

section \<open>Operations on channels\<close>

text \<open>A system message whose failure is ignored (\<open>.send(..).await.ok()\<close>).\<close>

definition system_send :: "string \<Rightarrow> system_message \<Rightarrow> message_author \<Rightarrow> channel \<Rightarrow> unit io" where
  "system_send new_id s author c =
     bindM (attempt (send_message (into_message new_id s (channel_id c)) author None None c False))
       (\<lambda>_. ret ())"

definition as_author_for_system :: "user \<Rightarrow> message_author" where
  "as_author_for_system u = MA_System (u_username u) (map_option f_id (u_avatar u))"

datatype legacy_server_channel_type = LST_Text | LST_Voice

record data_create_server_channel =
  dc_channel_type :: legacy_server_channel_type
  dc_name :: string
  dc_description :: "string option"
  dc_nsfw :: "bool option"
  dc_forum :: "string option"
  dc_voice :: "voice_information option"

definition new_server_channel ::
    "string \<Rightarrow> string \<Rightarrow> data_create_server_channel \<Rightarrow> text_channel" where
  "new_server_channel new_id server_id d =
     \<lparr>tc_id = new_id, tc_server = server_id, tc_name = dc_name d,
      tc_description = dc_description d, tc_icon = None, tc_last_message_id = None,
      tc_default_permissions = None, tc_role_permissions = [],
      tc_nsfw = unwrap_or (dc_nsfw d) False,
      tc_voice = (case dc_channel_type d of
                    LST_Text \<Rightarrow> dc_voice d
                  | LST_Voice \<Rightarrow> Some (unwrap_or (dc_voice d) \<lparr>vi_max_users = None\<rparr>)),
      tc_slowmode = None,
      tc_forum = (case dc_channel_type d of LST_Text \<Rightarrow> dc_forum d | LST_Voice \<Rightarrow> None)\<rparr>"

text \<open>\<open>Server::update\<close>, which also creates channels use; the changed copy is the result.\<close>

definition server_update ::
    "optional_struct \<Rightarrow> server \<Rightarrow> partial_server \<Rightarrow> fields_server list \<Rightarrow> server io" where
  "server_update os s partial remove =
     (let s = server_apply_options os partial (fold server_remove_field remove s)
      in bindM (update_server os (s_id s) partial remove) (\<lambda>_.
         bindM (publish (s_id s) (E_ServerUpdate (s_id s) partial remove)) (\<lambda>_. ret s)))"

text \<open>The result is the channel and the server's copy.\<close>

definition create_server_channel ::
    "route_env \<Rightarrow> string \<Rightarrow> server \<Rightarrow> data_create_server_channel \<Rightarrow> bool \<Rightarrow> (channel \<times> server) io" where
  "create_server_channel env new_id server d update =
     bindM (guard (length (s_channels server) > re_server_channels env)
             (ChannelErr (TooManyChannels (re_server_channels env)))) (\<lambda>_.
     let channel = TextChannel (new_server_channel new_id (s_id server) d)
     in bindM (insert_channel channel) (\<lambda>_.
        if update then
          bindM (server_update (re_os env) server
                   (default_partial_server\<lparr>ps_channels := Some (s_channels server @ [new_id])\<rparr>) [])
            (\<lambda>server.
          bindM (publish (s_id server) (E_ChannelCreate channel)) (\<lambda>_. ret (channel, server)))
        else ret (channel, server)))"

record data_create_group =
  dg_name :: string
  dg_description :: "string option"
  dg_icon :: "string option"
  dg_users :: "string list"
  dg_nsfw :: "bool option"

definition create_group :: "route_env \<Rightarrow> data_create_group \<Rightarrow> string \<Rightarrow> channel io" where
  "create_group env d owner_id =
     (let users = set_insert owner_id (dg_users d); new_id = re_ids env 0 in
      bindM (guard (length users > re_group_size env)
              (ChannelErr (GroupTooLarge (re_group_size env)))) (\<lambda>_.
      bindM (case dg_icon d of
               Some icon_id \<Rightarrow> bindM (use_channel_icon icon_id new_id owner_id) (\<lambda>f. ret (Some f))
             | None \<Rightarrow> ret None) (\<lambda>icon.
      let channel = Group
            \<lparr>g_id = new_id, g_name = dg_name d, g_owner = owner_id, g_description = dg_description d,
             g_recipients = users, g_icon = icon, g_last_message_id = None, g_permissions = None,
             g_nsfw = unwrap_or (dg_nsfw d) False\<rparr>
      in bindM (insert_channel channel) (\<lambda>_.
         bindM (for_each users (\<lambda>r. publish_private r (E_ChannelCreate channel))) (\<lambda>_.
         ret channel)))))"

definition create_dm :: "route_env \<Rightarrow> user \<Rightarrow> user \<Rightarrow> channel io" where
  "create_dm env user_a user_b =
     bindM (attempt (find_direct_message_channel (u_id user_a) (u_id user_b))) (\<lambda>found.
     case found of
       Some channel \<Rightarrow> ret channel
     | None \<Rightarrow>
         if u_id user_a = u_id user_b then
           let channel = SavedMessages \<lparr>sm_id = re_ids env 0, sm_user = u_id user_a\<rparr>
           in bindM (insert_channel channel) (\<lambda>_. ret channel)
         else
           let channel = DirectMessage
                 \<lparr>dm_id = re_ids env 0, dm_active = True, dm_recipients = [u_id user_a, u_id user_b],
                  dm_last_message_id = None\<rparr>
           in bindM (insert_channel channel) (\<lambda>_.
              bindM (publish_private (u_id user_a) (E_ChannelCreate channel)) (\<lambda>_.
              bindM (publish_private (u_id user_b) (E_ChannelCreate channel)) (\<lambda>_. ret channel))))"

definition add_user_to_group :: "route_env \<Rightarrow> channel \<Rightarrow> user \<Rightarrow> string \<Rightarrow> channel io" where
  "add_user_to_group env c user by_id =
     (case c of
        Group g \<Rightarrow>
          bindM (guard (u_id user \<in> set (g_recipients g)) (ChannelErr AlreadyInGroup)) (\<lambda>_.
          bindM (guard (length (g_recipients g) \<ge> re_group_size env)
                  (ChannelErr (GroupTooLarge (re_group_size env)))) (\<lambda>_.
          let c = Group (g\<lparr>g_recipients := g_recipients g @ [u_id user]\<rparr>)
          in bindM (add_user_to_group_db (g_id g) (u_id user)) (\<lambda>_.
             bindM (publish (g_id g) (E_ChannelGroupJoin (g_id g) (u_id user))) (\<lambda>_.
             bindM (system_send (re_ids env 0) (SM_UserAdded (u_id user) by_id)
                      (as_author_for_system user) c) (\<lambda>_.
             bindM (publish_private (u_id user) (E_ChannelCreate c)) (\<lambda>_. ret c))))))
      | _ \<Rightarrow> throw (GeneralErr InvalidOperation))"

definition channel_set_role_permission :: "channel \<Rightarrow> string \<Rightarrow> override_field \<Rightarrow> channel io" where
  "channel_set_role_permission c role_id permissions =
     (case c of
        TextChannel t \<Rightarrow>
          bindM (set_channel_role_permission (tc_id t) role_id permissions) (\<lambda>_.
          let t = t\<lparr>tc_role_permissions := hm_insert role_id permissions (tc_role_permissions t)\<rparr>
          in bindM (publish (tc_server t)
                     (E_ChannelUpdate (tc_id t)
                        (default_partial_channel\<lparr>pc_role_permissions := Some (tc_role_permissions t)\<rparr>)
                        [])) (\<lambda>_.
             ret (TextChannel t)))
      | _ \<Rightarrow> throw (GeneralErr InvalidOperation))"

definition channel_update :: "channel \<Rightarrow> partial_channel \<Rightarrow> fields_channel list \<Rightarrow> channel io" where
  "channel_update c partial remove =
     (let c = channel_apply_options partial (channel_remove_fields remove c)
      in bindM (update_channel (channel_id c) partial remove) (\<lambda>_.
         bindM (publish (case c of TextChannel t \<Rightarrow> tc_server t | _ \<Rightarrow> channel_id c)
                  (E_ChannelUpdate (channel_id c) partial remove)) (\<lambda>_.
         ret c)))"

definition channel_delete :: "channel \<Rightarrow> unit io" where
  "channel_delete c =
     bindM (publish (channel_id c) (E_ChannelDelete (channel_id c))) (\<lambda>_. delete_channel_db c)"

text \<open>The owner who leaves hands the group to the first other recipient; the last one deletes it.\<close>

definition remove_user_from_group ::
    "route_env \<Rightarrow> channel \<Rightarrow> user \<Rightarrow> string option \<Rightarrow> bool \<Rightarrow> unit io" where
  "remove_user_from_group env c user by_id silent =
     (case c of
        Group g \<Rightarrow>
          let leave =
            bindM (remove_user_from_group_db (g_id g) (u_id user)) (\<lambda>_.
            bindM (publish (g_id g) (E_ChannelGroupLeave (g_id g) (u_id user))) (\<lambda>_.
            if silent then ret ()
            else system_send (re_ids env 1)
                   (case by_id of
                      Some by \<Rightarrow> SM_UserRemove (u_id user) by
                    | None \<Rightarrow> SM_UserLeft (u_id user))
                   (as_author_for_system user) c))
          in if u_id user = g_owner g then
               (case find (\<lambda>x. x \<noteq> u_id user) (g_recipients g) of
                  Some new_owner \<Rightarrow>
                    bindM (update_channel (g_id g)
                             (default_partial_channel\<lparr>pc_owner := Some new_owner\<rparr>) []) (\<lambda>_.
                    bindM (system_send (re_ids env 0)
                             (SM_ChannelOwnershipChanged (g_owner g) new_owner)
                             (MA_System (g_name g) None) c) (\<lambda>_.
                    leave))
                | None \<Rightarrow> channel_delete c)
             else leave
      | _ \<Rightarrow> throw (GeneralErr InvalidOperation))"

section \<open>Routes\<close>

abbreviation channel_perms :: "route_env \<Rightarrow> user \<Rightarrow> channel \<Rightarrow> (u64 \<times> database_permission_query) io" where
  "channel_perms env \<equiv> channel_permissions_io (re_pdb env) (re_now env)"

definition route_create_group :: "route_env \<Rightarrow> unit result \<Rightarrow> user \<Rightarrow> data_create_group \<Rightarrow> channel io" where
  "route_create_group env validation user d =
     bindM (guard (u_bot user \<noteq> None) (BotErr IsBot)) (\<lambda>_.
     bindM (lift validation) (\<lambda>_.
     bindM (for_each (dg_users d) (\<lambda>target.
              guard (relationship_with user target \<noteq> RelFriend \<and>
                     relationship_with user target \<noteq> RelUser) (UserErr NotFriends))) (\<lambda>_.
     create_group env d (u_id user))))"

definition group_add_member :: "route_env \<Rightarrow> user \<Rightarrow> string \<Rightarrow> string \<Rightarrow> unit io" where
  "group_add_member env user group_id member_id =
     bindM (guard (u_bot user \<noteq> None) (BotErr IsBot)) (\<lambda>_.
     bindM (as_channel group_id) (\<lambda>channel.
     bindM (channel_perms env user channel) (\<lambda>(permissions, _).
     bindM (lift (throw_if_lacking_channel_permission permissions CP_InviteOthers)) (\<lambda>_.
     case channel of
       Group _ \<Rightarrow>
         bindM (fetch_user member_id) (\<lambda>member.
         bindM (guard (\<not> is_friends_with user (u_id member)) (UserErr NotFriends)) (\<lambda>_.
         bindM (add_user_to_group env channel member (u_id user)) (\<lambda>_. ret ())))
     | _ \<Rightarrow> throw (GeneralErr InvalidOperation)))))"

definition leave_voice :: "route_env \<Rightarrow> string \<Rightarrow> channel \<Rightarrow> unit io" where
  "leave_voice env user_id c =
     bindM (lift (vc_in_channel (re_voice env) user_id (channel_id c))) (\<lambda>inside.
     if inside then lift (vc_remove (re_voice env) (channel_id c) user_id) else ret ())"

definition group_remove_member :: "route_env \<Rightarrow> user \<Rightarrow> string \<Rightarrow> string \<Rightarrow> unit io" where
  "group_remove_member env user group_id member_id =
     bindM (guard (u_bot user \<noteq> None) (BotErr IsBot)) (\<lambda>_.
     bindM (as_channel group_id) (\<lambda>channel.
     bindM (case channel of
              Group g \<Rightarrow>
                bindM (guard (u_id user \<noteq> g_owner g)
                        (PermissionErr (MissingPermission (channel_permission_name CP_ManageChannel)))) (\<lambda>_.
                bindM (fetch_user member_id) (\<lambda>member.
                bindM (guard (u_id user = u_id member) (ChannelErr CannotRemoveYourself)) (\<lambda>_.
                bindM (guard (u_id member \<notin> set (g_recipients g)) (ChannelErr NotInGroup)) (\<lambda>_.
                remove_user_from_group env channel member (Some (u_id user)) False))))
            | _ \<Rightarrow> throw (GeneralErr InvalidOperation)) (\<lambda>_.
     leave_voice env member_id channel)))"

definition route_channel_delete ::
    "route_env \<Rightarrow> user \<Rightarrow> string option \<Rightarrow> string \<Rightarrow> bool option \<Rightarrow> unit io" where
  "route_channel_delete env user reason target leave_silently =
     bindM (as_channel target) (\<lambda>channel.
     bindM (channel_perms env user channel) (\<lambda>(permissions, _).
     bindM (lift (throw_if_lacking_channel_permission permissions CP_ViewChannel)) (\<lambda>_.
     case channel of
       SavedMessages _ \<Rightarrow> throw (GeneralErr NoEffect)
     | DirectMessage _ \<Rightarrow>
         bindM (channel_update channel (default_partial_channel\<lparr>pc_active := Some False\<rparr>) []) (\<lambda>_. ret ())
     | Group _ \<Rightarrow>
         bindM (remove_user_from_group env channel user None (unwrap_or leave_silently False)) (\<lambda>_.
         leave_voice env (u_id user) channel)
     | TextChannel t \<Rightarrow>
         bindM (lift (throw_if_lacking_channel_permission permissions CP_ManageChannel)) (\<lambda>_.
         bindM (channel_delete channel) (\<lambda>_.
         bindM (audit_insert env (A_ChannelDelete (tc_id t) (tc_name t)) (tc_server t) reason
                  (u_id user) None) (\<lambda>_.
         lift (vc_delete_channel (re_voice env) (tc_id t))))))))"

definition open_dm :: "route_env \<Rightarrow> user \<Rightarrow> string \<Rightarrow> channel io" where
  "open_dm env user target =
     bindM (fetch_user target) (\<lambda>target.
     bindM (\<lambda>w. (case calculate_user_permissions (DatabasePermissionQuery (re_pdb env w) (re_now env))
                     (query_user target (query_new user)) of
                   Some (p, _) \<Rightarrow> (Ok p, w)
                 | None \<Rightarrow> (Panic ''permission query'', w))) (\<lambda>permissions.
     bindM (lift (throw_if_lacking_user_permission permissions UP_SendMessage)) (\<lambda>_.
     create_dm env user target)))"

definition set_role_permissions ::
    "route_env \<Rightarrow> user \<Rightarrow> string option \<Rightarrow> string \<Rightarrow> string \<Rightarrow> override \<Rightarrow> channel io" where
  "set_role_permissions env user reason target role_id value =
     bindM (as_channel target) (\<lambda>channel.
     bindM (channel_perms env user channel) (\<lambda>(permissions, query).
     bindM (\<lambda>w. (case set_server_from_channel
                      (DatabasePermissionQuery (re_pdb env w) (re_now env)) query of
                   Some (_, q) \<Rightarrow> (Ok q, w)
                 | None \<Rightarrow> (Panic ''permission query'', w))) (\<lambda>query.
     bindM (lift (throw_if_lacking_channel_permission permissions CP_ManagePermissions)) (\<lambda>_.
     case dq_server query of
       None \<Rightarrow> throw (GeneralErr InvalidOperation)
     | Some server \<Rightarrow>
         (case hm_get (s_roles server) role_id of
            None \<Rightarrow> throw not_found
          | Some role \<Rightarrow>
              bindM (if s_owner server \<noteq> u_id user then
                       (case get_member_rank query of
                          None \<Rightarrow> panic ''called Option::unwrap() on a None value''
                        | Some rank \<Rightarrow>
                            guard (r_rank role \<le> unwrap_or rank (- i64_max - 1)) (PermissionErr NotElevated))
                     else ret ()) (\<lambda>_.
              bindM (lift (throw_permission_override permissions
                       (Some (field_into_override (r_permissions role))) value)) (\<lambda>_.
              bindM (channel_set_role_permission channel role_id (override_into_field value)) (\<lambda>new_channel.
              bindM (lift (vc_sync (re_voice env) new_channel (Some server) (Some role_id))) (\<lambda>_.
              bindM (audit_insert env
                       (A_ChannelRolePermissionsEdit (channel_id new_channel) role_id
                          (override_into_field value)) (s_id server) reason (u_id user) None) (\<lambda>_.
              ret new_channel))))))))))"

datatype data_default_channel_permissions = DefaultValue u64 | DefaultField override

definition set_default_channel_permissions ::
    "route_env \<Rightarrow> user \<Rightarrow> string option \<Rightarrow> string \<Rightarrow> data_default_channel_permissions \<Rightarrow> channel io" where
  "set_default_channel_permissions env user reason target d =
     bindM (as_channel target) (\<lambda>channel.
     bindM (channel_perms env user channel) (\<lambda>(permissions, _).
     bindM (lift (throw_if_lacking_channel_permission permissions CP_ManagePermissions)) (\<lambda>_.
     bindM (case channel of
              Group _ \<Rightarrow>
                (case d of
                   DefaultValue value \<Rightarrow>
                     channel_update channel
                       (default_partial_channel\<lparr>pc_permissions := Some (as_i64 value)\<rparr>) []
                 | DefaultField _ \<Rightarrow> throw (GeneralErr InvalidOperation))
            | TextChannel t \<Rightarrow>
                (case d of
                   DefaultField field \<Rightarrow>
                     bindM (lift (throw_permission_override permissions
                              (map_option field_into_override (tc_default_permissions t)) field)) (\<lambda>_.
                     let partial = default_partial_channel
                           \<lparr>pc_default_permissions := Some (override_into_field field)\<rparr>;
                         before = channel_generate_diff channel partial []
                     in bindM (channel_update channel partial []) (\<lambda>channel.
                        bindM (audit_insert env (A_ChannelEdit (tc_id t) before partial) (tc_server t)
                                 reason (u_id user) None) (\<lambda>_. ret channel)))
                 | DefaultValue _ \<Rightarrow> throw (GeneralErr InvalidOperation))
            | _ \<Rightarrow> throw (GeneralErr InvalidOperation)) (\<lambda>channel.
     bindM (case channel_server channel of
              Some server_id \<Rightarrow> bindM (as_server server_id) (\<lambda>s. ret (Some s))
            | None \<Rightarrow> ret None) (\<lambda>server.
     bindM (lift (vc_sync (re_voice env) channel server None)) (\<lambda>_. ret channel))))))"

section \<open>Editing a channel\<close>

record data_edit_channel =
  ec_name :: "string option"
  ec_description :: "string option"
  ec_owner :: "string option"
  ec_icon :: "string option"
  ec_nsfw :: "bool option"
  ec_archived :: "bool option"
  ec_voice :: "voice_information option"
  ec_slowmode :: "u64 option"
  ec_remove :: "fields_channel list"

definition nothing_to_edit :: "data_edit_channel \<Rightarrow> bool" where
  "nothing_to_edit d \<longleftrightarrow>
     ec_name d = None \<and> ec_description d = None \<and> ec_icon d = None \<and> ec_nsfw d = None \<and>
     ec_owner d = None \<and> ec_voice d = None \<and> ec_slowmode d = None \<and> ec_remove d = []"

text \<open>The transfer of a group: the request's copy of the channel and the partial update after it.\<close>

definition transfer_group ::
    "route_env \<Rightarrow> user \<Rightarrow> data_edit_channel \<Rightarrow> channel \<Rightarrow> (channel \<times> partial_channel) io" where
  "transfer_group env user d c =
     (case ec_owner d of
        None \<Rightarrow> ret (c, default_partial_channel)
      | Some new_owner \<Rightarrow>
          (case c of
             Group g \<Rightarrow>
               bindM (guard (g_owner g \<noteq> u_id user) (PermissionErr NotOwner)) (\<lambda>_.
               bindM (guard (new_owner \<notin> set (g_recipients g)) (ChannelErr NotInGroup)) (\<lambda>_.
               let c = Group (g\<lparr>g_owner := new_owner\<rparr>)
               in bindM (system_send (re_ids env 0) (SM_ChannelOwnershipChanged (g_owner g) new_owner)
                           (as_author_for_system user) c) (\<lambda>_.
                  ret (c, default_partial_channel\<lparr>pc_owner := Some new_owner\<rparr>))))
           | _ \<Rightarrow> throw (GeneralErr InvalidOperation)))"

definition edit_icon ::
    "user \<Rightarrow> data_edit_channel \<Rightarrow> string \<Rightarrow> file_t option \<Rightarrow> file_t option io" where
  "edit_icon user d ident icon =
     bindM (case icon of
              Some f \<Rightarrow> if FieldsChannel_Icon \<in> set (ec_remove d)
                        then mark_attachment_as_deleted (f_id f) else ret ()
            | None \<Rightarrow> ret ()) (\<lambda>_.
     case ec_icon d of
       Some icon_id \<Rightarrow> bindM (use_channel_icon icon_id ident (u_id user)) (\<lambda>f. ret (Some f))
     | None \<Rightarrow> ret None)"

text \<open>The request's copy after the edits; \<open>partial\<close> holds the new values.\<close>

fun edited_copy :: "fields_channel list \<Rightarrow> partial_channel \<Rightarrow> channel \<Rightarrow> channel" where
  "edited_copy remove p (Group g) =
     channel_apply_options p (channel_remove_fields remove (Group g))"
| "edited_copy remove p (TextChannel t) =
     (case channel_remove_fields (filter (\<lambda>f. f \<noteq> FieldsChannel_DefaultPermissions) remove)
             (TextChannel t) of
        TextChannel t \<Rightarrow>
          TextChannel (t\<lparr>tc_icon := or_else (pc_icon p) (tc_icon t),
                         tc_name := unwrap_or (pc_name p) (tc_name t),
                         tc_description := or_else (pc_description p) (tc_description t),
                         tc_nsfw := unwrap_or (pc_nsfw p) (tc_nsfw t),
                         tc_voice := or_else (pc_voice p) (tc_voice t),
                         tc_slowmode := or_else (pc_slowmode p) (tc_slowmode t)\<rparr>)
      | c \<Rightarrow> c)"
| "edited_copy remove p c = c"

definition announce_edits ::
    "route_env \<Rightarrow> user \<Rightarrow> partial_channel \<Rightarrow> channel \<Rightarrow> unit io" where
  "announce_edits env user p c =
     bindM (case pc_name p of
              Some name \<Rightarrow> system_send (re_ids env 1) (SM_ChannelRenamed name (u_id user))
                             (as_author_for_system user) c
            | None \<Rightarrow> ret ()) (\<lambda>_.
     bindM (if pc_description p \<noteq> None
            then system_send (re_ids env 2) (SM_ChannelDescriptionChanged (u_id user))
                   (as_author_for_system user) c
            else ret ()) (\<lambda>_.
     if pc_icon p \<noteq> None
     then system_send (re_ids env 3) (SM_ChannelIconChanged (u_id user))
            (as_author_for_system user) c
     else ret ()))"

definition edit_values ::
    "route_env \<Rightarrow> user \<Rightarrow> data_edit_channel \<Rightarrow> partial_channel \<Rightarrow> channel \<Rightarrow> (channel \<times> partial_channel) io"
  where
  "edit_values env user d p c =
     (case c of
        Group g \<Rightarrow>
          bindM (edit_icon user d (g_id g) (g_icon g)) (\<lambda>icon.
          let p = p\<lparr>pc_icon := icon, pc_name := ec_name d, pc_description := ec_description d,
                    pc_nsfw := ec_nsfw d\<rparr>;
              c = edited_copy (ec_remove d) p c
          in bindM (announce_edits env user p c) (\<lambda>_. ret (c, p)))
      | TextChannel t \<Rightarrow>
          bindM (edit_icon user d (tc_id t) (tc_icon t)) (\<lambda>icon.
          let p = p\<lparr>pc_icon := icon, pc_name := ec_name d, pc_description := ec_description d,
                    pc_nsfw := ec_nsfw d, pc_voice := ec_voice d, pc_slowmode := ec_slowmode d\<rparr>
          in ret (edited_copy (ec_remove d) p c, p))
      | _ \<Rightarrow> throw (GeneralErr InvalidOperation))"

definition channel_edit ::
    "route_env \<Rightarrow> unit result \<Rightarrow> user \<Rightarrow> string option \<Rightarrow> string \<Rightarrow> data_edit_channel \<Rightarrow> channel io" where
  "channel_edit env validation user reason target d =
     bindM (lift validation) (\<lambda>_.
     bindM (as_channel target) (\<lambda>channel.
     bindM (channel_perms env user channel) (\<lambda>(permissions, _).
     bindM (lift (throw_if_lacking_channel_permission permissions CP_ManageChannel)) (\<lambda>_.
     if nothing_to_edit d then ret channel
     else
       bindM (transfer_group env user d channel) (\<lambda>(before_channel, partial).
       bindM (edit_values env user d partial before_channel) (\<lambda>(channel, partial).
       bindM (channel_update channel partial (ec_remove d)) (\<lambda>channel.
       bindM (if channel_voice channel = None
              then lift (vc_delete_channel (re_voice env) (channel_id channel)) else ret ()) (\<lambda>_.
       bindM (case channel_server before_channel of
                Some server_id \<Rightarrow>
                  audit_insert env
                    (A_ChannelEdit (channel_id channel)
                       (channel_generate_diff before_channel partial (ec_remove d)) partial)
                    server_id reason (u_id user) None
              | None \<Rightarrow> ret ()) (\<lambda>_.
       ret channel)))))))))"

end
