(* ===== verification/Route_Samples.thy ===== *)
theory Route_Samples
  imports Channels Samples
begin

text \<open>
  What a request takes from outside, for the witnesses: a voice service in which nobody is
  connected, identifiers, limits, and the reference database.
\<close>

definition quiet_voice :: voice_client where
  "quiet_voice =
     \<lparr>vc_enabled = True, vc_channel_in_server = (\<lambda>_ _. Ok None), vc_in_channel = (\<lambda>_ _. Ok False),
      vc_remove = (\<lambda>_ _. Ok ()), vc_delete_channel = (\<lambda>_. Ok ()), vc_sync = (\<lambda>_ _ _. Ok ()),
      vc_sync_user = (\<lambda>_ _. Ok ()), vc_move = (\<lambda>_ _ _. Ok ())\<rparr>"

definition sample_route_env :: route_env where
  "sample_route_env =
     \<lparr>re_now = 0, re_pdb = reference_db, re_os = some_priority_struct,
      re_ids = (\<lambda>i. ''N'' @ replicate i (CHR ''x'')), re_audit_id = ''L'', re_expires = 10,
      re_threshold = (\<lambda>_. ''0''), re_group_size = 3, re_server_channels = 5, re_server_roles = 5,
      re_servers = 5, re_restrict_server_creation = [], re_voice = quiet_voice\<rparr>"

lemma sample_route_env_sel [simp]:
  "re_pdb sample_route_env = reference_db" "re_os sample_route_env = some_priority_struct"
  "re_now sample_route_env = 0" "re_voice sample_route_env = quiet_voice"
  by (simp_all add: sample_route_env_def)

lemma sample_stored [simp]:
  "hm_get (db_servers sample_world) ''S'' = Some sample_server"
  "u_id (sample_user i) = i" "s_id sample_server = ''S''"
  by (simp_all add: sample_world_def hm_get_def sample_user_def sample_server_def)

end
