(* ===== verification/Hoare.thy ===== *)
theory Hoare
  imports Prelude
begin

text \<open>
  Triples for stateful computations. \<open>ensures I P m Q\<close>: from a state in the invariant \<open>I\<close> and
  in \<open>P\<close>, every outcome of \<open>m\<close> leaves the state in \<open>I\<close>, and a result \<open>x\<close> leaves it in \<open>Q x\<close>.
  The rules follow the shape of a handler; \<open>ensures_rules\<close> collects them.
\<close>

named_theorems ensures_rules

definition ensures ::
    "('s \<Rightarrow> bool) \<Rightarrow> ('s \<Rightarrow> bool) \<Rightarrow> ('s, 'e, 'a) comp \<Rightarrow> ('a \<Rightarrow> 's \<Rightarrow> bool) \<Rightarrow> bool" where
  "ensures I P m Q \<longleftrightarrow>
     (\<forall>s. I s \<longrightarrow> P s \<longrightarrow> I (snd (m s)) \<and> (\<forall>x. fst (m s) = Ok x \<longrightarrow> Q x (snd (m s))))"

lemma ensuresI:
  assumes "\<And>s. I s \<Longrightarrow> P s \<Longrightarrow> I (snd (m s))"
    and "\<And>s x s'. I s \<Longrightarrow> P s \<Longrightarrow> m s = (Ok x, s') \<Longrightarrow> Q x s'"
  shows "ensures I P m Q"
  unfolding ensures_def
proof (intro allI impI conjI)
  fix s
  assume s: "I s" "P s"
  then show "I (snd (m s))"
    by (rule assms(1))
  show "Q x (snd (m s))" if "fst (m s) = Ok x" for x
    using assms(2) [OF s, of x "snd (m s)"] that by (simp add: prod_eq_iff)
qed

lemma ensures_keeps: "ensures I P m Q \<Longrightarrow> I s \<Longrightarrow> P s \<Longrightarrow> I (snd (m s))"
  by (simp add: ensures_def)

lemma ensures_Ok: "ensures I P m Q \<Longrightarrow> I s \<Longrightarrow> P s \<Longrightarrow> m s = (Ok x, s') \<Longrightarrow> Q x s'"
  by (force simp: ensures_def)

lemma ensures_conseq:
  assumes "ensures I P' m Q'" and "\<And>s. I s \<Longrightarrow> P s \<Longrightarrow> P' s" and "\<And>x s. I s \<Longrightarrow> Q' x s \<Longrightarrow> Q x s"
  shows "ensures I P m Q"
  using assms by (simp add: ensures_def)

lemma ensures_pre: "ensures I P' m Q \<Longrightarrow> (\<And>s. I s \<Longrightarrow> P s \<Longrightarrow> P' s) \<Longrightarrow> ensures I P m Q"
  by (rule ensures_conseq)

lemma ensures_bind [ensures_rules]:
  assumes "ensures I P m R" and "\<And>x. ensures I (R x) (f x) Q"
  shows "ensures I P (bindM m f) Q"
proof (rule ensuresI)
  fix s
  assume s: "I s" "P s"
  obtain r s1 where m: "m s = (r, s1)"
    by (cases "m s")
  show "I (snd (bindM m f s))"
    using ensures_keeps [OF assms(1) s] ensures_keeps [OF assms(2)] ensures_Ok [OF assms(1) s] m
    by (cases r) (auto simp: bindM_def)
  show "Q y s'" if "bindM m f s = (Ok y, s')" for y s'
  proof -
    from that obtain x s1 where "m s = (Ok x, s1)" "f x s1 = (Ok y, s')"
      by (auto simp: bindM_eq_Ok)
    with ensures_keeps [OF assms(1) s] ensures_Ok [OF assms(1) s] show ?thesis
      by (auto intro: ensures_Ok [OF assms(2)])
  qed
qed

lemma ensures_ret: "(\<And>s. I s \<Longrightarrow> P s \<Longrightarrow> Q x s) \<Longrightarrow> ensures I P (ret x) Q"
  by (simp add: ensures_def)

lemma ensures_fail [ensures_rules]: "ensures I P (throw e) Q" "ensures I P (panic p) Q"
  by (simp_all add: ensures_def)

text \<open>Steps that leave the state as it is pass \<open>P\<close> on.\<close>

lemma ensures_guard [ensures_rules]: "ensures I P (guard c e) (\<lambda>_ s. P s \<and> \<not> c)"
  by (simp add: ensures_def guard_def)

lemma ensures_lift [ensures_rules]: "ensures I P (lift r) (\<lambda>x s. P s \<and> r = Ok x)"
  by (cases r) (simp_all add: ensures_def)

lemma ensures_reads:
  assumes "\<And>s. snd (m s) = s" and "\<And>s x. m s = (Ok x, s) \<Longrightarrow> R x s"
  shows "ensures I P m (\<lambda>x s. P s \<and> R x s)"
proof (rule ensuresI)
  show "I s \<Longrightarrow> P s \<Longrightarrow> I (snd (m s))" for s
    using assms(1) by simp
  show "P s' \<and> R x s'" if "I s" "P s" "m s = (Ok x, s')" for s x s'
    using that assms(1) [of s] assms(2) [of s x] by simp
qed

text \<open>Steps that change the state keep what they keep.\<close>

lemma ensures_frame: "keeps (\<lambda>s. I s \<and> P s) m \<Longrightarrow> ensures I P m (\<lambda>_. P)"
  by (simp add: ensures_def keeps_def)

lemma ensures_drop: "keeps I m \<Longrightarrow> ensures I P m (\<lambda>_ _. True)"
  by (simp add: ensures_def keeps_def)

lemma ensures_then:
  "ensures I P m (\<lambda>_ _. True) \<Longrightarrow> (\<And>x. keeps I (f x)) \<Longrightarrow> ensures I P (bindM m f) (\<lambda>_ _. True)"
  by (rule ensures_bind, assumption) (rule ensures_drop)

lemma keeps_ensures: "ensures I (\<lambda>_. True) m Q \<Longrightarrow> keeps I m"
  by (simp add: ensures_def keeps_def)

lemma ensures_if [ensures_rules]:
  "(c \<Longrightarrow> ensures I P m Q) \<Longrightarrow> (\<not> c \<Longrightarrow> ensures I P m' Q) \<Longrightarrow> ensures I P (if c then m else m') Q"
  by simp

lemma ensures_prod [ensures_rules]:
  "(\<And>a b. p = (a, b) \<Longrightarrow> ensures I P (f a b) Q) \<Longrightarrow> ensures I P (case p of (a, b) \<Rightarrow> f a b) Q"
  by (cases p) simp

lemma ensures_option [ensures_rules]:
  "(x = None \<Longrightarrow> ensures I P m Q) \<Longrightarrow> (\<And>v. x = Some v \<Longrightarrow> ensures I P (f v) Q) \<Longrightarrow>
   ensures I P (case x of None \<Rightarrow> m | Some v \<Rightarrow> f v) Q"
  by (cases x) simp_all

lemma ensures_let [ensures_rules]: "(\<And>x. x = v \<Longrightarrow> ensures I P (f x) Q) \<Longrightarrow> ensures I P (let x = v in f x) Q"
  by simp

lemma ensures_for_each:
  "(\<And>x. ensures I P (f x) (\<lambda>_. P)) \<Longrightarrow> ensures I P (for_each xs f) (\<lambda>_. P)"
  by (induction xs) (auto intro: ensures_ret ensures_bind)

text \<open>What a guard rejects does not concern the rest.\<close>

lemma keeps_guard: "(\<not> c \<Longrightarrow> keeps I (f ())) \<Longrightarrow> keeps I (bindM (guard c e) f)"
  by (auto simp: keeps_def)

lemma keeps_lift: "(\<And>x. r = Ok x \<Longrightarrow> keeps I (f x)) \<Longrightarrow> keeps I (bindM (lift r) f)"
  by (cases r) (auto simp: keeps_def)

section \<open>Frames\<close>

text \<open>\<open>leaves f m\<close>: whatever its outcome, \<open>m\<close> leaves the part \<open>f\<close> of the state as it was.\<close>

named_theorems leaves_rules

definition leaves :: "('s \<Rightarrow> 'b) \<Rightarrow> ('s, 'e, 'a) comp \<Rightarrow> bool" where
  "leaves f m \<longleftrightarrow> (\<forall>s. f (snd (m s)) = f s)"

lemma leavesD: "leaves f m \<Longrightarrow> f (snd (m s)) = f s"
  by (simp add: leaves_def)

lemma leaves_run: "leaves f m \<Longrightarrow> m s = (r, s') \<Longrightarrow> f s' = f s"
  by (metis leaves_def snd_conv)

lemma leaves_bind [leaves_rules]:
  assumes "leaves f m" and "\<And>x. leaves f (k x)"
  shows "leaves f (bindM m k)"
  unfolding leaves_def
proof
  fix s
  show "f (snd (bindM m k s)) = f s"
    using assms leavesD [OF assms(1), of s]
    by (cases "m s"; cases "fst (m s)") (auto simp: bindM_def leaves_def)
qed

lemma leaves_const [leaves_rules]:
  "leaves f (ret x)" "leaves f (throw e)" "leaves f (panic p)" "leaves f (lift r)"
  "leaves f (gets g)" "leaves f (guard c e)"
  by (simp_all add: leaves_def guard_def)

lemma leaves_attempt [leaves_rules]:
  assumes "leaves f m"
  shows "leaves f (attempt m)"
  unfolding leaves_def
proof
  fix s
  show "f (snd (attempt m s)) = f s"
    using leavesD [OF assms, of s] by (cases "m s"; cases "fst (m s)") (auto simp: attempt_def)
qed

lemma leaves_map_err [leaves_rules]:
  assumes "leaves f m"
  shows "leaves f (map_err e m)"
  using leavesD [OF assms] by (auto simp: leaves_def map_err_def split: prod.splits outcome.splits) (metis snd_conv)+

lemma leaves_cases [leaves_rules]:
  "leaves f m \<Longrightarrow> leaves f m' \<Longrightarrow> leaves f (if c then m else m')"
  "(\<And>a b. leaves f (g a b)) \<Longrightarrow> leaves f (case p of (a, b) \<Rightarrow> g a b)"
  "leaves f m \<Longrightarrow> (\<And>v. leaves f (h v)) \<Longrightarrow> leaves f (case x of None \<Rightarrow> m | Some v \<Rightarrow> h v)"
  "(\<And>y. leaves f (l y)) \<Longrightarrow> leaves f (let y = v in l y)"
  "leaves f m \<Longrightarrow> leaves f m' \<Longrightarrow> leaves f (case b of True \<Rightarrow> m | False \<Rightarrow> m')"
  by (simp_all split: prod.splits option.splits bool.splits)

lemma leaves_for_each [leaves_rules]: "(\<And>x. leaves f (g x)) \<Longrightarrow> leaves f (for_each xs g)"
  by (induction xs) (auto intro: leaves_rules)

lemma ensures_leaves:
  "leaves f m \<Longrightarrow> keeps I m \<Longrightarrow> ensures I (\<lambda>s. P (f s)) m (\<lambda>_ s. P (f s))"
  by (simp add: ensures_def leaves_def keeps_def)

end
