(* ===== verification/Group_Channels.thy ===== *)
theory Group_Channels
  imports Route_Samples Hoare
begin

text \<open>
  Groups stay well-formed: the owner is a recipient, nobody is a recipient twice and the size
  limit holds, through every sequence of the routes that create, edit, join and leave groups,
  whatever their outcomes.
\<close>

section \<open>The invariant\<close>

text \<open>The owner and the recipients, for a group.\<close>

fun roster :: "channel \<Rightarrow> (string \<times> string list) option" where
  "roster (Group g) = Some (g_owner g, g_recipients g)"
| "roster _ = None"

fun roster_ok :: "nat \<Rightarrow> string \<times> string list \<Rightarrow> bool" where
  "roster_ok n (owner, recipients) \<longleftrightarrow>
     owner \<in> set recipients \<and> distinct recipients \<and> length recipients \<le> n"

definition groups_ok :: "nat \<Rightarrow> world \<Rightarrow> bool" where
  "groups_ok n w \<longleftrightarrow>
     world_ok w \<and>
     (\<forall>k c r. hm_get (db_channels w) k = Some c \<longrightarrow> roster c = Some r \<longrightarrow> roster_ok n r)"

lemma roster_remove_fields [simp]: "roster (channel_remove_fields fs c) = roster c"
proof -
  have "roster (channel_remove_field f c) = roster c" for f c
    by (cases f; cases c) simp_all
  then show ?thesis
    unfolding channel_remove_fields_def by (induction fs arbitrary: c) simp_all
qed

lemma roster_apply [simp]:
  "roster (channel_apply_options p c) = map_option (apfst (\<lambda>v. unwrap_or (pc_owner p) v)) (roster c)"
  by (cases c) simp_all

lemma roster_recipients [simp]:
  "roster (push_recipient u c) = map_option (apsnd (\<lambda>rs. rs @ [u])) (roster c)"
  "roster (remove_recipient u c) = map_option (apsnd (remove1 u)) (roster c)"
  by (cases c; simp)+

section \<open>Steps that leave the channels alone\<close>

lemma leaves_channels [leaves_rules]:
  "leaves db_channels (publish c e)" "leaves db_channels (publish_private c e)"
  "leaves db_channels (queue_task t)" "leaves db_channels (insert_message m)"
  "leaves db_channels (insert_audit_log_entry a)" "leaves db_channels (fetch_user i)"
  "leaves db_channels (mark_attachment_as_deleted i)" "leaves db_channels (use_channel_icon i j k)"
  by (auto simp: leaves_def publish_def publish_private_def queue_task_def insert_message_def
      insert_audit_log_entry_def fetch_user_def mark_attachment_as_deleted_def use_channel_icon_def
      find_and_use_attachment_def Let_def split: option.splits)

lemma leaves_send [leaves_rules]: "leaves db_channels (send_message m a u mem c ge)"
  unfolding send_message_def send_without_notifications_def
  by (intro leaves_rules)

lemma leaves_system_send [leaves_rules]: "leaves db_channels (system_send i s a c)"
  unfolding system_send_def by (intro leaves_rules)

lemma leaves_announce [leaves_rules]: "leaves db_channels (announce_edits env u p c)"
  unfolding announce_edits_def by (intro leaves_rules)

lemma leaves_audit [leaves_rules]: "leaves db_channels (audit_insert env a s r u t)"
  unfolding audit_insert_def by (intro leaves_rules)

lemma leaves_edit_icon [leaves_rules]: "leaves db_channels (edit_icon u d i icon)"
  unfolding edit_icon_def by (intro leaves_rules)

lemma keeps_send [intro, simp]: "keeps world_ok (send_message m a u mem c ge)"
  unfolding send_message_def send_without_notifications_def
  by (intro keeps_rules keeps_publish keeps_messages keeps_prod) (auto split: bool.splits option.splits)

lemma keeps_system_send [intro, simp]: "keeps world_ok (system_send i s a c)"
  unfolding system_send_def by (intro keeps_rules keeps_send)

lemma keeps_audit_insert [intro, simp]: "keeps world_ok (audit_insert env a s r u t)"
  unfolding audit_insert_def by (intro keeps_rules keeps_emojis)

lemma keeps_announce [intro, simp]: "keeps world_ok (announce_edits env u p c)"
  unfolding announce_edits_def by (intro keeps_rules keeps_system_send)

lemma keeps_edit_icon [intro, simp]:
  "keeps world_ok (use_channel_icon i j k)" "keeps world_ok (edit_icon u d ident icon)"
  unfolding edit_icon_def use_channel_icon_def by (intro keeps_rules keeps_files)+

section \<open>Steps that change the channels\<close>

lemma keeps_groups_ok:
  "leaves db_channels m \<Longrightarrow> keeps world_ok m \<Longrightarrow> keeps (groups_ok n) m"
  by (simp add: keeps_def groups_ok_def leaves_def)

lemma ensures_untouched:
  "leaves db_channels m \<Longrightarrow> keeps world_ok m \<Longrightarrow>
   ensures (groups_ok n) (\<lambda>w. P (db_channels w)) m (\<lambda>_ w. P (db_channels w))"
  by (intro ensures_leaves keeps_groups_ok)

lemma ensures_as_channel:
  "ensures (groups_ok n) (\<lambda>_. True) (as_channel t)
     (\<lambda>c w. hm_get (db_channels w) t = Some c \<and> channel_id c = t)"
proof (rule ensuresI)
  have "snd (as_channel t w) = w" for w
    by (auto simp: as_channel_def bindM_def fetch_channel_def fetch_server_def guard_def
        split: outcome.splits option.splits)
  then show "groups_ok n (snd (as_channel t w))" if "groups_ok n w" for w
    using that by simp
  show "hm_get (db_channels w') t = Some c \<and> channel_id c = t"
    if "groups_ok n w" "as_channel t w = (Ok c, w')" for w c w'
    using that
    by (auto simp: as_channel_def bindM_eq_Ok fetch_channel_def fetch_server_def groups_ok_def
        world_ok_def dest: keyed_get split: option.splits if_splits)
qed

lemma ensures_perms:
  "ensures I P (channel_permissions_io pdb now u c) (\<lambda>_. P)"
  by (rule ensuresI) (auto simp: channel_permissions_io_def split: option.splits)

lemma ensures_fetch_user: "ensures I P (fetch_user i) (\<lambda>_. P)"
  by (rule ensuresI) (auto simp: fetch_user_def)

text \<open>Modifying one stored channel.\<close>

lemma groups_ok_modify:
  assumes "groups_ok n w" and "\<And>c. channel_id (f c) = channel_id c"
    and "\<And>c r. hm_get (db_channels w) k = Some c \<Longrightarrow> roster (f c) = Some r \<Longrightarrow> roster_ok n r"
  shows "groups_ok n (w\<lparr>db_channels := hm_modify k f (db_channels w)\<rparr>)"
  using assms by (auto simp: groups_ok_def world_ok_def)

definition stored :: "string \<Rightarrow> (string \<times> string list \<Rightarrow> bool) \<Rightarrow> (string, channel) hmap \<Rightarrow> bool" where
  "stored k P cs \<longleftrightarrow> (\<forall>c r. hm_get cs k = Some c \<longrightarrow> roster c = Some r \<longrightarrow> P r)"

lemma ensures_update_channel:
  "ensures (groups_ok n)
     (\<lambda>w. stored k (\<lambda>(v, rs). unwrap_or (pc_owner p) v \<in> set rs) (db_channels w))
     (update_channel k p fs) (\<lambda>_ w. stored k (\<lambda>(v, rs). pc_owner p = None \<or> pc_owner p = Some v) (db_channels w))"
proof (rule ensuresI)
  fix w
  assume ok: "groups_ok n w"
    and new: "stored k (\<lambda>(v, rs). unwrap_or (pc_owner p) v \<in> set rs) (db_channels w)"
  have "roster_ok n r"
    if "hm_get (db_channels w) k = Some c"
      "roster (channel_remove_fields fs (channel_apply_options p c)) = Some r" for c r
  proof -
    from that(2) obtain v rs where c: "roster c = Some (v, rs)" and r: "r = (unwrap_or (pc_owner p) v, rs)"
      by auto
    from ok that(1) c have "roster_ok n (v, rs)"
      unfolding groups_ok_def by blast
    moreover from new that(1) c have "unwrap_or (pc_owner p) v \<in> set rs"
      unfolding stored_def by fastforce
    ultimately show ?thesis
      using r by simp
  qed
  with ok show "groups_ok n (snd (update_channel k p fs w))"
    by (auto simp: update_channel_def intro!: groups_ok_modify)
  show "stored k (\<lambda>(v, rs). pc_owner p = None \<or> pc_owner p = Some v) (db_channels w')"
    if "update_channel k p fs w = (Ok x, w')" for x w'
    using that by (cases "pc_owner p") (auto simp: update_channel_def stored_def split: if_splits)
qed

lemma ensures_add:
  "ensures (groups_ok n)
     (\<lambda>w. stored k (\<lambda>(v, rs). u \<notin> set rs \<and> length rs < n) (db_channels w))
     (add_user_to_group_db k u) (\<lambda>_ _. True)"
proof (rule ensuresI)
  fix w
  assume ok: "groups_ok n w" and new: "stored k (\<lambda>(v, rs). u \<notin> set rs \<and> length rs < n) (db_channels w)"
  have "roster_ok n r" if "hm_get (db_channels w) k = Some c" "roster (push_recipient u c) = Some r" for c r
  proof -
    from that(2) obtain v rs where c: "roster c = Some (v, rs)" and r: "r = (v, rs @ [u])"
      by auto
    from ok that(1) c have "roster_ok n (v, rs)"
      unfolding groups_ok_def by blast
    with new that(1) c r show ?thesis
      by (auto simp: stored_def)
  qed
  with ok show "groups_ok n (snd (add_user_to_group_db k u w))"
    by (auto simp: add_user_to_group_db_def split: option.splits channel.splits intro!: groups_ok_modify)
qed simp

lemma ensures_remove:
  "ensures (groups_ok n) (\<lambda>w. stored k (\<lambda>(v, rs). u \<noteq> v) (db_channels w))
     (remove_user_from_group_db k u) (\<lambda>_ _. True)"
proof (rule ensuresI)
  fix w
  assume ok: "groups_ok n w" and new: "stored k (\<lambda>(v, rs). u \<noteq> v) (db_channels w)"
  have "roster_ok n r" if "hm_get (db_channels w) k = Some c" "roster (remove_recipient u c) = Some r" for c r
  proof -
    from that(2) obtain v rs where c: "roster c = Some (v, rs)" and r: "r = (v, remove1 u rs)"
      by auto
    from ok that(1) c have "roster_ok n (v, rs)"
      unfolding groups_ok_def by blast
    with new that(1) c r show ?thesis
      by (auto simp: stored_def in_set_remove1 length_remove1)
  qed
  with ok show "groups_ok n (snd (remove_user_from_group_db k u w))"
    by (auto simp: remove_user_from_group_db_def split: option.splits channel.splits
        intro!: groups_ok_modify)
qed simp

lemma keeps_delete_channel: "keeps (groups_ok n) (delete_channel_db c)"
  by (auto simp: keeps_def groups_ok_def delete_channel_db_def world_ok_def)

lemma ensures_insert_channel:
  assumes "\<And>r. roster c = Some r \<Longrightarrow> roster_ok n r"
  shows "ensures (groups_ok n) P (insert_channel c) (\<lambda>_ _. True)"
  using assms by (intro ensuresI) (auto simp: groups_ok_def insert_channel_def world_ok_def)

section \<open>Operations\<close>

lemma ensures_channel [ensures_rules]:
  "(\<And>x. c = SavedMessages x \<Longrightarrow> ensures I P (f x) Q) \<Longrightarrow> (\<And>x. c = DirectMessage x \<Longrightarrow> ensures I P (g x) Q) \<Longrightarrow>
   (\<And>x. c = Group x \<Longrightarrow> ensures I P (h x) Q) \<Longrightarrow> (\<And>x. c = TextChannel x \<Longrightarrow> ensures I P (k x) Q) \<Longrightarrow>
   ensures I P (case c of SavedMessages x \<Rightarrow> f x | DirectMessage x \<Rightarrow> g x | Group x \<Rightarrow> h x | TextChannel x \<Rightarrow> k x) Q"
  by (cases c) simp_all

definition current :: "channel \<Rightarrow> (string, channel) hmap \<Rightarrow> bool" where
  "current c cs \<longleftrightarrow> hm_get cs (channel_id c) = Some c"

lemma keeps_insert_channel:
  "(\<And>r. roster c = Some r \<Longrightarrow> roster_ok n r) \<Longrightarrow> keeps (groups_ok n) (insert_channel c)"
  by (auto simp: keeps_def groups_ok_def insert_channel_def world_ok_def)

lemma keeps_create_group:
  "distinct (dg_users d) \<Longrightarrow> keeps (groups_ok (re_group_size env)) (create_group env d v)"
  unfolding create_group_def Let_def
  by (intro keeps_guard keeps_bind keeps_insert_channel keeps_for_each keeps_groups_ok leaves_rules
        keeps_rules keeps_edit_icon keeps_publish) (auto simp: set_insert_def)

lemma ensures_add_user:
  "ensures (groups_ok (re_group_size env)) (\<lambda>w. current c (db_channels w))
     (add_user_to_group env c u by_id) (\<lambda>_ _. True)"
  unfolding add_user_to_group_def
proof (intro ensures_channel ensures_fail)
  fix g
  assume c: "c = Group g"
  show "ensures (groups_ok (re_group_size env)) (\<lambda>w. current c (db_channels w))
     (bindM (guard (u_id u \<in> set (g_recipients g)) (ChannelErr AlreadyInGroup)) (\<lambda>_.
      bindM (guard (length (g_recipients g) \<ge> re_group_size env)
              (ChannelErr (GroupTooLarge (re_group_size env)))) (\<lambda>_.
      let c = Group (g\<lparr>g_recipients := g_recipients g @ [u_id u]\<rparr>)
      in bindM (add_user_to_group_db (g_id g) (u_id u)) (\<lambda>_.
         bindM (publish (g_id g) (E_ChannelGroupJoin (g_id g) (u_id u))) (\<lambda>_.
         bindM (system_send (re_ids env 0) (SM_UserAdded (u_id u) by_id) (as_author_for_system u) c) (\<lambda>_.
         bindM (publish_private (u_id u) (E_ChannelCreate c)) (\<lambda>_. ret c))))))) (\<lambda>_ _. True)"
    unfolding Let_def
    by (intro ensures_bind [OF ensures_guard]
          ensures_bind [OF ensures_pre [OF ensures_add [where u = "u_id u" and k = "g_id g"]]]
          ensures_drop keeps_bind keeps_const keeps_groups_ok leaves_rules keeps_publish keeps_system_send)
       (auto simp: c current_def stored_def)
qed

lemma ensures_leave:
  "ensures (groups_ok n) (\<lambda>w. stored k (\<lambda>(v, rs). u \<noteq> v) (db_channels w))
     (bindM (remove_user_from_group_db k u) (\<lambda>_.
      bindM (publish k e) (\<lambda>_. if silent then ret () else system_send i s a c))) (\<lambda>_ _. True)"
  by (intro ensures_bind [OF ensures_remove] ensures_drop keeps_bind keeps_if keeps_const
      keeps_groups_ok leaves_rules keeps_publish keeps_system_send)

lemma ensures_remove_user:
  "ensures (groups_ok n) (\<lambda>w. current c (db_channels w))
     (remove_user_from_group env c u by_id silent) (\<lambda>_ _. True)"
  unfolding remove_user_from_group_def Let_def
proof (intro ensures_channel ensures_fail ensures_if ensures_option, goal_cases)
  case (1 g)
  then show ?case
    unfolding channel_delete_def
    by (intro ensures_drop keeps_bind keeps_delete_channel keeps_groups_ok leaves_rules keeps_publish)
next
  case (2 g new_owner)
  let ?p = "default_partial_channel\<lparr>pc_owner := Some new_owner\<rparr>"
  from 2 have new: "new_owner \<in> set (g_recipients g)" "new_owner \<noteq> u_id u"
    by (auto simp: find_Some_iff)
  show ?case
    by (rule ensures_bind [OF ensures_pre [OF ensures_update_channel [where p = ?p]]],
        use 2 new in \<open>force simp: current_def stored_def\<close>,
        rule ensures_bind [OF ensures_untouched], intro leaves_rules, rule keeps_system_send,
        rule ensures_pre [OF ensures_leave], use new in \<open>force simp: stored_def\<close>)
next
  case (3 g)
  then show ?case
    by (intro ensures_pre [OF ensures_leave]) (auto simp: current_def stored_def)
qed

section \<open>Routes\<close>

lemma keeps_route_create_group:
  "distinct (dg_users d) \<Longrightarrow>
   keeps (groups_ok (re_group_size env)) (route_create_group env validation user d)"
  unfolding route_create_group_def by (intro keeps_rules keeps_create_group)

lemma ensures_fetched:
  "ensures (groups_ok n) P (as_channel t) (\<lambda>c w. current c (db_channels w) \<and> channel_id c = t)"
  by (rule ensures_conseq [OF ensures_as_channel]) (auto simp: current_def)

lemmas request_rules = ensures_bind [OF ensures_guard] ensures_bind [OF ensures_lift]
  ensures_bind [OF ensures_fetched] ensures_bind [OF ensures_perms] ensures_bind [OF ensures_fetch_user]
  ensures_prod ensures_channel ensures_fail

lemma keeps_add_member: "keeps (groups_ok (re_group_size env)) (group_add_member env user g m)"
  unfolding group_add_member_def
  by (rule keeps_ensures [where Q = "\<lambda>_ _. True"], intro request_rules ensures_then ensures_pre [OF ensures_add_user] keeps_const)
     auto

lemma keeps_leave_voice: "keeps (groups_ok n) (leave_voice env u c)"
  unfolding leave_voice_def by (intro keeps_rules)

lemma keeps_remove_member: "keeps (groups_ok n) (group_remove_member env user g m)"
  unfolding group_remove_member_def
  by (rule keeps_ensures [where Q = "\<lambda>_ _. True"], intro request_rules ensures_then keeps_leave_voice
        ensures_pre [OF ensures_remove_user]) auto

lemma ensures_channel_update:
  assumes "pc_owner p = None"
  shows "ensures (groups_ok n) P (channel_update c p fs) (\<lambda>_ _. True)"
  unfolding channel_update_def Let_def
  by (rule ensures_bind [OF ensures_pre [OF ensures_update_channel]])
     (use assms in \<open>force simp: stored_def groups_ok_def\<close>,
      intro ensures_drop keeps_rules keeps_groups_ok leaves_rules keeps_publish)

lemma keeps_channel_delete: "keeps (groups_ok n) (channel_delete c)"
  unfolding channel_delete_def
  by (intro keeps_bind keeps_delete_channel keeps_groups_ok leaves_rules keeps_publish)

lemma keeps_route_delete: "keeps (groups_ok n) (route_channel_delete env user reason t silent)"
  unfolding route_channel_delete_def
  by (rule keeps_ensures [where Q = "\<lambda>_ _. True"], intro request_rules ensures_then ensures_channel_update
        ensures_then keeps_leave_voice ensures_pre [OF ensures_remove_user]
        ensures_drop keeps_rules keeps_channel_delete keeps_groups_ok [OF leaves_audit keeps_audit_insert])
     (auto simp: default_partial_channel_def)

lemma keeps_set_default: "keeps (groups_ok n) (set_default_channel_permissions env user reason t d)"
proof -
  have rest: "keeps (groups_ok n)
      (bindM (case channel_server c of Some i \<Rightarrow> bindM (as_server i) (\<lambda>s. ret (Some s)) | None \<Rightarrow> ret None)
        (\<lambda>s. bindM (lift (vc_sync (re_voice env) c s None)) (\<lambda>_. ret c)))" for c
    unfolding as_server_def
    by (intro keeps_rules keeps_groups_ok keeps_servers) (auto simp: leaves_def fetch_server_def)
  show ?thesis
    unfolding set_default_channel_permissions_def Let_def
    by (rule keeps_ensures [where Q = "\<lambda>_ _. True"],
        intro request_rules ensures_then [OF _ rest] ensures_channel_update)
       (auto split: data_default_channel_permissions.splits simp: default_partial_channel_def
          intro!: request_rules ensures_then ensures_channel_update keeps_rules
            keeps_groups_ok [OF leaves_audit keeps_audit_insert])
qed

lemma keeps_set_role: "keeps (groups_ok n) (set_role_permissions env user reason t role v)"
proof -
  have store: "keeps (groups_ok n) (set_channel_role_permission k r f)" for k r f
    by (auto simp: keeps_def set_channel_role_permission_def split: option.splits channel.splits
        intro!: groups_ok_modify)
  have "keeps (groups_ok n) (channel_set_role_permission c r f)" for c r f
    unfolding channel_set_role_permission_def
    by (cases c) (simp_all add: Let_def keeps_def,
      simp_all flip: keeps_def, intro store keeps_bind keeps_const keeps_groups_ok leaves_rules keeps_publish)
  note set = this
  have reads: "keeps (groups_ok n) (as_channel t)" "keeps (groups_ok n) (channel_perms env user c)"
    "keeps (groups_ok n) (\<lambda>w. case set_server_from_channel
       (DatabasePermissionQuery (re_pdb env w) (re_now env)) q of Some (_, q) \<Rightarrow> (Ok q, w)
       | None \<Rightarrow> (Panic x, w))" for c q x
    by (rule keeps_ensures [OF ensures_as_channel], rule keeps_ensures [OF ensures_perms],
        auto simp: keeps_def split: option.splits)
  show ?thesis
    unfolding set_role_permissions_def
    by (intro keeps_rules reads set keeps_groups_ok [OF leaves_audit keeps_audit_insert])
qed

lemma keeps_open_dm: "keeps (groups_ok n) (open_dm env user t)"
proof -
  have dm: "keeps (groups_ok n) (create_dm env a b)" for a b
    unfolding create_dm_def Let_def
    by (intro keeps_rules keeps_insert_channel keeps_groups_ok leaves_rules keeps_publish)
       (auto simp: leaves_def find_direct_message_channel_def)
  show ?thesis
    unfolding open_dm_def
    by (intro keeps_rules dm) (auto simp: keeps_def fetch_user_def split: option.splits)
qed

text \<open>Editing: the new owner was checked against the copy, and the copy was current.\<close>

lemma leaves_channel_cases [leaves_rules]:
  "(\<And>x. leaves F (f x)) \<Longrightarrow> (\<And>x. leaves F (g x)) \<Longrightarrow> (\<And>x. leaves F (h x)) \<Longrightarrow> (\<And>x. leaves F (k x)) \<Longrightarrow>
   leaves F (case c of SavedMessages x \<Rightarrow> f x | DirectMessage x \<Rightarrow> g x | Group x \<Rightarrow> h x | TextChannel x \<Rightarrow> k x)"
  by (cases c) simp_all

lemma keeps_channel_cases [keeps_rules]:
  "(\<And>x. keeps I (f x)) \<Longrightarrow> (\<And>x. keeps I (g x)) \<Longrightarrow> (\<And>x. keeps I (h x)) \<Longrightarrow> (\<And>x. keeps I (k x)) \<Longrightarrow>
   keeps I (case c of SavedMessages x \<Rightarrow> f x | DirectMessage x \<Rightarrow> g x | Group x \<Rightarrow> h x | TextChannel x \<Rightarrow> k x)"
  by (cases c) simp_all

lemma edit_stages_frame:
  "leaves db_channels (transfer_group env user d c)" "keeps world_ok (transfer_group env user d c)"
  "leaves db_channels (edit_values env user d p c)" "keeps world_ok (edit_values env user d p c)"
  unfolding transfer_group_def edit_values_def
  by (intro leaves_rules keeps_rules keeps_system_send keeps_edit_icon keeps_announce)+

lemma channel_id_edited [simp]: "channel_id (edited_copy fs p c) = channel_id c"
proof (cases c)
  case (TextChannel t)
  let ?c = "channel_remove_fields (filter (\<lambda>f. f \<noteq> FieldsChannel_DefaultPermissions) fs) (TextChannel t)"
  have "channel_id ?c = tc_id t"
    by (simp del: channel_remove_fields_def)
  with TextChannel show ?thesis
    by (cases ?c) simp_all
qed simp_all

lemma transfer_Ok:
  assumes "transfer_group env user d c w = (Ok (c', p), w')"
  shows "channel_id c' = channel_id c"
    and "pc_owner p = Some v \<Longrightarrow> \<exists>g. c = Group g \<and> v \<in> set (g_recipients g)"
  using assms
  by (auto simp: transfer_group_def default_partial_channel_def bindM_eq_Ok Let_def
      split: option.splits channel.splits if_splits)

lemma edit_values_Ok:
  assumes "edit_values env user d p c w = (Ok (c', p'), w')"
  shows "channel_id c' = channel_id c \<and> pc_owner p' = pc_owner p"
  using assms
  by (auto simp: edit_values_def bindM_eq_Ok Let_def simp del: edited_copy.simps split: channel.splits)

abbreviation owner_stays :: "channel \<Rightarrow> partial_channel \<Rightarrow> world \<Rightarrow> bool" where
  "owner_stays c p w \<equiv>
     stored (channel_id c) (\<lambda>(v, rs). unwrap_or (pc_owner p) v \<in> set rs) (db_channels w)"

lemma ensures_transfer:
  "ensures (groups_ok n) (\<lambda>w. current c (db_channels w)) (transfer_group env user d c)
     (\<lambda>(b, p). owner_stays b p)"
proof (rule ensuresI)
  fix w
  assume w: "groups_ok n w" "current c (db_channels w)"
  show "groups_ok n (snd (transfer_group env user d c w))"
    using keepsD [OF keeps_groups_ok [OF edit_stages_frame(1,2)] w(1)] .
  show "(case x of (b, p) \<Rightarrow> owner_stays b p) w'"
    if run: "transfer_group env user d c w = (Ok x, w')" for x w'
  proof -
    obtain b p where x: "x = (b, p)"
      by (cases x)
    note facts = transfer_Ok [OF run [unfolded x]] leaves_run [OF edit_stages_frame(1) run]
    have "unwrap_or (pc_owner p) v \<in> set rs" if "roster c = Some (v, rs)" for v rs
      using w that facts(2)
      by (cases "pc_owner p") (force simp: groups_ok_def current_def)+
    with w(2) x facts(1,3) show ?thesis
      by (auto simp: stored_def current_def)
  qed
qed

lemma ensures_values:
  "ensures (groups_ok n) (owner_stays b p) (edit_values env user d p b) (\<lambda>(c, q). owner_stays c q)"
proof (rule ensuresI)
  show "groups_ok n (snd (edit_values env user d p b w))" if "groups_ok n w" for w
    using keepsD [OF keeps_groups_ok [OF edit_stages_frame(3,4)] that] .
  show "(case x of (c, q) \<Rightarrow> owner_stays c q) w'"
    if "owner_stays b p w" and run: "edit_values env user d p b w = (Ok x, w')" for w x w'
  proof -
    obtain c q where x: "x = (c, q)"
      by (cases x)
    with that edit_values_Ok [OF run [unfolded x]] leaves_run [OF edit_stages_frame(3) run]
    show ?thesis
      by simp
  qed
qed

lemma ensures_checked_update:
  "ensures (groups_ok n) (owner_stays c p) (channel_update c p fs) (\<lambda>_ _. True)"
  unfolding channel_update_def Let_def
  by (rule ensures_bind [OF ensures_pre [OF ensures_update_channel]])
     (simp, intro ensures_drop keeps_rules keeps_groups_ok leaves_rules keeps_publish)

lemma keeps_channel_edit: "keeps (groups_ok n) (channel_edit env validation user reason t d)"
  unfolding channel_edit_def
  by (rule keeps_ensures [where Q = "\<lambda>_ _. True"],
      intro request_rules ensures_if ensures_bind [OF ensures_pre [OF ensures_transfer]]
        ensures_bind [OF ensures_pre [OF ensures_values]] ensures_then
        ensures_pre [OF ensures_checked_update] ensures_ret keeps_rules
        keeps_groups_ok [OF leaves_audit keeps_audit_insert]) auto

section \<open>Sequences of requests\<close>

datatype channel_request =
    CreateGroup data_create_group
  | AddMember string string
  | RemoveMember string string
  | DeleteChannel string "bool option"
  | EditChannel string data_edit_channel
  | SetDefaultPermissions string data_default_channel_permissions
  | SetRolePermissions string string override
  | OpenDm string

definition run_request :: "route_env \<Rightarrow> user \<Rightarrow> channel_request \<Rightarrow> unit io" where
  "run_request env user r =
     (case r of
        CreateGroup d \<Rightarrow> bindM (route_create_group env (Ok ()) user d) (\<lambda>_. ret ())
      | AddMember g m \<Rightarrow> group_add_member env user g m
      | RemoveMember g m \<Rightarrow> group_remove_member env user g m
      | DeleteChannel t silent \<Rightarrow> route_channel_delete env user None t silent
      | EditChannel t d \<Rightarrow> bindM (channel_edit env (Ok ()) user None t d) (\<lambda>_. ret ())
      | SetDefaultPermissions t d \<Rightarrow>
          bindM (set_default_channel_permissions env user None t d) (\<lambda>_. ret ())
      | SetRolePermissions t role v \<Rightarrow> bindM (set_role_permissions env user None t role v) (\<lambda>_. ret ())
      | OpenDm t \<Rightarrow> bindM (open_dm env user t) (\<lambda>_. ret ()))"

text \<open>
  One request by any user with any answers from outside, under a fixed size limit; the users of
  a new group are a set.
\<close>

inductive request_step :: "nat \<Rightarrow> world \<Rightarrow> world \<Rightarrow> bool" for n where
  request: "re_group_size env = n \<Longrightarrow> (\<And>d. r = CreateGroup d \<Longrightarrow> distinct (dg_users d)) \<Longrightarrow>
    run_request env user r w = (x, w') \<Longrightarrow> request_step n w w'"

inductive_cases request_stepE: "request_step n w w'"

lemma request_keeps:
  assumes "\<And>d. r = CreateGroup d \<Longrightarrow> distinct (dg_users d)"
  shows "keeps (groups_ok (re_group_size env)) (run_request env user r)"
  using assms unfolding run_request_def
  by (cases r) (auto intro!: keeps_bind keeps_route_create_group keeps_add_member keeps_remove_member
      keeps_route_delete keeps_channel_edit keeps_set_default keeps_set_role keeps_open_dm)



end
