(* ===== verification/Servers.thy ===== *)
theory Servers
  imports Channels
begin

text \<open>
  Servers, their members, roles and bans: the operations of \<open>models/servers/model.rs\<close>,
  \<open>models/server_members/model.rs\<close> and \<open>models/server_bans/model.rs\<close>, and the routes of
  \<open>routes/servers\<close> that change them. A handler works on its own copy of what it read; the
  result of an operation that changes the copy is the changed copy.
\<close>

section \<open>Roles\<close>

definition role_update ::
    "optional_struct \<Rightarrow> role \<Rightarrow> string \<Rightarrow> partial_role \<Rightarrow> fields_role list \<Rightarrow> role io" where
  "role_update os r server_id partial remove =
     (let r = role_apply_options os partial (fold role_remove_field remove r)
      in bindM (update_role os server_id (r_id r) partial remove) (\<lambda>_.
         bindM (publish server_id (E_ServerRoleUpdate server_id (r_id r) partial remove)) (\<lambda>_. ret r)))"

definition role_create :: "string \<Rightarrow> server \<Rightarrow> string \<Rightarrow> role io" where
  "role_create new_id server name =
     (let role = \<lparr>r_id = new_id, r_name = name, r_permissions = default_override_field,
                  r_colour = None, r_hoist = False, r_rank = int (length (s_roles server)),
                  r_icon = None\<rparr>
      in bindM (insert_role (s_id server) role) (\<lambda>_.
         bindM (publish (s_id server)
                  (E_ServerRoleUpdate (s_id server) (r_id role) (role_into_optional role) [])) (\<lambda>_.
         ret role)))"

definition role_delete :: "role \<Rightarrow> string \<Rightarrow> unit io" where
  "role_delete r server_id =
     bindM (publish server_id (E_ServerRoleDelete server_id (r_id r))) (\<lambda>_. delete_role server_id (r_id r))"

section \<open>Servers\<close>

record data_create_server =
  ds_name :: string
  ds_description :: "string option"
  ds_nsfw :: "bool option"

definition new_server :: "string \<Rightarrow> data_create_server \<Rightarrow> user \<Rightarrow> server" where
  "new_server new_id d owner =
     \<lparr>s_id = new_id, s_owner = u_id owner, s_name = ds_name d, s_description = ds_description d,
      s_announcement = None, s_channels = [], s_categories = None, s_system_messages = None,
      s_roles = [], s_default_permissions = as_i64 DEFAULT_PERMISSION_SERVER, s_icon = None,
      s_banner = None, s_flags = None, s_nsfw = unwrap_or (ds_nsfw d) False, s_analytics = False,
      s_discoverable = False, s_admin_suspended = False\<rparr>"

definition server_create ::
    "route_env \<Rightarrow> data_create_server \<Rightarrow> user \<Rightarrow> bool \<Rightarrow> (server \<times> channel list) io" where
  "server_create env d owner create_default_channels =
     (let server = new_server (re_ids env 0) d owner in
      bindM (if create_default_channels then
               bindM (create_server_channel env (re_ids env 1) server
                        \<lparr>dc_channel_type = LST_Text, dc_name = ''General'', dc_description = None,
                         dc_nsfw = None, dc_forum = None, dc_voice = None\<rparr> False)
                 (\<lambda>(channel, _). ret [channel])
             else ret []) (\<lambda>channels.
      let server = server\<lparr>s_channels := map channel_id channels\<rparr>
      in bindM (insert_server server) (\<lambda>_. ret (server, channels))))"

definition server_delete :: "server \<Rightarrow> unit io" where
  "server_delete s =
     bindM (publish (s_id s) (E_ServerDelete (s_id s))) (\<lambda>_. delete_server (s_id s))"

definition server_set_role_permission ::
    "optional_struct \<Rightarrow> server \<Rightarrow> string \<Rightarrow> override_field \<Rightarrow> server io" where
  "server_set_role_permission os s role_id permissions =
     (case hm_get (s_roles s) role_id of
        Some role \<Rightarrow>
          bindM (role_update os role (s_id s)
                   (default_partial_role\<lparr>pr_permissions := Some permissions\<rparr>) []) (\<lambda>role.
          ret (s\<lparr>s_roles := hm_insert role_id role (s_roles s)\<rparr>))
      | None \<Rightarrow> throw not_found)"

text \<open>The loop of \<open>set_role_ordering\<close>; an identifier the server does not have panics.\<close>

fun assign_ranks :: "nat \<Rightarrow> string list \<Rightarrow> (string, role) hmap \<Rightarrow> (string, role) hmap option" where
  "assign_ranks rank [] roles = Some roles"
| "assign_ranks rank (ident # order) roles =
     (if hm_contains roles ident
      then assign_ranks (rank + 1) order (hm_modify ident (\<lambda>r. r\<lparr>r_rank := int rank\<rparr>) roles)
      else None)"

definition set_role_ordering :: "optional_struct \<Rightarrow> server \<Rightarrow> string list \<Rightarrow> server io" where
  "set_role_ordering os s new_order =
     (case assign_ranks 0 new_order (s_roles s) of
        None \<Rightarrow> panic ''called Option::unwrap() on a None value''
      | Some roles \<Rightarrow>
          let s = s\<lparr>s_roles := roles\<rparr>
          in bindM (update_server os (s_id s) (default_partial_server\<lparr>ps_roles := Some roles\<rparr>) []) (\<lambda>_.
             bindM (publish (s_id s) (E_ServerRoleRanksUpdate (s_id s) new_order)) (\<lambda>_. ret s)))"

section \<open>Members and bans\<close>

definition system_announce :: "string \<Rightarrow> system_message \<Rightarrow> string \<Rightarrow> unit io" where
  "system_announce new_id s channel =
     bindM (attempt (send_without_notifications (into_message new_id s channel) None None False False False))
       (\<lambda>_. ret ())"

fun visible_channels ::
    "route_env \<Rightarrow> database_permission_query \<Rightarrow> channel list \<Rightarrow> channel list io" where
  "visible_channels env query [] = ret []"
| "visible_channels env query (c # cs) = (\<lambda>w.
     (case calculate_channel_permissions (DatabasePermissionQuery (re_pdb env w) (re_now env))
             (query_channel c query) of
        None \<Rightarrow> (Panic ''permission query'', w)
      | Some (p, _) \<Rightarrow>
          bindM (visible_channels env query cs) (\<lambda>rest.
            ret (if has_channel_permission p CP_ViewChannel then c # rest else rest)) w))"

definition member_create ::
    "route_env \<Rightarrow> server \<Rightarrow> user \<Rightarrow> channel list option \<Rightarrow> (member \<times> channel list) io" where
  "member_create env server user channels =
     bindM (attempt (fetch_ban (s_id server) (u_id user))) (\<lambda>ban.
     bindM (guard (ban \<noteq> None) (ServerErr Banned)) (\<lambda>_.
     bindM (attempt (fetch_member (s_id server) (u_id user))) (\<lambda>present.
     bindM (guard (present \<noteq> None) (ServerErr AlreadyInServer)) (\<lambda>_.
     let member = (default_member (re_now env))
           \<lparr>m_id := \<lparr>mk_server = s_id server, mk_user = u_id user\<rparr>\<rparr>
     in
     bindM (insert_or_merge_member member) (\<lambda>updated.
     let member = unwrap_or updated member
     in
     bindM (case channels of
              Some channels \<Rightarrow> ret channels
            | None \<Rightarrow>
                bindM (fetch_channels (s_channels server))
                  (visible_channels env (server_query user server))) (\<lambda>channels.
     bindM (fetch_emoji_by_parent_id (s_id server)) (\<lambda>emojis.
     bindM (publish (s_id server) (E_ServerMemberJoin (s_id server) (u_id user) member)) (\<lambda>_.
     bindM (publish_private (u_id user) (E_ServerCreate (s_id server) server channels emojis)) (\<lambda>_.
     bindM (case s_system_messages server of
              Some smc \<Rightarrow>
                (case smc_user_joined smc of
                   Some ident \<Rightarrow> system_announce (re_ids env 2) (SM_UserJoined (u_id user)) ident
                 | None \<Rightarrow> ret ())
            | None \<Rightarrow> ret ()) (\<lambda>_.
     ret (member, channels)))))))))))"

definition member_update ::
    "optional_struct \<Rightarrow> member \<Rightarrow> partial_member \<Rightarrow> fields_member list \<Rightarrow> member io" where
  "member_update os m partial remove =
     (let m = member_apply_options os partial (fold member_remove_field remove m)
      in bindM (update_member os (m_id m) partial remove) (\<lambda>_.
         bindM (publish (mk_server (m_id m)) (E_ServerMemberUpdate (m_id m) partial remove)) (\<lambda>_.
         ret m)))"

fun removal_channel :: "removal_intention \<Rightarrow> system_message_channels \<Rightarrow> string option" where
  "removal_channel Leave x = smc_user_left x"
| "removal_channel Kick x = smc_user_kicked x"
| "removal_channel Ban x = smc_user_banned x"

fun removal_message :: "removal_intention \<Rightarrow> string \<Rightarrow> system_message" where
  "removal_message Leave u = SM_UserLeft u"
| "removal_message Kick u = SM_UserKicked u"
| "removal_message Ban u = SM_UserBanned u"

definition member_remove :: "route_env \<Rightarrow> member \<Rightarrow> server \<Rightarrow> removal_intention \<Rightarrow> bool \<Rightarrow> unit io" where
  "member_remove env m server intention silent =
     bindM (soft_delete_member (re_now env) (m_id m)) (\<lambda>_.
     bindM (publish (mk_server (m_id m))
              (E_ServerMemberLeave (mk_server (m_id m)) (mk_user (m_id m)) intention)) (\<lambda>_.
     if silent then ret ()
     else case s_system_messages server of
       Some smc \<Rightarrow>
         (case removal_channel intention smc of
            Some ident \<Rightarrow>
              system_announce (re_ids env 2) (removal_message intention (mk_user (m_id m))) ident
          | None \<Rightarrow> ret ())
     | None \<Rightarrow> ret ()))"

definition ban_create :: "server \<Rightarrow> string \<Rightarrow> string option \<Rightarrow> server_ban io" where
  "ban_create server user_id reason =
     (let ban = \<lparr>sb_id = \<lparr>mk_server = s_id server, mk_user = user_id\<rparr>, sb_reason = reason\<rparr>
      in bindM (insert_ban ban) (\<lambda>_. ret ban))"

section \<open>Routes on members\<close>

definition server_perms :: "route_env \<Rightarrow> database_permission_query \<Rightarrow> (u64 \<times> database_permission_query) io" where
  "server_perms env query w =
     (case calculate_server_permissions (DatabasePermissionQuery (re_pdb env w) (re_now env)) query of
        Some r \<Rightarrow> (Ok r, w)
      | None \<Rightarrow> (Panic ''permission query'', w))"

text \<open>\<open>query.get_member_rank().unwrap_or(i64::MIN)\<close>\<close>

definition our_rank :: "database_permission_query \<Rightarrow> int io" where
  "our_rank query =
     (case get_member_rank query of
        None \<Rightarrow> panic ''called Option::unwrap() on a None value''
      | Some rank \<Rightarrow> ret (unwrap_or rank (- i64_max - 1)))"

definition leave_server_voice :: "route_env \<Rightarrow> string \<Rightarrow> string \<Rightarrow> unit io" where
  "leave_server_voice env user_id server_id =
     bindM (lift (vc_channel_in_server (re_voice env) user_id server_id)) (\<lambda>channel.
     case channel of
       Some c \<Rightarrow> lift (vc_remove (re_voice env) c user_id)
     | None \<Rightarrow> ret ())"

definition kick :: "route_env \<Rightarrow> user \<Rightarrow> string option \<Rightarrow> string \<Rightarrow> string \<Rightarrow> unit io" where
  "kick env user reason server_id member_id =
     bindM (as_server server_id) (\<lambda>server.
     bindM (guard (member_id = u_id user) (ChannelErr CannotRemoveYourself)) (\<lambda>_.
     bindM (guard (member_id = s_owner server) (GeneralErr InvalidOperation)) (\<lambda>_.
     bindM (server_perms env (server_query user server)) (\<lambda>(permissions, query).
     bindM (lift (throw_if_lacking_channel_permission permissions CP_KickMembers)) (\<lambda>_.
     bindM (fetch_member (s_id server) member_id) (\<lambda>member.
     bindM (our_rank query) (\<lambda>rank.
     bindM (guard (get_ranking member server \<le> rank) (PermissionErr NotElevated)) (\<lambda>_.
     bindM (member_remove env member server Kick False) (\<lambda>_.
     bindM (audit_insert env (A_MemberKick (mk_user (m_id member))) (s_id server) reason (u_id user)
              (Some (mk_user (m_id member)))) (\<lambda>_.
     leave_server_voice env member_id (s_id server)))))))))))"

record data_ban_create =
  db_reason :: "string option"
  db_delete_message_seconds :: "nat option"

definition ban ::
    "route_env \<Rightarrow> unit result \<Rightarrow> user \<Rightarrow> string option \<Rightarrow> string \<Rightarrow> string \<Rightarrow> data_ban_create \<Rightarrow> server_ban io" where
  "ban env validation user audit_reason server_id target d =
     bindM (lift validation) (\<lambda>_.
     bindM (as_server server_id) (\<lambda>server.
     bindM (guard (target = u_id user) (ChannelErr CannotRemoveYourself)) (\<lambda>_.
     bindM (guard (target = s_owner server) (GeneralErr InvalidOperation)) (\<lambda>_.
     bindM (server_perms env (server_query user server)) (\<lambda>(permissions, query).
     bindM (lift (throw_if_lacking_channel_permission permissions CP_BanMembers)) (\<lambda>_.
     bindM (attempt (fetch_member (s_id server) target)) (\<lambda>found.
     bindM (case found of
              Some member \<Rightarrow>
                bindM (our_rank query) (\<lambda>rank.
                bindM (guard (get_ranking member server \<le> rank) (PermissionErr NotElevated)) (\<lambda>_.
                bindM (member_remove env member server Ban False) (\<lambda>_.
                leave_server_voice env target (s_id server))))
            | None \<Rightarrow> ret ()) (\<lambda>_.
     bindM (case db_delete_message_seconds d of
              Some seconds \<Rightarrow>
                if seconds > 0
                then bulk_delete_by_author_since (s_channels server) target (re_threshold env seconds)
                else ret ()
            | None \<Rightarrow> ret ()) (\<lambda>_.
     bindM (ban_create server target (db_reason d)) (\<lambda>b.
     bindM (audit_insert env (A_BanCreate target) (s_id server) (or_else audit_reason (db_reason d))
              (u_id user) (Some target)) (\<lambda>_.
     ret b)))))))))))"

definition unban :: "route_env \<Rightarrow> user \<Rightarrow> string option \<Rightarrow> string \<Rightarrow> string \<Rightarrow> unit io" where
  "unban env user reason server_id target =
     bindM (as_server server_id) (\<lambda>server.
     bindM (server_perms env (server_query user server)) (\<lambda>(permissions, _).
     bindM (lift (throw_if_lacking_channel_permission permissions CP_BanMembers)) (\<lambda>_.
     bindM (fetch_ban (s_id server) target) (\<lambda>b.
     bindM (delete_ban (sb_id b)) (\<lambda>_.
     audit_insert env (A_BanDelete target) (s_id server) reason (u_id user) (Some target))))))"

definition route_server_delete :: "route_env \<Rightarrow> user \<Rightarrow> string \<Rightarrow> bool option \<Rightarrow> unit io" where
  "route_server_delete env user target leave_silently =
     bindM (as_server target) (\<lambda>server.
     bindM (fetch_member target (u_id user)) (\<lambda>member.
     if s_owner server = u_id user then
       bindM (for_each (s_channels server) (\<lambda>c. lift (vc_delete_channel (re_voice env) c))) (\<lambda>_.
       server_delete server)
     else
       bindM (leave_server_voice env (u_id user) (s_id server)) (\<lambda>_.
       member_remove env member server Leave (unwrap_or leave_silently False))))"

definition can_acquire_server :: "route_env \<Rightarrow> user \<Rightarrow> unit io" where
  "can_acquire_server env user =
     bindM (fetch_server_count (u_id user)) (\<lambda>n.
     guard (\<not> n \<le> re_servers env) (ServerErr (TooManyServers (re_servers env))))"

definition create_server ::
    "route_env \<Rightarrow> unit result \<Rightarrow> user \<Rightarrow> data_create_server \<Rightarrow> (server \<times> channel list) io" where
  "create_server env validation user d =
     bindM (guard (u_bot user \<noteq> None) (BotErr IsBot)) (\<lambda>_.
     bindM (guard (re_restrict_server_creation env \<noteq> [] \<and>
                   u_id user \<notin> set (re_restrict_server_creation env)) (ServerErr CantCreateServers)) (\<lambda>_.
     bindM (lift validation) (\<lambda>_.
     bindM (can_acquire_server env user) (\<lambda>_.
     bindM (server_create env d user True) (\<lambda>(server, channels).
     bindM (member_create env server user (Some channels)) (\<lambda>(_, channels).
     ret (server, channels)))))))"

record data_member_edit =
  dme_nickname :: "string option"
  dme_pronouns :: "string option"
  dme_avatar :: "string option"
  dme_roles :: "string list option"
  dme_timeout :: "timestamp option"
  dme_can_publish :: "bool option"
  dme_can_receive :: "bool option"
  dme_voice_channel :: "string option"
  dme_remove :: "fields_member list"

text \<open>
  The checks before anything is changed, in the order of the source. \<open>self\<close> says that a member
  edits itself; \<open>permissions\<close> are ours, \<open>target_permissions\<close> those of the member edited.
\<close>

definition member_edit_checks ::
    "route_env \<Rightarrow> bool \<Rightarrow> u64 \<Rightarrow> u64 \<Rightarrow> data_member_edit \<Rightarrow> unit result" where
  "member_edit_checks env self permissions target_permissions d =
     (let needs = throw_if_lacking_channel_permission permissions;
          removes = (\<lambda>f. f \<in> set (dme_remove d));
          check = (\<lambda>c r. if c then r else Ok ())
      in
      obind (check (dme_nickname d \<noteq> None \<or> removes FieldsMember_Nickname)
               (needs (if self then CP_ChangeNickname else CP_ManageNicknames))) (\<lambda>_.
      obind (check ((dme_pronouns d \<noteq> None \<or> removes FieldsMember_Pronouns) \<and> \<not> self)
               (Err (GeneralErr InvalidOperation))) (\<lambda>_.
      obind (check (dme_avatar d \<noteq> None \<or> removes FieldsMember_Avatar)
               (if self then needs CP_ChangeAvatar
                else if removes FieldsMember_Avatar then needs CP_RemoveAvatars
                else Err (GeneralErr InvalidOperation))) (\<lambda>_.
      obind (check (dme_roles d \<noteq> None \<or> removes FieldsMember_Roles) (needs CP_AssignRoles)) (\<lambda>_.
      obind (check (dme_timeout d \<noteq> None \<and> self) (Err (ServerErr CannotTimeoutYourself))) (\<lambda>_.
      obind (check (dme_timeout d \<noteq> None \<and> has_channel_permission target_permissions CP_TimeoutMembers)
               (Err (PermissionErr IsElevated))) (\<lambda>_.
      obind (check (dme_timeout d \<noteq> None \<or> removes FieldsMember_Timeout) (needs CP_TimeoutMembers)) (\<lambda>_.
      obind (check (dme_can_publish d \<noteq> None) (needs CP_MuteMembers)) (\<lambda>_.
      obind (check (dme_can_receive d \<noteq> None) (needs CP_DeafenMembers)) (\<lambda>_.
      obind (check (dme_voice_channel d \<noteq> None \<and> removes FieldsMember_VoiceChannel)
               (Err (GeneralErr InvalidOperation))) (\<lambda>_.
      obind (check ((dme_voice_channel d \<noteq> None \<or> removes FieldsMember_VoiceChannel) \<and>
                    \<not> vc_enabled (re_voice env)) (Err (ServiceErr LiveKitUnavailable))) (\<lambda>_.
      check ((dme_voice_channel d \<noteq> None \<or> removes FieldsMember_VoiceChannel) \<and> \<not> self)
        (needs CP_MoveMembers)))))))))))))"

text \<open>
  The channel the member is moved to: one of the server, in which the query, which knows the
  server and by now ourselves, may connect.
\<close>

definition new_voice_channel ::
    "route_env \<Rightarrow> database_permission_query \<Rightarrow> user \<Rightarrow> member \<Rightarrow> server \<Rightarrow> string option \<Rightarrow> channel option io"
  where
  "new_voice_channel env query target_user member server new_channel =
     (case new_channel of
        None \<Rightarrow> ret None
      | Some ident \<Rightarrow>
          bindM (map_err (\<lambda>_. ChannelErr UnknownChannel) (as_channel ident)) (\<lambda>channel.
          bindM (guard (channel_server channel \<noteq> Some (mk_server (m_id member)))
                  (ChannelErr UnknownChannel)) (\<lambda>_.
          bindM (\<lambda>w. (case calculate_channel_permissions
                           (DatabasePermissionQuery (re_pdb env w) (re_now env))
                           (query_channel channel query) of
                        Some (p, _) \<Rightarrow> (Ok p, w)
                      | None \<Rightarrow> (Panic ''permission query'', w))) (\<lambda>p.
          bindM (lift (throw_if_lacking_channel_permission p CP_Connect)) (\<lambda>_.
          bindM (lift (vc_channel_in_server (re_voice env) (u_id target_user) (s_id server))) (\<lambda>connected.
          bindM (guard (connected = None) (ServiceErr NotConnected)) (\<lambda>_.
          ret (Some channel))))))))"

text \<open>
  The roles added must exist and be below us; the handler takes them out of its copy of the
  server as it goes. The set difference is in no particular order.
\<close>

fun check_added_roles :: "int \<Rightarrow> string list \<Rightarrow> (string, role) hmap \<Rightarrow> unit result" where
  "check_added_roles rank [] roles = Ok ()"
| "check_added_roles rank (ident # added) roles =
     (case hm_get roles ident of
        Some role \<Rightarrow>
          if r_rank role \<le> rank then Err (PermissionErr NotElevated)
          else check_added_roles rank added (hm_remove ident roles)
      | None \<Rightarrow> Err (ServerErr InvalidRole))"

definition added_roles :: "member \<Rightarrow> string list \<Rightarrow> string list" where
  "added_roles m roles = filter (\<lambda>r. r \<notin> set (m_roles m)) (remdups roles)"

definition voice_after_edit ::
    "route_env \<Rightarrow> user \<Rightarrow> user \<Rightarrow> server \<Rightarrow> channel option \<Rightarrow> data_member_edit \<Rightarrow> unit io" where
  "voice_after_edit env user target_user server new_channel d =
     bindM (case new_channel of
              Some channel \<Rightarrow>
                bindM (lift (vc_channel_in_server (re_voice env) (u_id target_user) (s_id server))) (\<lambda>old.
                case old of
                  Some c \<Rightarrow> lift (vc_move (re_voice env) target_user channel c)
                | None \<Rightarrow> ret ())
            | None \<Rightarrow>
                if dme_can_publish d \<noteq> None \<or> dme_can_receive d \<noteq> None \<or>
                   FieldsMember_CanPublish \<in> set (dme_remove d) \<or>
                   FieldsMember_CanReceive \<in> set (dme_remove d)
                then bindM (lift (vc_channel_in_server (re_voice env) (u_id target_user) (s_id server))) (\<lambda>old.
                     case old of
                       Some c \<Rightarrow>
                         bindM (as_channel c) (\<lambda>_. lift (vc_sync_user (re_voice env) user c))
                     | None \<Rightarrow> ret ())
                else ret ()) (\<lambda>_.
     if FieldsMember_VoiceChannel \<in> set (dme_remove d)
     then bindM (lift (vc_channel_in_server (re_voice env) (u_id target_user) (s_id server))) (\<lambda>old.
          case old of
            Some c \<Rightarrow> lift (vc_remove (re_voice env) c (u_id user))
          | None \<Rightarrow> ret ())
     else ret ())"

definition member_edit ::
    "route_env \<Rightarrow> unit result \<Rightarrow> user \<Rightarrow> string option \<Rightarrow> string \<Rightarrow> string \<Rightarrow> data_member_edit \<Rightarrow> member io" where
  "member_edit env validation user reason server_id member_id d =
     bindM (lift validation) (\<lambda>_.
     bindM (as_server server_id) (\<lambda>server.
     bindM (fetch_user member_id) (\<lambda>target_user.
     bindM (fetch_member (s_id server) member_id) (\<lambda>member.
     bindM (server_perms env (server_query user server)) (\<lambda>(permissions, query).
     bindM (server_perms env (query_member member (server_query target_user server)))
       (\<lambda>(target_permissions, _).
     let self = (u_id user = mk_user (m_id member)) in
     bindM (lift (member_edit_checks env self permissions target_permissions d)) (\<lambda>_.
     bindM (new_voice_channel env query target_user member server (dme_voice_channel d)) (\<lambda>new_channel.
     bindM (our_rank query) (\<lambda>rank.
     bindM (guard (\<not> self \<and> get_ranking member server \<le> rank) (PermissionErr NotElevated)) (\<lambda>_.
     bindM (lift (case dme_roles d of
                    Some roles \<Rightarrow> check_added_roles rank (added_roles member roles) (s_roles server)
                  | None \<Rightarrow> Ok ())) (\<lambda>_.
     bindM (case m_avatar member of
              Some f \<Rightarrow> if FieldsMember_Avatar \<in> set (dme_remove d)
                        then mark_attachment_as_deleted (f_id f) else ret ()
            | None \<Rightarrow> ret ()) (\<lambda>_.
     bindM (case dme_avatar d of
              Some i \<Rightarrow> bindM (use_user_avatar i (u_id user) (u_id user)) (\<lambda>f. ret (Some f))
            | None \<Rightarrow> ret None) (\<lambda>avatar.
     let partial = default_partial_member
           \<lparr>pm_nickname := dme_nickname d, pm_pronouns := dme_pronouns d, pm_roles := dme_roles d,
            pm_timeout := dme_timeout d, pm_can_publish := dme_can_publish d,
            pm_can_receive := dme_can_receive d, pm_avatar := avatar\<rparr>;
         before = member_generate_diff member partial (dme_remove d)
     in
     bindM (member_update (re_os env) member partial (dme_remove d)) (\<lambda>member.
     bindM (audit_insert env (A_MemberEdit (mk_user (m_id member)) before partial) (s_id server) reason
              (u_id user) (Some (mk_user (m_id member)))) (\<lambda>_.
     bindM (voice_after_edit env user target_user server new_channel d) (\<lambda>_.
     ret member))))))))))))))))"

section \<open>Routes on roles and permissions\<close>

text \<open>After a change of roles the voice permissions of every channel are synchronised.\<close>

definition sync_channels :: "route_env \<Rightarrow> server \<Rightarrow> string option \<Rightarrow> unit io" where
  "sync_channels env server role_id =
     for_each (s_channels server) (\<lambda>c.
       bindM (as_channel c) (\<lambda>channel. lift (vc_sync (re_voice env) channel (Some server) role_id)))"

definition roles_create ::
    "route_env \<Rightarrow> unit result \<Rightarrow> user \<Rightarrow> string option \<Rightarrow> string \<Rightarrow> string \<Rightarrow> role io" where
  "roles_create env validation user reason target name =
     bindM (lift validation) (\<lambda>_.
     bindM (as_server target) (\<lambda>server.
     bindM (server_perms env (server_query user server)) (\<lambda>(permissions, _).
     bindM (lift (throw_if_lacking_channel_permission permissions CP_ManageRole)) (\<lambda>_.
     bindM (guard (length (s_roles server) \<ge> re_server_roles env)
             (ServerErr (TooManyRoles (re_server_roles env)))) (\<lambda>_.
     bindM (role_create (re_ids env 0) server name) (\<lambda>role.
     bindM (audit_insert env (A_RoleCreate (r_id role) (r_name role)) (s_id server) reason (u_id user)
              None) (\<lambda>_.
     ret role)))))))"

definition roles_delete :: "route_env \<Rightarrow> user \<Rightarrow> string option \<Rightarrow> string \<Rightarrow> string \<Rightarrow> unit io" where
  "roles_delete env user reason target role_id =
     bindM (as_server target) (\<lambda>server.
     bindM (server_perms env (server_query user server)) (\<lambda>(permissions, query).
     bindM (lift (throw_if_lacking_channel_permission permissions CP_ManageRole)) (\<lambda>_.
     bindM (our_rank query) (\<lambda>rank.
     bindM (lift (ok_or not_found (hm_get (s_roles server) role_id))) (\<lambda>role.
     bindM (guard (r_rank role \<le> rank) (PermissionErr NotElevated)) (\<lambda>_.
     bindM (role_delete role (s_id server)) (\<lambda>_.
     bindM (audit_insert env (A_RoleDelete role_id (r_name role)) (s_id server) reason (u_id user)
              None) (\<lambda>_.
     sync_channels env (server\<lparr>s_roles := hm_remove role_id (s_roles server)\<rparr>) (Some role_id)))))))))"

record data_edit_role =
  der_name :: "string option"
  der_colour :: "string option"
  der_hoist :: "bool option"
  der_rank :: "int option"
  der_icon :: "string option"
  der_remove :: "fields_role list"

definition roles_edit ::
    "route_env \<Rightarrow> unit result \<Rightarrow> user \<Rightarrow> string option \<Rightarrow> string \<Rightarrow> string \<Rightarrow> data_edit_role \<Rightarrow> role io" where
  "roles_edit env validation user reason target role_id d =
     bindM (lift validation) (\<lambda>_.
     bindM (as_server target) (\<lambda>server.
     bindM (server_perms env (server_query user server)) (\<lambda>(permissions, query).
     bindM (lift (throw_if_lacking_channel_permission permissions CP_ManageRole)) (\<lambda>_.
     bindM (our_rank query) (\<lambda>rank.
     bindM (lift (ok_or not_found (hm_get (s_roles server) role_id))) (\<lambda>role.
     bindM (guard (r_rank role \<le> rank) (PermissionErr NotElevated)) (\<lambda>_.
     bindM (case r_icon role of
              Some f \<Rightarrow> if FieldsRole_Icon \<in> set (der_remove d)
                        then mark_attachment_as_deleted (f_id f) else ret ()
            | None \<Rightarrow> ret ()) (\<lambda>_.
     bindM (case der_icon d of
              Some i \<Rightarrow> bindM (use_role_icon i role_id (u_id user)) (\<lambda>f. ret (Some f))
            | None \<Rightarrow> ret None) (\<lambda>icon.
     let partial = default_partial_role
           \<lparr>pr_name := der_name d, pr_colour := der_colour d, pr_hoist := der_hoist d, pr_icon := icon\<rparr>;
         before = role_generate_diff role partial (der_remove d)
     in
     bindM (role_update (re_os env) role (s_id server) partial (der_remove d)) (\<lambda>role.
     bindM (audit_insert env (A_RoleEdit role_id before partial) (s_id server) reason (u_id user) None) (\<lambda>_.
     bindM (sync_channels env (server\<lparr>s_roles := hm_remove role_id (s_roles server)\<rparr>) (Some role_id)) (\<lambda>_.
     ret role))))))))))))"

text \<open>\<open>iter().position(..)\<close>\<close>

definition position :: "'a list \<Rightarrow> 'a \<Rightarrow> nat option" where
  "position xs x = (if x \<in> set xs then Some (length (takeWhile (\<lambda>y. y \<noteq> x) xs)) else None)"

definition edit_role_ranks ::
    "route_env \<Rightarrow> user \<Rightarrow> string option \<Rightarrow> string \<Rightarrow> string list \<Rightarrow> server io" where
  "edit_role_ranks env user reason target new_order =
     bindM (as_server target) (\<lambda>server.
     bindM (server_perms env (server_query user server)) (\<lambda>(permissions, query).
     bindM (lift (throw_if_lacking_channel_permission permissions CP_ManageRole)) (\<lambda>_.
     let existing_order = map fst (ordered_roles server) in
     bindM (guard (length new_order \<noteq> length (s_roles server) \<or>
                   \<not> list_all (\<lambda>(ident, _). ident \<in> set new_order) (s_roles server))
             (GeneralErr InvalidOperation)) (\<lambda>_.
     bindM (if s_owner server \<noteq> u_id user then
              (case get_member_rank query of
                 None \<Rightarrow> panic ''called Option::unwrap() on a None value''
               | Some member_top_rank \<Rightarrow>
                   guard (list_ex (\<lambda>(ident, _). position existing_order ident \<noteq> position new_order ident)
                            (filter (\<lambda>(_, role).
                               case member_top_rank of
                                 Some top_rank \<Rightarrow> r_rank role \<le> top_rank
                               | None \<Rightarrow> True) (s_roles server)))
                     (PermissionErr NotElevated))
            else ret ()) (\<lambda>_.
     bindM (set_role_ordering (re_os env) server new_order) (\<lambda>server.
     bindM (audit_insert env (A_RolesReorder existing_order new_order) (s_id server) reason (u_id user)
              None) (\<lambda>_.
     bindM (sync_channels env server None) (\<lambda>_. ret server))))))))"

definition set_role_permission ::
    "route_env \<Rightarrow> user \<Rightarrow> string option \<Rightarrow> string \<Rightarrow> string \<Rightarrow> override \<Rightarrow> server io" where
  "set_role_permission env user reason target role_id value =
     bindM (as_server target) (\<lambda>server.
     bindM (lift (ok_or not_found (hm_get (s_roles server) role_id))) (\<lambda>role.
     bindM (server_perms env (server_query user server)) (\<lambda>(permissions, query).
     bindM (lift (throw_if_lacking_channel_permission permissions CP_ManagePermissions)) (\<lambda>_.
     bindM (our_rank query) (\<lambda>rank.
     bindM (guard (r_rank role \<le> rank) (PermissionErr NotElevated)) (\<lambda>_.
     bindM (lift (throw_permission_override permissions
              (Some (field_into_override (r_permissions role))) value)) (\<lambda>_.
     let field = override_into_field value in
     bindM (server_set_role_permission (re_os env) server role_id field) (\<lambda>server.
     bindM (audit_insert env
              (A_RoleEdit role_id
                 (default_partial_role\<lparr>pr_permissions := Some (r_permissions role)\<rparr>)
                 (default_partial_role\<lparr>pr_permissions := Some field\<rparr>))
              (s_id server) reason (u_id user) None) (\<lambda>_.
     bindM (sync_channels env server (Some role_id)) (\<lambda>_. ret server))))))))))"

definition set_default_server_permissions ::
    "route_env \<Rightarrow> user \<Rightarrow> string option \<Rightarrow> string \<Rightarrow> u64 \<Rightarrow> server io" where
  "set_default_server_permissions env user reason target value =
     bindM (as_server target) (\<lambda>server.
     bindM (server_perms env (server_query user server)) (\<lambda>(permissions, _).
     bindM (lift (throw_if_lacking_channel_permission permissions CP_ManagePermissions)) (\<lambda>_.
     bindM (lift (throw_permission_override permissions None \<lparr>allow = value, deny = 0\<rparr>)) (\<lambda>_.
     let partial = default_partial_server\<lparr>ps_default_permissions := Some (as_i64 value)\<rparr>;
         before = server_generate_diff server partial []
     in
     bindM (server_update (re_os env) server partial []) (\<lambda>server.
     bindM (audit_insert env (A_ServerEdit before partial) (s_id server) reason (u_id user) None) (\<lambda>_.
     bindM (sync_channels env server None) (\<lambda>_. ret server)))))))"

definition route_create_server_channel ::
    "route_env \<Rightarrow> unit result \<Rightarrow> user \<Rightarrow> string option \<Rightarrow> string \<Rightarrow> data_create_server_channel \<Rightarrow> channel io" where
  "route_create_server_channel env validation user reason target d =
     bindM (lift validation) (\<lambda>_.
     bindM (as_server target) (\<lambda>server.
     bindM (server_perms env (server_query user server)) (\<lambda>(permissions, _).
     bindM (lift (throw_if_lacking_channel_permission permissions CP_ManageChannel)) (\<lambda>_.
     bindM (create_server_channel env (re_ids env 0) server d True) (\<lambda>(channel, server).
     bindM (audit_insert env (A_ChannelCreate (channel_id channel) (dc_name d)) (s_id server) reason
              (u_id user) None) (\<lambda>_.
     ret channel))))))"

section \<open>Editing a server\<close>

record data_edit_server =
  des_name :: "string option"
  des_description :: "string option"
  des_announcement :: "string option"
  des_icon :: "string option"
  des_banner :: "string option"
  des_categories :: "category list option"
  des_system_messages :: "system_message_channels option"
  des_flags :: "int option"
  des_discoverable :: "bool option"
  des_analytics :: "bool option"
  des_owner :: "string option"
  des_remove :: "fields_server list"

definition server_edit_empty :: "data_edit_server \<Rightarrow> bool" where
  "server_edit_empty d \<longleftrightarrow>
     des_name d = None \<and> des_description d = None \<and> des_announcement d = None \<and>
     des_icon d = None \<and> des_banner d = None \<and> des_system_messages d = None \<and>
     des_categories d = None \<and> des_flags d = None \<and> des_analytics d = None \<and>
     des_discoverable d = None \<and> des_owner d = None \<and> des_remove d = []"

definition server_edit_checks ::
    "user \<Rightarrow> server \<Rightarrow> u64 \<Rightarrow> bool \<Rightarrow> data_edit_server \<Rightarrow> unit result" where
  "server_edit_checks user server permissions ticket d =
     (let needs = throw_if_lacking_channel_permission permissions;
          check = (\<lambda>c r. if c then r else Ok ())
      in
      obind (check (des_name d \<noteq> None \<or> des_description d \<noteq> None \<or> des_announcement d \<noteq> None \<or>
                    des_icon d \<noteq> None \<or> des_banner d \<noteq> None \<or> des_system_messages d \<noteq> None \<or>
                    des_analytics d \<noteq> None \<or> des_remove d \<noteq> []) (needs CP_ManageServer)) (\<lambda>_.
      obind (check (des_owner d \<noteq> None \<and> u_id user \<noteq> s_owner server \<and> \<not> u_privileged user)
               (Err (PermissionErr NotOwner))) (\<lambda>_.
      obind (check (des_owner d \<noteq> None \<and> \<not> ticket) (Err (GeneralErr InvalidCredentials))) (\<lambda>_.
      obind (check ((des_flags d \<noteq> None \<or> des_discoverable d \<noteq> None) \<and> \<not> u_privileged user)
               (Err (PermissionErr NotPrivileged))) (\<lambda>_.
      check (des_categories d \<noteq> None) (needs CP_ManageChannel))))))"

text \<open>No channel may be in two categories; channels the server does not have are dropped.\<close>

fun check_categories ::
    "string list \<Rightarrow> string list \<Rightarrow> category list \<Rightarrow> category list result" where
  "check_categories channels seen [] = Ok []"
| "check_categories channels seen (c # cs) =
     (if distinct (cat_channels c) \<and> (\<forall>x\<in>set (cat_channels c). x \<notin> set seen)
      then obind (check_categories channels (seen @ cat_channels c) cs) (\<lambda>cs.
           Ok (c\<lparr>cat_channels := filter (\<lambda>x. x \<in> set channels) (cat_channels c)\<rparr> # cs))
      else Err (GeneralErr InvalidOperation))"

definition drop_image :: "bool \<Rightarrow> file_t option \<Rightarrow> unit io" where
  "drop_image removed img =
     (case img of
        Some f \<Rightarrow> if removed then mark_attachment_as_deleted (f_id f) else ret ()
      | None \<Rightarrow> ret ())"

definition use_image :: "string option \<Rightarrow> (string \<Rightarrow> file_t io) \<Rightarrow> file_t option io" where
  "use_image img f =
     (case img of Some i \<Rightarrow> bindM (f i) (\<lambda>x. ret (Some x)) | None \<Rightarrow> ret None)"

definition check_new_owner :: "server \<Rightarrow> string option \<Rightarrow> unit io" where
  "check_new_owner server new_owner =
     (case new_owner of
        None \<Rightarrow> ret ()
      | Some i \<Rightarrow>
          bindM (fetch_member (s_id server) i) (\<lambda>_.
          bindM (fetch_user i) (\<lambda>u.
          guard (u_bot u \<noteq> None) (GeneralErr InvalidOperation))))"

definition server_edit ::
    "route_env \<Rightarrow> unit result \<Rightarrow> user \<Rightarrow> string option \<Rightarrow> bool \<Rightarrow> string \<Rightarrow> data_edit_server \<Rightarrow> server io" where
  "server_edit env validation user reason ticket target d =
     bindM (lift validation) (\<lambda>_.
     bindM (as_server target) (\<lambda>server.
     bindM (server_perms env (server_query user server)) (\<lambda>(permissions, _).
     if server_edit_empty d then ret server
     else
       bindM (lift (server_edit_checks user server permissions ticket d)) (\<lambda>_.
       bindM (drop_image (FieldsServer_Banner \<in> set (des_remove d)) (s_banner server)) (\<lambda>_.
       bindM (drop_image (FieldsServer_Icon \<in> set (des_remove d)) (s_icon server)) (\<lambda>_.
       bindM (guard (case des_system_messages d of
                       Some x \<Rightarrow> \<not> into_channel_ids x \<subseteq> set (s_channels server)
                     | None \<Rightarrow> False) not_found) (\<lambda>_.
       bindM (case des_categories d of
                Some cs \<Rightarrow> bindM (lift (check_categories (s_channels server) [] cs)) (\<lambda>cs. ret (Some cs))
              | None \<Rightarrow> ret None) (\<lambda>categories.
       bindM (use_image (des_icon d) (\<lambda>i. use_server_icon i (s_id server) (u_id user))) (\<lambda>icon.
       bindM (use_image (des_banner d) (\<lambda>i. use_server_banner i (s_id server) (u_id user))) (\<lambda>banner.
       bindM (check_new_owner server (des_owner d)) (\<lambda>_.
       let partial = default_partial_server
             \<lparr>ps_name := des_name d, ps_description := des_description d,
              ps_announcement := des_announcement d, ps_categories := categories,
              ps_system_messages := des_system_messages d, ps_flags := des_flags d,
              ps_discoverable := des_discoverable d, ps_analytics := des_analytics d,
              ps_owner := des_owner d, ps_icon := icon, ps_banner := banner\<rparr>;
           copy = server\<lparr>s_icon := or_else icon (s_icon server),
                         s_banner := or_else banner (s_banner server),
                         s_owner := unwrap_or (des_owner d) (s_owner server)\<rparr>;
           before = server_generate_diff copy partial (des_remove d)
       in
       bindM (server_update (re_os env) copy partial (des_remove d)) (\<lambda>server.
       bindM (audit_insert env (A_ServerEdit before partial) (s_id server) reason (u_id user) None) (\<lambda>_.
       ret server)))))))))))))"

end
