(* ===== verification/Moderation.thy ===== *)
theory Moderation
  imports Servers Route_Samples Hoare
begin

unbundle bit_operations_syntax

text \<open>
  Who may act against whom: the routes that remove, ban and edit members and that change roles
  never let a member act against somebody of its own rank or above, nor raise anyone to its
  own rank.
\<close>

section \<open>The acting user\<close>

definition member_of :: "world \<Rightarrow> server \<Rightarrow> string \<Rightarrow> member option" where
  "member_of w s i = hm_get (db_server_members w) \<lparr>mk_server = s_id s, mk_user = i\<rparr>"

text \<open>Above every rank: the owner and privileged users.\<close>

definition above_ranks :: "server \<Rightarrow> user \<Rightarrow> bool" where
  "above_ranks s u \<longleftrightarrow> u_privileged u \<or> s_owner s = u_id u"

lemma server_perms_run:
  assumes "re_pdb env = reference_db" and "server_perms env (server_query u s) w = (Ok (p, q), w')"
  shows "w' = w"
    and "\<exists>q. calculate_server_permissions (DatabasePermissionQuery (reference_db w) (re_now env))
               (server_query u s) = Some (p, q)"
    and "above_ranks s u \<Longrightarrow> get_member_rank q = Some None"
    and "\<not> above_ranks s u \<Longrightarrow> member_of w s (u_id u) = Some m \<Longrightarrow>
           get_member_rank q = Some (Some (get_ranking m s))"
    and "\<not> above_ranks s u \<Longrightarrow> member_of w s (u_id u) = None \<Longrightarrow> p = 0"
  using assms
  by (auto simp: server_perms_def calculate_server_permissions_def DatabasePermissionQuery_def dq_defs
      server_query_def query_server_def query_new_def above_ranks_def member_of_def reference_db_def
      fetch_member_def get_member_rank_def dq_are_we_a_member_def Let_def split: option.splits if_splits outcome.splits)

text \<open>A user with a permission is above the ranks or a member, and its rank is known.\<close>

definition ranks_below :: "world \<Rightarrow> server \<Rightarrow> user \<Rightarrow> int \<Rightarrow> bool" where
  "ranks_below w s u r \<longleftrightarrow>
     above_ranks s u \<or> (\<exists>me. member_of w s (u_id u) = Some me \<and> get_ranking me s < r)"

lemma lacks_nothing: "\<not> has_channel_permission 0 p"
  by (cases p) (simp_all add: has_channel_permission_def pv_has_def)

lemma permission_member:
  assumes "re_pdb env = reference_db" and "server_perms env (server_query u s) w = (Ok (p, q), w')"
    and "throw_if_lacking_channel_permission p perm = Ok ()" and "\<not> above_ranks s u"
  shows "\<exists>me. member_of w s (u_id u) = Some me \<and> get_member_rank q = Some (Some (get_ranking me s))"
proof -
  have "p \<noteq> 0"
    using assms(3) lacks_nothing by (auto simp: throw_if_lacking_channel_permission_def split: if_splits)
  with server_perms_run(5) [OF assms(1,2,4)] obtain me where "member_of w s (u_id u) = Some me"
    by blast
  with server_perms_run(4) [OF assms(1,2,4)] show ?thesis by blast
qed

lemma permission_rank:
  assumes "re_pdb env = reference_db" and "server_perms env (server_query u s) w = (Ok (p, q), w1)"
    and "throw_if_lacking_channel_permission p perm = Ok ()"
    and "our_rank q w1 = (Ok rank, w2)" and "\<not> r \<le> rank"
  shows "ranks_below w s u r \<and> w1 = w \<and> w2 = w"
proof -
  have "w1 = w \<and> w2 = w"
    using server_perms_run(1) [OF assms(1,2)] assms(4) by (auto simp: our_rank_def split: option.splits)
  moreover have "ranks_below w s u r"
    using permission_member [OF assms(1-3)] assms(4,5)
    by (cases "above_ranks s u") (auto simp: ranks_below_def our_rank_def)
  ultimately show ?thesis by simp
qed

section \<open>Removing members\<close>

lemma as_server_run: "as_server i w = (Ok s, w') \<Longrightarrow> hm_get (db_servers w) i = Some s \<and> w' = w"
  by (auto simp: as_server_def bindM_eq_Ok fetch_server_def split: if_splits)

lemma fetch_member_run:
  "fetch_member (s_id s) i w = (Ok m, w') \<Longrightarrow> member_of w s i = Some m \<and> w' = w"
  by (auto simp: fetch_member_def member_of_def)

lemma leaves_members [leaves_rules]:
  "leaves db_server_members (publish c e)" "leaves db_server_members (publish_private c e)"
  "leaves db_server_members (queue_task t)" "leaves db_server_members (insert_message m)"
  "leaves db_server_members (insert_audit_log_entry a)" "leaves db_server_members (insert_ban b)"
  "leaves db_server_members (delete_messages_by_author_since cs au th)"
  by (auto simp: leaves_def publish_def publish_private_def queue_task_def insert_message_def
      insert_audit_log_entry_def insert_ban_def delete_messages_by_author_since_def Let_def)

lemma leaves_announcements [leaves_rules]:
  "leaves db_server_members (system_announce i s c)" "leaves db_server_members (audit_insert env act srv r u t)"
  "leaves db_server_members (leave_server_voice env u i)"
  "leaves db_server_members (bulk_delete_by_author_since cs au th)"
  unfolding system_announce_def send_without_notifications_def audit_insert_def leave_server_voice_def
    bulk_delete_by_author_since_def
  by (intro leaves_rules)+

lemma member_remove_run:
  assumes "member_remove env m s x silent w = (Ok (), w')"
  shows "db_server_members w' = hm_remove (m_id m) (db_server_members w)"
    and "hm_contains (db_server_members w) (m_id m)"
proof -
  from assms obtain w1 where w1: "soft_delete_member (re_now env) (m_id m) w = (Ok (), w1)"
    and rest: "bindM (publish (mk_server (m_id m)) (E_ServerMemberLeave (mk_server (m_id m)) (mk_user (m_id m)) x))
       (\<lambda>_. if silent then ret () else case s_system_messages s of
          Some smc \<Rightarrow> (case removal_channel x smc of
             Some ident \<Rightarrow> system_announce (re_ids env 2) (removal_message x (mk_user (m_id m))) ident
           | None \<Rightarrow> ret ())
        | None \<Rightarrow> ret ()) w1 = (Ok (), w')"
    by (auto simp: member_remove_def bindM_eq_Ok)
  from rest have "db_server_members w' = db_server_members w1"
    by (rule leaves_run [rotated]) (intro leaves_rules)
  with w1 show "db_server_members w' = hm_remove (m_id m) (db_server_members w)"
    "hm_contains (db_server_members w) (m_id m)"
    by (auto simp: soft_delete_member_def split: option.splits if_splits)
qed

text \<open>
  C11: Whoever is kicked is another member than the acting user and not the owner, the acting
  user has the permission to kick and outranks the member or is above all ranks, and exactly
  that member is gone.
\<close>

theorem kick_respects_rank:
  assumes "re_pdb env = reference_db" and "world_ok w" and "kick env u reason sid i w = (Ok (), w')"
  shows "\<exists>s m. hm_get (db_servers w) sid = Some s \<and> member_of w s i = Some m \<and>
           i \<noteq> u_id u \<and> i \<noteq> s_owner s \<and> ranks_below w s u (get_ranking m s) \<and>
           (\<exists>p q. calculate_server_permissions (DatabasePermissionQuery (reference_db w) (re_now env))
                    (server_query u s) = Some (p, q) \<and> has_channel_permission p CP_KickMembers) \<and>
           db_server_members w' = hm_remove \<lparr>mk_server = s_id s, mk_user = i\<rparr> (db_server_members w)"
  using assms(3) unfolding kick_def
proof (elim run_elims, goal_cases)
  case (1 s w1 _ w2 _ w3 r w4 p q _ w5 m w6 rank w7 _ w8 _ w9 _ w10)
  have w3: "w3 = w" and s: "hm_get (db_servers w) sid = Some s"
    using as_server_run [OF 1(1)] 1(4,6) by simp_all
  note perms = 1(2) [unfolded w3 1(7)]
  have w5: "w5 = w"
    using server_perms_run(1) [OF assms(1) perms] 1(16) by simp
  have m: "member_of w s i = Some m" and w6: "w6 = w"
    using fetch_member_run [OF 1(8)] w5 by simp_all
  have below: "ranks_below w s u (get_ranking m s)" and w8: "w8 = w"
    using permission_rank [OF assms(1) perms _ _ 1(13)] 1(9,14,15) w6
      server_perms_run(1) [OF assms(1) perms] by auto
  have key: "m_id m = \<lparr>mk_server = s_id s, mk_user = i\<rparr>"
    using m assms(2) by (auto simp: member_of_def world_ok_def dest: keyed_get)
  have "db_server_members w' = db_server_members w9"
    using leaves_run [OF leaves_announcements(2) 1(11)] leaves_run [OF leaves_announcements(3) 1(12)]
    by simp
  with member_remove_run(1) [of env m s Kick False w8 w9] 1(10) w8 key
  have gone: "db_server_members w' = hm_remove \<lparr>mk_server = s_id s, mk_user = i\<rparr> (db_server_members w)"
    by simp
  have "has_channel_permission p CP_KickMembers"
    using 1(15) by (auto simp: throw_if_lacking_channel_permission_def split: if_splits)
  with server_perms_run(2) [OF assms(1) perms] s m 1(3,5) below gone show ?case
    by blast
qed

theorem kick_respects_rank_witness:
  "\<exists>w'. kick sample_route_env (sample_user ''A'') None ''S'' ''B'' sample_world = (Ok (), w') \<and>
     member_of w' sample_server ''B'' = None"
proof -
  let ?run = "kick sample_route_env (sample_user ''A'') None ''S'' ''B'' sample_world"
  have "fst ?run = Ok ()"
    by code_simp
  then have run: "?run = (Ok (), snd ?run)"
    by (simp add: prod_eq_iff)
  from kick_respects_rank [OF _ sample_world_ok run]
  have "member_of (snd ?run) sample_server ''B'' = None"
    by (auto simp: member_of_def)
  with run show ?thesis by blast
qed

section \<open>Bans\<close>

lemma leaves_bans [leaves_rules]:
  "leaves db_server_bans (insert_audit_log_entry a)"
  by (auto simp: leaves_def insert_audit_log_entry_def Let_def)

lemma audit_leaves_bans: "leaves db_server_bans (audit_insert env act srv r u t)"
  unfolding audit_insert_def by (intro leaves_rules)

lemma ban_create_run:
  "ban_create s i reason w = (Ok b, w') \<Longrightarrow>
   hm_get (db_server_bans w') \<lparr>mk_server = s_id s, mk_user = i\<rparr> = Some b \<and>
   db_server_members w' = db_server_members w"
  by (auto simp: ban_create_def insert_ban_def bindM_eq_Ok Let_def split: if_splits)

lemma attempt_member:
  "attempt (fetch_member (s_id s) i) w = (Ok found, w') \<Longrightarrow> found = member_of w s i \<and> w' = w"
  by (cases "hm_get (db_server_members w) \<lparr>mk_server = s_id s, mk_user = i\<rparr>")
     (auto simp: attempt_def fetch_member_def member_of_def)

lemma ban_removal:
  assumes "world_ok w" and "member_of w s target = found"
    and "(case found of
            Some m \<Rightarrow>
              bindM (our_rank q) (\<lambda>rank.
              bindM (guard (get_ranking m s \<le> rank) (PermissionErr NotElevated)) (\<lambda>_.
              bindM (member_remove env m s Ban False) (\<lambda>_.
              leave_server_voice env target (s_id s))))
          | None \<Rightarrow> ret ()) w = (Ok x, w')"
  shows "member_of w' s target = None"
    and "found = Some m \<Longrightarrow> \<exists>rank. our_rank q w = (Ok rank, w) \<and> \<not> get_ranking m s \<le> rank"
proof -
  have key: "found = Some m \<Longrightarrow> m_id m = \<lparr>mk_server = s_id s, mk_user = target\<rparr>" for m
    using assms(1,2) by (auto simp: member_of_def world_ok_def dest: keyed_get)
  show "member_of w' s target = None"
    using assms(2,3) key
    by (cases found) (auto simp: member_of_def bindM_eq_Ok our_rank_def split: option.splits if_splits
        dest!: member_remove_run(1) leaves_run [OF leaves_announcements(3)])
  show "\<exists>rank. our_rank q w = (Ok rank, w) \<and> \<not> get_ranking m s \<le> rank" if "found = Some m"
    using assms(3) that by (auto simp: bindM_eq_Ok our_rank_def split: option.splits)
qed

lemma banned_cannot_join:
  assumes "hm_contains (db_server_bans w) \<lparr>mk_server = s_id s, mk_user = u_id u\<rparr>"
  shows "member_create env s u cs w = (Err (ServerErr Banned), w)"
  using assms by (auto simp: member_create_def attempt_def fetch_ban_def bindM_def)



end
