(* ===== verification/Role_Ranks.thy ===== *)
theory Role_Ranks
  imports Moderation
begin

unbundle bit_operations_syntax

text \<open>
  Roles and who may change them: reordering the roles of a server never moves anything to the
  rank of the acting member, and changing what a role grants never grants what the acting
  member does not have.
\<close>

section \<open>Positions\<close>

lemma position_simps [simp]:
  "position [] y = None"
  "position (x # xs) y = (if x = y then Some 0 else map_option Suc (position xs y))"
  by (simp_all add: position_def)

lemma position_Some:
  assumes "position xs x = Some n"
  shows "n < length xs" and "xs ! n = x"
proof -
  have "n < length xs \<and> xs ! n = x"
    using assms by (induction xs arbitrary: n) (auto split: if_splits)
  then show "n < length xs" "xs ! n = x" by simp_all
qed

lemma position_mem: "x \<in> set xs \<Longrightarrow> \<exists>n. position xs x = Some n"
  by (simp add: position_def)

lemma position_nth:
  assumes "distinct xs" "n < length xs"
  shows "position xs (xs ! n) = Some n"
proof -
  obtain k where "position xs (xs ! n) = Some k"
    using position_mem [OF nth_mem [OF assms(2)]] by blast
  with position_Some [OF this] assms show ?thesis
    by (simp add: nth_eq_iff_index_eq)
qed

text \<open>
  When the members of \<open>P\<close> come first and keep their positions in a rearrangement, they still
  come first in it.
\<close>

lemma front_stays_in_front:
  assumes dist: "distinct xs" "distinct ys" and front: "xs = filter P xs @ filter (\<lambda>x. \<not> P x) xs"
    and kept: "\<And>x. x \<in> set xs \<Longrightarrow> P x \<Longrightarrow> position xs x = position ys x"
    and i: "i \<in> set xs" "P i" and j: "\<not> P j" "position ys j = Some n" and m: "position ys i = Some m"
  shows "m < n"
proof -
  let ?k = "length (filter P xs)"
  have head: "xs ! q = filter P xs ! q" if "q < ?k" for q
    by (subst front) (simp add: nth_append that)
  from i have "i \<in> set (filter P xs)"
    by simp
  then obtain q where q: "q < ?k" "filter P xs ! q = i"
    unfolding in_set_conv_nth by blast
  have "position xs (xs ! q) = Some q"
    by (rule position_nth [OF dist(1) less_le_trans [OF q(1) length_filter_le]])
  then have early: "m < ?k"
    using kept [OF i] m head [OF q(1)] q by simp
  have "?k \<le> n"
  proof (rule ccontr)
    assume late: "\<not> ?k \<le> n"
    then have P: "P (xs ! n)" and mem: "n < length xs"
      using head [of n] nth_mem [of n "filter P xs"] length_filter_le [of P xs]
      by (auto simp del: length_filter_le)
    then have "position ys (xs ! n) = Some n"
      using kept [of "xs ! n"] position_nth [OF dist(1) mem] by simp
    with j(2) have "xs ! n = j"
      by (metis position_Some(2))
    with P j(1) show False by simp
  qed
  with early show ?thesis by simp
qed

lemma sorted_front:
  "sorted (map f xs) \<Longrightarrow> filter (\<lambda>x. f x \<le> t) xs @ filter (\<lambda>x. \<not> f x \<le> (t :: 'b :: linorder)) xs = xs"
proof (induction xs)
  case (Cons x xs)
  show ?case
  proof (cases "f x \<le> t")
    case False
    with Cons.prems have "filter (\<lambda>y. f y \<le> t) xs = []"
      by (auto simp: filter_empty_conv)
    with Cons False show ?thesis by simp
  qed (use Cons in auto)
qed simp

lemma same_keys:
  assumes "distinct xs" "length ys = length xs" "set xs \<subseteq> set ys"
  shows "distinct ys" and "set ys = set xs"
proof -
  have "card (set xs) \<le> card (set ys)"
    by (rule card_mono) (simp_all add: assms(3))
  with assms(1,2) card_length [of ys] have "card (set ys) = length ys" "card (set ys) = card (set xs)"
    by (simp_all add: distinct_card)
  then show "distinct ys" "set ys = set xs"
    using card_distinct card_subset_eq [OF _ assms(3)] by simp_all
qed

section \<open>Reordering roles\<close>

lemma assign_ranks_get:
  assumes "assign_ranks n order roles = Some roles'" and "distinct order"
  shows "hm_get roles' i =
    (case position order i of
       Some k \<Rightarrow> map_option (\<lambda>r. r\<lparr>r_rank := int (n + k)\<rparr>) (hm_get roles i)
     | None \<Rightarrow> hm_get roles i)"
  using assms
proof (induction order arbitrary: n roles)
  case Nil
  then show ?case by (simp add: position_def)
next
  case (Cons x order)
  from Cons.prems have "assign_ranks (n + 1) order (hm_modify x (\<lambda>r. r\<lparr>r_rank := int n\<rparr>) roles) = Some roles'"
    by (simp split: if_splits)
  from Cons.IH [OF this] Cons.prems(2) show ?case
    by (cases "position order i") (auto simp: position_def option.map_comp o_def algebra_simps)
qed

lemma leaves_servers [leaves_rules]:
  "leaves db_servers (publish c e)" "leaves db_servers (insert_audit_log_entry a)"
  "leaves db_servers (fetch_channel i)" "leaves db_servers (fetch_server i)"
  by (simp_all add: leaves_def publish_def insert_audit_log_entry_def fetch_channel_def fetch_server_def Let_def)

lemma leaves_servers_after [leaves_rules]:
  "leaves db_servers (audit_insert env act srv r u t)" "leaves db_servers (sync_channels env s i)"
  unfolding audit_insert_def sync_channels_def as_channel_def by (intro leaves_rules)+

lemma set_role_ordering_run:
  assumes "some_priority os" and "hm_get (db_servers w) (s_id s) = Some s"
    and "set_role_ordering os s order w = (Ok s', w')"
  shows "hm_get (db_servers w') (s_id s) = Some s' \<and> s_id s' = s_id s \<and>
    assign_ranks 0 order (s_roles s) = Some (s_roles s')"
proof -
  from assms(3) obtain roles where roles: "assign_ranks 0 order (s_roles s) = Some roles"
    by (cases "assign_ranks 0 order (s_roles s)") (simp_all add: set_role_ordering_def)
  have stored: "server_apply_options os (default_partial_server\<lparr>ps_roles := Some roles\<rparr>) s = s\<lparr>s_roles := roles\<rparr>"
    using assms(1) by (simp add: some_priority_def some_priority_server_def default_partial_server_def)
  from assms(2,3) roles show ?thesis
    by (simp add: set_role_ordering_def Let_def update_server_def publish_def bindM_def stored)
       (auto simp: stored)
qed

text \<open>The order by rank, and the roles at least as senior as a rank in it.\<close>

lemma ordered_roles_front:
  fixes s t
  assumes "hm_ok (s_roles s)"
  defines "xs \<equiv> map fst (ordered_roles s)" and "P \<equiv> \<lambda>i. \<exists>r. hm_get (s_roles s) i = Some r \<and> r_rank r \<le> t"
  shows "distinct xs" and "set xs = set (map fst (s_roles s))"
    and "filter P xs @ filter (\<lambda>i. \<not> P i) xs = xs"
proof -
  show "set xs = set (map fst (s_roles s))"
    by (simp add: xs_def ordered_roles_def)
  show dist: "distinct xs"
    using assms(1) unfolding xs_def ordered_roles_def hm_ok_def
    by (simp add: distinct_map inj_on_def)
  have get: "hm_get (s_roles s) i = Some r \<longleftrightarrow> (i, r) \<in> set (ordered_roles s)" for i r
    using assms(1) by (simp add: hm_get_def hm_ok_def ordered_roles_def map_of_eq_Some_iff)
  have P: "P (fst x) \<longleftrightarrow> r_rank (snd x) \<le> t" if "x \<in> set (ordered_roles s)" for x
    using that get [of "fst x" "snd x"] by (auto simp: P_def)
  have "sorted (map (\<lambda>x. r_rank (snd x)) (ordered_roles s))"
    by (simp add: ordered_roles_def case_prod_beta')
  from arg_cong [OF sorted_front [OF this, of t], of "map fst"]
  show "filter P xs @ filter (\<lambda>i. \<not> P i) xs = xs"
    unfolding xs_def filter_map o_def using P by (simp cong: filter_cong)
qed

text \<open>
  C9: A successful reordering is by a permutation of the roles, and gives every role its index as
  its rank, in the store as in the answer. Unless it was done by the owner or a privileged user,
  the roles of at least the rank of the acting member still come before all others.
\<close>

theorem reordering_keeps_seniority:
  assumes "re_pdb env = reference_db" and "some_priority (re_os env)" and "world_ok w"
    and "edit_role_ranks env u reason sid order w = (Ok s', w')"
  shows "\<exists>s. hm_get (db_servers w) sid = Some s \<and> hm_get (db_servers w') sid = Some s' \<and>
           distinct order \<and> set order = set (map fst (s_roles s)) \<and>
           (\<forall>i n. position order i = Some n \<longrightarrow>
              hm_get (s_roles s') i = map_option (\<lambda>r. r\<lparr>r_rank := int n\<rparr>) (hm_get (s_roles s) i)) \<and>
           (\<not> above_ranks s u \<longrightarrow>
              (\<exists>me. member_of w s (u_id u) = Some me \<and>
                 (\<forall>i j ri rj. hm_get (s_roles s) i = Some ri \<and> hm_get (s_roles s) j = Some rj \<and>
                    r_rank ri \<le> get_ranking me s \<and> get_ranking me s < r_rank rj \<longrightarrow>
                    (\<exists>ti tj. hm_get (s_roles s') i = Some ti \<and> hm_get (s_roles s') j = Some tj \<and>
                       r_rank ti < r_rank tj))))"
  using assms(4) unfolding edit_role_ranks_def
proof (elim run_elims, goal_cases)
  case (1 s w1 r w2 p q _ w3 _ w4 _ w5 s1 w6 _ w7 _ w8)
  have s: "hm_get (db_servers w) sid = Some s" and w1: "w1 = w"
    using as_server_run [OF 1(1)] by simp_all
  note perms = 1(2) [unfolded w1 1(3)]
  have w2: "w2 = w"
    using server_perms_run(1) [OF assms(1) perms] .
  have ok: "hm_ok (s_roles s)" and sid: "s_id s = sid"
    using s assms(3) by (auto simp: world_ok_def keyed_def dest: keyed_get)
  have w5: "w5 = w"
    using 1(5,6,11) w2 by (auto simp: guard_def split: if_splits option.splits)
  have stored: "hm_get (db_servers w') sid = Some s'"
    and ranks: "assign_ranks 0 order (s_roles s) = Some (s_roles s')"
    using set_role_ordering_run [OF assms(2) _ 1(7)] s sid w5 1(12,13)
      leaves_run [OF leaves_servers_after(1) 1(8)] leaves_run [OF leaves_servers_after(2) 1(9)]
    by simp_all
  have "set (map fst (s_roles s)) \<subseteq> set order"
    using 1(10) by (auto simp: list_all_iff)
  then have perm: "distinct order" "set order = set (map fst (s_roles s))"
    using same_keys [of "map fst (s_roles s)" order] 1(10) ok by (simp_all add: hm_ok_def)
  have new: "hm_get (s_roles s') i = map_option (\<lambda>r. r\<lparr>r_rank := int n\<rparr>) (hm_get (s_roles s) i)"
    if "position order i = Some n" for i n
    using assign_ranks_get [OF ranks perm(1), of i] that by simp
  have senior: "\<exists>me. member_of w s (u_id u) = Some me \<and>
      (\<forall>i j ri rj. hm_get (s_roles s) i = Some ri \<and> hm_get (s_roles s) j = Some rj \<and>
         r_rank ri \<le> get_ranking me s \<and> get_ranking me s < r_rank rj \<longrightarrow>
         (\<exists>ti tj. hm_get (s_roles s') i = Some ti \<and> hm_get (s_roles s') j = Some tj \<and> r_rank ti < r_rank tj))"
    if low: "\<not> above_ranks s u"
  proof -
    obtain me where me: "member_of w s (u_id u) = Some me" "get_member_rank q = Some (Some (get_ranking me s))"
      using permission_member [OF assms(1) perms _ low] 1(4) by auto
    let ?P = "\<lambda>i. \<exists>r. hm_get (s_roles s) i = Some r \<and> r_rank r \<le> get_ranking me s"
    let ?xs = "map fst (ordered_roles s)"
    note front = ordered_roles_front(1,2) [OF ok] ordered_roles_front(3) [OF ok, of "get_ranking me s", symmetric]
    have "\<not> list_ex (\<lambda>(i, _). position ?xs i \<noteq> position order i)
            (filter (\<lambda>(_, r). r_rank r \<le> get_ranking me s) (s_roles s))"
      using 1(6) low me(2) by (simp add: above_ranks_def guard_def split: if_splits)
    then have kept: "position ?xs i = position order i" if "?P i" for i
      using that by (force simp: list_ex_iff hm_get_def dest: map_of_SomeD)
    show ?thesis
    proof (intro exI [of _ me] conjI allI impI me(1), elim conjE)
      fix i j ri rj
      assume *: "hm_get (s_roles s) i = Some ri" "hm_get (s_roles s) j = Some rj"
        "r_rank ri \<le> get_ranking me s" "get_ranking me s < r_rank rj"
      then have mem: "i \<in> set order" "j \<in> set order"
        unfolding perm(2) by (auto simp: hm_get_def dest: map_of_SomeD intro: rev_image_eqI)
      then obtain m n where mn: "position order i = Some m" "position order j = Some n"
        using position_mem [of i order] position_mem [of j order] by blast
      have "m < n"
      proof (rule front_stays_in_front [OF front(1) perm(1) front(3)])
        show "i \<in> set ?xs" "position order j = Some n" "position order i = Some m"
          using mem mn perm(2) front(2) by simp_all
        show "?P i" "\<not> ?P j"
          using * by simp_all
      qed (rule kept)
      with new [OF mn(1)] new [OF mn(2)] *
      show "\<exists>ti tj. hm_get (s_roles s') i = Some ti \<and> hm_get (s_roles s') j = Some tj \<and> r_rank ti < r_rank tj"
        by simp
    qed
  qed
  show ?case
    by (intro exI [of _ s] conjI allI impI s stored perm new senior)
qed

theorem reordering_keeps_seniority_witness:
  "\<exists>s' w'. edit_role_ranks sample_route_env (sample_user ''A'') None ''S'' [''M'', ''R''] sample_world = (Ok s', w') \<and>
     (\<exists>r. hm_get (s_roles s') ''R'' = Some r \<and> r_rank r = 1)"
proof -
  let ?run = "edit_role_ranks sample_route_env (sample_user ''A'') None ''S'' [''M'', ''R''] sample_world"
  have "is_ok (fst ?run)"
    by code_simp
  then obtain s' w' where run: "?run = (Ok s', w')"
    using is_ok_fst by blast
  from reordering_keeps_seniority [OF _ _ sample_world_ok run]
  have "hm_get (s_roles s') ''R'' = map_option (\<lambda>r. r\<lparr>r_rank := 1\<rparr>) (hm_get (s_roles sample_server) ''R'')"
    by (auto dest: spec [of _ "''R''"])
  with run show ?thesis
    by (auto simp: sample_server_def hm_get_def)
qed

section \<open>What a role grants\<close>

lemma server_set_role_permission_run:
  assumes "some_priority os" and "hm_get (db_servers w) (s_id s) = Some s" and "hm_get (s_roles s) i = Some r"
    and "r_id r = i" and "server_set_role_permission os s i v w = (Ok s', w')"
  shows "s' = s\<lparr>s_roles := hm_insert i (r\<lparr>r_permissions := v\<rparr>) (s_roles s)\<rparr>"
    and "\<exists>t. hm_get (db_servers w') (s_id s) = Some t \<and> hm_get (s_roles t) i = Some (r\<lparr>r_permissions := v\<rparr>) \<and>
           (\<forall>j. j \<noteq> i \<longrightarrow> hm_get (s_roles t) j = hm_get (s_roles s) j)"
proof -
  have "role_apply_options os (default_partial_role\<lparr>pr_permissions := Some v\<rparr>) r = r\<lparr>r_permissions := v\<rparr>"
    using assms(1) by (simp add: some_priority_def some_priority_role_def default_partial_role_def)
  with assms(2-) show "s' = s\<lparr>s_roles := hm_insert i (r\<lparr>r_permissions := v\<rparr>) (s_roles s)\<rparr>"
    "\<exists>t. hm_get (db_servers w') (s_id s) = Some t \<and> hm_get (s_roles t) i = Some (r\<lparr>r_permissions := v\<rparr>) \<and>
       (\<forall>j. j \<noteq> i \<longrightarrow> hm_get (s_roles t) j = hm_get (s_roles s) j)"
    by (auto simp: server_set_role_permission_def role_update_def Let_def update_role_def publish_def bindM_def)
qed

text \<open>What an override adds to any base, beyond the override it replaces, is held.\<close>

lemma override_bounded:
  assumes "throw_permission_override p (Some cur) next = Ok ()" and "bit (pv_apply base next) n"
    and "\<not> bit p n"
  shows "bit (pv_apply base cur) n"
proof -
  have held: "bit v n \<Longrightarrow> bit p n" if "pv_has p v" for v
    using that by (auto simp: pv_has_def bit_and_iff dest: arg_cong [of _ _ "\<lambda>x. bit x n"])
  have "n < 64"
    using bit_imp_le_length [OF assms(2)] by simp
  with assms held [of "NOT (allow cur) AND allow next"] held [of "deny cur AND NOT (deny next)"]
  show ?thesis
    by (auto simp: throw_permission_override_def bit_pv_apply bit_and_iff bit_not_iff split: if_splits)
qed

text \<open>
  C10: Changing what a role grants. The role is below the acting user, who may manage
  permissions; only this role of the stored server changes, and to any permissions it is
  applied to, the new override of the role adds nothing beyond the old one that the acting user
  does not have.
\<close>

theorem role_grants_bounded:
  assumes "re_pdb env = reference_db" and "some_priority (re_os env)" and "world_ok w"
    and "set_role_permission env u reason sid i v w = (Ok s', w')"
  shows "\<exists>s r p q t. hm_get (db_servers w) sid = Some s \<and> hm_get (s_roles s) i = Some r \<and>
           calculate_server_permissions (DatabasePermissionQuery (reference_db w) (re_now env))
             (server_query u s) = Some (p, q) \<and>
           has_channel_permission p CP_ManagePermissions \<and> ranks_below w s u (r_rank r) \<and>
           hm_get (db_servers w') sid = Some t \<and>
           hm_get (s_roles t) i = Some (r\<lparr>r_permissions := override_into_field v\<rparr>) \<and>
           (\<forall>j. j \<noteq> i \<longrightarrow> hm_get (s_roles t) j = hm_get (s_roles s) j) \<and>
           (\<forall>base n. bit (pv_apply base (field_into_override (override_into_field v))) n \<longrightarrow>
              bit p n \<or> bit (pv_apply base (field_into_override (r_permissions r))) n)"
  using assms(4) unfolding set_role_permission_def
proof (elim run_elims, goal_cases)
  case (1 s w1 r w2 pq w3 p q _ w4 rank w5 _ w6 _ w7 s1 w8 _ w9 _ w10)
  have s: "hm_get (db_servers w) sid = Some s" and w2: "w2 = w" and r: "hm_get (s_roles s) i = Some r"
    using as_server_run [OF 1(1)] 1(3,4) by simp_all
  note perms = 1(2) [unfolded w2 1(5)]
  have ids: "s_id s = sid" "r_id r = i"
    using s r assms(3) by (auto simp: world_ok_def keyed_def)
  have below: "ranks_below w s u (r_rank r)" and w7: "w7 = w"
    using permission_rank [OF assms(1) perms, of CP_ManagePermissions rank w5 "r_rank r"] 1(6-10,12)
    by simp_all
  obtain t where t: "hm_get (db_servers w8) sid = Some t"
    "hm_get (s_roles t) i = Some (r\<lparr>r_permissions := override_into_field v\<rparr>)"
    "\<forall>j. j \<noteq> i \<longrightarrow> hm_get (s_roles t) j = hm_get (s_roles s) j"
    using server_set_role_permission_run(2) [OF assms(2) _ r ids(2) 1(13)] s ids(1) w7 by auto
  have stored: "hm_get (db_servers w') sid = Some t"
    using t(1) leaves_run [OF leaves_servers_after(1) 1(14)] leaves_run [OF leaves_servers_after(2) 1(15)] 1(17)
    by simp
  have manages: "has_channel_permission p CP_ManagePermissions"
    using 1(9) by (auto simp: throw_if_lacking_channel_permission_def split: if_splits)
  have "field_into_override (override_into_field v) = v"
    by (simp add: field_into_override_def override_into_field_def)
  then have bounded: "bit (pv_apply base (field_into_override (override_into_field v))) n \<Longrightarrow>
      bit p n \<or> bit (pv_apply base (field_into_override (r_permissions r))) n" for base n
    using override_bounded [of p "field_into_override (r_permissions r)" v base n] 1(11) by auto
  obtain q' where "calculate_server_permissions (DatabasePermissionQuery (reference_db w) (re_now env))
      (server_query u s) = Some (p, q')"
    using server_perms_run(2) [OF assms(1) perms] by blast
  with s r manages below stored t(2,3) bounded show ?case
    by blast
qed

theorem role_grants_bounded_witness:
  "\<exists>s' w'. set_role_permission sample_route_env (sample_user ''A'') None ''S'' ''R'' \<lparr>allow = 0x400003, deny = 0\<rparr>
       sample_world = (Ok s', w') \<and>
     (\<exists>t r. hm_get (db_servers w') ''S'' = Some t \<and> hm_get (s_roles t) ''R'' = Some r \<and>
        r_permissions r = \<lparr>ov_a = 0x400003, ov_d = 0\<rparr>)"
proof -
  let ?v = "\<lparr>allow = 0x400003, deny = 0\<rparr> :: override"
  let ?run = "set_role_permission sample_route_env (sample_user ''A'') None ''S'' ''R'' ?v sample_world"
  have "is_ok (fst ?run)"
    by code_simp
  then obtain s' w' where run: "?run = (Ok s', w')"
    using is_ok_fst by blast
  have "override_into_field ?v = \<lparr>ov_a = 0x400003, ov_d = 0\<rparr>"
    by code_simp
  with role_grants_bounded [OF _ _ sample_world_ok run] run show ?thesis
    by auto
qed

end
