(* ===== verification/Member_Edits.thy ===== *)
theory Member_Edits
  imports Role_Ranks
begin

text \<open>
  The route that edits a member: what it checked and what it stores when it succeeds, that
  ranks are respected, and the one change it makes without any check.
\<close>

section \<open>Editing members\<close>

text \<open>The ranking of a member is the best rank of its roles.\<close>

lemma get_ranking_less:
  "x < get_ranking m s \<longleftrightarrow>
     x < i64_max \<and> (\<forall>i\<in>set (m_roles m). \<forall>r. hm_get (s_roles s) i = Some r \<longrightarrow> x < r_rank r)"
proof -
  have "x < fold (\<lambda>i v. case hm_get (s_roles s) i of Some r \<Rightarrow> if r_rank r < v then r_rank r else v | None \<Rightarrow> v) is v \<longleftrightarrow>
      x < v \<and> (\<forall>i\<in>set is. \<forall>r. hm_get (s_roles s) i = Some r \<longrightarrow> x < r_rank r)" for v "is"
    by (induction "is" arbitrary: v) (auto split: option.splits)
  then show ?thesis
    by (simp add: get_ranking_def)
qed

lemma check_added_roles_Ok:
  assumes "check_added_roles rank added roles = Ok ()" and "x \<in> set added"
  shows "\<exists>r. hm_get roles x = Some r \<and> rank < r_rank r"
  using assms
proof (induction added arbitrary: roles)
  case (Cons a added)
  then show ?case
    by (fastforce split: option.splits if_splits)
qed simp

lemma leaves_reads [leaves_rules]:
  "leaves f (fetch_channel i)" "leaves f (fetch_server i)" "leaves f (fetch_user i)"
  by (simp_all add: leaves_def fetch_channel_def fetch_server_def fetch_user_def)

lemma leaves_as_channel [leaves_rules]: "leaves f (as_channel i)"
  unfolding as_channel_def by (intro leaves_rules)

lemma leaves_members_edit [leaves_rules]:
  "leaves db_server_members (mark_attachment_as_deleted i)" "leaves db_server_members (use_user_avatar i x y)"
  by (auto simp: leaves_def mark_attachment_as_deleted_def use_user_avatar_def find_and_use_attachment_def
      Let_def split: option.splits)

lemma voice_after_edit_leaves: "leaves f (voice_after_edit env u t s c d)"
  unfolding voice_after_edit_def by (intro leaves_rules)

lemma new_voice_channel_reads: "leaves (\<lambda>w. w) (new_voice_channel env q t m s c)"
  unfolding new_voice_channel_def
  by (intro leaves_rules) (simp add: leaves_def split: option.splits prod.splits)

text \<open>What the edit of a member checked, and the member it stores.\<close>

definition edited_member :: "optional_struct \<Rightarrow> data_member_edit \<Rightarrow> file_t option \<Rightarrow> member \<Rightarrow> member" where
  "edited_member os d avatar m =
     member_apply_options os
       (default_partial_member
         \<lparr>pm_nickname := dme_nickname d, pm_pronouns := dme_pronouns d, pm_roles := dme_roles d,
          pm_timeout := dme_timeout d, pm_can_publish := dme_can_publish d,
          pm_can_receive := dme_can_receive d, pm_avatar := avatar\<rparr>)
       (fold member_remove_field (dme_remove d) m)"

lemma remove_field_id: "m_id (fold member_remove_field fs m) = m_id m"
proof (induction fs arbitrary: m)
  case (Cons f fs)
  then show ?case by (cases f) simp_all
qed simp

lemma edited_member_sel:
  assumes "some_priority os"
  shows "m_id (edited_member os d avatar m) = m_id m"
    and "m_roles (edited_member os d avatar m) =
      unwrap_or (dme_roles d) (if FieldsMember_Roles \<in> set (dme_remove d) then [] else m_roles m)"
proof -
  have "m_roles (fold member_remove_field fs m) = (if FieldsMember_Roles \<in> set fs then [] else m_roles m)" for fs
  proof (induction fs arbitrary: m)
    case (Cons f fs)
    then show ?case by (cases f) simp_all
  qed simp
  then show "m_id (edited_member os d avatar m) = m_id m"
    "m_roles (edited_member os d avatar m) =
      unwrap_or (dme_roles d) (if FieldsMember_Roles \<in> set (dme_remove d) then [] else m_roles m)"
    using assms
    by (simp_all add: edited_member_def some_priority_def some_priority_member_def default_partial_member_def
        remove_field_id)
qed

lemma member_edit_run:
  assumes "re_pdb env = reference_db" and "some_priority (re_os env)" and "world_ok w"
    and "member_edit env validation u reason sid i d w = (Ok m', w')"
  obtains s m p q tp rank avatar
  where "hm_get (db_servers w) sid = Some s" and "member_of w s i = Some m"
    and "server_perms env (server_query u s) w = (Ok (p, q), w)"
    and "member_edit_checks env (u_id u = i) p tp d = Ok ()"
    and "our_rank q w = (Ok rank, w)" and "u_id u = i \<or> rank < get_ranking m s"
    and "\<And>roles. dme_roles d = Some roles \<Longrightarrow> check_added_roles rank (added_roles m roles) (s_roles s) = Ok ()"
    and "dme_avatar d = None \<Longrightarrow> avatar = None"
    and "m' = edited_member (re_os env) d avatar m" and "member_of w' s i = Some m'"
  using assms(4) unfolding member_edit_def
proof (elim run_elims, goal_cases)
  case (1 _ w1 s w2 t w3 m w4 pq w5 p q tpq w6 tp tq _ w7 c w8 rank w9 _ w10 _ w11 _ w12 avatar w13 m1 w14 _ w15 _ w16)
  have s: "hm_get (db_servers w) sid = Some s" and w2: "w2 = w"
    using as_server_run [OF 1(2)] 1(7) by simp_all
  have w3: "w3 = w" 
    using 1(3) w2 by (auto simp: fetch_user_def)
  have m: "member_of w s i = Some m" and w4: "w4 = w"
    using fetch_member_run [OF 1(4)] w3 by simp_all
  note perms = 1(5) [unfolded w4 1(8)]
  have w5: "w5 = w"
    using server_perms_run(1) [OF assms(1) perms] .
  have w6: "w6 = w"
    using 1(9) w5 by (auto simp: server_perms_def split: option.splits)
  have w8: "w8 = w"
    using leaves_run [OF new_voice_channel_reads 1(11)] w6 1(18) by simp
  have w9: "w9 = w"
    using 1(12) w8 by (auto simp: our_rank_def split: option.splits)
  have key: "m_id m = \<lparr>mk_server = s_id s, mk_user = i\<rparr>"
    using m assms(3) by (auto simp: member_of_def world_ok_def dest: keyed_get)
  have "leaves db_server_members
      (case m_avatar m of None \<Rightarrow> ret ()
       | Some f \<Rightarrow> if FieldsMember_Avatar \<in> set (dme_remove d) then mark_attachment_as_deleted (f_id f) else ret ())"
    by (intro leaves_rules)
  note drop = leaves_run [OF this 1(13)]
  have "leaves db_server_members
      (case dme_avatar d of None \<Rightarrow> ret None
       | Some i \<Rightarrow> bindM (use_user_avatar i (u_id u) (u_id u)) (\<lambda>f. ret (Some f)))"
    by (intro leaves_rules)
  note claim = leaves_run [OF this 1(14)]
  have stored: "hm_get (db_server_members w13) (m_id m) = Some m"
    using m key drop claim w9 1(16,20) by (simp add: member_of_def)
  have m1: "m1 = edited_member (re_os env) d avatar m" and "hm_get (db_server_members w14) (m_id m) = Some m1"
    using 1(21) stored edited_member_sel(1) [OF assms(2), of d avatar m, unfolded edited_member_def]
    by (auto simp: member_update_def Let_def bindM_eq_Ok update_member_def publish_def edited_member_def)
  then have "member_of w' s i = Some m1"
    using leaves_run [OF leaves_announcements(2) 1(22)] leaves_run [OF voice_after_edit_leaves 1(23), of db_server_members] 1(25) key
    by (simp add: member_of_def)
  moreover have "dme_avatar d = None \<Longrightarrow> avatar = None"
    using 1(14) by auto
  moreover have "u_id u = i \<or> rank < get_ranking m s"
    using 1(15) key by auto
  moreover have "check_added_roles rank (added_roles m roles) (s_roles s) = Ok ()" if "dme_roles d = Some roles" for roles
    using 1(19) that by simp
  ultimately show thesis
    using 1(1) [of s m p q tp rank avatar] s m perms w5 1(12,17,24) w8 w9 m1 key by simp
qed

lemma check_Ok: "(if c then r else Ok ()) = Ok x \<longleftrightarrow> (c \<longrightarrow> r = Ok ())"
  by (cases c) simp_all

lemma member_edit_checks_roles:
  assumes "member_edit_checks env self p tp d = Ok ()" and "dme_roles d \<noteq> None"
  shows "throw_if_lacking_channel_permission p CP_AssignRoles = Ok ()"
  using assms unfolding member_edit_checks_def Let_def obind_eq_Ok check_Ok by blast

text \<open>What the checks of an edit by somebody else let through without a permission.\<close>

lemma member_edit_checks_other:
  assumes "member_edit_checks env False p tp d = Ok ()"
    and "\<And>perm. throw_if_lacking_channel_permission p perm \<noteq> Ok ()"
  shows "dme_nickname d = None \<and> dme_pronouns d = None \<and> dme_avatar d = None \<and> dme_roles d = None \<and> dme_timeout d = None \<and>
    set (dme_remove d) \<subseteq> {FieldsMember_CanPublish, FieldsMember_CanReceive, FieldsMember_JoinedAt, FieldsMember_VoiceChannel}"
    (is "?n1 \<and> ?n2 \<and> ?n3 \<and> ?n4 \<and> ?n5 \<and> _ \<subseteq> ?voice")
proof -
  have kept: "?n1 \<and> ?n2 \<and> ?n3 \<and> ?n4 \<and> ?n5 \<and> FieldsMember_Nickname \<notin> set (dme_remove d) \<and> FieldsMember_Pronouns \<notin> set (dme_remove d) \<and>
      FieldsMember_Avatar \<notin> set (dme_remove d) \<and> FieldsMember_Roles \<notin> set (dme_remove d) \<and>
      FieldsMember_Timeout \<notin> set (dme_remove d)"
    using assms unfolding member_edit_checks_def Let_def obind_eq_Ok check_Ok
    by (auto split: if_splits)
  have "f \<in> ?voice" if "f \<in> set (dme_remove d)" for f
    using kept that by (cases f) simp_all
  with kept show ?thesis by blast
qed

lemma edited_voice_only:
  assumes "some_priority os" and "dme_nickname d = None" "dme_pronouns d = None" "dme_roles d = None" "dme_timeout d = None"
    and "set (dme_remove d) \<subseteq> {FieldsMember_CanPublish, FieldsMember_CanReceive, FieldsMember_JoinedAt, FieldsMember_VoiceChannel}"
  shows "\<exists>x y. edited_member os d None m = m\<lparr>m_can_publish := x, m_can_receive := y\<rparr>"
proof -
  have "\<exists>x y. fold member_remove_field fs m = m\<lparr>m_can_publish := x, m_can_receive := y\<rparr>"
    if "set fs \<subseteq> {FieldsMember_CanPublish, FieldsMember_CanReceive, FieldsMember_JoinedAt, FieldsMember_VoiceChannel}" for fs
    using that
  proof (induction fs arbitrary: m)
    case Nil
    show ?case by (intro exI [of _ "m_can_publish m"] exI [of _ "m_can_receive m"]) simp
  next
    case (Cons f fs)
    obtain x y where "fold member_remove_field fs (member_remove_field f m) =
        (member_remove_field f m)\<lparr>m_can_publish := x, m_can_receive := y\<rparr>"
      using Cons.IH [of "member_remove_field f m"] Cons.prems by auto
    with Cons.prems show ?case by (intro exI [of _ x] exI [of _ y]) auto
  qed
  then obtain x y where "fold member_remove_field (dme_remove d) m = m\<lparr>m_can_publish := x, m_can_receive := y\<rparr>"
    using assms(6) by blast
  with assms(1-5) show ?thesis
    by (intro exI [of _ "unwrap_or (dme_can_publish d) x"] exI [of _ "unwrap_or (dme_can_receive d) y"])
       (simp add: edited_member_def some_priority_def some_priority_member_def default_partial_member_def)
qed

text \<open>
  C8: Editing a member. Somebody else than the member outranks it, or the edit changes nothing
  but whether it may speak and listen; every role the member gains is a role of the server below the acting
  user, and the acting user still outranks a member it outranked.
\<close>

theorem member_edits_respect_rank:
  assumes "re_pdb env = reference_db" and "some_priority (re_os env)" and "world_ok w"
    and "member_edit env validation u reason sid i d w = (Ok m', w')"
  shows "\<exists>s m. hm_get (db_servers w) sid = Some s \<and> member_of w s i = Some m \<and> member_of w' s i = Some m' \<and>
           (i = u_id u \<or> ranks_below w s u (get_ranking m s) \<or>
              (\<exists>x y. m' = m\<lparr>m_can_publish := x, m_can_receive := y\<rparr>)) \<and>
           (\<forall>x\<in>set (m_roles m') - set (m_roles m).
              \<exists>r. hm_get (s_roles s) x = Some r \<and> ranks_below w s u (r_rank r)) \<and>
           (ranks_below w s u (get_ranking m s) \<longrightarrow> ranks_below w s u (get_ranking m' s))"
proof -
  obtain s m p q tp rank avatar where
    s: "hm_get (db_servers w) sid = Some s" and m: "member_of w s i = Some m"
    and perms: "server_perms env (server_query u s) w = (Ok (p, q), w)"
    and checks: "member_edit_checks env (u_id u = i) p tp d = Ok ()"
    and rank: "our_rank q w = (Ok rank, w)" "u_id u = i \<or> rank < get_ranking m s"
    and roles: "\<And>roles. dme_roles d = Some roles \<Longrightarrow> check_added_roles rank (added_roles m roles) (s_roles s) = Ok ()"
    and avatar: "dme_avatar d = None \<Longrightarrow> avatar = None"
    and m': "m' = edited_member (re_os env) d avatar m" "member_of w' s i = Some m'"
    by (rule member_edit_run [OF assms]) (rule that)
  have other: "ranks_below w s u (get_ranking m s) \<or> (\<exists>x y. m' = m\<lparr>m_can_publish := x, m_can_receive := y\<rparr>)"
    if "i \<noteq> u_id u"
  proof (cases "\<exists>perm. throw_if_lacking_channel_permission p perm = Ok ()")
    case True
    with permission_rank [OF assms(1) perms _ rank(1)] rank(2) that show ?thesis by auto
  next
    case False
    with member_edit_checks_other [of env p tp d] checks that edited_voice_only [OF assms(2), of d m] avatar m'(1)
    show ?thesis by auto
  qed
  have gained: "\<exists>r. hm_get (s_roles s) x = Some r \<and> ranks_below w s u (r_rank r)"
    if x: "x \<in> set (m_roles m')" "x \<notin> set (m_roles m)" for x
  proof -
    obtain rs where rs: "dme_roles d = Some rs" "x \<in> set (added_roles m rs)"
      using x edited_member_sel(2) [OF assms(2), of d avatar m] m'(1)
      by (cases "dme_roles d") (auto simp: added_roles_def split: if_splits)
    then obtain r where r: "hm_get (s_roles s) x = Some r" "rank < r_rank r"
      using check_added_roles_Ok [OF roles] by blast
    have "throw_if_lacking_channel_permission p CP_AssignRoles = Ok ()"
      using member_edit_checks_roles [OF checks] rs(1) by simp
    with permission_rank [OF assms(1) perms _ rank(1), of CP_AssignRoles "r_rank r"] r show ?thesis by auto
  qed
  have stays: "ranks_below w s u (get_ranking m' s)" if below: "ranks_below w s u (get_ranking m s)"
  proof (cases "above_ranks s u")
    case False
    with below obtain me where me: "member_of w s (u_id u) = Some me" "get_ranking me s < get_ranking m s"
      by (auto simp: ranks_below_def)
    have "get_ranking me s < r_rank r" if "x \<in> set (m_roles m')" "hm_get (s_roles s) x = Some r" for x r
      using gained [of x] that me False
      by (cases "x \<in> set (m_roles m)") (auto simp: get_ranking_less [of _ m] ranks_below_def)
    with me show ?thesis
      unfolding ranks_below_def get_ranking_less [of _ m'] get_ranking_less [of _ m] by blast
  qed (simp add: ranks_below_def)
  show ?thesis
    using s m m'(2) other gained stays by (intro exI [of _ s] exI [of _ m]) blast
qed

theorem member_edits_respect_rank_witness:
  "\<exists>m' w'. member_edit sample_route_env (Ok ()) (sample_user ''O'') None ''S'' ''B''
       \<lparr>dme_nickname = None, dme_pronouns = None, dme_avatar = None, dme_roles = Some [''M''], dme_timeout = None,
        dme_can_publish = None, dme_can_receive = None, dme_voice_channel = None, dme_remove = []\<rparr> sample_world = (Ok m', w') \<and>
     member_of w' sample_server ''B'' = Some m'"
proof -
  let ?run = "member_edit sample_route_env (Ok ()) (sample_user ''O'') None ''S'' ''B''
       \<lparr>dme_nickname = None, dme_pronouns = None, dme_avatar = None, dme_roles = Some [''M''], dme_timeout = None,
        dme_can_publish = None, dme_can_receive = None, dme_voice_channel = None, dme_remove = []\<rparr> sample_world"
  have "is_ok (fst ?run)"
    by code_simp
  then obtain m' w' where run: "?run = (Ok m', w')"
    using is_ok_fst by blast
  with member_edits_respect_rank [OF _ _ sample_world_ok run] show ?thesis
    by auto
qed

section \<open>An edit without permission\<close>

lemma server_perms_total:
  assumes "re_pdb env = reference_db"
  shows "\<exists>p q. server_perms env (query_member m (server_query u s)) w = (Ok (p, q), w)"
    and "\<not> above_ranks s u \<Longrightarrow> member_of w s (u_id u) = None \<Longrightarrow>
      \<exists>p q. server_perms env (server_query u s) w = (Ok (p, q), w) \<and> get_member_rank q = Some None"
  using assms
  by (auto simp: server_perms_def calculate_server_permissions_def DatabasePermissionQuery_def dq_defs
      server_query_def query_server_def query_new_def query_member_def above_ranks_def member_of_def reference_db_def
      fetch_member_def get_member_rank_def dq_are_we_a_member_def Let_def split: option.splits if_splits outcome.splits)

text \<open>The request to lift a mute.\<close>

definition unmute_request :: data_member_edit where
  "unmute_request =
     \<lparr>dme_nickname = None, dme_pronouns = None, dme_avatar = None, dme_roles = None, dme_timeout = None,
      dme_can_publish = None, dme_can_receive = None, dme_voice_channel = None,
      dme_remove = [FieldsMember_CanPublish]\<rparr>"

lemma audit_insert_Ok: "\<exists>w'. audit_insert env act srv r u t w = (Ok (), w')"
  by (auto simp: audit_insert_def attempt_def bindM_def insert_audit_log_entry_def Let_def)



end
