(* ===== verification/Oauth.thy ===== *)
theory Oauth
  imports Permission_Query
begin

unbundle bit_operations_syntax

text \<open>
  The OAuth 2.1 authorization-code flow of \<open>routes/oauth.rs\<close>: applications, consent, codes,
  access and refresh tokens. Its documents live in MongoDB collections; a collection is a list of
  documents, and what the driver does with it is a parameter (\<open>coll\<close>) of which the properties
  assume the documented behaviour (\<open>coll_ok\<close>). Digests, random values, clock readings, URL parsing
  and form encoding are parameters too. The documents are those the code writes, so the branches
  for missing fields do not arise.
\<close>

section \<open>Collections\<close>

text \<open>A result of \<open>None\<close> is an error of the driver.\<close>

record 'd coll =
  co_find :: "('d \<Rightarrow> bool) \<Rightarrow> 'd list \<Rightarrow> 'd option option"
  co_find_all :: "('d \<Rightarrow> bool) \<Rightarrow> 'd list \<Rightarrow> 'd list option"
  co_find_and_update :: "('d \<Rightarrow> bool) \<Rightarrow> ('d \<Rightarrow> 'd) \<Rightarrow> 'd list \<Rightarrow> 'd option option \<times> 'd list"
  co_insert :: "'d \<Rightarrow> 'd list \<Rightarrow> unit option \<times> 'd list"
  co_update_one :: "('d \<Rightarrow> bool) \<Rightarrow> ('d \<Rightarrow> 'd) \<Rightarrow> 'd list \<Rightarrow> nat option \<times> 'd list"
  co_update_many :: "('d \<Rightarrow> bool) \<Rightarrow> ('d \<Rightarrow> 'd) \<Rightarrow> 'd list \<Rightarrow> nat option \<times> 'd list"

text \<open>One document that satisfies \<open>p\<close> is replaced by \<open>f\<close> of it.\<close>

definition updates_one :: "('d \<Rightarrow> bool) \<Rightarrow> ('d \<Rightarrow> 'd) \<Rightarrow> 'd list \<Rightarrow> 'd \<Rightarrow> 'd list \<Rightarrow> bool" where
  "updates_one p f ds d ds' \<longleftrightarrow> (\<exists>xs ys. ds = xs @ d # ys \<and> p d \<and> ds' = xs @ f d # ys)"

text \<open>
  The documented behaviour: a search returns a match if there is one; an operation that succeeds
  has its effect, on one document at once; one that fails may have had all or part of it.
\<close>

definition find_ok :: "'d coll \<Rightarrow> bool" where
  "find_ok c \<longleftrightarrow>
     (\<forall>p ds d. co_find c p ds = Some (Some d) \<longrightarrow> d \<in> set ds \<and> p d) \<and>
     (\<forall>p ds. co_find c p ds = Some None \<longrightarrow> (\<forall>d\<in>set ds. \<not> p d)) \<and>
     (\<forall>p ds r. co_find_all c p ds = Some r \<longrightarrow> r = filter p ds)"

definition find_and_update_ok :: "'d coll \<Rightarrow> bool" where
  "find_and_update_ok c \<longleftrightarrow>
     (\<forall>p f ds d' ds'. co_find_and_update c p f ds = (Some (Some d'), ds') \<longrightarrow>
        (\<exists>d. updates_one p f ds d ds' \<and> d' = f d)) \<and>
     (\<forall>p f ds ds'. co_find_and_update c p f ds = (Some None, ds') \<longrightarrow> (\<forall>d\<in>set ds. \<not> p d) \<and> ds' = ds) \<and>
     (\<forall>p f ds ds'. co_find_and_update c p f ds = (None, ds') \<longrightarrow> ds' = ds \<or> (\<exists>d. updates_one p f ds d ds'))"

definition insert_ok :: "'d coll \<Rightarrow> bool" where
  "insert_ok c \<longleftrightarrow>
     (\<forall>d ds ds'. co_insert c d ds = (Some (), ds') \<longrightarrow> ds' = ds @ [d]) \<and>
     (\<forall>d ds ds'. co_insert c d ds = (None, ds') \<longrightarrow> ds' = ds \<or> ds' = ds @ [d])"

definition update_one_ok :: "'d coll \<Rightarrow> bool" where
  "update_one_ok c \<longleftrightarrow>
     (\<forall>p f ds n ds'. co_update_one c p f ds = (Some n, ds') \<longrightarrow>
        n = 1 \<and> (\<exists>d. updates_one p f ds d ds') \<or> n = 0 \<and> ds' = ds \<and> (\<forall>d\<in>set ds. \<not> p d)) \<and>
     (\<forall>p f ds ds'. co_update_one c p f ds = (None, ds') \<longrightarrow> ds' = ds \<or> (\<exists>d. updates_one p f ds d ds'))"

definition update_many_ok :: "'d coll \<Rightarrow> bool" where
  "update_many_ok c \<longleftrightarrow>
     (\<forall>p f ds n ds'. co_update_many c p f ds = (Some n, ds') \<longrightarrow> ds' = map (\<lambda>d. if p d then f d else d) ds) \<and>
     (\<forall>p f ds ds'. co_update_many c p f ds = (None, ds') \<longrightarrow>
        list_all2 (\<lambda>d d'. d' = d \<or> p d \<and> d' = f d) ds ds')"

definition coll_ok :: "'d coll \<Rightarrow> bool" where
  "coll_ok c \<longleftrightarrow> find_ok c \<and> find_and_update_ok c \<and> insert_ok c \<and> update_one_ok c \<and> update_many_ok c"

section \<open>Documents\<close>

record oauth_application =
  oa_id :: string
  oa_name :: string
  oa_owner_id :: string
  oa_redirect_uris :: "string list"
  oa_allowed_scopes :: "string list"
  oa_public :: bool
  oa_secret_hash :: "string option"
  oa_revoked :: bool
  oa_created_at :: nat

record consent_request =
  cq_id :: string
  cq_csrf_hash :: string
  cq_client_id :: string
  cq_user_id :: string
  cq_redirect_uri :: string
  cq_state :: string
  cq_scope :: string
  cq_code_challenge :: "string option"
  cq_expires_at :: nat
  cq_used :: bool

record authorization_code =
  ac_code_hash :: string
  ac_client_id :: string
  ac_user_id :: string
  ac_redirect_uri :: string
  ac_scope :: string
  ac_code_challenge :: "string option"
  ac_expires_at :: nat
  ac_used :: bool

record access_token =
  at_token_hash :: string
  at_client_id :: string
  at_user_id :: string
  at_scope :: string
  at_expires_at :: nat
  at_revoked :: bool

record refresh_token =
  rt_token_hash :: string
  rt_family_id :: string
  rt_client_id :: string
  rt_user_id :: string
  rt_scope :: string
  rt_expires_at :: nat
  rt_revoked :: bool

record oauth_store =
  oauth_applications :: "oauth_application list"
  oauth_consent_requests :: "consent_request list"
  oauth_authorization_codes :: "authorization_code list"
  oauth_access_tokens :: "access_token list"
  oauth_refresh_tokens :: "refresh_token list"

record mongo =
  mg_applications :: "oauth_application coll"
  mg_consent_requests :: "consent_request coll"
  mg_authorization_codes :: "authorization_code coll"
  mg_access_tokens :: "access_token coll"
  mg_refresh_tokens :: "refresh_token coll"

datatype oauth_database = MongoDb mongo | Reference

section \<open>Errors and helpers\<close>

datatype oauth_error = OAuthError nat string string

type_synonym 'a oauth = "(oauth_store, oauth_error, 'a) comp"

definition storage_unavailable :: oauth_error where
  "storage_unavailable = OAuthError 500 ''server_error'' ''OAuth storage unavailable''"

definition storage :: "'a option \<Rightarrow> (oauth_error, 'a) outcome" where
  "storage r = ok_or storage_unavailable r"

record url =
  url_scheme :: string
  url_host :: "string option"

text \<open>
  What a request draws from outside: digests, the random values and the clock readings of the
  request in the order of the calls, parsed URLs, encoded query strings and time stamps.
\<close>

record oauth_env =
  oe_digest :: "string \<Rightarrow> string"
  oe_random :: "nat \<Rightarrow> nat \<Rightarrow> string"
  oe_now :: "nat \<Rightarrow> nat"
  oe_url :: "string \<Rightarrow> url option"
  oe_query :: "(string \<times> string) list \<Rightarrow> string"
  oe_rfc3339 :: "nat \<Rightarrow> string"
  oe_timestamp :: "timestamp \<Rightarrow> string"

definition AUTHORIZATION_CODE_TTL :: nat where "AUTHORIZATION_CODE_TTL = 300000"
definition ACCESS_TOKEN_TTL :: nat where "ACCESS_TOKEN_TTL = 600000"
definition REFRESH_TOKEN_TTL :: nat where "REFRESH_TOKEN_TTL = 2592000000"

definition SCOPES :: "string list" where
  "SCOPES = [''identify'', ''servers'', ''server_members'', ''permissions'']"

text \<open>Bytes are compared without an early exit.\<close>

definition constant_time_equal :: "string \<Rightarrow> string \<Rightarrow> bool" where
  "constant_time_equal left right \<longleftrightarrow>
     fold (\<lambda>(a, b) result. result OR (of_char a XOR of_char b)) (zip left right)
       (word_of_nat (length left) XOR word_of_nat (length right)) = (0 :: u64)"

definition pkce_matches :: "oauth_env \<Rightarrow> string \<Rightarrow> string \<Rightarrow> bool" where
  "pkce_matches env verifier challenge = constant_time_equal (oe_digest env verifier) challenge"

definition expires_after :: "oauth_env \<Rightarrow> nat \<Rightarrow> nat \<Rightarrow> nat" where
  "expires_after env reading duration = oe_now env reading + duration"

definition validate_redirect_uri :: "oauth_env \<Rightarrow> string \<Rightarrow> bool" where
  "validate_redirect_uri env uri =
     (case oe_url env uri of
        Some u \<Rightarrow> url_scheme u = ''https'' \<or> url_scheme u = ''http'' \<and> url_host u = Some ''localhost''
      | None \<Rightarrow> False)"

definition is_whitespace :: "char \<Rightarrow> bool" where
  "is_whitespace c \<longleftrightarrow> (let n = of_char c :: nat in 9 \<le> n \<and> n \<le> 13 \<or> n = 32 \<or> n = 133 \<or> n = 160)"

fun split_words :: "string \<Rightarrow> string \<Rightarrow> string list" where
  "split_words word [] = (if word = [] then [] else [word])"
| "split_words word (c # cs) =
     (if is_whitespace c
      then (if word = [] then split_words [] cs else word # split_words [] cs)
      else split_words (word @ [c]) cs)"

definition split_whitespace :: "string \<Rightarrow> string list" where
  "split_whitespace s = split_words [] s"

fun join :: "string \<Rightarrow> string list \<Rightarrow> string" where
  "join sep [] = []"
| "join sep [x] = x"
| "join sep (x # y # xs) = x @ sep @ join sep (y # xs)"

definition trim :: "string \<Rightarrow> string" where
  "trim s = rev (dropWhile is_whitespace (rev (dropWhile is_whitespace s)))"

definition validate_scopes :: "string \<Rightarrow> string list \<Rightarrow> string list option" where
  "validate_scopes requested allowed =
     (let scopes = split_whitespace requested
      in if scopes = [] \<or> list_ex (\<lambda>scope. scope \<notin> set SCOPES \<or> scope \<notin> set allowed) scopes
         then None else Some scopes)"

definition redirect_error :: "oauth_env \<Rightarrow> string \<Rightarrow> string \<Rightarrow> string \<Rightarrow> string \<Rightarrow> string" where
  "redirect_error env uri state code description =
     uri @ ''?'' @ oe_query env [(''error'', code), (''error_description'', description), (''state'', state)]"

text \<open>\<open>str::replace\<close> with a character as the pattern.\<close>

definition replace_char :: "char \<Rightarrow> string \<Rightarrow> string \<Rightarrow> string" where
  "replace_char c with s = concat (map (\<lambda>x. if x = c then with else [x]) s)"

definition html_escape :: "string \<Rightarrow> string" where
  "html_escape input =
     replace_char (CHR 0x22) ''&quot;''
       (replace_char (CHR 0x3E) ''&gt;''
         (replace_char (CHR 0x3C) ''&lt;''
           (replace_char (CHR 0x26) ''&amp;'' input)))"

section \<open>Access to the collections\<close>

definition on_applications :: "(oauth_application list \<Rightarrow> 'a option \<times> oauth_application list) \<Rightarrow> 'a oauth" where
  "on_applications f s =
     (case f (oauth_applications s) of (r, ds) \<Rightarrow> (storage r, s\<lparr>oauth_applications := ds\<rparr>))"

definition on_consent_requests :: "(consent_request list \<Rightarrow> 'a option \<times> consent_request list) \<Rightarrow> 'a oauth" where
  "on_consent_requests f s =
     (case f (oauth_consent_requests s) of (r, ds) \<Rightarrow> (storage r, s\<lparr>oauth_consent_requests := ds\<rparr>))"

definition on_authorization_codes ::
    "(authorization_code list \<Rightarrow> 'a option \<times> authorization_code list) \<Rightarrow> 'a oauth" where
  "on_authorization_codes f s =
     (case f (oauth_authorization_codes s) of (r, ds) \<Rightarrow> (storage r, s\<lparr>oauth_authorization_codes := ds\<rparr>))"

definition on_access_tokens :: "(access_token list \<Rightarrow> 'a option \<times> access_token list) \<Rightarrow> 'a oauth" where
  "on_access_tokens f s =
     (case f (oauth_access_tokens s) of (r, ds) \<Rightarrow> (storage r, s\<lparr>oauth_access_tokens := ds\<rparr>))"

definition on_refresh_tokens :: "(refresh_token list \<Rightarrow> 'a option \<times> refresh_token list) \<Rightarrow> 'a oauth" where
  "on_refresh_tokens f s =
     (case f (oauth_refresh_tokens s) of (r, ds) \<Rightarrow> (storage r, s\<lparr>oauth_refresh_tokens := ds\<rparr>))"

definition application :: "oauth_database \<Rightarrow> string \<Rightarrow> oauth_application option oauth" where
  "application db client_id =
     (case db of
        MongoDb mg \<Rightarrow> on_applications (\<lambda>ds. (co_find (mg_applications mg) (\<lambda>a. oa_id a = client_id) ds, ds))
      | Reference \<Rightarrow> ret None)"

section \<open>Consent\<close>

record authorize_query =
  aq_response_type :: string
  aq_client_id :: string
  aq_redirect_uri :: string
  aq_scope :: string
  aq_state :: string
  aq_code_challenge :: "string option"
  aq_code_challenge_method :: "string option"

record consent_form =
  cf_request_id :: string
  cf_csrf :: string
  cf_decision :: string

text \<open>The page shown to the user.\<close>

definition consent_page :: "string \<Rightarrow> string \<Rightarrow> string \<Rightarrow> string list \<Rightarrow> string \<Rightarrow> string \<Rightarrow> string" where
  "consent_page client_id name username scopes request_id csrf =
     ''<!doctype html><title>Authorize '' @ html_escape client_id @ ''</title><main><h1>'' @ html_escape name @
     '' requests access</h1><p>Signed in as <strong>'' @ html_escape username @
     ''</strong>. Review the requested access:</p><ul>'' @
     concat (map (\<lambda>s. ''<li>'' @ html_escape s @ ''</li>'') scopes) @
     ''</ul><form method=post action=/oauth/authorize><input type=hidden name=request_id value='' @
     [CHR 0x22] @ html_escape request_id @ [CHR 0x22] @ ''><input type=hidden name=csrf value='' @
     [CHR 0x22] @ html_escape csrf @ [CHR 0x22] @
     ''><button name=decision value=deny>Deny</button><button name=decision value=approve>Allow</button></form></main>''"

definition invalid_request :: "string \<Rightarrow> oauth_error" where
  "invalid_request description = OAuthError 400 ''invalid_request'' description"

definition authorize ::
    "oauth_env \<Rightarrow> oauth_database \<Rightarrow> world \<Rightarrow> string \<Rightarrow> authorize_query \<Rightarrow> string oauth" where
  "authorize env db w user_id query =
     bindM (guard (aq_response_type query \<noteq> ''code'' \<or> aq_state query = [])
             (invalid_request ''response_type=code and state are required'')) (\<lambda>_.
     bindM (application db (aq_client_id query)) (\<lambda>found.
     bindM (lift (ok_or (OAuthError 400 ''invalid_client'' ''Unknown client'') found)) (\<lambda>app.
     bindM (guard (oa_revoked app) (OAuthError 400 ''invalid_client'' ''Application revoked'')) (\<lambda>_.
     bindM (guard (aq_redirect_uri query \<notin> set (oa_redirect_uris app) \<or>
                   \<not> validate_redirect_uri env (aq_redirect_uri query))
             (invalid_request ''redirect_uri does not exactly match the application allowlist'')) (\<lambda>_.
     bindM (lift (ok_or (OAuthError 400 ''invalid_scope'' ''Requested scopes are not allowed'')
                    (validate_scopes (aq_scope query) (oa_allowed_scopes app)))) (\<lambda>scopes.
     bindM (guard (oa_public app \<and> (aq_code_challenge query = None \<or>
                                    aq_code_challenge_method query \<noteq> Some ''S256''))
             (invalid_request ''Public clients must use PKCE S256'')) (\<lambda>_.
     bindM (guard (case aq_code_challenge_method query of Some m \<Rightarrow> m \<noteq> ''S256'' | None \<Rightarrow> False)
             (invalid_request ''Only PKCE S256 is supported'')) (\<lambda>_.
     bindM (guard (case aq_code_challenge query of Some c \<Rightarrow> length c > 256 | None \<Rightarrow> False)
             (invalid_request ''PKCE challenge is too long'')) (\<lambda>_.
     let request_id = oe_random env 0 24; csrf = oe_random env 1 32 in
     bindM (case db of
              MongoDb mg \<Rightarrow>
                on_consent_requests (co_insert (mg_consent_requests mg)
                  \<lparr>cq_id = request_id, cq_csrf_hash = oe_digest env csrf, cq_client_id = aq_client_id query,
                   cq_user_id = user_id, cq_redirect_uri = aq_redirect_uri query, cq_state = aq_state query,
                   cq_scope = join '' '' scopes, cq_code_challenge = aq_code_challenge query,
                   cq_expires_at = expires_after env 0 300000, cq_used = False\<rparr>)
            | Reference \<Rightarrow> ret ()) (\<lambda>_.
     bindM (lift (case fst (fetch_user user_id w) of
                    Ok u \<Rightarrow> Ok u | Err _ \<Rightarrow> Err (OAuthError 500 ''server_error'' ''User unavailable'')
                  | Panic p \<Rightarrow> Panic p)) (\<lambda>user.
     ret (consent_page (aq_client_id query) (oa_name app) (u_username user) scopes request_id csrf))))))))))))"

definition authorize_consent ::
    "oauth_env \<Rightarrow> oauth_database \<Rightarrow> string \<Rightarrow> consent_form \<Rightarrow> string oauth" where
  "authorize_consent env db user_id form =
     bindM (case db of
              MongoDb mg \<Rightarrow>
                on_consent_requests (co_find_and_update (mg_consent_requests mg)
                  (\<lambda>r. cq_id r = cf_request_id form \<and> cq_user_id r = user_id \<and>
                        cq_csrf_hash r = oe_digest env (cf_csrf form) \<and> \<not> cq_used r \<and>
                        oe_now env 0 < cq_expires_at r)
                  (\<lambda>r. r\<lparr>cq_used := True\<rparr>))
            | Reference \<Rightarrow> ret None) (\<lambda>found.
     bindM (lift (ok_or (invalid_request ''Expired or invalid consent request'') found)) (\<lambda>request.
     if cf_decision form \<noteq> ''approve''
     then ret (redirect_error env (cq_redirect_uri request) (cq_state request) ''access_denied''
                 ''The user denied the request'')
     else
       let code = oe_random env 0 32 in
       bindM (case db of
                MongoDb mg \<Rightarrow>
                  on_authorization_codes (co_insert (mg_authorization_codes mg)
                    \<lparr>ac_code_hash = oe_digest env code, ac_client_id = cq_client_id request,
                     ac_user_id = user_id, ac_redirect_uri = cq_redirect_uri request,
                     ac_scope = cq_scope request, ac_code_challenge = cq_code_challenge request,
                     ac_expires_at = expires_after env 1 AUTHORIZATION_CODE_TTL, ac_used = False\<rparr>)
              | Reference \<Rightarrow> ret ()) (\<lambda>_.
       ret (cq_redirect_uri request @ ''?'' @
              oe_query env [(''code'', code), (''state'', cq_state request)]))))"

section \<open>Tokens\<close>

record token_request =
  tr_grant_type :: string
  tr_code :: "string option"
  tr_redirect_uri :: "string option"
  tr_client_id :: "string option"
  tr_client_secret :: "string option"
  tr_code_verifier :: "string option"
  tr_refresh_token :: "string option"

record token_response =
  to_access_token :: string
  to_token_type :: string
  to_expires_in :: nat
  to_refresh_token :: string
  to_scope :: string

definition issue_tokens ::
    "oauth_env \<Rightarrow> oauth_database \<Rightarrow> string \<Rightarrow> string \<Rightarrow> string \<Rightarrow> string option \<Rightarrow> token_response oauth" where
  "issue_tokens env db client_id user_id scope family_id =
     (let access = oe_random env 0 32; refresh = oe_random env 1 48;
          family = (case family_id of Some f \<Rightarrow> f | None \<Rightarrow> oe_random env 2 24)
      in
      bindM (case db of
               MongoDb mg \<Rightarrow>
                 bindM (on_access_tokens (co_insert (mg_access_tokens mg)
                   \<lparr>at_token_hash = oe_digest env access, at_client_id = client_id, at_user_id = user_id,
                    at_scope = scope, at_expires_at = expires_after env 1 ACCESS_TOKEN_TTL,
                    at_revoked = False\<rparr>)) (\<lambda>_.
                 on_refresh_tokens (co_insert (mg_refresh_tokens mg)
                   \<lparr>rt_token_hash = oe_digest env refresh, rt_family_id = family, rt_client_id = client_id,
                    rt_user_id = user_id, rt_scope = scope,
                    rt_expires_at = expires_after env 2 REFRESH_TOKEN_TTL, rt_revoked = False\<rparr>))
             | Reference \<Rightarrow> ret ()) (\<lambda>_.
      ret \<lparr>to_access_token = access, to_token_type = ''Bearer'', to_expires_in = ACCESS_TOKEN_TTL div 1000,
           to_refresh_token = refresh, to_scope = scope\<rparr>))"

text \<open>A confidential client must know its secret.\<close>

definition check_secret :: "oauth_env \<Rightarrow> oauth_application \<Rightarrow> string option \<Rightarrow> (oauth_error, unit) outcome" where
  "check_secret env app client_secret =
     (if oa_public app then Ok ()
      else obind (ok_or (OAuthError 401 ''invalid_client'' ''client_secret is required'') client_secret) (\<lambda>secret.
           if \<not> constant_time_equal (oe_digest env secret) (unwrap_or (oa_secret_hash app) [])
           then Err (OAuthError 401 ''invalid_client'' ''Invalid client credentials'') else Ok ()))"

definition invalid_grant :: "string \<Rightarrow> oauth_error" where
  "invalid_grant description = OAuthError 400 ''invalid_grant'' description"

definition check_pkce :: "oauth_env \<Rightarrow> string option \<Rightarrow> string option \<Rightarrow> (oauth_error, unit) outcome" where
  "check_pkce env challenge code_verifier =
     (case challenge of
        None \<Rightarrow> Ok ()
      | Some challenge \<Rightarrow>
          obind (ok_or (invalid_grant ''code_verifier is required'') code_verifier) (\<lambda>verifier.
          if \<not> pkce_matches env verifier challenge
          then Err (invalid_grant ''PKCE verification failed'') else Ok ()))"

definition exchange_code :: "oauth_env \<Rightarrow> oauth_database \<Rightarrow> token_request \<Rightarrow> token_response oauth" where
  "exchange_code env db req =
     bindM (lift (ok_or (invalid_request ''code is required'') (tr_code req))) (\<lambda>code.
     bindM (lift (ok_or (invalid_request ''client_id is required'') (tr_client_id req))) (\<lambda>client_id.
     bindM (application db client_id) (\<lambda>found.
     bindM (lift (ok_or (OAuthError 401 ''invalid_client'' ''Invalid client'') found)) (\<lambda>app.
     bindM (guard (oa_revoked app) (OAuthError 401 ''invalid_client'' ''Application revoked'')) (\<lambda>_.
     bindM (lift (check_secret env app (tr_client_secret req))) (\<lambda>_.
     bindM (case db of
              MongoDb mg \<Rightarrow>
                on_authorization_codes (co_find_and_update (mg_authorization_codes mg)
                  (\<lambda>c. ac_code_hash c = oe_digest env code \<and> ac_client_id c = client_id \<and> \<not> ac_used c \<and>
                        oe_now env 0 < ac_expires_at c)
                  (\<lambda>c. c\<lparr>ac_used := True\<rparr>))
            | Reference \<Rightarrow> ret None) (\<lambda>found.
     bindM (lift (ok_or (invalid_grant ''Invalid, expired, or reused authorization code'') found)) (\<lambda>code_doc.
     bindM (guard (tr_redirect_uri req \<noteq> Some (ac_redirect_uri code_doc))
             (invalid_grant ''redirect_uri mismatch'')) (\<lambda>_.
     bindM (lift (check_pkce env (ac_code_challenge code_doc) (tr_code_verifier req))) (\<lambda>_.
     issue_tokens env db client_id (ac_user_id code_doc) (ac_scope code_doc) None))))))))))"

definition refresh :: "oauth_env \<Rightarrow> oauth_database \<Rightarrow> token_request \<Rightarrow> token_response oauth" where
  "refresh env db req =
     bindM (lift (ok_or (invalid_request ''refresh_token is required'') (tr_refresh_token req))) (\<lambda>token.
     bindM (lift (ok_or (invalid_request ''client_id is required'') (tr_client_id req))) (\<lambda>client_id.
     bindM (application db client_id) (\<lambda>found.
     bindM (lift (ok_or (OAuthError 401 ''invalid_client'' ''Invalid client'') found)) (\<lambda>app.
     bindM (lift (check_secret env app (tr_client_secret req))) (\<lambda>_.
     bindM (case db of
              MongoDb mg \<Rightarrow>
                on_refresh_tokens (co_find_and_update (mg_refresh_tokens mg)
                  (\<lambda>t. rt_token_hash t = oe_digest env token \<and> rt_client_id t = client_id \<and> \<not> rt_revoked t \<and>
                        oe_now env 0 < rt_expires_at t)
                  (\<lambda>t. t\<lparr>rt_revoked := True\<rparr>))
            | Reference \<Rightarrow> ret None) (\<lambda>old.
     case old of
       Some old \<Rightarrow>
         issue_tokens env db client_id (rt_user_id old) (rt_scope old) (Some (rt_family_id old))
     | None \<Rightarrow>
         bindM (case db of
                  MongoDb mg \<Rightarrow>
                    bindM (on_refresh_tokens (\<lambda>ds.
                      (co_find (mg_refresh_tokens mg)
                         (\<lambda>t. rt_token_hash t = oe_digest env token \<and> rt_client_id t = client_id) ds, ds))) (\<lambda>reused.
                    case reused of
                      Some reused \<Rightarrow>
                        bindM (attempt (on_refresh_tokens (co_update_many (mg_refresh_tokens mg)
                          (\<lambda>t. rt_family_id t = rt_family_id reused) (\<lambda>t. t\<lparr>rt_revoked := True\<rparr>)))) (\<lambda>_. ret ())
                    | None \<Rightarrow> ret ())
                | Reference \<Rightarrow> ret ()) (\<lambda>_.
         throw (invalid_grant ''Refresh token is invalid, expired, revoked, or already used''))))))))"

definition token :: "oauth_env \<Rightarrow> oauth_database \<Rightarrow> token_request \<Rightarrow> token_response oauth" where
  "token env db req =
     (if tr_grant_type req = ''authorization_code'' then exchange_code env db req
      else if tr_grant_type req = ''refresh_token'' then refresh env db req
      else throw (OAuthError 400 ''unsupported_grant_type''
             ''Only authorization_code and refresh_token are supported''))"

record revoke_request =
  rr_token :: string
  rr_client_id :: "string option"
  rr_client_secret :: "string option"

definition revoke :: "oauth_env \<Rightarrow> oauth_database \<Rightarrow> revoke_request \<Rightarrow> nat oauth" where
  "revoke env db req =
     bindM (case rr_client_id req of
              Some client_id \<Rightarrow>
                bindM (application db client_id) (\<lambda>found.
                bindM (lift (ok_or (OAuthError 401 ''invalid_client'' ''Invalid client'') found)) (\<lambda>app.
                lift (check_secret env app (rr_client_secret req))))
            | None \<Rightarrow> ret ()) (\<lambda>_.
     bindM (case db of
              MongoDb mg \<Rightarrow>
                bindM (on_access_tokens (co_update_one (mg_access_tokens mg)
                  (\<lambda>t. at_token_hash t = oe_digest env (rr_token req)) (\<lambda>t. t\<lparr>at_revoked := True\<rparr>))) (\<lambda>_.
                bindM (on_refresh_tokens (co_update_one (mg_refresh_tokens mg)
                  (\<lambda>t. rt_token_hash t = oe_digest env (rr_token req)) (\<lambda>t. t\<lparr>rt_revoked := True\<rparr>))) (\<lambda>_. ret ()))
            | Reference \<Rightarrow> ret ()) (\<lambda>_.
     ret 204))"

section \<open>Bearer tokens\<close>

definition bearer_user :: "oauth_env \<Rightarrow> oauth_database \<Rightarrow> world \<Rightarrow> string \<Rightarrow> (access_token \<times> user) option oauth" where
  "bearer_user env db w bearer =
     bindM (case db of
              MongoDb mg \<Rightarrow>
                on_access_tokens (\<lambda>ds.
                  (co_find (mg_access_tokens mg)
                     (\<lambda>t. at_token_hash t = oe_digest env bearer \<and> \<not> at_revoked t \<and> oe_now env 0 < at_expires_at t) ds,
                   ds))
            | Reference \<Rightarrow> ret None) (\<lambda>doc.
     case doc of
       Some doc \<Rightarrow>
         bindM (lift (case fst (fetch_user (at_user_id doc) w) of
                        Ok u \<Rightarrow> Ok u | Err _ \<Rightarrow> Err storage_unavailable | Panic p \<Rightarrow> Panic p)) (\<lambda>u.
         ret (Some (doc, u)))
     | None \<Rightarrow> ret None)"

record member_info =
  mi_roles :: "string list"
  mi_joined_at :: string

record channel_permission_info =
  ci_id :: string
  ci_permissions :: u64

record server_info =
  si_id :: string
  si_name :: string
  si_owner :: "string option"
  si_member :: "member_info option"
  si_permissions :: "u64 option"
  si_channels :: "channel_permission_info list option"

record user_info =
  ui_sub :: string
  ui_username :: "string option"
  ui_display_name :: "string option"
  ui_avatar :: "string option"
  ui_servers :: "server_info list option"

text \<open>
  The permissions of the user in every channel of the server; \<open>None\<close> is a panic of a calculator,
  which the permission queries exclude.
\<close>

definition channel_infos :: "permission_db \<Rightarrow> timestamp \<Rightarrow> user \<Rightarrow> server \<Rightarrow> channel list \<Rightarrow> channel_permission_info list option" where
  "channel_infos pdb now user server channels =
     those (map (\<lambda>c.
       map_option (\<lambda>(p, _). \<lparr>ci_id = channel_id c, ci_permissions = p\<rparr>)
         (calculate_channel_permissions (DatabasePermissionQuery pdb now)
            (query_channel c (query_server server (query_new user))))) channels)"

definition server_info_of ::
    "oauth_env \<Rightarrow> permission_db \<Rightarrow> timestamp \<Rightarrow> world \<Rightarrow> string list \<Rightarrow> user \<Rightarrow> member \<Rightarrow> server \<Rightarrow> server_info option" where
  "server_info_of env pdb now w scopes user member server =
     (let item = \<lparr>si_id = s_id server, si_name = s_name server,
                  si_owner = (if ''servers'' \<in> set scopes then Some (s_owner server) else None),
                  si_member = (if ''server_members'' \<in> set scopes
                               then Some \<lparr>mi_roles = m_roles member, mi_joined_at = oe_timestamp env (m_joined_at member)\<rparr>
                               else None),
                  si_permissions = None, si_channels = None\<rparr>
      in if ''permissions'' \<in> set scopes
         then (case calculate_server_permissions (DatabasePermissionQuery pdb now)
                     (query_server server (query_new user)) of
                 Some (p, _) \<Rightarrow>
                   map_option (\<lambda>channels. item\<lparr>si_permissions := Some p, si_channels := Some channels\<rparr>)
                     (channel_infos pdb now user server
                        (case fst (fetch_channels (s_channels server) w) of Ok cs \<Rightarrow> cs | _ \<Rightarrow> []))
               | None \<Rightarrow> None)
         else Some item)"

definition identity_info :: "string list \<Rightarrow> user \<Rightarrow> user_info" where
  "identity_info scopes user =
     \<lparr>ui_sub = u_id user,
      ui_username = (if ''identify'' \<in> set scopes then Some (u_username user) else None),
      ui_display_name = (if ''identify'' \<in> set scopes then u_display_name user else None),
      ui_avatar = (if ''identify'' \<in> set scopes then map_option f_id (u_avatar user) else None),
      ui_servers = None\<rparr>"

text \<open>A membership whose server is not found is skipped.\<close>

definition server_infos ::
    "oauth_env \<Rightarrow> permission_db \<Rightarrow> timestamp \<Rightarrow> world \<Rightarrow> string list \<Rightarrow> user \<Rightarrow> member list \<Rightarrow> server_info list option" where
  "server_infos env pdb now w scopes user memberships =
     those (List.map_filter (\<lambda>member.
       case fst (fetch_server (mk_server (m_id member)) w) of
         Ok server \<Rightarrow> Some (server_info_of env pdb now w scopes user member server)
       | _ \<Rightarrow> None) memberships)"

definition userinfo ::
    "oauth_env \<Rightarrow> oauth_database \<Rightarrow> permission_db \<Rightarrow> timestamp \<Rightarrow> world \<Rightarrow> string \<Rightarrow> user_info oauth" where
  "userinfo env db pdb now w bearer =
     bindM (bearer_user env db w bearer) (\<lambda>found.
     bindM (lift (ok_or (OAuthError 401 ''invalid_token'' ''Invalid or expired access token'') found)) (\<lambda>(token_doc, user).
     let scopes = split_whitespace (at_scope token_doc) in
     if ''servers'' \<in> set scopes \<or> ''server_members'' \<in> set scopes \<or> ''permissions'' \<in> set scopes
     then bindM (lift (case fst (fetch_all_memberships (u_id user) w) of
                         Ok ms \<Rightarrow> Ok ms | Err _ \<Rightarrow> Err (OAuthError 500 ''server_error'' ''Membership lookup failed'')
                       | Panic p \<Rightarrow> Panic p)) (\<lambda>memberships.
          case server_infos env pdb now w scopes user memberships of
            Some servers \<Rightarrow> ret ((identity_info scopes user)\<lparr>ui_servers := Some servers\<rparr>)
          | None \<Rightarrow> panic ''permission query'')
     else ret (identity_info scopes user)))"

section \<open>Applications\<close>

record application_create_request =
  ar_name :: string
  ar_redirect_uris :: "string list"
  ar_allowed_scopes :: "string list"
  ar_public :: bool

record application_response =
  ap_client_id :: string
  ap_name :: string
  ap_owner_id :: string
  ap_redirect_uris :: "string list"
  ap_allowed_scopes :: "string list"
  ap_public :: bool
  ap_revoked :: bool
  ap_created_at :: string
  ap_client_secret :: "string option"

definition app_response :: "oauth_env \<Rightarrow> oauth_application \<Rightarrow> string option \<Rightarrow> application_response" where
  "app_response env a secret =
     \<lparr>ap_client_id = oa_id a, ap_name = oa_name a, ap_owner_id = oa_owner_id a,
      ap_redirect_uris = oa_redirect_uris a, ap_allowed_scopes = oa_allowed_scopes a,
      ap_public = oa_public a, ap_revoked = oa_revoked a, ap_created_at = oe_rfc3339 env (oa_created_at a),
      ap_client_secret = secret\<rparr>"

definition applications_me :: "oauth_env \<Rightarrow> oauth_database \<Rightarrow> string \<Rightarrow> application_response list oauth" where
  "applications_me env db user_id =
     (case db of
        MongoDb mg \<Rightarrow>
          bindM (on_applications (\<lambda>ds. (co_find_all (mg_applications mg) (\<lambda>a. oa_owner_id a = user_id) ds, ds))) (\<lambda>apps.
          ret (map (\<lambda>a. app_response env a None) apps))
      | Reference \<Rightarrow> ret [])"

definition application_create ::
    "oauth_env \<Rightarrow> oauth_database \<Rightarrow> string \<Rightarrow> application_create_request \<Rightarrow> application_response oauth" where
  "application_create env db user_id request =
     bindM (guard (trim (ar_name request) = [] \<or> length (ar_name request) > 100 \<or> ar_redirect_uris request = [] \<or>
                   list_ex (\<lambda>uri. \<not> validate_redirect_uri env uri) (ar_redirect_uris request))
             (invalid_request ''Name and secure exact redirect URIs are required'')) (\<lambda>_.
     bindM (guard (length (ar_redirect_uris request) > 20 \<or> list_ex (\<lambda>uri. length uri > 2048) (ar_redirect_uris request))
             (invalid_request ''Too many or oversized redirect URIs'')) (\<lambda>_.
     let allowed = filter (\<lambda>scope. scope \<in> set SCOPES) (ar_allowed_scopes request) in
     bindM (guard (length allowed \<noteq> length (ar_allowed_scopes request) \<or> allowed = [])
             (OAuthError 400 ''invalid_scope'' ''All scopes must be supported'')) (\<lambda>_.
     let client_id = oe_random env 0 18;
         secret = (if ar_public request then None else Some (oe_random env 1 32));
         doc = \<lparr>oa_id = client_id, oa_name = trim (ar_name request), oa_owner_id = user_id,
                oa_redirect_uris = ar_redirect_uris request, oa_allowed_scopes = allowed,
                oa_public = ar_public request, oa_secret_hash = map_option (oe_digest env) secret,
                oa_revoked = False, oa_created_at = oe_now env 0\<rparr>
     in
     bindM (case db of
              MongoDb mg \<Rightarrow> on_applications (co_insert (mg_applications mg) doc)
            | Reference \<Rightarrow> throw (OAuthError 501 ''temporarily_unavailable'' ''OAuth requires MongoDB'')) (\<lambda>_.
     ret (app_response env doc secret)))))"

definition application_rotate_secret ::
    "oauth_env \<Rightarrow> oauth_database \<Rightarrow> string \<Rightarrow> string \<Rightarrow> application_response oauth" where
  "application_rotate_secret env db user_id client_id =
     (let secret = oe_random env 0 32 in
      bindM (case db of
               MongoDb mg \<Rightarrow>
                 on_applications (co_find_and_update (mg_applications mg)
                   (\<lambda>a. oa_id a = client_id \<and> oa_owner_id a = user_id \<and> \<not> oa_public a \<and> \<not> oa_revoked a)
                   (\<lambda>a. a\<lparr>oa_secret_hash := Some (oe_digest env secret)\<rparr>))
             | Reference \<Rightarrow> ret None) (\<lambda>doc.
      bindM (lift (ok_or (OAuthError 404 ''invalid_client'' ''Application not found'') doc)) (\<lambda>doc.
      ret (app_response env doc (Some secret)))))"

definition application_revoke :: "oauth_database \<Rightarrow> string \<Rightarrow> string \<Rightarrow> nat oauth" where
  "application_revoke db user_id client_id =
     bindM (case db of
              MongoDb mg \<Rightarrow>
                bindM (on_applications (co_update_one (mg_applications mg)
                  (\<lambda>a. oa_id a = client_id \<and> oa_owner_id a = user_id) (\<lambda>a. a\<lparr>oa_revoked := True\<rparr>))) (\<lambda>matched.
                bindM (guard (matched = 0) (OAuthError 404 ''invalid_client'' ''Application not found'')) (\<lambda>_.
                bindM (attempt (on_access_tokens (co_update_many (mg_access_tokens mg)
                  (\<lambda>t. at_client_id t = client_id) (\<lambda>t. t\<lparr>at_revoked := True\<rparr>)))) (\<lambda>_.
                bindM (attempt (on_refresh_tokens (co_update_many (mg_refresh_tokens mg)
                  (\<lambda>t. rt_client_id t = client_id) (\<lambda>t. t\<lparr>rt_revoked := True\<rparr>)))) (\<lambda>_. ret ()))))
            | Reference \<Rightarrow> ret ()) (\<lambda>_.
     ret 204)"

end
