(* ===== verification/Oauth_Text.thy ===== *)
theory Oauth_Text
  imports Oauth
begin

unbundle bit_operations_syntax

text \<open>
  The text helpers of the OAuth routes: the comparison of secrets is equality, scopes survive
  being stored, and nothing shown on the consent page can add markup to it.
\<close>

section \<open>Comparing secrets\<close>

lemma or_zero_iff: "a OR b = 0 \<longleftrightarrow> a = 0 \<and> b = (0 :: u64)"
  by (auto simp: bit_eq_iff bit_or_iff)

lemma xor_zero_iff: "a XOR b = 0 \<longleftrightarrow> a = (b :: u64)"
  by (auto simp: bit_eq_iff bit_xor_iff)

lemma fold_or_zero:
  "fold (\<lambda>(a, b) r. r OR (f a XOR f b)) ps r = (0 :: u64) \<longleftrightarrow> r = 0 \<and> (\<forall>(a, b)\<in>set ps. f a = f b)"
  by (induction ps arbitrary: r) (auto simp: or_zero_iff xor_zero_iff)

lemma unat_small: "n < 2 ^ 64 \<Longrightarrow> unat (word_of_nat n :: u64) = n"
  by (simp add: unat_of_nat)

lemma of_char_u64: "(of_char a :: u64) = of_char b \<longleftrightarrow> a = b"
proof
  have small: "unat (of_char c :: u64) = of_char c" for c
  proof -
    have "(of_char c :: nat) mod 256 = of_char c"
      by (rule of_char_mod_256)
    then have "(of_char c :: nat) < 256"
      by (metis mod_less_divisor zero_less_numeral)
    then have "(of_char c :: nat) < 2 ^ 64"
      by (rule less_trans) simp
    then show ?thesis
      unfolding of_nat_of_char [symmetric, where 'a = u64] by (rule unat_small)
  qed
  assume "(of_char a :: u64) = of_char b"
  then have "unat (of_char a :: u64) = unat (of_char b :: u64)"
    by (rule arg_cong)
  then show "a = b"
    unfolding small by (rule of_char_eqI)
qed simp

text \<open>
  The comparison without early exit is equality, for strings of fewer than \<open>2 ^ 64\<close> bytes.
\<close>

theorem constant_time_equal_is_equality:
  assumes "length left < 2 ^ 64" and "length right < 2 ^ 64"
  shows "constant_time_equal left right \<longleftrightarrow> left = right"
proof -
  have "constant_time_equal left right \<longleftrightarrow>
      (word_of_nat (length left) :: u64) = word_of_nat (length right) \<and> (\<forall>(a, b)\<in>set (zip left right). a = b)"
    by (simp add: constant_time_equal_def fold_or_zero xor_zero_iff of_char_u64)
  also have "(word_of_nat (length left) :: u64) = word_of_nat (length right) \<longleftrightarrow> length left = length right"
    using unat_small [OF assms(1)] unat_small [OF assms(2)] by metis
  also have "length left = length right \<and> (\<forall>(a, b)\<in>set (zip left right). a = b) \<longleftrightarrow> left = right"
    by (auto simp: list_eq_iff_zip_eq)
  finally show ?thesis .
qed

theorem constant_time_equal_is_equality_witness:
  "constant_time_equal ''secret'' ''secret'' \<and> \<not> constant_time_equal ''secret'' ''secres''"
  using constant_time_equal_is_equality [of "''secret''" "''secret''"]
    constant_time_equal_is_equality [of "''secret''" "''secres''"] by simp

section \<open>Scopes\<close>

lemma split_words_word:
  "list_all (\<lambda>c. \<not> is_whitespace c) v \<Longrightarrow> split_words u (v @ s) = split_words (u @ v) s"
  by (induction v arbitrary: u) auto

lemma split_join:
  assumes "\<forall>v\<in>set vs. v \<noteq> [] \<and> list_all (\<lambda>c. \<not> is_whitespace c) v"
  shows "split_whitespace (join '' '' vs) = vs"
  using assms unfolding split_whitespace_def
proof (induction vs rule: induct_list012)
  case (2 v)
  then show ?case
    using split_words_word [of v "[]" "[]"] by simp
next
  case (3 v u vs)
  then show ?case
    using split_words_word [of v "[]" "'' '' @ join '' '' (u # vs)"]
    by (simp add: is_whitespace_def)
qed simp

lemma split_words_sound:
  assumes "v \<in> set (split_words u s)" and "list_all (\<lambda>c. \<not> is_whitespace c) u"
  shows "v \<noteq> [] \<and> list_all (\<lambda>c. \<not> is_whitespace c) v"
  using assms by (induction u s rule: split_words.induct) (auto split: if_splits)

lemma validated_scopes:
  assumes "validate_scopes requested allowed = Some scopes"
  shows "split_whitespace (join '' '' scopes) = scopes" and "scopes \<noteq> []" and "set scopes \<subseteq> set SCOPES \<inter> set allowed"
proof -
  have scopes: "scopes = split_whitespace requested" "scopes \<noteq> []" "set scopes \<subseteq> set SCOPES \<inter> set allowed"
    using assms by (auto simp: validate_scopes_def Let_def list_ex_iff split: if_splits)
  then show "split_whitespace (join '' '' scopes) = scopes"
    using split_join [of scopes] split_words_sound [of _ "[]" requested] by (auto simp: split_whitespace_def)
  from scopes show "scopes \<noteq> []" and "set scopes \<subseteq> set SCOPES \<inter> set allowed"
    by simp_all
qed

text \<open>
  C33: The scopes that a request was granted are read back unchanged from the text they are
  stored as, and each is a scope of the server and allowed to the application.
\<close>

theorem scopes_round_trip:
  assumes "validate_scopes requested allowed = Some scopes"
  shows "split_whitespace (join '' '' scopes) = scopes \<and> scopes \<noteq> [] \<and> set scopes \<subseteq> set SCOPES \<inter> set allowed"
  using validated_scopes [OF assms] by simp

theorem scopes_round_trip_witness:
  "split_whitespace (join '' '' [''identify'', ''servers'']) = [''identify'', ''servers'']"
proof -
  have "validate_scopes ''identify  servers '' [''servers'', ''identify''] = Some [''identify'', ''servers'']"
    by code_simp
  from scopes_round_trip [OF this] show ?thesis by simp
qed

section \<open>The consent page\<close>

definition escaped_char :: "char \<Rightarrow> string" where
  "escaped_char c =
     (if c = CHR 0x26 then ''&amp;'' else if c = CHR 0x3C then ''&lt;'' else if c = CHR 0x3E then ''&gt;''
      else if c = CHR 0x22 then ''&quot;'' else [c])"

lemma replace_char_concat: "replace_char c u (concat (map f s)) = concat (map (\<lambda>x. replace_char c u (f x)) s)"
  by (induction s) (simp_all add: replace_char_def)

lemma html_escape_chars: "html_escape s = concat (map escaped_char s)"
proof -
  have "html_escape s = concat (map (\<lambda>x. html_escape [x]) s)"
    unfolding html_escape_def
    by (subst (4) replace_char_def) (simp add: replace_char_concat, simp add: replace_char_def)
  moreover have "html_escape [x] = escaped_char x" for x
    by (simp add: html_escape_def escaped_char_def replace_char_def)
  ultimately show ?thesis by simp
qed

text \<open>What a browser reads: the four entities stand for their characters.\<close>

function unescape :: "string \<Rightarrow> string" where
  "unescape [] = []"
| "unescape (c # s) =
     (if c = CHR 0x26 \<and> take 4 s = ''amp;'' then CHR 0x26 # unescape (drop 4 s)
      else if c = CHR 0x26 \<and> take 3 s = ''lt;'' then CHR 0x3C # unescape (drop 3 s)
      else if c = CHR 0x26 \<and> take 3 s = ''gt;'' then CHR 0x3E # unescape (drop 3 s)
      else if c = CHR 0x26 \<and> take 5 s = ''quot;'' then CHR 0x22 # unescape (drop 5 s)
      else c # unescape s)"
  by pat_completeness auto

termination
  by (relation "measure length") auto

definition markup :: "string \<Rightarrow> string" where
  "markup s = filter (\<lambda>c. c \<in> {CHR 0x3C, CHR 0x3E, CHR 0x22}) s"

lemma unescape_escaped: "unescape (escaped_char c @ s) = c # unescape s"
  by (auto simp: escaped_char_def)

lemma markup_escape [simp]: "markup (html_escape s) = []"
  unfolding html_escape_chars markup_def by (induction s) (simp_all add: escaped_char_def)

lemma markup_append [simp]: "markup (s @ t) = markup s @ markup t"
  by (simp add: markup_def)

text \<open>
  C32: What is escaped is shown as it was, and nothing the client, the user or the request put on the
  consent page adds a tag or closes an attribute: the page has the markup of the page for empty names.
\<close>

theorem consent_page_markup:
  "unescape (html_escape s) = s \<and>
   markup (consent_page client_id name username scopes request_id csrf) =
     markup (consent_page [] [] [] (map (\<lambda>_. []) scopes) [] [])"
proof
  show "unescape (html_escape s) = s"
    unfolding html_escape_chars by (induction s) (simp_all add: unescape_escaped)
  have "markup (concat (map (\<lambda>s. ''<li>'' @ html_escape s @ ''</li>'') scopes)) =
      concat (map (\<lambda>_. markup ''<li>'' @ markup ''</li>'') scopes)" for scopes
  proof (induction scopes)
    case (Cons a scopes)
    then show ?case
      by (simp only: list.map concat.simps markup_append markup_escape append_Nil append_assoc)
  qed (simp add: markup_def)
  note items = this [of scopes] this [of "map (\<lambda>_. []) scopes", unfolded map_map o_def]
  show "markup (consent_page client_id name username scopes request_id csrf) =
      markup (consent_page [] [] [] (map (\<lambda>_. []) scopes) [] [])"
    unfolding consent_page_def map_map o_def by (simp only: markup_append markup_escape items)
qed

end
