(* ===== verification/Oauth_Provenance.thy ===== *)
theory Oauth_Provenance
  imports Oauth_Text Hoare Samples
begin

text \<open>
  What the OAuth endpoints guarantee together, for every driver with the documented behaviour
  and whatever fails: tokens come from codes, codes from consent, and consent from an
  application that may ask for it.
\<close>

section \<open>The driver\<close>

definition mongo_ok :: "mongo \<Rightarrow> bool" where
  "mongo_ok mg \<longleftrightarrow>
     coll_ok (mg_applications mg) \<and> coll_ok (mg_consent_requests mg) \<and> coll_ok (mg_authorization_codes mg) \<and>
     coll_ok (mg_access_tokens mg) \<and> coll_ok (mg_refresh_tokens mg)"

fun database_ok :: "oauth_database \<Rightarrow> bool" where
  "database_ok (MongoDb mg) = mongo_ok mg"
| "database_ok Reference = True"

lemma coll_parts:
  assumes "coll_ok c"
  shows "find_ok c" and "find_and_update_ok c" and "insert_ok c" and "update_one_ok c" and "update_many_ok c"
  using assms by (simp_all only: coll_ok_def)

lemmas find_laws = coll_parts(1) [unfolded find_ok_def]
lemmas find_and_update_laws = coll_parts(2) [unfolded find_and_update_ok_def]
lemmas insert_laws = coll_parts(3) [unfolded insert_ok_def]
lemmas update_one_laws = coll_parts(4) [unfolded update_one_ok_def]
lemmas update_many_laws = coll_parts(5) [unfolded update_many_ok_def]

lemmas coll_find = find_laws [THEN conjunct1, rule_format] find_laws [THEN conjunct2, THEN conjunct1, rule_format]
lemmas coll_find_and_update =
  find_and_update_laws [THEN conjunct1, rule_format]
  find_and_update_laws [THEN conjunct2, THEN conjunct1, rule_format]
  find_and_update_laws [THEN conjunct2, THEN conjunct2, rule_format]
lemmas coll_insert = insert_laws [THEN conjunct1, rule_format] insert_laws [THEN conjunct2, rule_format]
lemmas coll_update_one = update_one_laws [THEN conjunct1, rule_format] update_one_laws [THEN conjunct2, rule_format]
lemmas coll_update_many = update_many_laws [THEN conjunct1, rule_format] update_many_laws [THEN conjunct2, rule_format]

text \<open>Whatever an update does, every document is one of before or the update of one.\<close>

definition updated_docs :: "('d \<Rightarrow> bool) \<Rightarrow> ('d \<Rightarrow> 'd) \<Rightarrow> 'd list \<Rightarrow> 'd list \<Rightarrow> bool" where
  "updated_docs p f = list_all2 (\<lambda>d d'. d' = d \<or> p d \<and> d' = f d)"

lemma updated_refl: "updated_docs p f ds ds"
  by (simp add: updated_docs_def list_all2_refl)

lemma updates_one_updated: "updates_one p f ds d ds' \<Longrightarrow> updated_docs p f ds ds'"
  by (auto simp: updates_one_def updated_docs_def list_all2_append list_all2_refl)

lemma updated_find_and_update:
  assumes "coll_ok c"
  shows "updated_docs p f ds (snd (co_find_and_update c p f ds))"
proof -
  obtain r ds' where run: "co_find_and_update c p f ds = (r, ds')"
    by (cases "co_find_and_update c p f ds")
  have "ds' = ds \<or> (\<exists>d. updates_one p f ds d ds')"
  proof (cases r)
    case None
    with run coll_find_and_update(3) [OF assms] show ?thesis by simp
  next
    case (Some x)
    with run coll_find_and_update(1,2) [OF assms, of p f ds] show ?thesis by (cases x) auto
  qed
  with run updated_refl updates_one_updated show ?thesis by fastforce
qed

lemma updated_one:
  assumes "coll_ok c"
  shows "updated_docs p f ds (snd (co_update_one c p f ds))"
proof -
  obtain r ds' where run: "co_update_one c p f ds = (r, ds')"
    by (cases "co_update_one c p f ds")
  have "ds' = ds \<or> (\<exists>d. updates_one p f ds d ds')"
    using run coll_update_one [OF assms, of p f ds] by (cases r) (auto split: if_splits)
  with run updated_refl updates_one_updated show ?thesis by fastforce
qed

lemma updated_many:
  assumes "coll_ok c"
  shows "updated_docs p f ds (snd (co_update_many c p f ds))"
proof -
  obtain r ds' where run: "co_update_many c p f ds = (r, ds')"
    by (cases "co_update_many c p f ds")
  with coll_update_many [OF assms, of p f ds] show ?thesis
    by (cases r) (auto simp: updated_docs_def list_all2_conv_all_nth)
qed

lemma updated_image: "updated_docs p f ds ds' \<Longrightarrow> (\<And>d. g (f d) = g d) \<Longrightarrow> g ` set ds' = g ` set ds"
  unfolding updated_docs_def by (induction rule: list_all2_induct) auto

lemma updated_filter:
  assumes "updated_docs p f ds ds'" and "\<And>d. g (f d) = g d" and "\<And>d. P d \<Longrightarrow> P (f d)"
  shows "g ` {d \<in> set ds. P d} \<subseteq> g ` {d \<in> set ds'. P d}"
  using assms(1) unfolding updated_docs_def
proof (induction rule: list_all2_induct)
  case (Cons d ds d' ds')
  have "g d = g d' \<and> (P d \<longrightarrow> P d')"
    using Cons.hyps(1) assms(2,3) by auto
  with Cons.IH show ?case by auto
qed simp

section \<open>A driver that keeps its collections in memory\<close>

fun update_first :: "('d \<Rightarrow> bool) \<Rightarrow> ('d \<Rightarrow> 'd) \<Rightarrow> 'd list \<Rightarrow> 'd list" where
  "update_first p f [] = []"
| "update_first p f (d # ds) = (if p d then f d # ds else d # update_first p f ds)"

definition memory_coll :: "'d coll" where
  "memory_coll =
     \<lparr>co_find = \<lambda>p ds. Some (find p ds), co_find_all = \<lambda>p ds. Some (filter p ds),
      co_find_and_update = \<lambda>p f ds. (Some (map_option f (find p ds)), update_first p f ds),
      co_insert = \<lambda>d ds. (Some (), ds @ [d]),
      co_update_one = \<lambda>p f ds. (Some (if list_ex p ds then 1 else 0), update_first p f ds),
      co_update_many = \<lambda>p f ds. (Some (length (filter p ds)), map (\<lambda>d. if p d then f d else d) ds)\<rparr>"

lemma update_first_none: "\<forall>d\<in>set ds. \<not> p d \<Longrightarrow> update_first p f ds = ds"
  by (induction ds) auto

lemma update_first_found: "find p ds = Some d \<Longrightarrow> updates_one p f ds d (update_first p f ds)"
proof (induction ds)
  case (Cons x ds)
  show ?case
  proof (cases "p x")
    case True
    with Cons.prems show ?thesis by (auto simp: updates_one_def intro: exI [of _ "[]"])
  next
    case False
    with Cons obtain us vs where "ds = us @ d # vs" "p d" "update_first p f ds = us @ f d # vs"
      by (auto simp: updates_one_def)
    with False show ?thesis
      unfolding updates_one_def by (intro exI [of _ "x # us"] exI [of _ vs]) simp
  qed
qed simp

lemma update_first_ex: "\<exists>d\<in>set ds. p d \<Longrightarrow> \<exists>d. updates_one p f ds d (update_first p f ds)"
  using update_first_found [of p ds] find_None_iff [of p ds] by (cases "find p ds") auto

lemma memory_coll_ok: "coll_ok memory_coll"
proof -
  have "find_ok memory_coll" "insert_ok memory_coll"
    by (auto simp: find_ok_def insert_ok_def memory_coll_def find_Some_iff find_None_iff)
  moreover have "find_and_update_ok memory_coll"
    by (auto simp: find_and_update_ok_def memory_coll_def find_None_iff update_first_none dest: update_first_found)
  moreover have "update_one_ok memory_coll" "update_many_ok memory_coll"
    by (auto simp: update_one_ok_def update_many_ok_def memory_coll_def list_ex_iff update_first_none update_first_ex)
  ultimately show ?thesis
    by (simp add: coll_ok_def)
qed

definition memory_db :: oauth_database where
  "memory_db = MongoDb \<lparr>mg_applications = memory_coll, mg_consent_requests = memory_coll,
     mg_authorization_codes = memory_coll, mg_access_tokens = memory_coll, mg_refresh_tokens = memory_coll\<rparr>"

lemma memory_db_ok: "database_ok memory_db"
  by (simp add: memory_db_def mongo_ok_def memory_coll_ok)

section \<open>Provenance\<close>

text \<open>
  What the documents say was asked, consented to and granted: the client, the user, the redirect
  URI, the scope and the challenge.
\<close>

definition app_key :: "oauth_application \<Rightarrow> string \<times> string list \<times> string list" where
  "app_key a = (oa_id a, oa_redirect_uris a, oa_allowed_scopes a)"

definition asked :: "consent_request \<Rightarrow> string \<times> string \<times> string \<times> string \<times> string option" where
  "asked r = (cq_client_id r, cq_user_id r, cq_redirect_uri r, cq_scope r, cq_code_challenge r)"

definition coded :: "authorization_code \<Rightarrow> string \<times> string \<times> string \<times> string \<times> string option" where
  "coded c = (ac_client_id c, ac_user_id c, ac_redirect_uri c, ac_scope c, ac_code_challenge c)"

definition redeemed :: "authorization_code \<Rightarrow> string \<times> string \<times> string" where
  "redeemed c = (ac_client_id c, ac_user_id c, ac_scope c)"

definition accesses :: "access_token \<Rightarrow> string \<times> string \<times> string" where
  "accesses t = (at_client_id t, at_user_id t, at_scope t)"

definition refreshes :: "refresh_token \<Rightarrow> string \<times> string \<times> string" where
  "refreshes t = (rt_client_id t, rt_user_id t, rt_scope t)"

text \<open>The application may ask for the scopes and for being called back there.\<close>

fun may_ask :: "string \<times> string list \<times> string list \<Rightarrow> string \<times> string \<times> string \<times> string \<times> string option \<Rightarrow> bool" where
  "may_ask (app, uris, scopes) (client, user, uri, scope, challenge) \<longleftrightarrow>
     client = app \<and> uri \<in> set uris \<and> split_whitespace scope \<noteq> [] \<and>
     set (split_whitespace scope) \<subseteq> set SCOPES \<inter> set scopes"

definition consented :: "oauth_store \<Rightarrow> (string \<times> string \<times> string \<times> string \<times> string option) set" where
  "consented s = asked ` {r \<in> set (oauth_consent_requests s). cq_used r}"

definition exchanged :: "oauth_store \<Rightarrow> (string \<times> string \<times> string) set" where
  "exchanged s = redeemed ` {c \<in> set (oauth_authorization_codes s). ac_used c}"

definition askable :: "oauth_store \<Rightarrow> (string \<times> string \<times> string \<times> string \<times> string option) set" where
  "askable s = {q. \<exists>a\<in>set (oauth_applications s). may_ask (app_key a) q}"

definition provenance :: "oauth_store \<Rightarrow> bool" where
  "provenance s \<longleftrightarrow>
     asked ` set (oauth_consent_requests s) \<subseteq> askable s \<and>
     coded ` set (oauth_authorization_codes s) \<subseteq> consented s \<and>
     accesses ` set (oauth_access_tokens s) \<subseteq> exchanged s \<and>
     refreshes ` set (oauth_refresh_tokens s) \<subseteq> exchanged s"

lemma provenance_mono:
  assumes "provenance s" and "askable s \<subseteq> askable s'"
    and "asked ` set (oauth_consent_requests s') \<subseteq> asked ` set (oauth_consent_requests s)"
    and "consented s \<subseteq> consented s'"
    and "coded ` set (oauth_authorization_codes s') \<subseteq> coded ` set (oauth_authorization_codes s)"
    and "exchanged s \<subseteq> exchanged s'"
    and "accesses ` set (oauth_access_tokens s') \<subseteq> accesses ` set (oauth_access_tokens s)"
    and "refreshes ` set (oauth_refresh_tokens s') \<subseteq> refreshes ` set (oauth_refresh_tokens s)"
  shows "provenance s'"
  using assms unfolding provenance_def by (meson subset_trans)

lemma snd_on [simp]:
  "snd (on_applications f s) = s\<lparr>oauth_applications := snd (f (oauth_applications s))\<rparr>"
  "snd (on_consent_requests g s) = s\<lparr>oauth_consent_requests := snd (g (oauth_consent_requests s))\<rparr>"
  "snd (on_authorization_codes h s) = s\<lparr>oauth_authorization_codes := snd (h (oauth_authorization_codes s))\<rparr>"
  "snd (on_access_tokens k s) = s\<lparr>oauth_access_tokens := snd (k (oauth_access_tokens s))\<rparr>"
  "snd (on_refresh_tokens l s) = s\<lparr>oauth_refresh_tokens := snd (l (oauth_refresh_tokens s))\<rparr>"
  by (simp_all add: on_applications_def on_consent_requests_def on_authorization_codes_def on_access_tokens_def
        on_refresh_tokens_def split: prod.splits)

lemma askable_mono:
  assumes "app_key ` set (oauth_applications s) \<subseteq> app_key ` set (oauth_applications s')"
  shows "askable s \<subseteq> askable s'"
proof
  fix q
  assume "q \<in> askable s"
  then obtain a where "a \<in> set (oauth_applications s)" "may_ask (app_key a) q"
    by (auto simp: askable_def)
  moreover from this(1) obtain a' where "a' \<in> set (oauth_applications s')" "app_key a' = app_key a"
    using subsetD [OF assms, of "app_key a"] by auto
  ultimately show "q \<in> askable s'"
    unfolding askable_def mem_Collect_eq by (intro bexI [of _ a']) simp_all
qed

lemma keeps_on_applications:
  "(\<And>ds. app_key ` set ds \<subseteq> app_key ` set (snd (f ds))) \<Longrightarrow> keeps provenance (on_applications f)"
  by (rule keepsI, erule provenance_mono, rule askable_mono) (simp_all add: consented_def exchanged_def)

lemma keeps_on_consent_requests:
  assumes "\<And>ds. asked ` set (snd (f ds)) \<subseteq> asked ` set ds"
    and "\<And>ds. asked ` {r \<in> set ds. cq_used r} \<subseteq> asked ` {r \<in> set (snd (f ds)). cq_used r}"
  shows "keeps provenance (on_consent_requests f)"
  by (rule keepsI, erule provenance_mono) (simp_all add: askable_def consented_def exchanged_def assms)

lemma keeps_on_authorization_codes:
  assumes "\<And>ds. coded ` set (snd (f ds)) \<subseteq> coded ` set ds"
    and "\<And>ds. redeemed ` {c \<in> set ds. ac_used c} \<subseteq> redeemed ` {c \<in> set (snd (f ds)). ac_used c}"
  shows "keeps provenance (on_authorization_codes f)"
  by (rule keepsI, erule provenance_mono) (simp_all add: askable_def consented_def exchanged_def assms)

lemma keeps_on_tokens:
  "(\<And>ds. accesses ` set (snd (f ds)) \<subseteq> accesses ` set ds) \<Longrightarrow> keeps provenance (on_access_tokens f)"
  "(\<And>ds. refreshes ` set (snd (g ds)) \<subseteq> refreshes ` set ds) \<Longrightarrow> keeps provenance (on_refresh_tokens g)"
  by (rule keepsI, erule provenance_mono, simp_all add: askable_def consented_def exchanged_def)+

section \<open>Every operation keeps the provenance\<close>

lemma insert_set:
  assumes "coll_ok c"
  shows "set ds \<subseteq> set (snd (co_insert c d ds))" and "set (snd (co_insert c d ds)) \<subseteq> insert d (set ds)"
proof -
  obtain r ds' where run: "co_insert c d ds = (r, ds')"
    by (cases "co_insert c d ds")
  have "ds' = ds \<or> ds' = ds @ [d]"
    using run coll_insert [OF assms, of d ds] by (cases r) auto
  with run show "set ds \<subseteq> set (snd (co_insert c d ds))" and "set (snd (co_insert c d ds)) \<subseteq> insert d (set ds)"
    by auto
qed

lemma keys_kept [simp]:
  "app_key (a\<lparr>oa_secret_hash := h\<rparr>) = app_key a" "app_key (a\<lparr>oa_revoked := b\<rparr>) = app_key a"
  "asked (r\<lparr>cq_used := b\<rparr>) = asked r" "coded (c\<lparr>ac_used := b\<rparr>) = coded c" "redeemed (c\<lparr>ac_used := b\<rparr>) = redeemed c"
  "accesses (t\<lparr>at_revoked := b\<rparr>) = accesses t" "refreshes (u\<lparr>rt_revoked := b\<rparr>) = refreshes u"
  by (simp_all add: app_key_def asked_def coded_def redeemed_def accesses_def refreshes_def)

lemma keeps_finds [keeps_rules]:
  "keeps provenance (on_applications (\<lambda>ds. (r ds, ds)))"
  "keeps provenance (on_access_tokens (\<lambda>ds. (t ds, ds)))"
  "keeps provenance (on_refresh_tokens (\<lambda>ds. (u ds, ds)))"
  by (simp_all add: keeps_on_applications keeps_on_tokens)

lemma keeps_insert_application [keeps_rules]:
  "coll_ok c \<Longrightarrow> keeps provenance (on_applications (co_insert c d))"
  by (rule keeps_on_applications) (rule image_mono, erule insert_set(1))

lemma updated_images:
  assumes "coll_ok c" and "\<And>d. g (f d) = g d"
  shows "g ` set (snd (co_find_and_update c p f ds)) = g ` set ds"
    and "g ` set (snd (co_update_one c p f ds)) = g ` set ds"
    and "g ` set (snd (co_update_many c p f ds)) = g ` set ds"
  by (rule updated_image, rule updated_find_and_update updated_one updated_many, rule assms, rule assms)+

lemma keeps_application_updates [keeps_rules]:
  assumes "coll_ok c" and "\<And>a. app_key (f a) = app_key a"
  shows "keeps provenance (on_applications (co_find_and_update c p f))"
    and "keeps provenance (on_applications (co_update_one c p f))"
  by (simp_all add: keeps_on_applications updated_images [OF assms(1)] assms(2))

lemma keeps_use_request [keeps_rules]:
  assumes "coll_ok c"
  shows "keeps provenance (on_consent_requests (co_find_and_update c p (\<lambda>r. r\<lparr>cq_used := True\<rparr>)))"
proof (rule keeps_on_consent_requests)
  note upd = updated_find_and_update [OF assms, of p "\<lambda>r. r\<lparr>cq_used := True\<rparr>"]
  show "asked ` set (snd (co_find_and_update c p (\<lambda>r. r\<lparr>cq_used := True\<rparr>) ds)) \<subseteq> asked ` set ds" for ds
    using updated_image [OF upd, of asked] by simp
  show "asked ` {r \<in> set ds. cq_used r} \<subseteq>
      asked ` {r \<in> set (snd (co_find_and_update c p (\<lambda>r. r\<lparr>cq_used := True\<rparr>) ds)). cq_used r}" for ds
    by (rule updated_filter [OF upd]) simp_all
qed

lemma keeps_use_code [keeps_rules]:
  assumes "coll_ok c"
  shows "keeps provenance (on_authorization_codes (co_find_and_update c p (\<lambda>r. r\<lparr>ac_used := True\<rparr>)))"
proof (rule keeps_on_authorization_codes)
  note upd = updated_find_and_update [OF assms, of p "\<lambda>r. r\<lparr>ac_used := True\<rparr>"]
  show "coded ` set (snd (co_find_and_update c p (\<lambda>r. r\<lparr>ac_used := True\<rparr>) ds)) \<subseteq> coded ` set ds" for ds
    using updated_image [OF upd, of coded] by simp
  show "redeemed ` {r \<in> set ds. ac_used r} \<subseteq>
      redeemed ` {r \<in> set (snd (co_find_and_update c p (\<lambda>r. r\<lparr>ac_used := True\<rparr>) ds)). ac_used r}" for ds
    by (rule updated_filter [OF upd]) simp_all
qed

lemma keeps_token_updates [keeps_rules]:
  assumes "coll_ok c" 
  shows "keeps provenance (on_access_tokens (co_update_one c p (\<lambda>t. t\<lparr>at_revoked := True\<rparr>)))"
    and "keeps provenance (on_access_tokens (co_update_many c p (\<lambda>t. t\<lparr>at_revoked := True\<rparr>)))"
  by (simp_all add: keeps_on_tokens updated_images [OF assms])

lemma keeps_refresh_updates [keeps_rules]:
  assumes "coll_ok c" 
  shows "keeps provenance (on_refresh_tokens (co_find_and_update c p (\<lambda>t. t\<lparr>rt_revoked := True\<rparr>)))"
    and "keeps provenance (on_refresh_tokens (co_update_one c p (\<lambda>t. t\<lparr>rt_revoked := True\<rparr>)))"
    and "keeps provenance (on_refresh_tokens (co_update_many c p (\<lambda>t. t\<lparr>rt_revoked := True\<rparr>)))"
  by (simp_all add: keeps_on_tokens updated_images [OF assms])

text \<open>A document that is added is covered by what the store holds.\<close>

lemma insert_within:
  assumes "coll_ok c" and "g d \<in> S" and "g ` set ds \<subseteq> S"
  shows "g ` set (snd (co_insert c d ds)) \<subseteq> S"
  using insert_set(2) [OF assms(1), of d ds] assms(2,3) by blast

lemma insert_grows:
  assumes "coll_ok c"
  shows "g ` {x \<in> set ds. P x} \<subseteq> g ` {x \<in> set (snd (co_insert c d ds)). P x}"
  using insert_set(1) [OF assms, of ds d] by blast

lemma provenanceD:
  assumes "provenance s"
  shows "asked ` set (oauth_consent_requests s) \<subseteq> askable s"
    and "coded ` set (oauth_authorization_codes s) \<subseteq> consented s"
    and "accesses ` set (oauth_access_tokens s) \<subseteq> exchanged s"
    and "refreshes ` set (oauth_refresh_tokens s) \<subseteq> exchanged s"
  using assms unfolding provenance_def by simp_all

lemma ensures_ask:
  assumes "coll_ok c"
  shows "ensures provenance (\<lambda>s. asked d \<in> askable s) (on_consent_requests (co_insert c d)) (\<lambda>_ _. True)"
proof (rule ensuresI)
  fix s
  assume s: "provenance s" "asked d \<in> askable s"
  let ?s = "snd (on_consent_requests (co_insert c d) s)"
  have "asked ` set (oauth_consent_requests ?s) \<subseteq> askable s"
    using insert_within [OF assms s(2) provenanceD(1) [OF s(1)]] by simp
  moreover have "consented s \<subseteq> consented ?s"
    by (simp add: consented_def insert_grows [OF assms])
  ultimately show "provenance ?s"
    using s(1) unfolding provenance_def by (auto simp: askable_def exchanged_def)
qed simp

lemma ensures_code:
  assumes "coll_ok c"
  shows "ensures provenance (\<lambda>s. coded d \<in> consented s) (on_authorization_codes (co_insert c d)) (\<lambda>_ _. True)"
proof (rule ensuresI)
  fix s
  assume s: "provenance s" "coded d \<in> consented s"
  let ?s = "snd (on_authorization_codes (co_insert c d) s)"
  have "coded ` set (oauth_authorization_codes ?s) \<subseteq> consented s"
    using insert_within [OF assms s(2) provenanceD(2) [OF s(1)]] by simp
  moreover have "exchanged s \<subseteq> exchanged ?s"
    by (simp add: exchanged_def insert_grows [OF assms])
  ultimately show "provenance ?s"
    using s(1) unfolding provenance_def by (auto simp: askable_def consented_def)
qed simp

lemma ensures_access:
  assumes "coll_ok c"
  shows "ensures provenance (\<lambda>s. accesses d \<in> exchanged s) (on_access_tokens (co_insert c d))
           (\<lambda>_ s. accesses d \<in> exchanged s)"
proof (rule ensuresI)
  fix s
  assume s: "provenance s" "accesses d \<in> exchanged s"
  let ?s = "snd (on_access_tokens (co_insert c d) s)"
  have "accesses ` set (oauth_access_tokens ?s) \<subseteq> exchanged s"
    using insert_within [OF assms s(2) provenanceD(3) [OF s(1)]] by simp
  then show "provenance ?s"
    using s(1) unfolding provenance_def by (simp add: askable_def consented_def exchanged_def)
next
  fix s x s'
  assume "accesses d \<in> exchanged s" "on_access_tokens (co_insert c d) s = (Ok x, s')"
  then show "accesses d \<in> exchanged s'"
    using snd_on(4) [of "co_insert c d" s] by (simp add: exchanged_def)
qed

lemma ensures_refresh:
  assumes "coll_ok c"
  shows "ensures provenance (\<lambda>s. refreshes d \<in> exchanged s) (on_refresh_tokens (co_insert c d)) (\<lambda>_ _. True)"
proof (rule ensuresI)
  fix s
  assume s: "provenance s" "refreshes d \<in> exchanged s"
  let ?s = "snd (on_refresh_tokens (co_insert c d) s)"
  have "refreshes ` set (oauth_refresh_tokens ?s) \<subseteq> exchanged s"
    using insert_within [OF assms s(2) provenanceD(4) [OF s(1)]] by simp
  then show "provenance ?s"
    using s(1) unfolding provenance_def by (simp add: askable_def consented_def exchanged_def)
qed simp

text \<open>What an update returns is what the store now holds.\<close>

lemma storage_Ok [simp]: "storage r = Ok x \<longleftrightarrow> r = Some x"
  by (cases r) (simp_all add: storage_def)

lemma on_Ok:
  "on_applications f s = (Ok x, s') \<longleftrightarrow>
     (\<exists>ds. f (oauth_applications s) = (Some x, ds) \<and> s' = s\<lparr>oauth_applications := ds\<rparr>)"
  "on_consent_requests g s = (Ok x, s') \<longleftrightarrow>
     (\<exists>ds. g (oauth_consent_requests s) = (Some x, ds) \<and> s' = s\<lparr>oauth_consent_requests := ds\<rparr>)"
  "on_authorization_codes h s = (Ok x, s') \<longleftrightarrow>
     (\<exists>ds. h (oauth_authorization_codes s) = (Some x, ds) \<and> s' = s\<lparr>oauth_authorization_codes := ds\<rparr>)"
  "on_access_tokens k s = (Ok x, s') \<longleftrightarrow>
     (\<exists>ds. k (oauth_access_tokens s) = (Some x, ds) \<and> s' = s\<lparr>oauth_access_tokens := ds\<rparr>)"
  "on_refresh_tokens l s = (Ok x, s') \<longleftrightarrow>
     (\<exists>ds. l (oauth_refresh_tokens s) = (Some x, ds) \<and> s' = s\<lparr>oauth_refresh_tokens := ds\<rparr>)"
  by (auto simp: on_applications_def on_consent_requests_def on_authorization_codes_def on_access_tokens_def
        on_refresh_tokens_def split: prod.splits)

lemma updated_one_found:
  assumes "coll_ok c" and "co_find_and_update c p f ds = (Some (Some d'), ds')"
  obtains d where "d \<in> set ds" and "p d" and "d' = f d" and "d' \<in> set ds'"
proof -
  obtain d where "updates_one p f ds d ds'" and d': "d' = f d"
    using coll_find_and_update(1) [OF assms] by blast
  then have "d \<in> set ds" "p d" "d' \<in> set ds'"
    by (auto simp: updates_one_def)
  with d' that show thesis
    by blast
qed

lemma ensures_use_request:
  assumes "coll_ok c"
  shows "ensures provenance (\<lambda>_. True)
           (on_consent_requests (co_find_and_update c (\<lambda>r. cq_id r = i \<and> cq_user_id r = u \<and> P r) (\<lambda>r. r\<lparr>cq_used := True\<rparr>)))
           (\<lambda>found s. \<forall>r. found = Some r \<longrightarrow> asked r \<in> consented s \<and> cq_user_id r = u)"
proof (rule ensuresI)
  fix s found s'
  assume run: "on_consent_requests (co_find_and_update c (\<lambda>r. cq_id r = i \<and> cq_user_id r = u \<and> P r)
      (\<lambda>r. r\<lparr>cq_used := True\<rparr>)) s = (Ok found, s')"
  show "\<forall>r. found = Some r \<longrightarrow> asked r \<in> consented s' \<and> cq_user_id r = u"
  proof (intro allI impI)
    fix r
    assume "found = Some r"
    with run obtain ds where "co_find_and_update c (\<lambda>r. cq_id r = i \<and> cq_user_id r = u \<and> P r)
        (\<lambda>r. r\<lparr>cq_used := True\<rparr>) (oauth_consent_requests s) = (Some (Some r), ds)" "s' = s\<lparr>oauth_consent_requests := ds\<rparr>"
      by (auto simp: on_Ok)
    note upd = this
    obtain r0 where "cq_user_id r0 = u" "r = r0\<lparr>cq_used := True\<rparr>" "r \<in> set ds"
      by (rule updated_one_found [OF assms upd(1)]) blast
    with upd(2) imageI [of r "{r \<in> set ds. cq_used r}" asked]
    show "asked r \<in> consented s' \<and> cq_user_id r = u"
      by (simp add: consented_def)
  qed
qed (rule keepsD [OF keeps_use_request [OF assms]])

lemma ensures_use_code:
  assumes "coll_ok c"
  shows "ensures provenance (\<lambda>_. True)
           (on_authorization_codes (co_find_and_update c (\<lambda>r. ac_code_hash r = h \<and> ac_client_id r = i \<and> P r)
              (\<lambda>r. r\<lparr>ac_used := True\<rparr>)))
           (\<lambda>found s. \<forall>r. found = Some r \<longrightarrow> redeemed r \<in> exchanged s \<and> ac_client_id r = i)"
proof (rule ensuresI)
  fix s found s'
  assume run: "on_authorization_codes (co_find_and_update c (\<lambda>r. ac_code_hash r = h \<and> ac_client_id r = i \<and> P r)
      (\<lambda>r. r\<lparr>ac_used := True\<rparr>)) s = (Ok found, s')"
  show "\<forall>r. found = Some r \<longrightarrow> redeemed r \<in> exchanged s' \<and> ac_client_id r = i"
  proof (intro allI impI)
    fix r
    assume "found = Some r"
    with run obtain ds where "co_find_and_update c (\<lambda>r. ac_code_hash r = h \<and> ac_client_id r = i \<and> P r)
        (\<lambda>r. r\<lparr>ac_used := True\<rparr>) (oauth_authorization_codes s) = (Some (Some r), ds)" "s' = s\<lparr>oauth_authorization_codes := ds\<rparr>"
      by (auto simp: on_Ok)
    note upd = this
    obtain r0 where "ac_client_id r0 = i" "r = r0\<lparr>ac_used := True\<rparr>" "r \<in> set ds"
      by (rule updated_one_found [OF assms upd(1)]) blast
    with upd(2) imageI [of r "{c \<in> set ds. ac_used c}" redeemed]
    show "redeemed r \<in> exchanged s' \<and> ac_client_id r = i"
      by (simp add: exchanged_def)
  qed
qed (rule keepsD [OF keeps_use_code [OF assms]])

lemma ensures_rotate:
  assumes "coll_ok c"
  shows "ensures provenance (\<lambda>_. True)
           (on_refresh_tokens (co_find_and_update c (\<lambda>r. rt_token_hash r = h \<and> rt_client_id r = i \<and> P r)
              (\<lambda>r. r\<lparr>rt_revoked := True\<rparr>)))
           (\<lambda>found s. \<forall>r. found = Some r \<longrightarrow> refreshes r \<in> exchanged s \<and> rt_client_id r = i)"
proof (rule ensuresI)
  fix s found s'
  assume s: "provenance s" and run: "on_refresh_tokens (co_find_and_update c (\<lambda>r. rt_token_hash r = h \<and> rt_client_id r = i \<and> P r)
      (\<lambda>r. r\<lparr>rt_revoked := True\<rparr>)) s = (Ok found, s')"
  show "\<forall>r. found = Some r \<longrightarrow> refreshes r \<in> exchanged s' \<and> rt_client_id r = i"
  proof (intro allI impI)
    fix r
    assume "found = Some r"
    with run obtain ds where "co_find_and_update c (\<lambda>r. rt_token_hash r = h \<and> rt_client_id r = i \<and> P r)
        (\<lambda>r. r\<lparr>rt_revoked := True\<rparr>) (oauth_refresh_tokens s) = (Some (Some r), ds)" "s' = s\<lparr>oauth_refresh_tokens := ds\<rparr>"
      by (auto simp: on_Ok)
    note upd = this
    obtain r0 where "rt_client_id r0 = i" "r = r0\<lparr>rt_revoked := True\<rparr>" "r0 \<in> set (oauth_refresh_tokens s)"
      by (rule updated_one_found [OF assms upd(1)]) blast
    with upd(2) subsetD [OF provenanceD(4) [OF s], of "refreshes r0"]
    show "refreshes r \<in> exchanged s' \<and> rt_client_id r = i"
      by (simp add: exchanged_def)
  qed
qed (rule keepsD [OF keeps_refresh_updates(1) [OF assms]])

section \<open>The endpoints\<close>

lemma database_parts:
  assumes "database_ok (MongoDb mg)"
  shows "coll_ok (mg_applications mg)" and "coll_ok (mg_consent_requests mg)" and "coll_ok (mg_authorization_codes mg)"
    and "coll_ok (mg_access_tokens mg)" and "coll_ok (mg_refresh_tokens mg)"
  using assms by (simp_all add: mongo_ok_def)

lemma keeps_application [keeps_rules]: "keeps provenance (application db i)"
  by (cases db) (auto simp: application_def intro: keeps_rules)

lemma application_found:
  assumes "database_ok db" and "application db i s = (Ok (Some a), s')"
  shows "a \<in> set (oauth_applications s)" and "oa_id a = i" and "s' = s"
proof -
  have "a \<in> set (oauth_applications s) \<and> oa_id a = i \<and> s' = s"
    using assms coll_find(1) [OF database_parts(1)] by (cases db) (auto simp: application_def on_Ok)
  then show "a \<in> set (oauth_applications s)" and "oa_id a = i" and "s' = s"
    by simp_all
qed

lemma ensures_application:
  assumes "database_ok db"
  shows "ensures provenance (\<lambda>_. True) (application db i)
           (\<lambda>found s. \<forall>a. found = Some a \<longrightarrow> a \<in> set (oauth_applications s) \<and> oa_id a = i)"
  by (rule ensuresI) (auto intro: keepsD [OF keeps_application] dest: application_found [OF assms])

lemma ok_or_Ok [simp]: "ok_or e r = Ok x \<longleftrightarrow> r = Some x"
  by (cases r) simp_all

lemma askable_by:
  assumes "a \<in> set (oauth_applications s)" and "uri \<in> set (oa_redirect_uris a)"
    and "validate_scopes requested (oa_allowed_scopes a) = Some scopes"
  shows "(oa_id a, user, uri, join '' '' scopes, challenge) \<in> askable s"
  unfolding askable_def mem_Collect_eq
  using assms(1,2) validated_scopes [OF assms(3)] by (intro bexI [of _ a]) (simp_all add: app_key_def)

lemma keeps_authorize:
  assumes "database_ok db"
  shows "keeps provenance (authorize env db w user query)"
proof (cases db)
  case (MongoDb mg)
  note found = ensures_application [OF assms [unfolded MongoDb]]
    and asks = ensures_ask [OF database_parts(2) [OF assms [unfolded MongoDb]]]
  show ?thesis
    unfolding authorize_def MongoDb oauth_database.case Let_def
  proof (rule keeps_guard, rule keeps_ensures [where Q = "\<lambda>_ _. True"],
      (rule ensures_bind, rule found ensures_lift ensures_guard)+, rule ensures_then, rule ensures_pre, rule asks, goal_cases)
    case (1 _ app _ _ scopes _ _ _ s)
    then show ?case
      using askable_by [of app s "aq_redirect_uri query" "aq_scope query" scopes] by (simp add: asked_def)
  qed (intro keeps_rules)
next
  case Reference
  then show ?thesis
    by (auto simp: authorize_def Let_def intro!: keeps_rules)
qed

lemma keeps_authorize_consent:
  assumes "database_ok db"
  shows "keeps provenance (authorize_consent env db user form)"
proof (cases db)
  case (MongoDb mg)
  note parts = database_parts [OF assms [unfolded MongoDb]]
  show ?thesis
    unfolding authorize_consent_def MongoDb oauth_database.case Let_def
  proof (rule keeps_ensures [where Q = "\<lambda>_ _. True"], rule ensures_bind, rule ensures_use_request [OF parts(2)],
      rule ensures_bind, rule ensures_lift, rule ensures_if, rule ensures_ret, simp, rule ensures_then, rule ensures_pre,
      rule ensures_code [OF parts(3)], goal_cases)
    case (1 found request s)
    then show ?case by (auto simp: coded_def asked_def)
  qed (intro keeps_rules)
next
  case Reference
  then show ?thesis
    by (auto simp: authorize_consent_def Let_def intro!: keeps_rules)
qed

lemma ensures_issue_tokens:
  assumes "database_ok db"
  shows "ensures provenance (\<lambda>s. (client, user, scope) \<in> exchanged s) (issue_tokens env db client user scope family) (\<lambda>_ _. True)"
proof (cases db)
  case (MongoDb mg)
  note parts = database_parts [OF assms [unfolded MongoDb]]
  show ?thesis
    unfolding issue_tokens_def MongoDb oauth_database.case Let_def
    by (rule ensures_then, rule ensures_bind, rule ensures_pre, rule ensures_access [OF parts(4)], simp add: accesses_def,
        rule ensures_pre, rule ensures_refresh [OF parts(5)], simp add: accesses_def refreshes_def) (intro keeps_rules)
next
  case Reference
  then show ?thesis
    by (auto simp: issue_tokens_def Let_def intro!: ensures_drop keeps_rules)
qed

lemma keeps_exchange_code:
  assumes "database_ok db"
  shows "keeps provenance (exchange_code env db req)"
proof (cases db)
  case (MongoDb mg)
  note parts = database_parts [OF assms [unfolded MongoDb]]
    and issue = ensures_issue_tokens [OF assms [unfolded MongoDb]]
  show ?thesis
    unfolding exchange_code_def MongoDb oauth_database.case
  proof ((rule keeps_bind, (rule keeps_rules; fail))+, rule keeps_ensures [where Q = "\<lambda>_ _. True"],
      rule ensures_bind, rule ensures_use_code [OF parts(3)],
      (rule ensures_bind, rule ensures_lift ensures_guard)+, rule ensures_pre, rule issue, goal_cases)
    case (1 _ client _ _ _ _ found code)
    then show ?case by (auto simp: redeemed_def)
  qed
next
  case Reference
  then show ?thesis
    by (auto simp: exchange_code_def issue_tokens_def Let_def intro!: keeps_rules)
qed

lemma keeps_refresh:
  assumes "database_ok db"
  shows "keeps provenance (refresh env db req)"
proof (cases db)
  case (MongoDb mg)
  note parts = database_parts [OF assms [unfolded MongoDb]]
    and issue = ensures_issue_tokens [OF assms [unfolded MongoDb]]
  show ?thesis
    unfolding refresh_def MongoDb oauth_database.case
  proof ((rule keeps_bind, (rule keeps_rules; fail))+, rule keeps_ensures [where Q = "\<lambda>_ _. True"],
      rule ensures_bind, rule ensures_rotate [OF parts(5)], rule ensures_option, goal_cases)
    case (2 _ client _ _ _ found old)
    show ?case
      by (rule ensures_pre, rule issue) (auto simp: 2 refreshes_def)
  qed (intro ensures_drop keeps_rules parts)
next
  case Reference
  then show ?thesis
    by (auto simp: refresh_def issue_tokens_def Let_def intro!: keeps_rules split: option.splits)
qed

lemma keeps_token: "database_ok db \<Longrightarrow> keeps provenance (token env db req)"
  by (simp add: token_def keeps_exchange_code keeps_refresh)

lemma keeps_revoke: "database_ok db \<Longrightarrow> keeps provenance (revoke env db req)"
  by (cases db) (auto simp: revoke_def mongo_ok_def intro!: keeps_rules split: option.splits)

lemma keeps_userinfo: "keeps provenance (userinfo env db pdb now w bearer)"
  by (cases db)
     (auto simp: userinfo_def bearer_user_def Let_def intro!: keeps_rules split: option.splits)

lemma keeps_applications_me: "keeps provenance (applications_me env db user)"
  by (cases db) (auto simp: applications_me_def intro!: keeps_rules)

lemma keeps_application_create: "database_ok db \<Longrightarrow> keeps provenance (application_create env db user request)"
  by (cases db) (auto simp: application_create_def Let_def mongo_ok_def intro!: keeps_rules)

lemma keeps_application_rotate_secret:
  "database_ok db \<Longrightarrow> keeps provenance (application_rotate_secret env db user client)"
  by (cases db) (auto simp: application_rotate_secret_def Let_def mongo_ok_def intro!: keeps_rules)

lemma keeps_application_revoke: "database_ok db \<Longrightarrow> keeps provenance (application_revoke db user client)"
  by (cases db) (auto simp: application_revoke_def Let_def mongo_ok_def intro!: keeps_rules)

lemmas keeps_endpoints =
  keeps_authorize keeps_authorize_consent keeps_token keeps_revoke keeps_userinfo keeps_applications_me
  keeps_application_create keeps_application_rotate_secret keeps_application_revoke

text \<open>
  A request to any endpoint, by anyone, with any driver that behaves as documented; whatever the
  endpoint answers and wherever it stopped, its effects stay.
\<close>

inductive oauth_step :: "oauth_store \<Rightarrow> oauth_store \<Rightarrow> bool" where
  step_authorize: "database_ok db \<Longrightarrow> oauth_step s (snd (authorize env db w user query s))"
| step_consent: "database_ok db \<Longrightarrow> oauth_step s (snd (authorize_consent env db user form s))"
| step_token: "database_ok db \<Longrightarrow> oauth_step s (snd (token env db req s))"
| step_revoke: "database_ok db \<Longrightarrow> oauth_step s (snd (revoke env db rreq s))"
| step_userinfo: "database_ok db \<Longrightarrow> oauth_step s (snd (userinfo env db pdb now w bearer s))"
| step_applications_me: "database_ok db \<Longrightarrow> oauth_step s (snd (applications_me env db user s))"
| step_create: "database_ok db \<Longrightarrow> oauth_step s (snd (application_create env db user areq s))"
| step_rotate: "database_ok db \<Longrightarrow> oauth_step s (snd (application_rotate_secret env db user client s))"
| step_revoke_application: "database_ok db \<Longrightarrow> oauth_step s (snd (application_revoke db user client s))"

lemma step_provenance: "oauth_step s s' \<Longrightarrow> provenance s \<Longrightarrow> provenance s'"
  by (induction rule: oauth_step.induct) (rule keepsD [of provenance], rule keeps_endpoints, assumption+)+

definition no_documents :: oauth_store where
  "no_documents = \<lparr>oauth_applications = [], oauth_consent_requests = [], oauth_authorization_codes = [],
     oauth_access_tokens = [], oauth_refresh_tokens = []\<rparr>"


text \<open>One application, asked for, consented to and exchanged.\<close>

definition sample_oauth_env :: oauth_env where
  "sample_oauth_env =
     \<lparr>oe_digest = rev, oe_random = \<lambda>i n. ''r'' @ replicate i (CHR ''x''), oe_now = \<lambda>i. i,
      oe_url = \<lambda>u. Some \<lparr>url_scheme = ''https'', url_host = None\<rparr>, oe_query = \<lambda>ps. concat (map snd ps),
      oe_rfc3339 = \<lambda>n. [], oe_timestamp = \<lambda>t. []\<rparr>"

definition registered :: oauth_store where
  "registered = no_documents\<lparr>oauth_applications :=
     [\<lparr>oa_id = ''r'', oa_name = ''App'', oa_owner_id = ''owner'', oa_redirect_uris = [''https://a''],
       oa_allowed_scopes = [''identify'', ''servers''], oa_public = True, oa_secret_hash = None, oa_revoked = False,
       oa_created_at = 0\<rparr>]\<rparr>"

definition requested :: oauth_store where
  "requested = registered\<lparr>oauth_consent_requests :=
     [\<lparr>cq_id = ''r'', cq_csrf_hash = ''xr'', cq_client_id = ''r'', cq_user_id = ''A'',
       cq_redirect_uri = ''https://a'', cq_state = ''s'', cq_scope = ''identify'', cq_code_challenge = Some ''987'',
       cq_expires_at = 300000, cq_used = False\<rparr>]\<rparr>"

lemma registered_step: "oauth_step no_documents registered"
proof -
  have "registered = snd (application_create sample_oauth_env memory_db ''owner''
     \<lparr>ar_name = ''App'', ar_redirect_uris = [''https://a''], ar_allowed_scopes = [''identify'', ''servers''], ar_public = True\<rparr>
     no_documents)"
    by code_simp
  then show ?thesis
    using step_create [OF memory_db_ok] by metis
qed

definition approved :: oauth_store where
  "approved = requested\<lparr>
     oauth_consent_requests := map (\<lambda>r. r\<lparr>cq_used := True\<rparr>) (oauth_consent_requests requested),
     oauth_authorization_codes :=
       [\<lparr>ac_code_hash = ''r'', ac_client_id = ''r'', ac_user_id = ''A'', ac_redirect_uri = ''https://a'',
         ac_scope = ''identify'', ac_code_challenge = Some ''987'', ac_expires_at = 300001, ac_used = False\<rparr>]\<rparr>"

definition sample_exchange :: token_request where
  "sample_exchange =
     \<lparr>tr_grant_type = ''authorization_code'', tr_code = Some ''r'', tr_redirect_uri = Some ''https://a'',
      tr_client_id = Some ''r'', tr_client_secret = None, tr_code_verifier = Some ''789'', tr_refresh_token = None\<rparr>"

definition granted :: oauth_store where
  "granted = approved\<lparr>
     oauth_authorization_codes := map (\<lambda>c. c\<lparr>ac_used := True\<rparr>) (oauth_authorization_codes approved),
     oauth_access_tokens :=
       [\<lparr>at_token_hash = ''r'', at_client_id = ''r'', at_user_id = ''A'', at_scope = ''identify'',
         at_expires_at = 600001, at_revoked = False\<rparr>],
     oauth_refresh_tokens :=
       [\<lparr>rt_token_hash = ''xr'', rt_family_id = ''rxx'', rt_client_id = ''r'', rt_user_id = ''A'',
         rt_scope = ''identify'', rt_expires_at = 2592000002, rt_revoked = False\<rparr>]\<rparr>"

lemmas sample_stores =
  registered_def requested_def approved_def granted_def no_documents_def sample_oauth_env_def sample_exchange_def
  memory_db_def memory_coll_def expires_after_def storage_def numeral_2_eq_2 Let_def
  on_applications_def on_consent_requests_def on_authorization_codes_def on_access_tokens_def on_refresh_tokens_def

lemma requested_step: "oauth_step registered requested"
proof -
  have scopes: "validate_scopes ''identify'' [''identify'', ''servers''] = Some [''identify'']"
    and user: "is_ok (fst (fetch_user ''A'' sample_world))"
    by code_simp+
  obtain u where u: "fst (fetch_user ''A'' sample_world) = Ok u"
    using user by (cases "fst (fetch_user ''A'' sample_world)") simp_all
  have "requested = snd (authorize sample_oauth_env memory_db sample_world ''A''
     \<lparr>aq_response_type = ''code'', aq_client_id = ''r'', aq_redirect_uri = ''https://a'', aq_scope = ''identify'',
      aq_state = ''s'', aq_code_challenge = Some ''987'', aq_code_challenge_method = Some ''S256''\<rparr> registered)"
    by (simp add: authorize_def application_def validate_redirect_uri_def scopes u bindM_def sample_stores)
  then show ?thesis
    using step_authorize [OF memory_db_ok] by metis
qed

lemma approved_step: "oauth_step requested approved"
proof -
  have "approved = snd (authorize_consent sample_oauth_env memory_db ''A''
     \<lparr>cf_request_id = ''r'', cf_csrf = ''rx'', cf_decision = ''approve''\<rparr> requested)"
    by (simp add: authorize_consent_def AUTHORIZATION_CODE_TTL_def bindM_def sample_stores)
  then show ?thesis
    using step_consent [OF memory_db_ok] by metis
qed

lemma sample_exchange_run:
  "token sample_oauth_env memory_db sample_exchange approved =
     (Ok \<lparr>to_access_token = ''r'', to_token_type = ''Bearer'', to_expires_in = 600, to_refresh_token = ''rx'',
          to_scope = ''identify''\<rparr>, granted)"
proof -
  have "constant_time_equal ''987'' ''987''"
    by code_simp
  then show ?thesis
    by (simp add: token_def exchange_code_def application_def check_secret_def check_pkce_def pkce_matches_def
          issue_tokens_def ACCESS_TOKEN_TTL_def REFRESH_TOKEN_TTL_def bindM_def sample_stores)
qed

lemma granted_step: "oauth_step approved granted"
  using step_token [OF memory_db_ok, of approved sample_oauth_env sample_exchange] by (simp add: sample_exchange_run)

lemma granted_reachable: "oauth_step\<^sup>*\<^sup>* no_documents granted"
  by (rule converse_rtranclp_into_rtranclp, rule registered_step requested_step approved_step granted_step)+
     (rule rtranclp.rtrancl_refl)


end
