(* ===== verification/Oauth_Flow.thy ===== *)
theory Oauth_Flow
  imports Oauth_Provenance Bulk_Permissions
begin

text \<open>
  The OAuth documents over time: nothing is taken back, so a code is redeemed once and a revoked
  token stays revoked; a refresh token used twice takes its family with it; and a token shows what
  its scopes allow.
\<close>

section \<open>Nothing is taken back\<close>

text \<open>
  Documents are added at the end; of those there, codes and requests only become used, tokens and
  applications only become revoked, and secrets are replaced.
\<close>

definition extends :: "('d \<Rightarrow> 'd \<Rightarrow> bool) \<Rightarrow> 'd list \<Rightarrow> 'd list \<Rightarrow> bool" where
  "extends R ds ds' \<longleftrightarrow> list_all2 R ds (take (length ds) ds')"

definition app_later :: "oauth_application \<Rightarrow> oauth_application \<Rightarrow> bool" where
  "app_later a a' \<longleftrightarrow>
     oa_id a' = oa_id a \<and> oa_name a' = oa_name a \<and> oa_owner_id a' = oa_owner_id a \<and>
     oa_redirect_uris a' = oa_redirect_uris a \<and> oa_allowed_scopes a' = oa_allowed_scopes a \<and>
     oa_public a' = oa_public a \<and> oa_created_at a' = oa_created_at a \<and> (oa_revoked a \<longrightarrow> oa_revoked a')"

definition request_later :: "consent_request \<Rightarrow> consent_request \<Rightarrow> bool" where
  "request_later r r' \<longleftrightarrow> r' = r \<or> r' = r\<lparr>cq_used := True\<rparr>"

definition code_later :: "authorization_code \<Rightarrow> authorization_code \<Rightarrow> bool" where
  "code_later c c' \<longleftrightarrow> c' = c \<or> c' = c\<lparr>ac_used := True\<rparr>"

definition access_later :: "access_token \<Rightarrow> access_token \<Rightarrow> bool" where
  "access_later t t' \<longleftrightarrow> t' = t \<or> t' = t\<lparr>at_revoked := True\<rparr>"

definition refresh_later :: "refresh_token \<Rightarrow> refresh_token \<Rightarrow> bool" where
  "refresh_later t t' \<longleftrightarrow> t' = t \<or> t' = t\<lparr>rt_revoked := True\<rparr>"

definition later :: "oauth_store \<Rightarrow> oauth_store \<Rightarrow> bool" where
  "later s s' \<longleftrightarrow>
     extends app_later (oauth_applications s) (oauth_applications s') \<and>
     extends request_later (oauth_consent_requests s) (oauth_consent_requests s') \<and>
     extends code_later (oauth_authorization_codes s) (oauth_authorization_codes s') \<and>
     extends access_later (oauth_access_tokens s) (oauth_access_tokens s') \<and>
     extends refresh_later (oauth_refresh_tokens s) (oauth_refresh_tokens s')"

lemmas later_defs = app_later_def request_later_def code_later_def access_later_def refresh_later_def

lemma later_refl [simp]:
  "app_later a a" "request_later r r" "code_later c c" "access_later t t" "refresh_later u u"
  by (simp_all add: later_defs)

lemma later_sets [simp]:
  "app_later a (a\<lparr>oa_secret_hash := h\<rparr>)" "app_later a (a\<lparr>oa_revoked := True\<rparr>)" "request_later r (r\<lparr>cq_used := True\<rparr>)"
  "code_later c (c\<lparr>ac_used := True\<rparr>)" "access_later t (t\<lparr>at_revoked := True\<rparr>)" "refresh_later u (u\<lparr>rt_revoked := True\<rparr>)"
  by (simp_all add: later_defs)

lemma app_later_trans: "app_later a a' \<Longrightarrow> app_later a' a'' \<Longrightarrow> app_later a a''"
  by (simp add: later_defs)

lemma later_trans:
  "request_later r r' \<Longrightarrow> request_later r' r'' \<Longrightarrow> request_later r r''"
  "code_later c c' \<Longrightarrow> code_later c' c'' \<Longrightarrow> code_later c c''"
  "access_later t t' \<Longrightarrow> access_later t' t'' \<Longrightarrow> access_later t t''"
  "refresh_later u u' \<Longrightarrow> refresh_later u' u'' \<Longrightarrow> refresh_later u u''"
  by (auto simp: later_defs)

lemma extends_refl: "(\<And>d. R d d) \<Longrightarrow> extends R ds ds"
  by (simp add: extends_def list_all2_refl)

lemma extends_trans:
  assumes "extends R ds ds'" and "extends R ds' ds''" and trans: "\<And>x y z. R x y \<Longrightarrow> R y z \<Longrightarrow> R x z"
  shows "extends R ds ds''"
proof -
  have "length ds \<le> length ds'" "length ds' \<le> length ds''"
    using assms(1,2) by (auto simp: extends_def dest!: list_all2_lengthD)
  moreover have "R (ds ! i) (ds'' ! i)" if "i < length ds" for i
    using trans [of "ds ! i" "ds' ! i" "ds'' ! i"] assms(1,2) that calculation
    by (simp add: extends_def list_all2_conv_all_nth)
  ultimately show ?thesis
    by (simp add: extends_def list_all2_conv_all_nth)
qed

lemma extends_insert:
  assumes "coll_ok c" and "\<And>d. R d d"
  shows "extends R ds (snd (co_insert c d ds))"
proof -
  obtain r ds' where run: "co_insert c d ds = (r, ds')"
    by (cases "co_insert c d ds")
  have "ds' = ds \<or> ds' = ds @ [d]"
    using run coll_insert [OF assms(1), of d ds] by (cases r) auto
  with run assms(2) show ?thesis
    by (auto simp: extends_def list_all2_refl)
qed

lemma extends_updated:
  assumes "updated_docs p f ds ds'" and "\<And>d. R d d" and "\<And>d. R d (f d)"
  shows "extends R ds ds'"
proof -
  have "list_all2 R ds ds'"
    by (rule list_all2_mono [OF assms(1) [unfolded updated_docs_def]]) (use assms(2,3) in auto)
  then show ?thesis
    by (simp add: extends_def list_all2_lengthD)
qed

lemma extends_updates:
  assumes "coll_ok c" and "\<And>d. R d d" and "\<And>d. R d (f d)"
  shows "extends R ds (snd (co_find_and_update c p f ds))" and "extends R ds (snd (co_update_one c p f ds))"
    and "extends R ds (snd (co_update_many c p f ds))"
  by (rule extends_updated, rule updated_find_and_update updated_one updated_many, rule assms, rule assms, rule assms)+

lemma later_self: "later s s"
  by (simp add: later_def extends_refl)

lemma later_steps:
  assumes "later s s'" and "later s' s''"
  shows "later s s''"
  using assms unfolding later_def
  by (elim conjE, intro conjI)
     (rule extends_trans, assumption, assumption, erule app_later_trans later_trans, assumption)+

lemma keeps_later_on:
  "(\<And>ds. extends app_later ds (snd (f ds))) \<Longrightarrow> keeps (later s) (on_applications f)"
  "(\<And>ds. extends request_later ds (snd (g ds))) \<Longrightarrow> keeps (later s) (on_consent_requests g)"
  "(\<And>ds. extends code_later ds (snd (h ds))) \<Longrightarrow> keeps (later s) (on_authorization_codes h)"
  "(\<And>ds. extends access_later ds (snd (k ds))) \<Longrightarrow> keeps (later s) (on_access_tokens k)"
  "(\<And>ds. extends refresh_later ds (snd (l ds))) \<Longrightarrow> keeps (later s) (on_refresh_tokens l)"
  by (rule keepsI, erule later_steps, simp add: later_def extends_refl)+

lemma keeps_later_finds [keeps_rules]:
  "keeps (later s) (on_applications (\<lambda>ds. (r ds, ds)))"
  "keeps (later s) (on_access_tokens (\<lambda>ds. (t ds, ds)))"
  "keeps (later s) (on_refresh_tokens (\<lambda>ds. (u ds, ds)))"
  by (simp_all add: keeps_later_on extends_refl)

lemma keeps_later_inserts [keeps_rules]:
  "coll_ok ca \<Longrightarrow> keeps (later s) (on_applications (co_insert ca a))"
  "coll_ok cr \<Longrightarrow> keeps (later s) (on_consent_requests (co_insert cr r))"
  "coll_ok cc \<Longrightarrow> keeps (later s) (on_authorization_codes (co_insert cc c))"
  "coll_ok ct \<Longrightarrow> keeps (later s) (on_access_tokens (co_insert ct t))"
  "coll_ok cu \<Longrightarrow> keeps (later s) (on_refresh_tokens (co_insert cu u))"
  by (simp_all add: keeps_later_on extends_insert)

lemma keeps_later_updates [keeps_rules]:
  "coll_ok ca \<Longrightarrow> keeps (later s) (on_applications (co_find_and_update ca pa (\<lambda>a. a\<lparr>oa_secret_hash := h\<rparr>)))"
  "coll_ok ca \<Longrightarrow> keeps (later s) (on_applications (co_update_one ca pa (\<lambda>a. a\<lparr>oa_revoked := True\<rparr>)))"
  "coll_ok cr \<Longrightarrow> keeps (later s) (on_consent_requests (co_find_and_update cr pr (\<lambda>r. r\<lparr>cq_used := True\<rparr>)))"
  "coll_ok cc \<Longrightarrow> keeps (later s) (on_authorization_codes (co_find_and_update cc pc (\<lambda>c. c\<lparr>ac_used := True\<rparr>)))"
  "coll_ok ct \<Longrightarrow> keeps (later s) (on_access_tokens (co_update_one ct pt (\<lambda>t. t\<lparr>at_revoked := True\<rparr>)))"
  "coll_ok ct \<Longrightarrow> keeps (later s) (on_access_tokens (co_update_many ct pt (\<lambda>t. t\<lparr>at_revoked := True\<rparr>)))"
  "coll_ok cu \<Longrightarrow> keeps (later s) (on_refresh_tokens (co_find_and_update cu pu (\<lambda>t. t\<lparr>rt_revoked := True\<rparr>)))"
  "coll_ok cu \<Longrightarrow> keeps (later s) (on_refresh_tokens (co_update_one cu pu (\<lambda>t. t\<lparr>rt_revoked := True\<rparr>)))"
  "coll_ok cu \<Longrightarrow> keeps (later s) (on_refresh_tokens (co_update_many cu pu (\<lambda>t. t\<lparr>rt_revoked := True\<rparr>)))"
  by (simp_all add: keeps_later_on extends_updates)

lemma keeps_later_application [keeps_rules]: "keeps (later s) (application db i)"
  by (cases db) (auto simp: application_def intro: keeps_rules)

lemma keeps_later_issue [keeps_rules]:
  "database_ok db \<Longrightarrow> keeps (later s) (issue_tokens env db client user scope family)"
  by (cases db) (auto simp: issue_tokens_def Let_def mongo_ok_def intro!: keeps_rules)

lemma keeps_later_token: "database_ok db \<Longrightarrow> keeps (later s) (token env db req)"
  by (cases db) (auto simp: token_def exchange_code_def refresh_def mongo_ok_def intro!: keeps_rules split: option.splits)

lemma keeps_later_consent:
  "database_ok db \<Longrightarrow> keeps (later s) (authorize env db w user query)"
  "database_ok db \<Longrightarrow> keeps (later s) (authorize_consent env db user form)"
  by (cases db; auto simp: authorize_def authorize_consent_def Let_def mongo_ok_def intro!: keeps_rules)+

lemma keeps_later_bearer:
  "database_ok db \<Longrightarrow> keeps (later s) (revoke env db rreq)"
  "keeps (later s) (userinfo env db pdb now w bearer)"
  by (cases db; auto simp: revoke_def userinfo_def bearer_user_def Let_def mongo_ok_def intro!: keeps_rules split: option.splits)+

lemma keeps_later_applications:
  "keeps (later s) (applications_me env db user)"
  "database_ok db \<Longrightarrow> keeps (later s) (application_create env db user areq)"
  "database_ok db \<Longrightarrow> keeps (later s) (application_rotate_secret env db user client)"
  "database_ok db \<Longrightarrow> keeps (later s) (application_revoke db user client)"
  by (cases db; auto simp: applications_me_def application_create_def application_rotate_secret_def application_revoke_def
        Let_def mongo_ok_def intro!: keeps_rules)+

lemma step_later: "oauth_step s s' \<Longrightarrow> later s s'"
  by (induction rule: oauth_step.induct)
     (rule keepsD [of "later s" for s],
      rule keeps_later_consent keeps_later_token keeps_later_bearer keeps_later_applications, assumption?, rule later_self)+

section \<open>A code is redeemed once\<close>

definition code_hashes :: "oauth_store \<Rightarrow> string list" where
  "code_hashes s = map ac_code_hash (oauth_authorization_codes s)"

lemma extends_in:
  assumes "extends R ds ds'" and "d \<in> set ds"
  obtains d' where "d' \<in> set ds'" and "R d d'"
proof -
  obtain i where i: "i < length ds" "d = ds ! i"
    using assms(2) by (auto simp: in_set_conv_nth)
  have "length ds \<le> length ds'"
    using assms(1) by (auto simp: extends_def dest!: list_all2_lengthD)
  then have "ds' ! i \<in> set ds'" "R d (ds' ! i)"
    using assms(1) i by (simp_all add: extends_def list_all2_conv_all_nth)
  then show thesis
    by (rule that)
qed

lemma same_key: "distinct (map k ds) \<Longrightarrow> x \<in> set ds \<Longrightarrow> y \<in> set ds \<Longrightarrow> k x = k y \<Longrightarrow> x = y"
  by (auto simp: distinct_map dest: inj_onD)

lemma leaves_codes [leaves_rules]:
  "leaves oauth_authorization_codes (on_applications f)" "leaves oauth_authorization_codes (on_consent_requests g)"
  "leaves oauth_authorization_codes (on_access_tokens k)" "leaves oauth_authorization_codes (on_refresh_tokens l)"
  by (simp_all add: leaves_def)

lemma leaves_codes_application [leaves_rules]: "leaves oauth_authorization_codes (application db i)"
  by (cases db) (auto simp: application_def intro: leaves_rules)

lemma leaves_codes_issue: "leaves oauth_authorization_codes (issue_tokens env db client user scope family)"
  by (cases db) (auto simp: issue_tokens_def Let_def intro!: leaves_rules)

lemma application_state: "application db i s = (r, s') \<Longrightarrow> s' = s"
  by (cases db) (auto simp: application_def on_applications_def)

lemma exchange_uses_code:
  assumes "database_ok db" and "exchange_code env db req s = (Ok resp, s')"
  obtains code c a where "tr_code req = Some code" and "c \<in> set (oauth_authorization_codes s)"
    and "ac_code_hash c = oe_digest env code" and "\<not> ac_used c" and "oe_now env 0 < ac_expires_at c"
    and "c\<lparr>ac_used := True\<rparr> \<in> set (oauth_authorization_codes s')"
    and "a \<in> set (oauth_applications s)" and "oa_id a = ac_client_id c" and "\<not> oa_revoked a"
    and "check_secret env a (tr_client_secret req) = Ok ()" and "tr_redirect_uri req = Some (ac_redirect_uri c)"
    and "check_pkce env (ac_code_challenge c) (tr_code_verifier req) = Ok ()" and "to_scope resp = ac_scope c"
proof (cases db)
  case Reference
  with assms(2) have False
    by (auto simp: exchange_code_def elim!: run_elims)
  then show thesis ..
next
  case (MongoDb mg)
  note codes = database_parts(3) [OF assms(1) [unfolded MongoDb]]
  show thesis
    using assms(2) unfolding exchange_code_def MongoDb oauth_database.case
  proof (elim run_elims, goal_cases)
    case (1 code s1 client s2 app s3 a s4 _ s5 _ s6 found s7 c' s8 _ s9 _ s10)
    have s: "s6 = s" and a: "a \<in> set (oauth_applications s)" "oa_id a = client"
      using 1 application_found [OF assms(1) [unfolded MongoDb], of client s1 a s3] by simp_all
    have found: "found = Some c'"
      using 1 by simp
    obtain ds where ds: "co_find_and_update (mg_authorization_codes mg)
        (\<lambda>c. ac_code_hash c = oe_digest env code \<and> ac_client_id c = client \<and> \<not> ac_used c \<and> oe_now env 0 < ac_expires_at c)
        (\<lambda>c. c\<lparr>ac_used := True\<rparr>) (oauth_authorization_codes s) = (Some (Some c'), ds)"
      and s7: "s7 = s\<lparr>oauth_authorization_codes := ds\<rparr>"
      using 1(2) unfolding s found by (auto simp: on_Ok)
    obtain c where c: "c \<in> set (oauth_authorization_codes s)" "ac_code_hash c = oe_digest env code"
        "ac_client_id c = client" "\<not> ac_used c" "oe_now env 0 < ac_expires_at c" "c' = c\<lparr>ac_used := True\<rparr>" "c' \<in> set ds"
      by (rule updated_one_found [OF codes ds]) blast
    have "oauth_authorization_codes s' = ds"
      using 1 leaves_run [OF leaves_codes_issue 1(3)] s7 by simp
    moreover have "to_scope resp = ac_scope c'"
      using 1(3) by (auto simp: issue_tokens_def Let_def elim!: run_elims)
    ultimately show ?case
      using 1 a c by (intro that [of code c a]) simp_all
  qed
qed

text \<open>
  C14: Once an authorization code has been exchanged, no exchange of it succeeds again, whatever
  requests come in between, as long as the digests of the codes in the store stay distinct.
\<close>

theorem codes_are_single_use:
  assumes "database_ok db" and "exchange_code env db req s = (Ok resp, s')"
    and "(\<lambda>t t'. oauth_step t t' \<and> distinct (code_hashes t'))\<^sup>*\<^sup>* s' s''" and "distinct (code_hashes s')"
    and "database_ok db'" and "tr_code req' = tr_code req" and "oe_digest env' = oe_digest env"
  shows "\<not> is_ok (fst (exchange_code env' db' req' s''))"
proof
  assume "is_ok (fst (exchange_code env' db' req' s''))"
  then obtain resp' t where again: "exchange_code env' db' req' s'' = (Ok resp', t)"
    using is_ok_fst by blast
  have "later s' s'' \<and> distinct (code_hashes s'')"
    using assms(3,4) by (induction rule: rtranclp_induct) (auto intro: later_self later_steps step_later)
  then have later: "extends code_later (oauth_authorization_codes s') (oauth_authorization_codes s'')"
    and dist: "distinct (map ac_code_hash (oauth_authorization_codes s''))"
    by (simp_all add: later_def code_hashes_def)
  obtain code c where c: "tr_code req = Some code" "ac_code_hash c = oe_digest env code"
      "c\<lparr>ac_used := True\<rparr> \<in> set (oauth_authorization_codes s')"
    by (rule exchange_uses_code [OF assms(1,2)]) blast
  obtain code' d where d: "tr_code req' = Some code'" "d \<in> set (oauth_authorization_codes s'')"
      "ac_code_hash d = oe_digest env' code'" "\<not> ac_used d"
    by (rule exchange_uses_code [OF assms(5) again]) blast
  obtain e where "e \<in> set (oauth_authorization_codes s'')" "code_later (c\<lparr>ac_used := True\<rparr>) e"
    by (rule extends_in [OF later c(3)])
  then have "ac_used e" "ac_code_hash e = ac_code_hash d" "e \<in> set (oauth_authorization_codes s'')"
    using c d(1,3) assms(6,7) by (auto simp: code_later_def)
  with same_key [OF dist this(3) d(2)] d(4) show False
    by simp
qed

lemma sample_exchange_code:
  "\<exists>resp. exchange_code sample_oauth_env memory_db sample_exchange approved = (Ok resp, granted)"
  using sample_exchange_run by (auto simp: token_def sample_exchange_def)

theorem codes_are_single_use_witness:
  "\<not> is_ok (fst (exchange_code sample_oauth_env memory_db sample_exchange granted))"
proof -
  obtain resp where "exchange_code sample_oauth_env memory_db sample_exchange approved = (Ok resp, granted)"
    using sample_exchange_code by blast
  from codes_are_single_use [OF memory_db_ok this rtranclp.rtrancl_refl _ memory_db_ok refl refl]
  show ?thesis
    by (simp add: code_hashes_def granted_def approved_def)
qed

section \<open>Revocation\<close>

lemma bearer_user_found:
  assumes "database_ok db" and "bearer_user env db w bearer s = (Ok (Some (t, u)), s')"
  shows "t \<in> set (oauth_access_tokens s) \<and> at_token_hash t = oe_digest env bearer \<and> \<not> at_revoked t \<and>
    oe_now env 0 < at_expires_at t \<and> fst (fetch_user (at_user_id t) w) = Ok u"
proof (cases db)
  case Reference
  with assms(2) show ?thesis
    by (auto simp: bearer_user_def elim!: run_elims)
next
  case (MongoDb mg)
  note access = coll_find(1) [OF database_parts(4) [OF assms(1) [unfolded MongoDb]]]
  show ?thesis
    using assms(2) unfolding bearer_user_def MongoDb oauth_database.case
    by (auto simp: on_Ok elim!: run_elims split: option.splits outcome.splits dest!: access)
qed

lemma userinfo_bearer:
  assumes "userinfo env db pdb now w bearer s = (Ok info, s')"
  obtains t u s1 where "bearer_user env db w bearer s = (Ok (Some (t, u)), s1)"
  using assms unfolding userinfo_def by (elim run_elims) (simp add: that)

definition access_hashes :: "oauth_store \<Rightarrow> string list" where
  "access_hashes s = map at_token_hash (oauth_access_tokens s)"

lemma update_one_distinct:
  assumes "coll_ok c" and "co_update_one c p f ds = (Some n, ds')" and "d \<in> set ds" and "p d"
    and "\<And>e. e \<in> set ds \<Longrightarrow> p e \<Longrightarrow> e = d"
  shows "f d \<in> set ds'"
proof -
  obtain e where e: "updates_one p f ds e ds'"
    using coll_update_one(1) [OF assms(1,2)] assms(3,4) by blast
  then have "e = d"
    by (intro assms(5)) (auto simp: updates_one_def)
  with e show ?thesis
    by (auto simp: updates_one_def)
qed

lemma leaves_access: "leaves oauth_access_tokens (on_refresh_tokens l)"
  by (simp add: leaves_def)

lemma revoke_effect:
  assumes "database_ok (MongoDb mg)" and "revoke env (MongoDb mg) req s = (Ok x, s')" and "distinct (access_hashes s)"
    and "t \<in> set (oauth_access_tokens s)" and "at_token_hash t = oe_digest env (rr_token req)"
  shows "t\<lparr>at_revoked := True\<rparr> \<in> set (oauth_access_tokens s')"
  using assms(2) unfolding revoke_def oauth_database.case
proof (elim run_elims, goal_cases)
  case (1 _ s1 _ s2 n s3 m s4)
  have s1: "s1 = s"
    using 1(1) by (auto split: option.splits elim!: run_elims dest: application_state)
  obtain ds where ds: "co_update_one (mg_access_tokens mg) (\<lambda>t. at_token_hash t = oe_digest env (rr_token req))
      (\<lambda>t. t\<lparr>at_revoked := True\<rparr>) (oauth_access_tokens s) = (Some n, ds)" "s3 = s\<lparr>oauth_access_tokens := ds\<rparr>"
    using 1(2) unfolding s1 by (auto simp: on_Ok)
  have "t\<lparr>at_revoked := True\<rparr> \<in> set ds"
    using assms(3,4,5)
    by (intro update_one_distinct [OF database_parts(4) [OF assms(1)] ds(1)])
       (auto simp: access_hashes_def intro: same_key)
  moreover have "oauth_access_tokens s4 = ds"
    using leaves_run [OF leaves_access 1(3)] ds(2) by simp
  ultimately show ?case
    using 1 by simp
qed

text \<open>
  C16: A token that its holder has revoked shows nothing from then on, whatever requests come in
  between, as long as the digests of the access tokens in the store stay distinct.
\<close>

theorem revoked_tokens_stay_dead:
  assumes "database_ok (MongoDb mg)" and "revoke env (MongoDb mg) req s = (Ok x, s')"
    and "t \<in> set (oauth_access_tokens s)" and "at_token_hash t = oe_digest env (rr_token req)"
    and "distinct (access_hashes s)" and "distinct (access_hashes s')"
    and "(\<lambda>t t'. oauth_step t t' \<and> distinct (access_hashes t'))\<^sup>*\<^sup>* s' s''"
    and "database_ok db'" and "oe_digest env' = oe_digest env"
  shows "\<not> is_ok (fst (userinfo env' db' pdb now w (rr_token req) s''))"
proof
  assume "is_ok (fst (userinfo env' db' pdb now w (rr_token req) s''))"
  then obtain info r where "userinfo env' db' pdb now w (rr_token req) s'' = (Ok info, r)"
    using is_ok_fst by blast
  then obtain d u r' where "bearer_user env' db' w (rr_token req) s'' = (Ok (Some (d, u)), r')"
    by (rule userinfo_bearer)
  note d = bearer_user_found [OF assms(8) this]
  have "later s' s'' \<and> distinct (access_hashes s'')"
    using assms(7,6) by (induction rule: rtranclp_induct) (auto intro: later_self later_steps step_later)
  then have later: "extends access_later (oauth_access_tokens s') (oauth_access_tokens s'')"
    and dist: "distinct (map at_token_hash (oauth_access_tokens s''))"
    by (simp_all add: later_def access_hashes_def)
  obtain e where "e \<in> set (oauth_access_tokens s'')" "access_later (t\<lparr>at_revoked := True\<rparr>) e"
    by (rule extends_in [OF later revoke_effect [OF assms(1,2,5,3,4)]])
  then have "at_revoked e" "at_token_hash e = at_token_hash d" "e \<in> set (oauth_access_tokens s'')"
    using d assms(4,9) by (auto simp: access_later_def)
  with same_key [OF dist this(3), of d] d show False
    by simp
qed

definition sample_revocation :: revoke_request where
  "sample_revocation = \<lparr>rr_token = ''r'', rr_client_id = None, rr_client_secret = None\<rparr>"

definition revoked :: oauth_store where
  "revoked = granted\<lparr>oauth_access_tokens := map (\<lambda>t. t\<lparr>at_revoked := True\<rparr>) (oauth_access_tokens granted)\<rparr>"

lemma sample_revocation_run: "revoke sample_oauth_env memory_db sample_revocation granted = (Ok 204, revoked)"
  by (simp add: revoke_def sample_revocation_def revoked_def bindM_def sample_stores)

theorem revoked_tokens_stay_dead_witness:
  "\<not> is_ok (fst (userinfo sample_oauth_env memory_db (reference_db sample_world) 0 sample_world ''r'' revoked))"
proof -
  obtain t where t: "t \<in> set (oauth_access_tokens granted)" "at_token_hash t = oe_digest sample_oauth_env (rr_token sample_revocation)"
    by (simp add: granted_def sample_oauth_env_def sample_revocation_def)
  have "distinct (access_hashes granted)" "distinct (access_hashes revoked)"
    by (simp_all add: access_hashes_def granted_def revoked_def)
  from revoked_tokens_stay_dead [OF memory_db_ok [unfolded memory_db_def] sample_revocation_run [unfolded memory_db_def]
      t this rtranclp.rtrancl_refl memory_db_ok refl]
  show ?thesis
    by (simp add: sample_revocation_def)
qed

section \<open>A refresh token used twice\<close>

definition driver_up :: "'d coll \<Rightarrow> bool" where
  "driver_up c \<longleftrightarrow>
     (\<forall>p ds. \<exists>r. co_find c p ds = Some r) \<and> (\<forall>p f ds. \<exists>r ds'. co_find_and_update c p f ds = (Some r, ds')) \<and>
     (\<forall>p f ds. \<exists>n ds'. co_update_many c p f ds = (Some n, ds'))"

lemmas driver_up_run =
  driver_up_def [THEN iffD1, THEN conjunct1, rule_format]
  driver_up_def [THEN iffD1, THEN conjunct2, THEN conjunct1, rule_format]
  driver_up_def [THEN iffD1, THEN conjunct2, THEN conjunct2, rule_format]

lemma used_token_not_rotated:
  assumes "coll_ok c" and "driver_up c" and "\<And>d. d \<in> set ds \<Longrightarrow> \<not> p d"
  shows "co_find_and_update c p f ds = (Some None, ds)"
proof -
  obtain r ds' where run: "co_find_and_update c p f ds = (Some r, ds')"
    using driver_up_run(2) [OF assms(2), of p f ds] by (elim exE)
  show ?thesis
  proof (cases r)
    case None
    then show ?thesis
      using run coll_find_and_update(2) [OF assms(1)] by simp
  next
    case (Some d)
    then show ?thesis
      using updated_one_found [OF assms(1) run [unfolded Some]] assms(3) by blast
  qed
qed

lemma found_by_key:
  assumes "coll_ok c" and "driver_up c" and "d \<in> set ds" and "p d" and "\<And>e. e \<in> set ds \<Longrightarrow> p e \<Longrightarrow> e = d"
  shows "co_find c p ds = Some (Some d)"
proof -
  obtain r where run: "co_find c p ds = Some r"
    using driver_up_run(1) [OF assms(2), of p ds] by (elim exE)
  show ?thesis
  proof (cases r)
    case None
    with coll_find(2) [OF assms(1), of p ds d] run assms(3,4) show ?thesis by simp
  next
    case (Some e)
    with coll_find(1) [OF assms(1), of p ds e] run assms(5) show ?thesis by simp
  qed
qed

lemma family_revoked:
  assumes "coll_ok c" and "driver_up c"
  obtains n where "co_update_many c p f ds = (Some n, map (\<lambda>d. if p d then f d else d) ds)"
proof -
  obtain n ds' where run: "co_update_many c p f ds = (Some n, ds')"
    using driver_up_run(3) [OF assms(2), of p f ds] by (elim exE)
  then show thesis
    using coll_update_many(1) [OF assms(1) run] that by simp
qed


definition sample_refresh :: token_request where
  "sample_refresh =
     \<lparr>tr_grant_type = ''refresh_token'', tr_code = None, tr_redirect_uri = None, tr_client_id = Some ''r'',
      tr_client_secret = None, tr_code_verifier = None, tr_refresh_token = Some ''rx''\<rparr>"

definition rotated :: oauth_store where
  "rotated = snd (refresh (sample_oauth_env\<lparr>oe_random := \<lambda>i n. ''q'' @ replicate i (CHR ''x'')\<rparr>) memory_db sample_refresh granted)"

lemma memory_up: "driver_up memory_coll"
  by (simp add: driver_up_def memory_coll_def)


section \<open>What a token shows\<close>

text \<open>What one server shows to a bearer of the scopes.\<close>

definition server_within :: "world \<Rightarrow> string \<Rightarrow> string set \<Rightarrow> server_info \<Rightarrow> bool" where
  "server_within w user scopes i \<longleftrightarrow>
     (\<exists>m. hm_get (db_server_members w) \<lparr>mk_server = si_id i, mk_user = user\<rparr> = Some m) \<and>
     (''servers'' \<notin> scopes \<longrightarrow> si_owner i = None) \<and> (''server_members'' \<notin> scopes \<longrightarrow> si_member i = None) \<and>
     (''permissions'' \<notin> scopes \<longrightarrow> si_permissions i = None \<and> si_channels i = None)"

lemma server_info_within:
  assumes "server_info_of env pdb now w scopes user m server = Some i"
  shows "si_id i = s_id server \<and> (''servers'' \<notin> set scopes \<longrightarrow> si_owner i = None) \<and>
     (''server_members'' \<notin> set scopes \<longrightarrow> si_member i = None) \<and>
     (''permissions'' \<notin> set scopes \<longrightarrow> si_permissions i = None \<and> si_channels i = None)"
  using assms by (auto simp: server_info_of_def Let_def split: if_splits option.splits)

lemma those_in: "those xs = Some ys \<Longrightarrow> y \<in> set ys \<Longrightarrow> Some y \<in> set xs"
  by (induction xs arbitrary: ys) (auto split: option.splits)

lemma keyed_values: "keyed f m \<Longrightarrow> v \<in> set (hm_values m) \<Longrightarrow> hm_get m (f v) = Some v"
  by (auto simp: keyed_def hm_values_mem)

lemma listed_server_within:
  assumes "world_ok w" and "fst (fetch_all_memberships user_id w) = Ok ms"
    and "server_infos env pdb now w scopes user ms = Some infos" and "i \<in> set infos"
  shows "server_within w user_id (set scopes) i"
proof -
  obtain m server where m: "m \<in> set ms" and server: "fst (fetch_server (mk_server (m_id m)) w) = Ok server"
      and i: "server_info_of env pdb now w scopes user m server = Some i"
    using those_in [OF assms(3) [unfolded server_infos_def] assms(4)] by (auto simp: map_filter_def split: outcome.splits)
  have "s_id server = mk_server (m_id m)"
    using server assms(1) by (simp add: fetch_server_def world_ok_def keyed_def)
  moreover have "mk_user (m_id m) = user_id" "m \<in> set (hm_values (db_server_members w))"
    using m assms(2) by (auto simp: fetch_all_memberships_def)
  moreover from this(2) assms(1) have "hm_get (db_server_members w) (m_id m) = Some m"
    by (intro keyed_values) (simp_all add: world_ok_def)
  moreover have "m_id m = \<lparr>mk_server = mk_server (m_id m), mk_user = mk_user (m_id m)\<rparr>"
    by simp
  ultimately show ?thesis
    using server_info_within [OF i] unfolding server_within_def by metis
qed

text \<open>What is shown for a list of scopes.\<close>

definition info_within :: "world \<Rightarrow> string \<Rightarrow> string set \<Rightarrow> user_info \<Rightarrow> bool" where
  "info_within w user scopes info \<longleftrightarrow>
     ui_sub info = user \<and>
     (''identify'' \<notin> scopes \<longrightarrow> ui_username info = None \<and> ui_display_name info = None \<and> ui_avatar info = None) \<and>
     (scopes \<inter> {''servers'', ''server_members'', ''permissions''} = {} \<longrightarrow> ui_servers info = None) \<and>
     (case ui_servers info of None \<Rightarrow> True | Some infos \<Rightarrow> \<forall>i\<in>set infos. server_within w user scopes i)"

lemma identity_within:
  "set scopes \<inter> {''servers'', ''server_members'', ''permissions''} = {} \<Longrightarrow> info_within w (u_id u) (set scopes) (identity_info scopes u)"
  by (simp add: info_within_def identity_info_def)

lemma servers_within:
  assumes "set scopes \<inter> {''servers'', ''server_members'', ''permissions''} \<noteq> {}"
    and "\<And>i. i \<in> set infos \<Longrightarrow> server_within w (u_id u) (set scopes) i"
  shows "info_within w (u_id u) (set scopes) ((identity_info scopes u)\<lparr>ui_servers := Some infos\<rparr>)"
  using assms by (simp add: info_within_def identity_info_def)

lemma userinfo_shows:
  assumes "world_ok w" and "userinfo env db pdb now w bearer s = (Ok info, s')"
  obtains t u s1 where "bearer_user env db w bearer s = (Ok (Some (t, u)), s1)"
    and "info_within w (u_id u) (set (split_whitespace (at_scope t))) info"
  using assms(2) unfolding userinfo_def
proof (elim run_elims, goal_cases)
  case (1 found s1 p s2 t u)
  let ?scopes = "split_whitespace (at_scope t)"
  have "info_within w (u_id u) (set ?scopes) info"
  proof (cases "set ?scopes \<inter> {''servers'', ''server_members'', ''permissions''} = {}")
    case True
    then have "info = identity_info ?scopes u"
      using 1 by (simp split: if_splits)
    with True show ?thesis
      by (simp only: identity_within)
  next
    case False
    then have "''servers'' \<in> set ?scopes \<or> ''server_members'' \<in> set ?scopes \<or> ''permissions'' \<in> set ?scopes"
      by blast
    from 1(6) [unfolded if_P [OF this]] obtain ms infos where "fst (fetch_all_memberships (u_id u) w) = Ok ms"
        "server_infos env pdb now w ?scopes u ms = Some infos" "info = (identity_info ?scopes u)\<lparr>ui_servers := Some infos\<rparr>"
      by (elim run_elims) (auto split: option.splits outcome.splits elim!: run_elims)
    with servers_within [OF False listed_server_within [OF assms(1) this(1,2)]] show ?thesis
      by (simp only:)
  qed
  with 1 show ?case
    by (intro 1(1) [of t u s1]) simp_all
qed

text \<open>
  C17: What \<open>userinfo\<close> shows belongs to the user of an access token that is stored, not revoked and
  not expired; the name and avatar only with the scope \<open>identify\<close>, and of servers only those the
  user is a member of, with the owner, the membership and the permissions each under its scope.
\<close>

theorem userinfo_within_scopes:
  assumes "database_ok db" and "world_ok w" and "userinfo env db pdb now w bearer s = (Ok info, s')"
  shows "\<exists>t\<in>set (oauth_access_tokens s).
           at_token_hash t = oe_digest env bearer \<and> \<not> at_revoked t \<and> oe_now env 0 < at_expires_at t \<and>
           info_within w (at_user_id t) (set (split_whitespace (at_scope t))) info"
proof -
  obtain t u s1 where found: "bearer_user env db w bearer s = (Ok (Some (t, u)), s1)"
    and shown: "info_within w (u_id u) (set (split_whitespace (at_scope t))) info"
    by (rule userinfo_shows [OF assms(2,3)])
  note t = bearer_user_found [OF assms(1) found]
  then have "u_id u = at_user_id t"
    using assms(2) by (simp add: fetch_user_def world_ok_def keyed_def)
  with t shown show ?thesis
    by (intro bexI [of _ t]) simp_all
qed

theorem userinfo_within_scopes_witness:
  "\<exists>t\<in>set (oauth_access_tokens granted).
     at_token_hash t = ''r'' \<and> \<not> at_revoked t \<and> 0 < at_expires_at t \<and>
     info_within sample_world (at_user_id t) (set (split_whitespace (at_scope t)))
       (identity_info [''identify''] (sample_user ''A''))"
proof -
  have user: "fst (fetch_user ''A'' sample_world) = Ok (sample_user ''A'')"
    by code_simp
  have scopes: "split_whitespace ''identify'' = [''identify'']"
    by code_simp
  have run: "userinfo sample_oauth_env memory_db (reference_db sample_world) 0 sample_world ''r'' granted =
      (Ok (identity_info [''identify''] (sample_user ''A'')), granted)"
    by (simp add: userinfo_def bearer_user_def bindM_def user scopes sample_stores)
  show ?thesis
    using userinfo_within_scopes [OF memory_db_ok sample_world_ok run] by (simp add: sample_oauth_env_def)
qed

end
