(* ===== verification/Windows.thy ===== *)
theory Windows
  imports Prelude
begin

text \<open>
  Counting in fixed windows, the scheme of both rate limiters: a window admits \<open>limit\<close> requests
  and the next one opens with the first request after its end. The locale states what a limiter
  does with one request; its theorem bounds what passes within any span of the window's width.
\<close>

text \<open>The requests that pass, each with its time and the end of its window.\<close>

fun passed :: "('r \<Rightarrow> 's \<Rightarrow> bool \<times> 's) \<Rightarrow> ('r \<Rightarrow> nat) \<Rightarrow> ('s \<Rightarrow> nat) \<Rightarrow> 'r list \<Rightarrow> 's \<Rightarrow> (nat \<times> nat) list" where
  "passed step time ends [] s = []"
| "passed step time ends (r # rs) s =
     (case step r s of (b, s') \<Rightarrow> (if b then [(time r, ends s')] else []) @ passed step time ends rs s')"

text \<open>The times at which requests pass.\<close>

fun admitted :: "('r \<Rightarrow> 's \<Rightarrow> bool \<times> 's) \<Rightarrow> ('r \<Rightarrow> nat) \<Rightarrow> 'r list \<Rightarrow> 's \<Rightarrow> nat list" where
  "admitted step time [] s = []"
| "admitted step time (r # rs) s =
     (case step r s of (b, s') \<Rightarrow> (if b then [time r] else []) @ admitted step time rs s')"

lemma passed_times: "map fst (passed step time ends rs s) = admitted step time rs s"
  by (induction rs arbitrary: s) (simp_all split: prod.splits)

definition within :: "nat \<Rightarrow> nat \<Rightarrow> nat \<Rightarrow> bool" where
  "within a width t \<longleftrightarrow> a \<le> t \<and> t \<le> a + width"

lemma count_filter_le: "count_list (map f (filter P xs)) y \<le> count_list (map f xs) y"
  by (induction xs) auto

lemma at_most_two:
  fixes E :: "nat set"
  assumes "\<And>x y z. x \<in> E \<Longrightarrow> y \<in> E \<Longrightarrow> z \<in> E \<Longrightarrow> x < y \<Longrightarrow> y < z \<Longrightarrow> False" and "finite E"
  shows "card E \<le> 2"
proof (rule ccontr)
  assume "\<not> card E \<le> 2"
  then obtain T where T: "T \<subseteq> E" "card T = 3"
    using obtain_subset_with_card_n [of 3 E] by auto
  then obtain a b c where "T = {a, b, c}" "a \<noteq> b" "b \<noteq> c" "a \<noteq> c"
    by (auto simp: card_3_iff)
  with T(1) assms(1) [of a b c] assms(1) [of a c b] assms(1) [of b a c] assms(1) [of b c a]
    assms(1) [of c a b] assms(1) [of c b a]
  show False by (metis insert_subset linorder_neqE_nat)
qed

locale fixed_window =
  fixes step :: "'r \<Rightarrow> 's \<Rightarrow> bool \<times> 's" and time :: "'r \<Rightarrow> nat" and ends used :: "'s \<Rightarrow> nat"
    and valid :: "'r \<Rightarrow> bool" and inv :: "nat \<Rightarrow> 's \<Rightarrow> bool" and width limit :: nat
  assumes inv: "inv (Suc n) s \<Longrightarrow> valid r \<Longrightarrow> inv n (snd (step r s))"
    and accept: "inv (Suc n) s \<Longrightarrow> valid r \<Longrightarrow> step r s = (True, s') \<Longrightarrow>
      used s' \<le> limit \<and> time r < ends s' \<and>
      (ends s' = ends s \<and> used s' = Suc (used s) \<or> ends s \<le> time r \<and> ends s + width \<le> ends s' \<and> used s' = 1)"
    and reject: "inv (Suc n) s \<Longrightarrow> valid r \<Longrightarrow> step r s = (False, s') \<Longrightarrow> ends s' = ends s \<and> used s \<le> used s'"
    and width: "0 < width"
begin

lemma passed_ends:
  assumes "inv (length rs) s" and "sorted (map time rs)" and "\<forall>r\<in>set rs. valid r"
    and "(t, e) \<in> set (passed step time ends rs s)"
  shows "t < e \<and> (e = ends s \<or> ends s \<le> t \<and> ends s + width \<le> e) \<and> t \<in> time ` set rs"
  using assms
proof (induction rs arbitrary: s)
  case (Cons r rs)
  obtain b s' where step: "step r s = (b, s')"
    by (cases "step r s")
  have inv': "inv (length rs) s'"
    using inv [of "length rs" s r] Cons.prems(1,3) step by simp
  note IH = Cons.IH [OF inv' _ _]
  show ?case
  proof (cases "(t, e) \<in> set (passed step time ends rs s')")
    case True
    then have tail: "t < e" "e = ends s' \<or> ends s' \<le> t \<and> ends s' + width \<le> e" "t \<in> time ` set rs"
      using IH Cons.prems by auto
    moreover from tail(3) have "time r \<le> t"
      using Cons.prems(2) by auto
    moreover have "ends s' = ends s \<or> ends s \<le> time r \<and> ends s + width \<le> ends s'"
      using accept [of "length rs" s r s'] reject [of "length rs" s r s'] Cons.prems step by (cases b) auto
    ultimately show ?thesis
      by auto
  next
    case False
    then have "b" "t = time r" "e = ends s'"
      using Cons.prems(4) step by (auto split: if_splits)
    then show ?thesis
      using accept [of "length rs" s r s'] Cons.prems step by auto
  qed
qed simp

lemma passed_apart:
  assumes "inv (length rs) s" and "sorted (map time rs)" and "\<forall>r\<in>set rs. valid r"
    and "(t, e) \<in> set (passed step time ends rs s)" and "(t', e') \<in> set (passed step time ends rs s)" and "e < e'"
  shows "e \<le> t' \<and> e + width \<le> e'"
  using assms
proof (induction rs arbitrary: s)
  case (Cons r rs)
  obtain b s' where step: "step r s = (b, s')"
    by (cases "step r s")
  have inv': "inv (length rs) s'" and prems: "sorted (map time rs)" "\<forall>r\<in>set rs. valid r"
    using inv [of "length rs" s r] Cons.prems(1,2,3) step by simp_all
  note tail = passed_ends [OF inv' prems]
  consider "(t, e) \<in> set (passed step time ends rs s')" "(t', e') \<in> set (passed step time ends rs s')"
    | "e = ends s'" "(t', e') \<in> set (passed step time ends rs s')"
    | "e' = ends s'" "(t, e) \<in> set (passed step time ends rs s')"
    using Cons.prems(4,5,6) step by (auto split: if_splits)
  then show ?case
  proof cases
    case 1
    then show ?thesis using Cons.IH [OF inv' prems] Cons.prems(6) by blast
  next
    case 2
    then show ?thesis using tail [OF 2(2)] Cons.prems(6) by auto
  next
    case 3
    then show ?thesis using tail [OF 3(2)] Cons.prems(6) by auto
  qed
qed simp

lemma passed_count:
  assumes "inv (length rs) s" and "sorted (map time rs)" and "\<forall>r\<in>set rs. valid r"
  shows "count_list (map snd (passed step time ends rs s)) e \<le> limit \<and>
    (e = ends s \<longrightarrow> e \<in> snd ` set (passed step time ends rs s) \<longrightarrow>
       count_list (map snd (passed step time ends rs s)) e + used s \<le> limit)"
  using assms
proof (induction rs arbitrary: s e)
  case (Cons r rs)
  obtain b s' where step: "step r s = (b, s')"
    by (cases "step r s")
  have inv': "inv (length rs) s'" and prems: "sorted (map time rs)" "\<forall>r\<in>set rs. valid r"
    using inv [of "length rs" s r] Cons.prems(1,2,3) step by simp_all
  have gone: "ends s' = ends s" if "(t, ends s) \<in> set (passed step time ends rs s')" "ends s \<le> ends s'" for t
    using that(2) passed_ends [OF inv' prems that(1)] width by linarith
  note IH = Cons.IH [OF inv' prems]
  show ?case
  proof (cases b)
    case True
    then have now: "used s' \<le> limit"
        "ends s' = ends s \<and> used s' = Suc (used s) \<or> ends s \<le> time r \<and> ends s + width \<le> ends s' \<and> used s' = 1"
      using accept [of "length rs" s r s'] Cons.prems step by auto
    have "count_list (map snd (passed step time ends rs s')) (ends s') + used s' \<le> limit"
      using IH [of "ends s'"] now(1) by (cases "ends s' \<in> snd ` set (passed step time ends rs s')") (auto simp: count_notin)
    with True step now IH [of e] show ?thesis
      using gone width by (auto simp: count_notin)
  next
    case False
    then show ?thesis
      using reject [of "length rs" s r s'] Cons.prems step IH [of e] by auto
  qed
qed simp

lemma three_windows:
  assumes "inv (length rs) s" and "sorted (map time rs)" and "\<forall>r\<in>set rs. valid r"
    and "(t1, e1) \<in> set (passed step time ends rs s)" and "(t2, e2) \<in> set (passed step time ends rs s)"
    and "(t3, e3) \<in> set (passed step time ends rs s)" and "e1 < e2" and "e2 < e3"
  shows "t1 + width < t3"
  using passed_ends [OF assms(1-4)] passed_apart [OF assms(1-5,7)] passed_apart [OF assms(1-3,5,6,8)] by linarith

theorem window_bound:
  assumes "inv (length rs) s" and "sorted (map time rs)" and "\<forall>r\<in>set rs. valid r"
  shows "length (filter (\<lambda>p. within a width (fst p)) (passed step time ends rs s)) \<le> 2 * limit"
proof -
  let ?F = "filter (\<lambda>p. within a width (fst p)) (passed step time ends rs s)"
  define E where "E = set (map snd ?F)"
  have two: "card E \<le> 2"
  proof (rule at_most_two)
    fix x y z
    assume "x \<in> E" "y \<in> E" "z \<in> E" and lt: "x < y" "y < z"
    then obtain p1 p2 p3 where p: "p1 \<in> set ?F" "p2 \<in> set ?F" "p3 \<in> set ?F" "x = snd p1" "y = snd p2" "z = snd p3"
      unfolding E_def list.set_map by (elim imageE) (rule that)
    with three_windows [OF assms, of "fst p1" x "fst p2" y "fst p3" z] lt show False
      by (simp add: within_def)
  qed (simp add: E_def)
  have "length ?F = sum (count_list (map snd ?F)) E"
    unfolding E_def using sum_count_set [of "map snd ?F"] by simp
  also have "\<dots> \<le> sum (\<lambda>_. limit) E"
  proof (rule sum_mono)
    fix e
    show "count_list (map snd ?F) e \<le> limit"
      using count_filter_le [of snd "\<lambda>p. within a width (fst p)" "passed step time ends rs s" e] passed_count [OF assms, of e]
      by simp
  qed
  also have "\<dots> \<le> 2 * limit"
    using two by simp
  finally show ?thesis .
qed

corollary admitted_bound:
  assumes "inv (length rs) s" and "sorted (map time rs)" and "\<forall>r\<in>set rs. valid r"
  shows "length (filter (within a width) (admitted step time rs s)) \<le> 2 * limit"
  using window_bound [OF assms, of a]
  by (simp add: passed_times [symmetric, where ends = ends] filter_map comp_def)

end

end
