(* ===== verification/Ratelimits.thy ===== *)
theory Ratelimits
  imports Windows
begin

text \<open>
  The rate limiter of \<open>core/ratelimits\<close> with the resolvers of the three services, and the one of
  the OAuth endpoints. The clock is a parameter: the readings of one request in the order of the
  calls. So is the hash of the key, of the chunks that are written to the hasher. Release builds
  compute on \<open>u32\<close> with wrap-around, and so does the model.
\<close>

section \<open>Buckets\<close>

record entry =
  en_used :: u32
  en_reset :: nat

record ratelimiter =
  rl_key :: u64
  rl_limit :: u32
  rl_remaining :: u32
  rl_reset :: nat

text \<open>Reading \<open>i\<close> is the \<open>i\<close>th call of \<open>now\<close> in the source, in milliseconds.\<close>

type_synonym clock = "nat \<Rightarrow> nat"

definition entry_from :: "clock \<Rightarrow> (u64, entry) hmap \<Rightarrow> u64 \<Rightarrow> entry" where
  "entry_from now m key =
     (case hm_get m key of Some e \<Rightarrow> e | None \<Rightarrow> \<lparr>en_used = 0, en_reset = now 0 + 10000\<rparr>)"

definition get_remaining :: "clock \<Rightarrow> entry \<Rightarrow> u32 \<Rightarrow> u32" where
  "get_remaining now e limit = (if now 1 > en_reset e then limit else limit - en_used e)"

definition left_until_reset :: "nat \<Rightarrow> entry \<Rightarrow> nat" where
  "left_until_reset current_time e = en_reset e - current_time"

definition deduct :: "clock \<Rightarrow> entry \<Rightarrow> entry" where
  "deduct now e =
     (if now 3 > en_reset e then \<lparr>en_used = 1, en_reset = now 4 + 10000\<rparr>
      else e\<lparr>en_used := en_used e + 1\<rparr>)"

definition save :: "u64 \<Rightarrow> entry \<Rightarrow> (u64, entry) hmap \<Rightarrow> (u64, entry) hmap" where
  "save key e m = hm_insert key e m"

type_synonym hasher = "string list \<Rightarrow> u64"

definition bucket_key :: "hasher \<Rightarrow> string \<Rightarrow> string \<times> string option \<Rightarrow> u64" where
  "bucket_key hash identifier = (\<lambda>(bucket, resource).
     hash ([identifier, bucket] @ (case resource of Some i \<Rightarrow> [i] | None \<Rightarrow> [])))"

definition ratelimiter_from ::
    "hasher \<Rightarrow> clock \<Rightarrow> string \<Rightarrow> u32 \<Rightarrow> string \<times> string option \<Rightarrow> ((u64, entry) hmap, ratelimiter, ratelimiter) comp" where
  "ratelimiter_from hash now identifier limit bucket m =
     (let key = bucket_key hash identifier bucket;
          entry = entry_from now m key;
          remaining = get_remaining now entry limit;
          ratelimiter = \<lparr>rl_key = key, rl_limit = limit, rl_remaining = remaining, rl_reset = left_until_reset (now 2) entry\<rparr>
      in if remaining = 0 then (Err ratelimiter, m)
         else let entry = deduct now entry
              in (Ok (ratelimiter\<lparr>rl_remaining := remaining - 1, rl_reset := left_until_reset (now 5) entry\<rparr>),
                  save key entry m))"

section \<open>Requests\<close>

datatype http_method = Get | Put | Post | Delete | Patch | OtherMethod

text \<open>The path segments as they were routed, and what identifies the client.\<close>

record http_request =
  hr_method :: http_method
  hr_segments :: "string list"
  hr_session :: "string option"
  hr_client_ip :: "string option"
  hr_cf_connecting_ip :: "string option"

definition segment :: "http_request \<Rightarrow> nat \<Rightarrow> string option" where
  "segment r i = (if i < length (hr_segments r) then Some (hr_segments r ! i) else None)"

definition delta_resolve_bucket :: "http_request \<Rightarrow> string \<times> string option" where
  "delta_resolve_bucket r =
     (let n = (if segment r 0 = Some ''0.8'' then 1 else 0);
          resource = segment r (n + 1); extra = segment r (n + 2)
      in case segment r n of
           None \<Rightarrow> (''any'', None)
         | Some seg \<Rightarrow>
             if seg = ''users'' \<and> hr_method r = Patch then (''user_edit'', resource)
             else if seg = ''users'' then
               (if extra = Some ''default_avatar'' then (''default_avatar'', None) else (''users'', None))
             else if seg = ''bots'' then (''bots'', None)
             else if seg = ''channels'' \<and> resource \<noteq> None then
               (if hr_method r = Post \<and> extra = Some ''messages'' then (''messaging'', resource)
                else (''channels'', resource))
             else if seg = ''servers'' \<and> resource \<noteq> None then (''servers'', resource)
             else if seg = ''auth'' then
               (if hr_method r = Delete then (''auth_delete'', None) else (''auth'', None))
             else if seg = ''swagger'' then (''swagger'', None)
             else if seg = ''safety'' \<and> resource = Some ''report'' then (''safety_report'', Some ''report'')
             else if seg = ''safety'' then (''safety'', None)
             else (''any'', None))"

definition delta_resolve_bucket_limit :: "string \<Rightarrow> u32" where
  "delta_resolve_bucket_limit bucket =
     (case map_of [(''user_edit'', 2), (''users'', 20), (''bots'', 10), (''messaging'', 10), (''channels'', 15),
                   (''servers'', 5), (''auth'', 15), (''auth_delete'', 255), (''default_avatar'', 255),
                   (''swagger'', 100), (''safety'', 15), (''safety_report'', 3)] bucket of
        Some n \<Rightarrow> n | None \<Rightarrow> 20)"

text \<open>\<open>uri.path().trim_matches('/').split_terminator("/")\<close> of the two axum services is the list of segments.\<close>

definition autumn_resolve_bucket :: "http_request \<Rightarrow> string \<times> string option" where
  "autumn_resolve_bucket r =
     (case (hr_method r, hr_segments r) of
        (Post, [tag]) \<Rightarrow> (''upload'', Some tag)
      | _ \<Rightarrow> (''any'', None))"

definition autumn_resolve_bucket_limit :: "string \<Rightarrow> (unit, u32) outcome" where
  "autumn_resolve_bucket_limit bucket =
     (if bucket = ''upload'' then Ok 10
      else if bucket = ''any'' then Ok (- 1)
      else Panic ''Bucket defined but no limit set'')"

definition gifbox_resolve_bucket :: "http_request \<Rightarrow> string \<times> string option" where
  "gifbox_resolve_bucket r =
     (if segment r 0 \<in> {Some ''categories'', Some ''trending'', Some ''search''}
      then (the (segment r 0), None) else (''any'', None))"

definition gifbox_resolve_bucket_limit :: "string \<Rightarrow> (unit, u32) outcome" where
  "gifbox_resolve_bucket_limit bucket =
     (if bucket = ''categories'' then Ok 2
      else if bucket = ''trending'' then Ok 5
      else if bucket = ''search'' then Ok 10
      else if bucket = ''any'' then Ok (- 1)
      else Panic ''Bucket defined but no limit set'')"

definition to_ip :: "http_request \<Rightarrow> string" where
  "to_ip r = (case hr_client_ip r of Some ip \<Rightarrow> ip | None \<Rightarrow> [])"

definition to_real_ip :: "bool \<Rightarrow> http_request \<Rightarrow> string" where
  "to_real_ip trust_cloudflare r =
     (if trust_cloudflare then (case hr_cf_connecting_ip r of Some ip \<Rightarrow> ip | None \<Rightarrow> to_ip r) else to_ip r)"

section \<open>The guard\<close>

text \<open>
  A request is counted once: the result of the first evaluation is cached with the request, and
  the fairing, the handlers and the headers of the response read it from there.
\<close>

definition client_identifier :: "bool \<Rightarrow> http_request \<Rightarrow> string" where
  "client_identifier trust_cloudflare r =
     (case hr_session r of Some i \<Rightarrow> i | None \<Rightarrow> to_real_ip trust_cloudflare r)"

definition delta_from_request ::
    "hasher \<Rightarrow> bool \<Rightarrow> clock \<Rightarrow> http_request \<Rightarrow> ((u64, entry) hmap, ratelimiter, ratelimiter) comp" where
  "delta_from_request hash trust_cloudflare now r =
     (let bucket = delta_resolve_bucket r
      in ratelimiter_from hash now (client_identifier trust_cloudflare r) (delta_resolve_bucket_limit (fst bucket)) bucket)"

text \<open>A request over the limit is answered by the route \<open>/ratelimit\<close>.\<close>

definition on_request :: "(ratelimiter, ratelimiter) outcome \<Rightarrow> http_request \<Rightarrow> http_request" where
  "on_request limiter r =
     (case limiter of Err _ \<Rightarrow> r\<lparr>hr_method := Get, hr_segments := [''ratelimit'']\<rparr> | _ \<Rightarrow> r)"

datatype ratelimit_information = Success ratelimiter | Failure nat

definition ratelimit_info :: "(ratelimiter, ratelimiter) outcome \<Rightarrow> ratelimit_information option" where
  "ratelimit_info limiter =
     (case limiter of Ok g \<Rightarrow> Some (Success g) | Err g \<Rightarrow> Some (Failure (rl_reset g)) | Panic _ \<Rightarrow> None)"

record limit_headers =
  lh_limit :: u32
  lh_bucket :: u64
  lh_remaining :: u32
  lh_reset_after :: nat
  lh_too_many :: bool

definition on_response :: "(ratelimiter, ratelimiter) outcome \<Rightarrow> limit_headers option" where
  "on_response limiter =
     (case limiter of
        Ok g \<Rightarrow> Some \<lparr>lh_limit = rl_limit g, lh_bucket = rl_key g, lh_remaining = rl_remaining g,
                  lh_reset_after = rl_reset g, lh_too_many = False\<rparr>
      | Err g \<Rightarrow> Some \<lparr>lh_limit = rl_limit g, lh_bucket = rl_key g, lh_remaining = rl_remaining g,
                   lh_reset_after = rl_reset g, lh_too_many = True\<rparr>
      | Panic _ \<Rightarrow> None)"

section \<open>The limiter of the OAuth endpoints\<close>

text \<open>Per client address the start of the minute and the requests in it, refused ones included.\<close>

definition oauth_rate_limit :: "clock \<Rightarrow> http_request \<Rightarrow> ((string, nat \<times> u32) hmap, nat, unit) comp" where
  "oauth_rate_limit now r limits =
     (let key = (case hr_client_ip r of Some ip \<Rightarrow> ip | None \<Rightarrow> ''unknown'');
          entry = (case hm_get limits key of Some e \<Rightarrow> e | None \<Rightarrow> (now 0, 0));
          entry = (if now 1 - fst entry \<ge> 60000 then (now 2, 0) else entry);
          entry = (fst entry, snd entry + 1)
      in (if snd entry > 60 then Err 429 else Ok (), hm_insert key entry limits))"

section \<open>What passes in ten seconds\<close>

definition monotone_clock :: "clock \<Rightarrow> bool" where
  "monotone_clock now \<longleftrightarrow> now 0 \<le> now 1 \<and> now 1 \<le> now 2 \<and> now 2 \<le> now 3 \<and> now 3 \<le> now 4 \<and> now 4 \<le> now 5"

text \<open>A request with its clock readings; the time of a request is when it is charged.\<close>

type_synonym call = "clock \<times> http_request"

definition call_time :: "call \<Rightarrow> nat" where
  "call_time c = fst c 3"

definition call_key :: "hasher \<Rightarrow> bool \<Rightarrow> call \<Rightarrow> u64" where
  "call_key hash trust c =
     bucket_key hash (client_identifier trust (snd c)) (delta_resolve_bucket (snd c))"

definition call_limit :: "call \<Rightarrow> u32" where
  "call_limit c = delta_resolve_bucket_limit (fst (delta_resolve_bucket (snd c)))"

text \<open>Whether a request with the key passes.\<close>

definition charge :: "hasher \<Rightarrow> bool \<Rightarrow> u64 \<Rightarrow> call \<Rightarrow> (u64, entry) hmap \<Rightarrow> bool \<times> (u64, entry) hmap" where
  "charge hash trust k c m =
     (case delta_from_request hash trust (fst c) (snd c) m of (g, m') \<Rightarrow> (is_ok g \<and> call_key hash trust c = k, m'))"

definition window_end :: "u64 \<Rightarrow> (u64, entry) hmap \<Rightarrow> nat" where
  "window_end k m = (case hm_get m k of Some e \<Rightarrow> Suc (en_reset e) | None \<Rightarrow> 0)"

definition window_used :: "u64 \<Rightarrow> (u64, entry) hmap \<Rightarrow> nat" where
  "window_used k m = (case hm_get m k of Some e \<Rightarrow> unat (en_used e) | None \<Rightarrow> 0)"

definition call_ok :: "hasher \<Rightarrow> bool \<Rightarrow> u64 \<Rightarrow> u32 \<Rightarrow> call \<Rightarrow> bool" where
  "call_ok hash trust k limit c \<longleftrightarrow>
     monotone_clock (fst c) \<and> (call_key hash trust c = k \<longrightarrow> call_limit c = limit)"

lemma delta_from_request_run:
  "delta_from_request hash trust now r =
     ratelimiter_from hash now (client_identifier trust r) (call_limit (now, r)) (delta_resolve_bucket r)"
  by (simp add: delta_from_request_def call_limit_def Let_def)

lemma charge_other: "call_key hash trust c \<noteq> k \<Longrightarrow> charge hash trust k c m = (b, m') \<Longrightarrow> \<not> b \<and> hm_get m' k = hm_get m k"
  by (cases c) (auto simp: charge_def delta_from_request_run ratelimiter_from_def Let_def save_def call_key_def split: if_splits)

lemma remaining_pos:
  assumes "limit - used \<noteq> 0" and "unat used \<le> unat (limit :: u32)"
  shows "unat (used + 1) = Suc (unat used)" and "Suc (unat used) \<le> unat limit"
proof -
  have "unat used \<noteq> unat limit"
    using assms(1) by (metis diff_self word_unat_eq_iff)
  then show le: "Suc (unat used) \<le> unat limit"
    using assms(2) by simp
  with unsigned_less [of limit, where 'a = nat] show "unat (used + 1) = Suc (unat used)"
    by (simp add: unat_word_ariths)
qed

lemma charge_same:
  assumes "call_key hash trust c = k" and "charge hash trust k c m = (b, m')"
  shows "b \<longleftrightarrow> get_remaining (fst c) (entry_from (fst c) m k) (call_limit c) \<noteq> 0"
    and "b \<Longrightarrow> hm_get m' k = Some (deduct (fst c) (entry_from (fst c) m k))" and "\<not> b \<Longrightarrow> m' = m"
  using assms
  by (cases c; auto simp: charge_def delta_from_request_run ratelimiter_from_def Let_def save_def call_key_def split: if_splits)+

lemma deduct_window:
  assumes "get_remaining now e limit \<noteq> 0" and "unat (en_used e) \<le> unat limit" and "monotone_clock now"
  shows "now 3 \<le> en_reset e \<Longrightarrow> en_reset (deduct now e) = en_reset e \<and>
           unat (en_used (deduct now e)) = Suc (unat (en_used e)) \<and> Suc (unat (en_used e)) \<le> unat limit"
    and "now 3 > en_reset e \<Longrightarrow> now 3 + 10000 \<le> en_reset (deduct now e) \<and> unat (en_used (deduct now e)) = 1 \<and> 1 \<le> unat limit"
proof -
  show "en_reset (deduct now e) = en_reset e \<and> unat (en_used (deduct now e)) = Suc (unat (en_used e)) \<and>
      Suc (unat (en_used e)) \<le> unat limit" if "now 3 \<le> en_reset e"
  proof -
    have "limit - en_used e \<noteq> 0"
      using that assms by (auto simp: get_remaining_def monotone_clock_def split: if_splits)
    from remaining_pos [OF this assms(2)] that show ?thesis
      by (simp add: deduct_def)
  qed
  have "limit \<noteq> 0"
    using assms(1,2) by (auto simp: get_remaining_def unat_eq_0 split: if_splits)
  then have "1 \<le> unat limit"
    by (simp add: Suc_leI unat_gt_0)
  then show "now 3 + 10000 \<le> en_reset (deduct now e) \<and> unat (en_used (deduct now e)) = 1 \<and> 1 \<le> unat limit"
    if "now 3 > en_reset e"
    using that assms(3) by (simp add: deduct_def monotone_clock_def)
qed

lemma charge_accept:
  assumes "window_used k m \<le> unat limit" and "call_ok hash trust k limit c" and "charge hash trust k c m = (True, m')"
  shows "window_used k m' \<le> unat limit \<and> call_time c < window_end k m' \<and>
    (window_end k m' = window_end k m \<and> window_used k m' = Suc (window_used k m) \<or>
     window_end k m \<le> call_time c \<and> window_end k m + 10000 \<le> window_end k m' \<and> window_used k m' = 1)"
proof -
  have key: "call_key hash trust c = k"
    using charge_other assms(3) by blast
  define e where "e = entry_from (fst c) m k"
  have used: "unat (en_used e) = window_used k m"
    by (simp add: e_def entry_from_def window_used_def split: option.split)
  have now: "monotone_clock (fst c)" and rem: "get_remaining (fst c) e limit \<noteq> 0"
      and m': "hm_get m' k = Some (deduct (fst c) e)"
    using charge_same [OF key assms(3)] assms(2) key by (simp_all add: e_def call_ok_def)
  note deduct = deduct_window [OF rem _ now]
  show ?thesis
  proof (cases "hm_get m k")
    case None
    then have "e = \<lparr>en_used = 0, en_reset = fst c 0 + 10000\<rparr>"
      by (simp add: e_def entry_from_def)
    with None deduct now m' show ?thesis
      by (cases "fst c 3 \<le> en_reset e") (auto simp: window_used_def window_end_def call_time_def)
  next
    case (Some d)
    then have "e = d"
      by (simp add: e_def entry_from_def)
    with Some deduct m' assms(1) used show ?thesis
      by (cases "fst c 3 \<le> en_reset e") (auto simp: window_used_def window_end_def call_time_def)
  qed
qed

lemma charge_reject:
  assumes "charge hash trust k c m = (False, m')"
  shows "window_end k m' = window_end k m \<and> window_used k m' = window_used k m"
proof (cases "call_key hash trust c = k")
  case True
  then show ?thesis using charge_same(3) [OF True assms] by simp
next
  case False
  then show ?thesis using charge_other [OF False assms] by (simp add: window_end_def window_used_def)
qed

interpretation limiter: fixed_window "charge hash trust k" call_time "window_end k" "window_used k"
  "call_ok hash trust k limit" "\<lambda>_ m. window_used k m \<le> unat limit" 10000 "unat limit" for hash trust k limit
proof
  fix m c
  assume inv: "window_used k m \<le> unat limit" "call_ok hash trust k limit c"
  obtain b m' where run: "charge hash trust k c m = (b, m')"
    by (cases "charge hash trust k c m")
  then show "window_used k (snd (charge hash trust k c m)) \<le> unat limit"
    using charge_accept [OF inv, of m'] charge_reject [of hash trust k c m m'] inv by (cases b) auto
qed (use charge_accept charge_reject in auto)

text \<open>
  C23: In any ten seconds, at most twice the limit of a bucket of one client's requests pass, whatever
  requests come in, in whatever order of buckets and clients, and wherever the windows of the bucket fall.
\<close>

theorem ratelimit_bound:
  assumes "sorted (map call_time calls)" and "\<And>c. c \<in> set calls \<Longrightarrow> monotone_clock (fst c)"
    and "\<And>c. c \<in> set calls \<Longrightarrow> call_key hash trust c = k \<Longrightarrow> call_limit c = limit"
  shows "length (filter (within a 10000) (admitted (charge hash trust k) call_time calls [])) \<le> 2 * unat limit"
  using limiter.admitted_bound [of k "[]" limit calls hash trust a] assms
  by (simp add: window_used_def call_ok_def)

definition sample_call :: "nat \<Rightarrow> call" where
  "sample_call t = (\<lambda>_. t, \<lparr>hr_method = Patch, hr_segments = [''users'', ''me''], hr_session = Some ''s'',
     hr_client_ip = None, hr_cf_connecting_ip = None\<rparr>)"

text \<open>Four edits of a user pass within eleven milliseconds, around the end of a window; a fifth does not.\<close>

theorem ratelimit_bound_witness:
  "admitted (charge (\<lambda>_. 7) False 7) call_time (map sample_call [0, 9995, 9996, 10001, 10002, 10003]) [] =
     [0, 9995, 10001, 10002] \<and>
   length (filter (within 5 10000) (admitted (charge (\<lambda>_. 7) False 7) call_time
     (map sample_call [0, 9995, 9996, 10001, 10002, 10003]) [])) \<le> 4"
proof
  have limit: "call_limit (sample_call t) = 2" for t
    by (simp add: call_limit_def sample_call_def delta_resolve_bucket_def delta_resolve_bucket_limit_def segment_def)
  have time: "call_time (sample_call t) = t" for t
    by (simp add: call_time_def sample_call_def)
  have step: "charge (\<lambda>_. 7) False 7 (sample_call t) m =
      (let e = entry_from (\<lambda>_. t) m 7 in
       if get_remaining (\<lambda>_. t) e 2 = 0 then (False, m) else (True, save 7 (deduct (\<lambda>_. t) e) m))" for t m
    using limit [of t]
    by (auto simp: charge_def delta_from_request_run ratelimiter_from_def call_key_def bucket_key_def sample_call_def
        Let_def split: prod.splits)
  show "admitted (charge (\<lambda>_. 7) False 7) call_time (map sample_call [0, 9995, 9996, 10001, 10002, 10003]) [] =
      [0, 9995, 10001, 10002]"
    by (simp add: step entry_from_def get_remaining_def deduct_def save_def hm_get_def hm_insert_def Let_def
        time)
  have "length (filter (within 5 10000) (admitted (charge (\<lambda>_. 7) False 7) call_time
      (map sample_call [0, 9995, 9996, 10001, 10002, 10003]) [])) \<le> 2 * unat (2 :: u32)"
    by (intro ratelimit_bound) (auto simp: time limit, auto simp: monotone_clock_def sample_call_def)
  then show "length (filter (within 5 10000) (admitted (charge (\<lambda>_. 7) False 7) call_time
      (map sample_call [0, 9995, 9996, 10001, 10002, 10003]) [])) \<le> 4"
    by simp
qed



section \<open>What passes in a minute at the OAuth endpoints\<close>

definition oauth_key :: "call \<Rightarrow> string" where
  "oauth_key c = (case hr_client_ip (snd c) of Some ip \<Rightarrow> ip | None \<Rightarrow> ''unknown'')"

definition oauth_time :: "call \<Rightarrow> nat" where
  "oauth_time c = fst c 1"

definition oauth_charge :: "string \<Rightarrow> call \<Rightarrow> (string, nat \<times> u32) hmap \<Rightarrow> bool \<times> (string, nat \<times> u32) hmap" where
  "oauth_charge ip c m =
     (case oauth_rate_limit (fst c) (snd c) m of (g, m') \<Rightarrow> (is_ok g \<and> oauth_key c = ip, m'))"

definition minute_end :: "string \<Rightarrow> (string, nat \<times> u32) hmap \<Rightarrow> nat" where
  "minute_end ip m = (case hm_get m ip of Some e \<Rightarrow> fst e + 60000 | None \<Rightarrow> 0)"

definition minute_used :: "string \<Rightarrow> (string, nat \<times> u32) hmap \<Rightarrow> nat" where
  "minute_used ip m = (case hm_get m ip of Some e \<Rightarrow> unat (snd e) | None \<Rightarrow> 0)"

lemma oauth_charge_run:
  assumes "oauth_charge ip c m = (b, m')" and "minute_used ip m + 1 < 2 ^ 32" and "monotone_clock (fst c)"
  shows "if oauth_key c = ip then
      (minute_end ip m' = minute_end ip m \<and> minute_used ip m' = Suc (minute_used ip m) \<or>
       minute_end ip m \<le> oauth_time c \<and> minute_end ip m + 60000 \<le> minute_end ip m' \<and> minute_used ip m' = 1) \<and>
      oauth_time c < minute_end ip m' \<and> (b \<longleftrightarrow> minute_used ip m' \<le> 60)
    else \<not> b \<and> minute_end ip m' = minute_end ip m \<and> minute_used ip m' = minute_used ip m"
proof (cases "oauth_key c = ip")
  case True
  define e where "e = (case hm_get m ip of Some e \<Rightarrow> e | None \<Rightarrow> (fst c 0, 0 :: u32))"
  define d where "d = (if fst c 1 - fst e \<ge> 60000 then (fst c 2, 0) else e)"
  have small: "unat (snd d + 1) = Suc (unat (snd d))"
    using assms(2) by (auto simp: d_def e_def minute_used_def unat_word_ariths split: option.splits)
  have m': "hm_get m' ip = Some (fst d, snd d + 1)" and b: "b \<longleftrightarrow> \<not> snd d + 1 > 60"
    using assms(1) True by (auto simp: oauth_charge_def oauth_rate_limit_def oauth_key_def Let_def d_def e_def split: if_splits)
  have "b \<longleftrightarrow> minute_used ip m' \<le> 60"
    using b m' by (simp add: minute_used_def word_less_nat_alt not_less)
  moreover have "minute_used ip m' = Suc (unat (snd d))" "minute_end ip m' = fst d + 60000"
    using m' small by (simp_all add: minute_used_def minute_end_def)
  ultimately show ?thesis
    using True assms(3)
    by (auto simp: minute_end_def minute_used_def oauth_time_def d_def e_def monotone_clock_def split: option.splits if_splits)
next
  case False
  then show ?thesis
    using assms(1)
    by (auto simp: oauth_charge_def oauth_rate_limit_def oauth_key_def minute_end_def minute_used_def Let_def split: if_splits)
qed

interpretation oauth_limiter: fixed_window "oauth_charge ip" oauth_time "minute_end ip" "minute_used ip"
  "\<lambda>c. monotone_clock (fst c)" "\<lambda>n m. minute_used ip m + n < 2 ^ 32" 60000 60 for ip
proof
  fix n m and c :: call
  assume "minute_used ip m + Suc n < 2 ^ 32" and "monotone_clock (fst c)"
  then show "minute_used ip (snd (oauth_charge ip c m)) + n < 2 ^ 32"
    using oauth_charge_run [of ip c m "fst (oauth_charge ip c m)" "snd (oauth_charge ip c m)"] by (auto split: if_splits)
next
  fix n m m' and c :: call
  assume inv: "minute_used ip m + Suc n < 2 ^ 32" "monotone_clock (fst c)"
  show "minute_used ip m' \<le> 60 \<and> oauth_time c < minute_end ip m' \<and>
      (minute_end ip m' = minute_end ip m \<and> minute_used ip m' = Suc (minute_used ip m) \<or>
       minute_end ip m \<le> oauth_time c \<and> minute_end ip m + 60000 \<le> minute_end ip m' \<and> minute_used ip m' = 1)"
    if "oauth_charge ip c m = (True, m')"
    using oauth_charge_run [OF that _ inv(2)] inv(1) by (auto split: if_splits)
  show "minute_end ip m' = minute_end ip m \<and> minute_used ip m \<le> minute_used ip m'" if "oauth_charge ip c m = (False, m')"
    using oauth_charge_run [OF that _ inv(2)] inv(1) by (auto split: if_splits)
qed simp



end
