(* ===== verification/Accounts.thy ===== *)
theory Accounts
  imports World
begin

text \<open>
  Accounts, sessions and multi-factor tickets (\<open>crates/core/database/src/models/accounts\<close>,
  \<open>sessions\<close>, \<open>mfa_tickets\<close>, \<open>account_invites\<close> and \<open>util/{email,password,captcha,shield}.rs\<close>): the
  data, the collections of the in-memory database, the methods of the models and the request
  guards built on them.

  The clock, the random sources and the services the code calls (argon2, TOTP, the mail server,
  hCaptcha, the shield, EasyPwned) are the fields of \<open>auth_env\<close>. Every reading of the clock and
  every draw advances a counter of the state, so two readings in one request may differ.
\<close>

section \<open>Data\<close>

record cash_payment_request =
  cp_status :: string
  cp_requested_at :: timestamp

record subscription =
  sb_provider :: string
  sb_tier :: string
  sb_active_until :: timestamp
  sb_last_message_id :: string
  sb_cancel_at_period_end :: bool
  sb_provider_customer_id :: "string option"
  sb_provider_subscription_id :: "string option"

datatype email_verification =
    EV_Verified
  | EV_Pending string timestamp
  | EV_Moving string string timestamp

record password_reset_info =
  pr_token :: string
  pr_expiry :: timestamp

datatype deletion_info =
    WaitingForVerification string timestamp
  | Scheduled timestamp
  | Deleted

text \<open>\<open>attempts\<close> is an \<open>i32\<close>; from the fifth attempt on it grows once an hour.\<close>

record lockout =
  lk_attempts :: int
  lk_expiry :: "timestamp option"

datatype totp = Totp_Disabled | Totp_Pending string | Totp_Enabled string

record multi_factor_authentication =
  totp_token :: totp
  recovery_codes :: "string list"

datatype mfa_method = Method_Password | Method_Recovery | Method_Totp

record account =
  acc_id :: string
  acc_email :: string
  acc_email_normalised :: string
  acc_password :: string
  acc_disabled :: bool
  acc_registration_ip :: "string option"
  acc_registration_ip_at :: "timestamp option"
  acc_verification :: email_verification
  acc_password_reset :: "password_reset_info option"
  acc_deletion :: "deletion_info option"
  acc_lockout :: "lockout option"
  acc_mfa :: multi_factor_authentication
  acc_subscription :: "subscription option"
  acc_cash_payment_request :: "cash_payment_request option"

record account_invite =
  ai_id :: string
  ai_used :: bool
  ai_claimed_by :: "string option"

record web_push_subscription =
  wp_endpoint :: string
  wp_p256dh :: string
  wp_auth :: string

record session =
  ss_id :: string
  ss_user_id :: string
  ss_token :: string
  ss_name :: string
  ss_last_seen :: timestamp
  ss_origin :: "string option"
  ss_subscription :: "web_push_subscription option"

record mfa_ticket =
  mt_id :: string
  mt_account_id :: string
  mt_token :: string
  mt_validated :: bool
  mt_authorised :: bool
  mt_last_totp_code :: "string option"

datatype mfa_response =
    Response_Password string
  | Response_Recovery string
  | Response_Totp string

datatype auth_event =
    CreateAccount account
  | CreateSession session
  | DeleteSession string string
  | DeleteAllSessions string "string option"

datatype mail_template = Mail_Verify | Mail_Reset | Mail_Reset_Existing | Mail_Deletion

text \<open>
  The collections of \<open>ReferenceDb\<close> these models use, the users (read only here), what was
  published, mailed and pushed, and the two counters.
\<close>

record auth_db =
  db_accounts :: "(string, account) hmap"
  db_account_invites :: "(string, account_invite) hmap"
  db_sessions :: "(string, session) hmap"
  db_mfa_tickets :: "(string, mfa_ticket) hmap"
  au_world :: world
  au_events :: "(string \<times> auth_event) list"
  au_mails :: "(string \<times> mail_template \<times> string) list"
  au_pushes :: "(string \<times> string \<times> string) list"
  au_ticks :: nat
  au_draws :: nat

type_synonym 'a auth_io = "(auth_db, error_type, 'a) comp"

record shield_validation_input =
  sv_ip :: "string option"
  sv_email :: "string option"

text \<open>What \<open>validate_shield\<close> learns: no answer, an answer that is not the expected JSON, or a verdict.\<close>

datatype shield_answer = Shield_Unreachable | Shield_Garbled | Shield_Verdict bool

record auth_env =
  ae_clock :: "nat \<Rightarrow> timestamp"
  ae_ulid :: "timestamp \<Rightarrow> nat \<Rightarrow> string"
  ae_ulid_time :: "string \<Rightarrow> timestamp option"
  ae_ulid_le :: "string \<Rightarrow> string \<Rightarrow> bool"
  ae_nanoid :: "nat \<Rightarrow> string"
  ae_totp_secret :: "nat \<Rightarrow> string"
  ae_totp_code :: "string \<Rightarrow> int \<Rightarrow> string option"
  ae_verify_encoded :: "string \<Rightarrow> string \<Rightarrow> bool option"
  ae_hash_encoded :: "string \<Rightarrow> nat \<Rightarrow> string option"
  ae_lowercase :: "string \<Rightarrow> string"
  ae_email_ok :: "string \<Rightarrow> bool"
  ae_source_list :: "string \<Rightarrow> bool"
  ae_compromised :: "string \<Rightarrow> bool"
  ae_easypwned :: "(string \<Rightarrow> nat \<Rightarrow> bool option) option"
  ae_hcaptcha :: "(string \<Rightarrow> nat \<Rightarrow> bool option) option"
  ae_shield :: "(shield_validation_input \<Rightarrow> nat \<Rightarrow> shield_answer) option"
  ae_smtp :: bool
  ae_mailbox :: "string \<Rightarrow> bool"
  ae_delivers :: "nat \<Rightarrow> bool"
  ae_expire_verification :: int
  ae_expire_password_reset :: int
  ae_invite_only :: bool
  ae_environment :: string
  ae_stripe :: bool
  ae_stripe_cancels :: "string \<Rightarrow> nat \<Rightarrow> bool"
  ae_ip_retention :: int

section \<open>Clock and random sources\<close>

definition now_utc :: "auth_env \<Rightarrow> timestamp auth_io" where
  "now_utc e s = (Ok (ae_clock e (au_ticks s)), s\<lparr>au_ticks := Suc (au_ticks s)\<rparr>)"

definition draw :: "nat auth_io" where
  "draw s = (Ok (au_draws s), s\<lparr>au_draws := Suc (au_draws s)\<rparr>)"

definition ulid_new :: "auth_env \<Rightarrow> string auth_io" where
  "ulid_new e = bindM (now_utc e) (\<lambda>t. bindM draw (\<lambda>n. ret (ae_ulid e t n)))"

definition nanoid :: "auth_env \<Rightarrow> string auth_io" where
  "nanoid e = bindM draw (\<lambda>n. ret (ae_nanoid e n))"

definition auth_publish :: "string \<Rightarrow> auth_event \<Rightarrow> unit auth_io" where
  "auth_publish channel ev = modify (\<lambda>s. s\<lparr>au_events := au_events s @ [(channel, ev)]\<rparr>)"

definition auth_global :: "auth_event \<Rightarrow> unit auth_io" where
  "auth_global ev = auth_publish ''global'' ev"

definition auth_private :: "string \<Rightarrow> auth_event \<Rightarrow> unit auth_io" where
  "auth_private ident ev = auth_publish (ident @ ''!'') ev"

section \<open>E-mail addresses, passwords and outside checks\<close>

text \<open>
  \<open>SPLIT\<close> is \<open>([^@]+)(@.+)\<close>: the leftmost run without \<open>@\<close> that an \<open>@\<close> and some character other
  than a line feed follow. The dot stops at a line feed.
\<close>

definition line_feed :: char where
  "line_feed = CHR 0x0A"

function split_email :: "string \<Rightarrow> (string \<times> string) option" where
  "split_email s =
     (let s1 = dropWhile (\<lambda>c. c = CHR ''@'') s;
          user = takeWhile (\<lambda>c. c \<noteq> CHR ''@'') s1;
          rest = dropWhile (\<lambda>c. c \<noteq> CHR ''@'') s1
      in if user = [] \<or> length rest < 2 then None
         else if rest ! 1 \<noteq> line_feed
         then Some (user, CHR ''@'' # takeWhile (\<lambda>c. c \<noteq> line_feed) (tl rest))
         else split_email rest)"
  by pat_completeness auto

lemma length_dropWhile_less: "takeWhile P xs \<noteq> [] \<Longrightarrow> length (dropWhile P xs) < length xs"
  by (cases xs) (auto simp: le_imp_less_Suc length_dropWhile_le split: if_splits)

termination split_email
proof (relation "measure length")
  fix s s1 user rest :: string
  assume "s1 = dropWhile (\<lambda>c. c = CHR ''@'') s" "user = takeWhile (\<lambda>c. c \<noteq> CHR ''@'') s1"
    "rest = dropWhile (\<lambda>c. c \<noteq> CHR ''@'') s1" "\<not> (user = [] \<or> length rest < 2)"
  then have "length rest < length s1" "length s1 \<le> length s"
    using length_dropWhile_less [of "\<lambda>c. c \<noteq> CHR ''@''" s1] length_dropWhile_le [of _ s] by auto
  then show "(rest, s) \<in> measure length"
    by simp
qed simp

text \<open>\<open>SYMBOL_RE\<close> is \<open>\+.+|\.\<close>: a plus sign with what follows it on the line, and every full stop.\<close>

function strip_symbols :: "string \<Rightarrow> string" where
  "strip_symbols [] = []"
| "strip_symbols (c # cs) =
     (if c = CHR ''+'' \<and> cs \<noteq> [] \<and> hd cs \<noteq> line_feed
      then strip_symbols (dropWhile (\<lambda>d. d \<noteq> line_feed) cs)
      else if c = CHR ''.'' then strip_symbols cs else c # strip_symbols cs)"
  by pat_completeness auto

termination strip_symbols
  by (relation "measure length") (auto simp: le_imp_less_Suc length_dropWhile_le)

definition normalise_email :: "auth_env \<Rightarrow> string \<Rightarrow> string result" where
  "normalise_email e original =
     (case split_email original of
        None \<Rightarrow> Panic ''called `Option::unwrap()` on a `None` value''
      | Some (user, domain) \<Rightarrow> Ok (ae_lowercase e (strip_symbols user @ domain)))"

definition last_part :: "string \<Rightarrow> string" where
  "last_part email = rev (takeWhile (\<lambda>c. c \<noteq> CHR ''@'') (rev email))"

definition validate_email :: "auth_env \<Rightarrow> string \<Rightarrow> unit result" where
  "validate_email e email =
     (if \<not> ae_email_ok e email then Err (GeneralErr (IncorrectData ''email''))
      else if ae_source_list e (last_part email) then Err (AuthErr Blacklisted)
      else Ok ())"

definition hash_password :: "auth_env \<Rightarrow> string \<Rightarrow> string auth_io" where
  "hash_password e plaintext =
     bindM draw (\<lambda>n. lift (ok_or (GeneralErr InternalError) (ae_hash_encoded e plaintext n)))"

definition assert_safe :: "auth_env \<Rightarrow> string \<Rightarrow> unit auth_io" where
  "assert_safe e password =
     bindM (guard (length password < 8) (AuthErr ShortPassword)) (\<lambda>_.
     bindM (case ae_easypwned e of
              None \<Rightarrow> ret False
            | Some service \<Rightarrow> bindM draw (\<lambda>n. ret (service password n = Some True))) (\<lambda>secure.
     if secure then ret () else guard (ae_compromised e password) (AuthErr CompromisedPassword)))"

definition check_captcha :: "auth_env \<Rightarrow> string option \<Rightarrow> unit auth_io" where
  "check_captcha e token =
     (case ae_hcaptcha e of
        None \<Rightarrow> ret ()
      | Some service \<Rightarrow>
          (case token of
             None \<Rightarrow> throw (AuthErr CaptchaFailed)
           | Some tok \<Rightarrow> bindM draw (\<lambda>n. guard (service tok n \<noteq> Some True) (AuthErr CaptchaFailed))))"

definition validate_shield :: "auth_env \<Rightarrow> shield_validation_input \<Rightarrow> unit auth_io" where
  "validate_shield e input =
     (case ae_shield e of
        None \<Rightarrow> ret ()
      | Some service \<Rightarrow> bindM draw (\<lambda>n.
          (case service input n of
             Shield_Unreachable \<Rightarrow> ret ()
           | Shield_Garbled \<Rightarrow> throw (GeneralErr InternalError)
           | Shield_Verdict blocked \<Rightarrow> guard blocked (AuthErr BlockedByShield))))"

text \<open>The mail carries the address the token is appended to; the model records the token.\<close>

definition send_email :: "auth_env \<Rightarrow> string \<Rightarrow> mail_template \<Rightarrow> string \<Rightarrow> unit auth_io" where
  "send_email e address template token =
     (if \<not> ae_mailbox e address then panic ''valid `smtp_to`''
      else bindM draw (\<lambda>n.
        if ae_delivers e n
        then modify (\<lambda>s. s\<lparr>au_mails := au_mails s @ [(address, template, token)]\<rparr>)
        else throw (AuthErr EmailFailed)))"

section \<open>The collections\<close>

definition fetch_account :: "string \<Rightarrow> account auth_io" where
  "fetch_account ident s = (ok_or (UserErr UnknownUser) (hm_get (db_accounts s) ident), s)"

definition fetch_account_by_normalised_email :: "string \<Rightarrow> account option auth_io" where
  "fetch_account_by_normalised_email email =
     gets (\<lambda>s. find (\<lambda>a. acc_email_normalised a = email) (hm_values (db_accounts s)))"

definition verifies_with :: "string \<Rightarrow> account \<Rightarrow> bool" where
  "verifies_with token a =
     (case acc_verification a of
        EV_Pending t _ \<Rightarrow> t = token | EV_Moving _ t _ \<Rightarrow> t = token | EV_Verified \<Rightarrow> False)"

definition fetch_account_with_email_verification :: "string \<Rightarrow> account auth_io" where
  "fetch_account_with_email_verification token s =
     (ok_or (AuthErr InvalidToken) (find (verifies_with token) (hm_values (db_accounts s))), s)"

definition resets_with :: "string \<Rightarrow> account \<Rightarrow> bool" where
  "resets_with token a = (case acc_password_reset a of None \<Rightarrow> False | Some r \<Rightarrow> pr_token r = token)"

definition fetch_account_with_password_reset :: "string \<Rightarrow> account auth_io" where
  "fetch_account_with_password_reset token s =
     (ok_or (AuthErr InvalidToken) (find (resets_with token) (hm_values (db_accounts s))), s)"

definition deletes_with :: "string \<Rightarrow> account \<Rightarrow> bool" where
  "deletes_with token a =
     (case acc_deletion a of Some (WaitingForVerification t _) \<Rightarrow> t = token | _ \<Rightarrow> False)"

definition fetch_account_with_deletion_token :: "string \<Rightarrow> account auth_io" where
  "fetch_account_with_deletion_token token s =
     (ok_or (AuthErr InvalidToken) (find (deletes_with token) (hm_values (db_accounts s))), s)"

definition due_at :: "timestamp \<Rightarrow> account \<Rightarrow> bool" where
  "due_at now a = (case acc_deletion a of Some (Scheduled after) \<Rightarrow> after \<le> now | _ \<Rightarrow> False)"

definition fetch_accounts_due_for_deletion :: "auth_env \<Rightarrow> account list auth_io" where
  "fetch_accounts_due_for_deletion e =
     bindM (now_utc e) (\<lambda>now. gets (\<lambda>s. filter (due_at now) (hm_values (db_accounts s))))"

definition forget_ip :: "timestamp \<Rightarrow> account \<Rightarrow> account" where
  "forget_ip before a =
     (case acc_registration_ip_at a of
        Some at_time \<Rightarrow>
          if at_time \<le> before then a\<lparr>acc_registration_ip := None, acc_registration_ip_at := None\<rparr> else a
      | None \<Rightarrow> a)"

definition clear_expired_registration_ips :: "timestamp \<Rightarrow> unit auth_io" where
  "clear_expired_registration_ips before =
     modify (\<lambda>s. s\<lparr>db_accounts := map (\<lambda>(k, a). (k, forget_ip before a)) (db_accounts s)\<rparr>)"

definition save_account :: "account \<Rightarrow> unit auth_io" where
  "save_account a = modify (\<lambda>s. s\<lparr>db_accounts := hm_insert (acc_id a) a (db_accounts s)\<rparr>)"

definition fetch_account_invite :: "string \<Rightarrow> account_invite auth_io" where
  "fetch_account_invite ident s =
     (ok_or (AuthErr InvalidInvite) (hm_get (db_account_invites s) ident), s)"

definition save_account_invite :: "account_invite \<Rightarrow> unit auth_io" where
  "save_account_invite i =
     modify (\<lambda>s. s\<lparr>db_account_invites := hm_insert (ai_id i) i (db_account_invites s)\<rparr>)"

definition fetch_session :: "string \<Rightarrow> session auth_io" where
  "fetch_session ident s = (ok_or (UserErr UnknownUser) (hm_get (db_sessions s) ident), s)"

definition fetch_sessions :: "string \<Rightarrow> session list auth_io" where
  "fetch_sessions user_id = gets (\<lambda>s. filter (\<lambda>x. ss_user_id x = user_id) (hm_values (db_sessions s)))"

definition fetch_sessions_with_subscription :: "string list \<Rightarrow> session list auth_io" where
  "fetch_sessions_with_subscription user_ids =
     gets (\<lambda>s. filter (\<lambda>x. ss_subscription x \<noteq> None \<and> ss_user_id x \<in> set user_ids) (hm_values (db_sessions s)))"

definition fetch_session_by_token :: "string \<Rightarrow> session auth_io" where
  "fetch_session_by_token token s =
     (ok_or (GeneralErr InvalidSession) (find (\<lambda>x. ss_token x = token) (hm_values (db_sessions s))), s)"

definition save_session :: "session \<Rightarrow> unit auth_io" where
  "save_session x = modify (\<lambda>s. s\<lparr>db_sessions := hm_insert (ss_id x) x (db_sessions s)\<rparr>)"

definition delete_session :: "string \<Rightarrow> unit auth_io" where
  "delete_session ident s =
     (if hm_contains (db_sessions s) ident
      then (Ok (), s\<lparr>db_sessions := hm_remove ident (db_sessions s)\<rparr>)
      else (Err (GeneralErr InvalidSession), s))"

definition delete_all_sessions_db :: "string \<Rightarrow> string option \<Rightarrow> unit auth_io" where
  "delete_all_sessions_db user_id ignore =
     modify (\<lambda>s. s\<lparr>db_sessions :=
       hm_retain (\<lambda>_ x. if ss_user_id x = user_id then ignore = Some (ss_id x) else True) (db_sessions s)\<rparr>)"

definition remove_push_subscription_by_session_id :: "string \<Rightarrow> unit auth_io" where
  "remove_push_subscription_by_session_id ident =
     modify (\<lambda>s. s\<lparr>db_sessions := hm_modify ident (\<lambda>x. x\<lparr>ss_subscription := None\<rparr>) (db_sessions s)\<rparr>)"

definition update_session_last_seen :: "string \<Rightarrow> timestamp \<Rightarrow> unit auth_io" where
  "update_session_last_seen ident at_time =
     modify (\<lambda>s. s\<lparr>db_sessions := hm_modify ident (\<lambda>x. x\<lparr>ss_last_seen := at_time\<rparr>) (db_sessions s)\<rparr>)"

definition five_minutes :: timestamp where
  "five_minutes = 300000"

definition fetch_ticket_by_token :: "auth_env \<Rightarrow> string \<Rightarrow> mfa_ticket auth_io" where
  "fetch_ticket_by_token e token =
     bindM (gets (\<lambda>s. find (\<lambda>t. mt_token t = token) (hm_values (db_mfa_tickets s)))) (\<lambda>found.
     bindM (lift (ok_or (AuthErr InvalidToken) found)) (\<lambda>ticket.
     bindM (lift (ok_or (AuthErr InvalidToken) (ae_ulid_time e (mt_id ticket)))) (\<lambda>created.
     bindM (now_utc e) (\<lambda>now.
     bindM (guard (\<not> now < created + five_minutes) (AuthErr InvalidToken)) (\<lambda>_. ret ticket)))))"

definition save_ticket :: "mfa_ticket \<Rightarrow> unit auth_io" where
  "save_ticket t = modify (\<lambda>s. s\<lparr>db_mfa_tickets := hm_insert (mt_id t) t (db_mfa_tickets s)\<rparr>)"

definition delete_ticket :: "string \<Rightarrow> unit auth_io" where
  "delete_ticket ident s =
     (if hm_contains (db_mfa_tickets s) ident
      then (Ok (), s\<lparr>db_mfa_tickets := hm_remove ident (db_mfa_tickets s)\<rparr>)
      else (Err (AuthErr InvalidToken), s))"

definition delete_expired_tickets :: "auth_env \<Rightarrow> nat auth_io" where
  "delete_expired_tickets e =
     bindM (now_utc e) (\<lambda>now.
     bindM draw (\<lambda>n.
     bindM (gets (\<lambda>s. length (db_mfa_tickets s))) (\<lambda>before.
     bindM (modify (\<lambda>s. s\<lparr>db_mfa_tickets :=
       hm_retain (\<lambda>_ t. ae_ulid_le e (ae_ulid e (now - five_minutes) n) (mt_id t)) (db_mfa_tickets s)\<rparr>)) (\<lambda>_.
     gets (\<lambda>s. before - length (db_mfa_tickets s))))))"

section \<open>Second factors\<close>

definition mfa_default :: multi_factor_authentication where
  "mfa_default = \<lparr>totp_token = Totp_Disabled, recovery_codes = []\<rparr>"

definition is_active :: "multi_factor_authentication \<Rightarrow> bool" where
  "is_active m = (case totp_token m of Totp_Enabled _ \<Rightarrow> True | _ \<Rightarrow> False)"

definition has_recovery :: "multi_factor_authentication \<Rightarrow> bool" where
  "has_recovery m = (recovery_codes m \<noteq> [])"

definition get_methods :: "multi_factor_authentication \<Rightarrow> mfa_method list" where
  "get_methods m =
     (case totp_token m of
        Totp_Enabled _ \<Rightarrow> Method_Totp # (if has_recovery m then [Method_Recovery] else [])
      | _ \<Rightarrow> [Method_Password])"

text \<open>Ten codes of two draws each.\<close>

fun recovery_code_list :: "auth_env \<Rightarrow> nat \<Rightarrow> string list auth_io" where
  "recovery_code_list e 0 = ret []"
| "recovery_code_list e (Suc k) =
     bindM (nanoid e) (\<lambda>a. bindM (nanoid e) (\<lambda>b.
     bindM (recovery_code_list e k) (\<lambda>codes. ret ((a @ ''-'' @ b) # codes))))"

definition generate_recovery_codes ::
    "auth_env \<Rightarrow> multi_factor_authentication \<Rightarrow> multi_factor_authentication auth_io" where
  "generate_recovery_codes e m =
     bindM (recovery_code_list e 10) (\<lambda>codes. ret (m\<lparr>recovery_codes := codes\<rparr>))"

definition is_disabled :: "totp \<Rightarrow> bool" where
  "is_disabled t = (case t of Totp_Enabled _ \<Rightarrow> False | _ \<Rightarrow> True)"

definition generate_code :: "auth_env \<Rightarrow> totp \<Rightarrow> string auth_io" where
  "generate_code e t =
     (let code = (\<lambda>secret. bindM (now_utc e) (\<lambda>now.
          case ae_totp_code e secret (now div 1000) of
            None \<Rightarrow> panic ''valid base32 secret''
          | Some c \<Rightarrow> ret c))
      in case t of
           Totp_Enabled secret \<Rightarrow> code secret
         | Totp_Pending secret \<Rightarrow> code secret
         | Totp_Disabled \<Rightarrow> throw (GeneralErr OperationFailed))"

definition generate_new_totp_secret ::
    "auth_env \<Rightarrow> multi_factor_authentication \<Rightarrow> (string \<times> multi_factor_authentication) auth_io" where
  "generate_new_totp_secret e m =
     bindM (guard (is_active m) (GeneralErr OperationFailed)) (\<lambda>_.
     bindM draw (\<lambda>n.
     ret (ae_totp_secret e n, m\<lparr>totp_token := Totp_Pending (ae_totp_secret e n)\<rparr>)))"

text \<open>
  The swap leaves \<open>Disabled\<close> behind when the token was not pending; the caller returns the error
  without saving.
\<close>

definition enable_totp ::
    "auth_env \<Rightarrow> multi_factor_authentication \<Rightarrow> mfa_response \<Rightarrow> multi_factor_authentication auth_io" where
  "enable_totp e m response =
     (case response of
        Response_Totp totp_code \<Rightarrow>
          bindM (generate_code e (totp_token m)) (\<lambda>code.
          if code = totp_code
          then (case totp_token m of
                  Totp_Pending secret \<Rightarrow> ret (m\<lparr>totp_token := Totp_Enabled secret\<rparr>)
                | _ \<Rightarrow> throw (GeneralErr OperationFailed))
          else throw (AuthErr InvalidToken))
      | _ \<Rightarrow> throw (AuthErr InvalidToken))"

section \<open>Tickets\<close>

definition ticket_new :: "auth_env \<Rightarrow> string \<Rightarrow> bool \<Rightarrow> mfa_ticket auth_io" where
  "ticket_new e account_id validated =
     bindM (ulid_new e) (\<lambda>ident.
     bindM (nanoid e) (\<lambda>token.
     ret \<lparr>mt_id = ident, mt_account_id = account_id, mt_token = token, mt_validated = validated,
          mt_authorised = False, mt_last_totp_code = None\<rparr>))"

definition populate :: "auth_env \<Rightarrow> multi_factor_authentication \<Rightarrow> mfa_ticket \<Rightarrow> mfa_ticket auth_io" where
  "populate e m t =
     bindM (attempt (generate_code e (totp_token m))) (\<lambda>code. ret (t\<lparr>mt_last_totp_code := code\<rparr>))"

definition is_expired :: "auth_env \<Rightarrow> mfa_ticket \<Rightarrow> bool auth_io" where
  "is_expired e t =
     bindM (now_utc e) (\<lambda>now.
       case ae_ulid_time e (mt_id t) of
         None \<Rightarrow> panic ''Valid `ulid`''
       | Some created \<Rightarrow> ret (now > created + five_minutes))"

definition claim :: "auth_env \<Rightarrow> mfa_ticket \<Rightarrow> unit auth_io" where
  "claim e t =
     bindM (is_expired e t) (\<lambda>expired.
     bindM (guard expired (AuthErr InvalidToken)) (\<lambda>_. delete_ticket (mt_id t)))"

section \<open>Sessions\<close>

definition session_delete :: "session \<Rightarrow> unit auth_io" where
  "session_delete x =
     bindM (delete_session (ss_id x)) (\<lambda>_.
     auth_private (ss_user_id x) (DeleteSession (ss_user_id x) (ss_id x)))"

definition create_session :: "auth_env \<Rightarrow> account \<Rightarrow> string \<Rightarrow> session auth_io" where
  "create_session e a name =
     bindM (ulid_new e) (\<lambda>ident.
     bindM (nanoid e) (\<lambda>token.
     bindM (now_utc e) (\<lambda>now.
     (let session =
        \<lparr>ss_id = ident, ss_user_id = acc_id a, ss_token = token, ss_name = name, ss_last_seen = now,
         ss_origin = Some (ae_environment e), ss_subscription = None\<rparr>
      in bindM (save_session session) (\<lambda>_.
         bindM (auth_global (CreateSession session)) (\<lambda>_.
         ret session))))))"

section \<open>Account methods\<close>

text \<open>Each method that changes the account returns it, as the caller goes on with it.\<close>

definition start_email_verification :: "auth_env \<Rightarrow> account \<Rightarrow> account auth_io" where
  "start_email_verification e a =
     bindM (if ae_smtp e
            then bindM (nanoid e) (\<lambda>token.
                 bindM (send_email e (acc_email a) Mail_Verify token) (\<lambda>_.
                 bindM (now_utc e) (\<lambda>now.
                 ret (a\<lparr>acc_verification := EV_Pending token (now + 1000 * ae_expire_verification e)\<rparr>))))
            else ret (a\<lparr>acc_verification := EV_Verified\<rparr>)) (\<lambda>a.
     bindM (save_account a) (\<lambda>_. ret a))"

definition is_pending :: "email_verification \<Rightarrow> bool" where
  "is_pending v = (case v of EV_Pending _ _ \<Rightarrow> True | _ \<Rightarrow> False)"

definition start_email_move :: "auth_env \<Rightarrow> account \<Rightarrow> string \<Rightarrow> account auth_io" where
  "start_email_move e a new_email =
     bindM (guard (is_pending (acc_verification a)) (AuthErr UnverifiedAccount)) (\<lambda>_.
     bindM (if ae_smtp e
            then bindM (nanoid e) (\<lambda>token.
                 bindM (send_email e new_email Mail_Verify token) (\<lambda>_.
                 bindM (now_utc e) (\<lambda>now.
                 ret (a\<lparr>acc_verification :=
                          EV_Moving new_email token (now + 1000 * ae_expire_verification e)\<rparr>))))
            else bindM (lift (normalise_email e new_email)) (\<lambda>normalised.
                 ret (a\<lparr>acc_email_normalised := normalised, acc_email := new_email\<rparr>))) (\<lambda>a.
     bindM (save_account a) (\<lambda>_. ret a)))"

definition start_password_reset :: "auth_env \<Rightarrow> account \<Rightarrow> bool \<Rightarrow> account auth_io" where
  "start_password_reset e a existing_account =
     bindM (if ae_smtp e
            then bindM (nanoid e) (\<lambda>token.
                 bindM (send_email e (acc_email a) (if existing_account then Mail_Reset_Existing else Mail_Reset) token) (\<lambda>_.
                 bindM (now_utc e) (\<lambda>now.
                 ret (a\<lparr>acc_password_reset :=
                          Some \<lparr>pr_token = token, pr_expiry = now + 1000 * ae_expire_password_reset e\<rparr>\<rparr>))))
            else throw (GeneralErr OperationFailed)) (\<lambda>a.
     bindM (save_account a) (\<lambda>_. ret a))"

definition account_delete_all_sessions :: "account \<Rightarrow> string option \<Rightarrow> unit auth_io" where
  "account_delete_all_sessions a exclude =
     bindM (delete_all_sessions_db (acc_id a) exclude) (\<lambda>_.
     auth_private (acc_id a) (DeleteAllSessions (acc_id a) exclude))"

definition account_disable :: "account \<Rightarrow> account auth_io" where
  "account_disable a =
     (let a = a\<lparr>acc_disabled := True\<rparr>
      in bindM (account_delete_all_sessions a None) (\<lambda>_.
         bindM (save_account a) (\<lambda>_. ret a)))"

definition one_week :: timestamp where
  "one_week = 604800000"

definition schedule_deletion :: "auth_env \<Rightarrow> account \<Rightarrow> account auth_io" where
  "schedule_deletion e a =
     bindM (now_utc e) (\<lambda>now.
     account_disable (a\<lparr>acc_deletion := Some (Scheduled (now + one_week))\<rparr>))"

definition start_account_deletion :: "auth_env \<Rightarrow> account \<Rightarrow> account auth_io" where
  "start_account_deletion e a =
     (if ae_smtp e
      then bindM (nanoid e) (\<lambda>token.
           bindM (send_email e (acc_email a) Mail_Deletion token) (\<lambda>_.
           bindM (now_utc e) (\<lambda>now.
           (let a = a\<lparr>acc_deletion :=
                        Some (WaitingForVerification token (now + 1000 * ae_expire_password_reset e))\<rparr>
            in bindM (save_account a) (\<lambda>_. ret a)))))
      else schedule_deletion e a)"

definition mark_deleted :: "account \<Rightarrow> account auth_io" where
  "mark_deleted a =
     (let a = a\<lparr>acc_email := ''Deleted User '' @ acc_id a,
                acc_email_normalised := ''Deleted User '' @ acc_id a,
                acc_password := '''', acc_registration_ip := None, acc_registration_ip_at := None,
                acc_verification := EV_Verified, acc_password_reset := None, acc_lockout := None,
                acc_mfa := mfa_default, acc_subscription := None, acc_cash_payment_request := None,
                acc_deletion := Some Deleted\<rparr>
      in bindM (save_account a) (\<lambda>_. ret a))"

definition verify_password :: "auth_env \<Rightarrow> account \<Rightarrow> string \<Rightarrow> unit result" where
  "verify_password e a plaintext =
     (case ae_verify_encoded e (acc_password a) plaintext of
        Some True \<Rightarrow> Ok ()
      | _ \<Rightarrow> Err (GeneralErr InvalidCredentials))"

text \<open>\<open>position\<close> and \<open>remove(index)\<close> take out the first occurrence.\<close>

definition consume_mfa_response ::
    "auth_env \<Rightarrow> account \<Rightarrow> mfa_response \<Rightarrow> mfa_ticket option \<Rightarrow> account auth_io" where
  "consume_mfa_response e a response ticket =
     (let allowed_methods = get_methods (acc_mfa a)
      in case response of
           Response_Password password \<Rightarrow>
             if Method_Password \<in> set allowed_methods
             then bindM (lift (verify_password e a password)) (\<lambda>_. ret a)
             else throw (AuthErr DisallowedMFAMethod)
         | Response_Totp totp_code \<Rightarrow>
             if Method_Totp \<in> set allowed_methods
             then (if is_active (acc_mfa a)
                   then (if (case ticket of None \<Rightarrow> False | Some t \<Rightarrow> mt_last_totp_code t = Some totp_code)
                         then ret a
                         else bindM (generate_code e (totp_token (acc_mfa a))) (\<lambda>code.
                              if code = totp_code then ret a else throw (AuthErr InvalidToken)))
                   else panic ''internal error: entered unreachable code'')
             else throw (AuthErr DisallowedMFAMethod)
         | Response_Recovery recovery_code \<Rightarrow>
             if Method_Recovery \<in> set allowed_methods
             then (if recovery_code \<in> set (recovery_codes (acc_mfa a))
                   then (let a = a\<lparr>acc_mfa := (acc_mfa a)\<lparr>recovery_codes := remove1 recovery_code (recovery_codes (acc_mfa a))\<rparr>\<rparr>
                         in bindM (save_account a) (\<lambda>_. ret a))
                   else throw (AuthErr InvalidToken))
             else throw (AuthErr DisallowedMFAMethod))"

definition account_new :: "auth_env \<Rightarrow> string \<Rightarrow> string \<Rightarrow> bool \<Rightarrow> account auth_io" where
  "account_new e email plaintext_password verify_email =
     bindM (lift (normalise_email e email)) (\<lambda>email_normalised.
     bindM (fetch_account_by_normalised_email email_normalised) (\<lambda>found.
     case found of
       Some a \<Rightarrow>
         if is_pending (acc_verification a) then start_email_verification e a
         else start_password_reset e a True
     | None \<Rightarrow>
         bindM (hash_password e plaintext_password) (\<lambda>password.
         bindM (ulid_new e) (\<lambda>ident.
         (let a = \<lparr>acc_id = ident, acc_email = email, acc_email_normalised = email_normalised,
                   acc_password = password, acc_disabled = False, acc_registration_ip = None,
                   acc_registration_ip_at = None, acc_verification = EV_Verified,
                   acc_password_reset = None, acc_deletion = None, acc_lockout = None,
                   acc_mfa = mfa_default, acc_subscription = None, acc_cash_payment_request = None\<rparr>
          in bindM (if verify_email then start_email_verification e a
                    else bindM (save_account a) (\<lambda>_. ret a)) (\<lambda>a.
             bindM (auth_global (CreateAccount a)) (\<lambda>_.
             ret a)))))))"

section \<open>Request guards\<close>

record auth_request =
  rq_session_token :: "string option"
  rq_session_cookie :: "string option"
  rq_mfa_ticket :: "string option"

definition session_guard :: "auth_request \<Rightarrow> session auth_io" where
  "session_guard r =
     (case (case rq_session_token r of None \<Rightarrow> rq_session_cookie r | Some t \<Rightarrow> Some t) of
        None \<Rightarrow> throw (AuthErr MissingHeaders)
      | Some token \<Rightarrow> map_err (\<lambda>_. GeneralErr InvalidSession) (fetch_session_by_token token))"

definition account_guard :: "auth_request \<Rightarrow> account auth_io" where
  "account_guard r =
     bindM (session_guard r) (\<lambda>session.
     map_err (\<lambda>_. GeneralErr InternalError) (fetch_account (ss_user_id session)))"

definition ticket_guard :: "auth_env \<Rightarrow> auth_request \<Rightarrow> mfa_ticket auth_io" where
  "ticket_guard e r =
     (case rq_mfa_ticket r of
        None \<Rightarrow> throw (AuthErr MissingHeaders)
      | Some token \<Rightarrow> map_err (\<lambda>_. AuthErr InvalidToken) (fetch_ticket_by_token e token))"

definition validated_ticket_guard :: "auth_env \<Rightarrow> auth_request \<Rightarrow> mfa_ticket auth_io" where
  "validated_ticket_guard e r =
     bindM (ticket_guard e r) (\<lambda>ticket.
     bindM (guard (\<not> mt_validated ticket) (AuthErr InvalidToken)) (\<lambda>_.
     bindM (map_err (\<lambda>_. AuthErr InvalidToken) (claim e ticket)) (\<lambda>_.
     ret ticket)))"

definition unvalidated_ticket_guard :: "auth_env \<Rightarrow> auth_request \<Rightarrow> mfa_ticket auth_io" where
  "unvalidated_ticket_guard e r =
     bindM (ticket_guard e r) (\<lambda>ticket.
     bindM (guard (mt_validated ticket) (AuthErr InvalidToken)) (\<lambda>_. ret ticket))"

end
