(* ===== verification/Account_Routes.thy ===== *)
theory Account_Routes
  imports Accounts
begin

text \<open>
  The authentication routes of the REST server: \<open>crates/delta/src/routes/session\<close>, \<open>account\<close> and
  \<open>mfa\<close>, and the three \<open>crond\<close> tasks that prune what they leave behind. A route's guards run in the
  order of its parameters; an \<open>Option<guard>\<close> is \<open>attempt\<close>.
\<close>

section \<open>Sessions\<close>

datatype data_login =
    Login_Email string string "string option"
  | Login_MFA string "mfa_response option" "string option"

datatype response_login =
    Response_Success session
  | Response_MFA string "mfa_method list"
  | Response_Disabled string "string option"

definition lockout_seconds :: "int \<Rightarrow> int" where
  "lockout_seconds attempts = (if attempts \<ge> 5 then 3600 else if attempts = 4 then 300 else 60)"

definition record_failure :: "auth_env \<Rightarrow> account \<Rightarrow> account auth_io" where
  "record_failure e a =
     (case acc_lockout a of
        Some l \<Rightarrow>
          (let l = l\<lparr>lk_attempts := lk_attempts l + 1\<rparr>
           in if lk_attempts l \<ge> 3
              then bindM (now_utc e) (\<lambda>now.
                   ret (a\<lparr>acc_lockout := Some (l\<lparr>lk_expiry := Some (now + 1000 * lockout_seconds (lk_attempts l))\<rparr>)\<rparr>))
              else ret (a\<lparr>acc_lockout := Some l\<rparr>))
      | None \<Rightarrow> ret (a\<lparr>acc_lockout := Some \<lparr>lk_attempts = 1, lk_expiry = None\<rparr>\<rparr>))"

text \<open>A lockout without an expiry reads no clock.\<close>

definition check_lockout :: "auth_env \<Rightarrow> account \<Rightarrow> unit auth_io" where
  "check_lockout e a =
     (case acc_lockout a of
        None \<Rightarrow> ret ()
      | Some l \<Rightarrow>
          (case lk_expiry l of
             None \<Rightarrow> ret ()
           | Some expiry \<Rightarrow> bindM (now_utc e) (\<lambda>now. guard (expiry > now) (AuthErr LockedOut))))"

definition mfa_challenge :: "auth_env \<Rightarrow> account \<Rightarrow> response_login auth_io" where
  "mfa_challenge e a =
     bindM (ticket_new e (acc_id a) False) (\<lambda>t.
     bindM (populate e (acc_mfa a) t) (\<lambda>t.
     bindM (save_ticket t) (\<lambda>_.
     ret (Response_MFA (mt_token t) (get_methods (acc_mfa a))))))"

text \<open>
  The two ways in: the account to log in with, or the answer to return at once. \<open>Inl\<close> is the early
  \<open>return Ok\<close>.
\<close>

definition check_login_password ::
    "auth_env \<Rightarrow> account \<Rightarrow> string \<Rightarrow> (response_login + account) auth_io" where
  "check_login_password e a password =
     (case verify_password e a password of
        Err err \<Rightarrow>
          bindM (record_failure e a) (\<lambda>a.
          bindM (save_account a) (\<lambda>_. throw err))
      | Panic p \<Rightarrow> panic p
      | Ok _ \<Rightarrow>
          bindM (if acc_lockout a \<noteq> None
                 then bindM (save_account (a\<lparr>acc_lockout := None\<rparr>)) (\<lambda>_. ret (a\<lparr>acc_lockout := None\<rparr>))
                 else ret a) (\<lambda>a.
          if is_active (acc_mfa a) then bindM (mfa_challenge e a) (\<lambda>r. ret (Inl r))
          else ret (Inr a)))"

definition login_with_password ::
    "auth_env \<Rightarrow> string \<Rightarrow> string \<Rightarrow> (response_login + account) auth_io" where
  "login_with_password e email password =
     bindM (lift (normalise_email e email)) (\<lambda>email_normalised.
     bindM (fetch_account_by_normalised_email email_normalised) (\<lambda>found.
     case found of
       None \<Rightarrow> throw (GeneralErr InvalidCredentials)
     | Some a \<Rightarrow>
         bindM (assert_safe e password) (\<lambda>_.
         bindM (check_lockout e a) (\<lambda>_.
         check_login_password e a password))))"

definition login_with_ticket ::
    "auth_env \<Rightarrow> string \<Rightarrow> mfa_response option \<Rightarrow> account auth_io" where
  "login_with_ticket e token response =
     bindM (fetch_ticket_by_token e token) (\<lambda>ticket.
     bindM (fetch_account (mt_account_id ticket)) (\<lambda>a.
     case response of
       Some r \<Rightarrow> consume_mfa_response e a r (Some ticket)
     | None \<Rightarrow> bindM (guard (\<not> mt_authorised ticket) (AuthErr InvalidToken)) (\<lambda>_. ret a)))"

definition auth_fetch_user :: "string \<Rightarrow> user auth_io" where
  "auth_fetch_user ident s = (fst (fetch_user ident (au_world s)), s)"

definition notify_login :: "session \<Rightarrow> unit auth_io" where
  "notify_login x =
     bindM (attempt (auth_fetch_user (ss_user_id x))) (\<lambda>found.
     case found of
       None \<Rightarrow> ret ()
     | Some u \<Rightarrow> modify (\<lambda>s. s\<lparr>au_pushes := au_pushes s @
         [(u_id u, ''New TailsTalk 2 login'', ''A new session signed in as '' @ ss_name x @ ''.'')]\<rparr>))"

text \<open>
  \<open>POST /session/login\<close>. The second component of the result is the value of the session cookie the
  response sets. The in-memory database has no ban reason.
\<close>

definition finish_login :: "auth_env \<Rightarrow> account \<Rightarrow> string option \<Rightarrow> (response_login \<times> string option) auth_io" where
  "finish_login e a name =
     (if acc_disabled a then ret (Response_Disabled (acc_id a) None, None)
      else bindM (create_session e a (case name of None \<Rightarrow> ''Unknown'' | Some n \<Rightarrow> n)) (\<lambda>session.
           bindM (notify_login session) (\<lambda>_.
           ret (Response_Success session, Some (ss_token session)))))"

definition login :: "auth_env \<Rightarrow> data_login \<Rightarrow> (response_login \<times> string option) auth_io" where
  "login e data =
     (case data of
        Login_Email email password friendly_name \<Rightarrow>
          bindM (login_with_password e email password) (\<lambda>r.
          case r of
            Inl answer \<Rightarrow> ret (answer, None)
          | Inr a \<Rightarrow> finish_login e a friendly_name)
      | Login_MFA token response friendly_name \<Rightarrow>
          bindM (login_with_ticket e token response) (\<lambda>a. finish_login e a friendly_name))"

definition session_edit :: "auth_request \<Rightarrow> string \<Rightarrow> string \<Rightarrow> (string \<times> string) auth_io" where
  "session_edit r ident friendly_name =
     bindM (session_guard r) (\<lambda>user.
     bindM (fetch_session ident) (\<lambda>session.
     bindM (guard (ss_user_id user \<noteq> ss_user_id session) (GeneralErr InvalidSession)) (\<lambda>_.
     bindM (save_session (session\<lparr>ss_name := friendly_name\<rparr>)) (\<lambda>_.
     ret (ss_id session, friendly_name)))))"

definition session_fetch_all :: "auth_request \<Rightarrow> (string \<times> string) list auth_io" where
  "session_fetch_all r =
     bindM (session_guard r) (\<lambda>session.
     bindM (fetch_sessions (ss_user_id session)) (\<lambda>xs.
     ret (map (\<lambda>x. (ss_id x, ss_name x)) xs)))"

definition session_logout :: "auth_request \<Rightarrow> unit auth_io" where
  "session_logout r = bindM (session_guard r) session_delete"

definition session_revoke :: "auth_env \<Rightarrow> auth_request \<Rightarrow> string \<Rightarrow> unit auth_io" where
  "session_revoke e r ident =
     bindM (validated_ticket_guard e r) (\<lambda>_.
     bindM (session_guard r) (\<lambda>user.
     bindM (fetch_session ident) (\<lambda>session.
     bindM (guard (ss_user_id session \<noteq> ss_user_id user) (AuthErr InvalidToken)) (\<lambda>_.
     session_delete session))))"

definition session_revoke_all :: "auth_env \<Rightarrow> auth_request \<Rightarrow> bool option \<Rightarrow> unit auth_io" where
  "session_revoke_all e r revoke_self =
     bindM (validated_ticket_guard e r) (\<lambda>_.
     bindM (session_guard r) (\<lambda>session.
     bindM (account_guard r) (\<lambda>a.
     account_delete_all_sessions a (if revoke_self = Some True then None else Some (ss_id session)))))"

section \<open>Second factors\<close>

definition mfa_create_ticket :: "auth_env \<Rightarrow> auth_request \<Rightarrow> mfa_response \<Rightarrow> mfa_ticket auth_io" where
  "mfa_create_ticket e r response =
     bindM (attempt (account_guard r)) (\<lambda>acct.
     bindM (attempt (unvalidated_ticket_guard e r)) (\<lambda>existing_ticket.
     bindM (case (acct, existing_ticket) of
              (Some _, Some _) \<Rightarrow> throw (GeneralErr OperationFailed)
            | (Some a, None) \<Rightarrow> ret a
            | (None, Some ticket) \<Rightarrow>
                bindM (delete_ticket (mt_id ticket)) (\<lambda>_. fetch_account (mt_account_id ticket))
            | (None, None) \<Rightarrow> throw (AuthErr InvalidToken)) (\<lambda>a.
     bindM (consume_mfa_response e a response None) (\<lambda>a.
     bindM (ticket_new e (acc_id a) True) (\<lambda>ticket.
     bindM (save_ticket ticket) (\<lambda>_. ret ticket))))))"

definition mfa_fetch_recovery :: "auth_env \<Rightarrow> auth_request \<Rightarrow> string list auth_io" where
  "mfa_fetch_recovery e r =
     bindM (account_guard r) (\<lambda>a.
     bindM (validated_ticket_guard e r) (\<lambda>_.
     ret (recovery_codes (acc_mfa a))))"

record multi_factor_status =
  totp_mfa :: bool
  recovery_active :: bool

definition mfa_fetch_status :: "auth_request \<Rightarrow> multi_factor_status auth_io" where
  "mfa_fetch_status r =
     bindM (account_guard r) (\<lambda>a.
     ret \<lparr>totp_mfa = (\<not> is_disabled (totp_token (acc_mfa a))),
          recovery_active = (recovery_codes (acc_mfa a) \<noteq> [])\<rparr>)"

definition mfa_generate_recovery :: "auth_env \<Rightarrow> auth_request \<Rightarrow> string list auth_io" where
  "mfa_generate_recovery e r =
     bindM (account_guard r) (\<lambda>a.
     bindM (validated_ticket_guard e r) (\<lambda>_.
     bindM (generate_recovery_codes e (acc_mfa a)) (\<lambda>m.
     bindM (save_account (a\<lparr>acc_mfa := m\<rparr>)) (\<lambda>_.
     ret (recovery_codes m)))))"

definition get_mfa_methods :: "auth_request \<Rightarrow> mfa_method list auth_io" where
  "get_mfa_methods r = bindM (account_guard r) (\<lambda>a. ret (get_methods (acc_mfa a)))"

definition totp_disable :: "auth_env \<Rightarrow> auth_request \<Rightarrow> unit auth_io" where
  "totp_disable e r =
     bindM (account_guard r) (\<lambda>a.
     bindM (validated_ticket_guard e r) (\<lambda>_.
     save_account (a\<lparr>acc_mfa := (acc_mfa a)\<lparr>totp_token := Totp_Disabled\<rparr>\<rparr>)))"

definition totp_enable :: "auth_env \<Rightarrow> auth_request \<Rightarrow> mfa_response \<Rightarrow> unit auth_io" where
  "totp_enable e r response =
     bindM (account_guard r) (\<lambda>a.
     bindM (enable_totp e (acc_mfa a) response) (\<lambda>m.
     save_account (a\<lparr>acc_mfa := m\<rparr>)))"

definition totp_generate_secret :: "auth_env \<Rightarrow> auth_request \<Rightarrow> string auth_io" where
  "totp_generate_secret e r =
     bindM (account_guard r) (\<lambda>a.
     bindM (validated_ticket_guard e r) (\<lambda>_.
     bindM (generate_new_totp_secret e (acc_mfa a)) (\<lambda>(secret, m).
     bindM (save_account (a\<lparr>acc_mfa := m\<rparr>)) (\<lambda>_.
     ret secret))))"

section \<open>Accounts\<close>

definition change_email :: "auth_env \<Rightarrow> auth_request \<Rightarrow> string \<Rightarrow> string \<Rightarrow> unit auth_io" where
  "change_email e r email current_password =
     bindM (attempt (validated_ticket_guard e r)) (\<lambda>validated_ticket.
     bindM (account_guard r) (\<lambda>a.
     bindM (lift (validate_email e email)) (\<lambda>_.
     bindM (guard (is_active (acc_mfa a) \<and> validated_ticket = None) (GeneralErr InvalidCredentials)) (\<lambda>_.
     bindM (lift (verify_password e a current_password)) (\<lambda>_.
     bindM (start_email_move e a email) (\<lambda>_. ret ()))))))"

definition change_password :: "auth_env \<Rightarrow> auth_request \<Rightarrow> string \<Rightarrow> string \<Rightarrow> unit auth_io" where
  "change_password e r password current_password =
     bindM (attempt (validated_ticket_guard e r)) (\<lambda>validated_ticket.
     bindM (account_guard r) (\<lambda>a.
     bindM (guard (is_active (acc_mfa a) \<and> validated_ticket = None) (GeneralErr InvalidCredentials)) (\<lambda>_.
     bindM (assert_safe e password) (\<lambda>_.
     bindM (lift (verify_password e a current_password)) (\<lambda>_.
     bindM (hash_password e password) (\<lambda>hashed.
     save_account (a\<lparr>acc_password := hashed\<rparr>)))))))"

definition confirm_deletion :: "auth_env \<Rightarrow> string \<Rightarrow> unit auth_io" where
  "confirm_deletion e token =
     bindM (fetch_account_with_deletion_token token) (\<lambda>a.
     bindM (schedule_deletion e a) (\<lambda>_. ret ()))"

record data_create_account =
  ca_email :: string
  ca_password :: string
  ca_invite :: "string option"
  ca_captcha :: "string option"

definition required_invite :: "auth_env \<Rightarrow> string option \<Rightarrow> account_invite option auth_io" where
  "required_invite e invite =
     (if ae_invite_only e
      then (case invite of
              Some code \<Rightarrow> bindM (fetch_account_invite code) (\<lambda>i. ret (Some i))
            | None \<Rightarrow> throw (AuthErr MissingInvite))
      else ret None)"

definition create_account ::
    "auth_env \<Rightarrow> data_create_account \<Rightarrow> shield_validation_input \<Rightarrow> unit auth_io" where
  "create_account e data shield =
     bindM (check_captcha e (ca_captcha data)) (\<lambda>_.
     bindM (validate_shield e (shield\<lparr>sv_email := Some (ca_email data)\<rparr>)) (\<lambda>_.
     bindM (lift (validate_email e (ca_email data))) (\<lambda>_.
     bindM (assert_safe e (ca_password data)) (\<lambda>_.
     bindM (required_invite e (ca_invite data)) (\<lambda>invite.
     bindM (account_new e (ca_email data) (ca_password data) False) (\<lambda>a.
     bindM (if acc_registration_ip a = None
            then bindM (now_utc e) (\<lambda>now.
                 save_account (a\<lparr>acc_registration_ip := sv_ip shield, acc_registration_ip_at := Some now\<rparr>))
            else ret ()) (\<lambda>_.
     case invite of
       None \<Rightarrow> ret ()
     | Some i \<Rightarrow> save_account_invite (i\<lparr>ai_claimed_by := Some (acc_id a), ai_used := True\<rparr>))))))))"

text \<open>Cancelling at Stripe: whether it failed.\<close>

definition cancel_stripe :: "auth_env \<Rightarrow> subscription \<Rightarrow> bool auth_io" where
  "cancel_stripe e sub =
     (case sb_provider_subscription_id sub of
        Some ident \<Rightarrow>
          if ae_stripe e then bindM draw (\<lambda>n. ret (\<not> ae_stripe_cancels e ident n)) else ret True
      | None \<Rightarrow> ret True)"

definition delete_account :: "auth_env \<Rightarrow> auth_request \<Rightarrow> bool auth_io" where
  "delete_account e r =
     bindM (account_guard r) (\<lambda>a.
     bindM (validated_ticket_guard e r) (\<lambda>_.
     bindM (case acc_subscription a of
              None \<Rightarrow> ret (False, a)
            | Some sub \<Rightarrow>
                if sb_provider sub = ''stripe''
                then bindM (cancel_stripe e sub) (\<lambda>failed.
                     bindM (save_account (a\<lparr>acc_subscription := None\<rparr>)) (\<lambda>_.
                     ret (failed, a\<lparr>acc_subscription := None\<rparr>)))
                else ret (False, a)) (\<lambda>(stripe_cancellation_failed, a).
     bindM (schedule_deletion e a) (\<lambda>_.
     ret stripe_cancellation_failed))))"

definition disable_account :: "auth_env \<Rightarrow> auth_request \<Rightarrow> unit auth_io" where
  "disable_account e r =
     bindM (account_guard r) (\<lambda>a.
     bindM (validated_ticket_guard e r) (\<lambda>_.
     bindM (account_disable a) (\<lambda>_. ret ())))"

record account_info =
  fa_id :: string
  fa_email :: string
  fa_subscription :: "(string \<times> string \<times> timestamp \<times> bool) option"
  fa_cash_payment_request :: "cash_payment_request option"

definition account_info_from :: "account \<Rightarrow> account_info" where
  "account_info_from a =
     \<lparr>fa_id = acc_id a, fa_email = acc_email a,
      fa_subscription = map_option (\<lambda>s. (sb_provider s, sb_tier s, sb_active_until s, sb_cancel_at_period_end s))
        (acc_subscription a),
      fa_cash_payment_request = acc_cash_payment_request a\<rparr>"

definition route_fetch_account :: "auth_request \<Rightarrow> account_info auth_io" where
  "route_fetch_account r = bindM (account_guard r) (\<lambda>a. ret (account_info_from a))"

definition password_reset :: "auth_env \<Rightarrow> string \<Rightarrow> string \<Rightarrow> bool \<Rightarrow> unit auth_io" where
  "password_reset e token password remove_sessions =
     bindM (fetch_account_with_password_reset token) (\<lambda>a.
     bindM (assert_safe e password) (\<lambda>_.
     bindM (hash_password e password) (\<lambda>hashed.
     (let a = a\<lparr>acc_password := hashed, acc_password_reset := None, acc_lockout := None\<rparr>
      in bindM (save_account a) (\<lambda>_.
         if remove_sessions then account_delete_all_sessions a None else ret ())))))"

definition resend_verification :: "auth_env \<Rightarrow> string \<Rightarrow> string option \<Rightarrow> unit auth_io" where
  "resend_verification e email captcha =
     bindM (check_captcha e captcha) (\<lambda>_.
     bindM (lift (validate_email e email)) (\<lambda>_.
     bindM (lift (normalise_email e email)) (\<lambda>email_normalised.
     bindM (fetch_account_by_normalised_email email_normalised) (\<lambda>found.
     case found of
       None \<Rightarrow> ret ()
     | Some a \<Rightarrow>
         (case acc_verification a of
            EV_Verified \<Rightarrow> bindM (start_password_reset e a True) (\<lambda>_. ret ())
          | EV_Pending _ _ \<Rightarrow> bindM (start_email_verification e a) (\<lambda>_. ret ())
          | EV_Moving _ _ _ \<Rightarrow> ret ())))))"

definition send_password_reset :: "auth_env \<Rightarrow> string \<Rightarrow> string option \<Rightarrow> unit auth_io" where
  "send_password_reset e email captcha =
     bindM (check_captcha e captcha) (\<lambda>_.
     bindM (lift (validate_email e email)) (\<lambda>_.
     bindM (lift (normalise_email e email)) (\<lambda>email_normalised.
     bindM (fetch_account_by_normalised_email email_normalised) (\<lambda>found.
     case found of
       None \<Rightarrow> ret ()
     | Some a \<Rightarrow>
         if is_pending (acc_verification a) then ret ()
         else bindM (attempt (start_password_reset e a False)) (\<lambda>_. ret ())))))"

definition verify_email :: "auth_env \<Rightarrow> string \<Rightarrow> mfa_ticket option auth_io" where
  "verify_email e code =
     bindM (fetch_account_with_email_verification code) (\<lambda>a.
     bindM (case acc_verification a of
              EV_Moving new_email _ _ \<Rightarrow>
                bindM (lift (normalise_email e new_email)) (\<lambda>normalised.
                ret (None, a\<lparr>acc_email := new_email, acc_email_normalised := normalised\<rparr>))
            | _ \<Rightarrow>
                bindM (ticket_new e (acc_id a) False) (\<lambda>ticket.
                (let ticket = ticket\<lparr>mt_authorised := True\<rparr>
                 in bindM (save_ticket ticket) (\<lambda>_. ret (Some ticket, a))))) (\<lambda>(response, a).
     bindM (save_account (a\<lparr>acc_verification := EV_Verified\<rparr>)) (\<lambda>_.
     ret response)))"

section \<open>Pruning\<close>

definition prune_mfa_tickets :: "auth_env \<Rightarrow> unit auth_io" where
  "prune_mfa_tickets e = bindM (delete_expired_tickets e) (\<lambda>_. ret ())"

definition prune_registration_ips :: "auth_env \<Rightarrow> unit auth_io" where
  "prune_registration_ips e =
     bindM (now_utc e) (\<lambda>now. clear_expired_registration_ips (now - 1000 * ae_ip_retention e))"

text \<open>
  One round of \<open>delete_accounts\<close>. What \<open>User::delete\<close> does to the other collections is the argument
  \<open>erase\<close>, run on the users' side of the database.
\<close>

definition erase_user :: "(user \<Rightarrow> unit io) \<Rightarrow> account \<Rightarrow> unit auth_io" where
  "erase_user erase a =
     bindM (gets (\<lambda>s. hm_get (db_users (au_world s)) (acc_id a))) (\<lambda>found.
     case found of
       None \<Rightarrow> ret ()
     | Some u \<Rightarrow> (\<lambda>s. (case erase u (au_world s) of (r, w) \<Rightarrow> (r, s\<lparr>au_world := w\<rparr>))))"

definition delete_accounts :: "auth_env \<Rightarrow> (user \<Rightarrow> unit io) \<Rightarrow> unit auth_io" where
  "delete_accounts e erase =
     bindM (fetch_accounts_due_for_deletion e) (\<lambda>accounts.
     for_each accounts (\<lambda>a.
       bindM (erase_user erase a) (\<lambda>_.
       bindM (mark_deleted a) (\<lambda>_. ret ()))))"

end
