(* ===== verification/Account_Sessions.thy ===== *)
theory Account_Sessions
  imports Account_Routes Hoare Db_Laws
begin

text \<open>
  What every authentication request keeps: each document stands under its own identifier, and a
  session belongs to an account that exists and is not disabled.
\<close>

section \<open>The invariant\<close>

definition enabled_in :: "auth_db \<Rightarrow> string \<Rightarrow> bool" where
  "enabled_in s ident = (case hm_get (db_accounts s) ident of None \<Rightarrow> False | Some a \<Rightarrow> \<not> acc_disabled a)"

definition auth_ok :: "auth_db \<Rightarrow> bool" where
  "auth_ok s \<longleftrightarrow>
     keyed acc_id (db_accounts s) \<and> keyed ss_id (db_sessions s) \<and> keyed mt_id (db_mfa_tickets s) \<and>
     (\<forall>k x. hm_get (db_sessions s) k = Some x \<longrightarrow> enabled_in s (ss_user_id x))"

text \<open>The account a handler works on says of itself what the stored one says.\<close>

definition agrees :: "account \<Rightarrow> auth_db \<Rightarrow> bool" where
  "agrees a s \<longleftrightarrow> (\<exists>b. hm_get (db_accounts s) (acc_id a) = Some b \<and> acc_disabled b = acc_disabled a)"

lemma agrees_update [simp]:
  "agrees (a\<lparr>acc_email := x1\<rparr>) = agrees a" "agrees (a\<lparr>acc_email_normalised := x2\<rparr>) = agrees a"
  "agrees (a\<lparr>acc_password := x3\<rparr>) = agrees a" "agrees (a\<lparr>acc_registration_ip := x4\<rparr>) = agrees a"
  "agrees (a\<lparr>acc_registration_ip_at := x5\<rparr>) = agrees a" "agrees (a\<lparr>acc_verification := x6\<rparr>) = agrees a"
  "agrees (a\<lparr>acc_password_reset := x7\<rparr>) = agrees a" "agrees (a\<lparr>acc_deletion := x8\<rparr>) = agrees a"
  "agrees (a\<lparr>acc_lockout := x9\<rparr>) = agrees a" "agrees (a\<lparr>acc_mfa := x10\<rparr>) = agrees a"
  "agrees (a\<lparr>acc_subscription := x11\<rparr>) = agrees a" "agrees (a\<lparr>acc_cash_payment_request := x12\<rparr>) = agrees a"
  by (simp_all add: agrees_def fun_eq_iff)

section \<open>Steps that touch neither accounts nor sessions\<close>

definition aside :: "'a auth_io \<Rightarrow> bool" where
  "aside m \<longleftrightarrow> leaves db_accounts m \<and> leaves db_sessions m \<and> keeps (\<lambda>s. keyed mt_id (db_mfa_tickets s)) m"

named_theorems aside_rules

lemma asideI:
  "leaves db_accounts m \<Longrightarrow> leaves db_sessions m \<Longrightarrow> keeps (\<lambda>s. keyed mt_id (db_mfa_tickets s)) m \<Longrightarrow> aside m"
  by (simp add: aside_def)

lemma aside_bind [aside_rules]: "aside m \<Longrightarrow> (\<And>x. aside (f x)) \<Longrightarrow> aside (bindM m f)"
  unfolding aside_def by (intro conjI leaves_bind keeps_bind) blast+

lemma aside_const [aside_rules]:
  "aside (ret x)" "aside (throw e)" "aside (panic p)" "aside (lift r)" "aside (gets g)" "aside (guard c e)"
  by (simp_all add: aside_def leaves_rules)

lemma aside_attempt [aside_rules]: "aside m \<Longrightarrow> aside (attempt m)"
  by (simp add: aside_def leaves_rules keeps_attempt)

lemma aside_map_err [aside_rules]: "aside m \<Longrightarrow> aside (map_err g m)"
  by (simp add: aside_def leaves_map_err keeps_map_err)

lemma aside_cases [aside_rules]:
  "aside m \<Longrightarrow> aside m' \<Longrightarrow> aside (if c then m else m')"
  "(\<And>a b. aside (g a b)) \<Longrightarrow> aside (case p of (a, b) \<Rightarrow> g a b)"
  "aside m \<Longrightarrow> (\<And>v. aside (h v)) \<Longrightarrow> aside (case x of None \<Rightarrow> m | Some v \<Rightarrow> h v)"
  "(\<And>y. aside (l y)) \<Longrightarrow> aside (let y = v in l y)"
  "aside m \<Longrightarrow> (\<And>k. aside (j k)) \<Longrightarrow> (\<And>k. aside (j' k)) \<Longrightarrow>
     aside (case t of Totp_Disabled \<Rightarrow> m | Totp_Pending k \<Rightarrow> j k | Totp_Enabled k \<Rightarrow> j' k)"
  "(\<And>k. aside (j k)) \<Longrightarrow> (\<And>k. aside (j' k)) \<Longrightarrow> (\<And>k. aside (j'' k)) \<Longrightarrow>
     aside (case r of Response_Password k \<Rightarrow> j k | Response_Recovery k \<Rightarrow> j' k | Response_Totp k \<Rightarrow> j'' k)"
  "aside m \<Longrightarrow> aside m' \<Longrightarrow> (\<And>b. aside (i b)) \<Longrightarrow>
     aside (case sa of Shield_Unreachable \<Rightarrow> m | Shield_Garbled \<Rightarrow> m' | Shield_Verdict b \<Rightarrow> i b)"
  by (simp_all split: prod.splits option.splits totp.splits mfa_response.splits shield_answer.splits)

lemma aside_steps [aside_rules]:
  "aside (now_utc e)" "aside draw" "aside (auth_publish c ev)" "aside (save_ticket t)"
  "aside (delete_ticket i)" "aside (fetch_account i)" "aside (fetch_account_by_normalised_email m)"
  "aside (fetch_account_with_email_verification k)" "aside (fetch_account_with_password_reset k)"
  "aside (fetch_account_with_deletion_token k)" "aside (fetch_account_invite i)"
  "aside (save_account_invite v)" "aside (fetch_session i)" "aside (fetch_sessions u)"
  "aside (fetch_session_by_token k)" "aside (auth_fetch_user i)"
  by (auto simp: aside_def leaves_def keeps_def now_utc_def draw_def auth_publish_def save_ticket_def
      delete_ticket_def fetch_account_def fetch_account_by_normalised_email_def
      fetch_account_with_email_verification_def fetch_account_with_password_reset_def
      fetch_account_with_deletion_token_def fetch_account_invite_def save_account_invite_def
      fetch_session_def fetch_sessions_def fetch_session_by_token_def auth_fetch_user_def keyed_insert keyed_remove)

lemma aside_modify [aside_rules]:
  "aside (modify (\<lambda>s. s\<lparr>au_mails := f s\<rparr>))" "aside (modify (\<lambda>s. s\<lparr>au_pushes := g s\<rparr>))"
  by (simp_all add: aside_def leaves_def keeps_def)

lemma aside_prune [aside_rules]: "aside (delete_expired_tickets e)"
  unfolding delete_expired_tickets_def
  by (intro aside_rules) (simp add: aside_def leaves_def keeps_def keyed_retain)

lemma aside_recovery [aside_rules]: "aside (recovery_code_list e n)"
proof (induction n)
  case 0
  show ?case
    by (simp only: recovery_code_list.simps aside_rules)
next
  case (Suc n)
  then show ?case
    unfolding recovery_code_list.simps nanoid_def by (intro aside_rules)
qed

lemmas aside_defs =
  ulid_new_def nanoid_def auth_global_def auth_private_def hash_password_def assert_safe_def
  check_captcha_def validate_shield_def send_email_def generate_recovery_codes_def generate_code_def
  generate_new_totp_secret_def enable_totp_def ticket_new_def populate_def is_expired_def claim_def

lemma aside_methods [aside_rules]:
  "aside (ulid_new e)" "aside (nanoid e)" "aside (auth_global ev)" "aside (auth_private i ev)"
  "aside (hash_password e p)" "aside (assert_safe e p)" "aside (check_captcha e c)"
  "aside (validate_shield e v)" "aside (send_email e ad t k)" "aside (generate_recovery_codes e m)"
  "aside (generate_code e t')" "aside (generate_new_totp_secret e m)" "aside (enable_totp e m r)"
  "aside (ticket_new e i b)" "aside (populate e m tk)" "aside (is_expired e tk)" "aside (claim e tk)"
  unfolding aside_defs Let_def by (intro aside_rules)+

lemma aside_guards [aside_rules]:
  "aside (fetch_ticket_by_token e k)" "aside (session_guard r)" "aside (account_guard r)"
  "aside (ticket_guard e r)" "aside (validated_ticket_guard e r)" "aside (unvalidated_ticket_guard e r)"
  unfolding fetch_ticket_by_token_def session_guard_def account_guard_def ticket_guard_def
    validated_ticket_guard_def unvalidated_ticket_guard_def
  by (intro aside_rules)+

lemma aside_login_parts [aside_rules]:
  "aside (check_lockout e a)" "aside (record_failure e a)" "aside (mfa_challenge e a)" "aside (notify_login x)"
  "aside (cancel_stripe e sub)" "aside (required_invite e i)"
  unfolding check_lockout_def record_failure_def mfa_challenge_def notify_login_def cancel_stripe_def
    required_invite_def Let_def
  by (intro aside_rules)+

lemma aside_keeps: "aside m \<Longrightarrow> keeps auth_ok m"
  by (simp add: aside_def leaves_def keeps_def auth_ok_def enabled_in_def)

lemma aside_ensures: "aside m \<Longrightarrow> ensures auth_ok (agrees a) m (\<lambda>_. agrees a)"
  by (simp add: ensures_def keepsD [OF aside_keeps]) (simp add: aside_def leaves_def agrees_def)

section \<open>Reading and saving an account\<close>

lemma keyed_find:
  assumes "keyed f m" and "find P (hm_values m) = Some v"
  shows "hm_get m (f v) = Some v" and "P v"
proof -
  have "v \<in> set (hm_values m)" "P v"
    using assms(2) by (auto simp: find_Some_iff)
  then show "hm_get m (f v) = Some v" "P v"
    using assms(1) by (auto simp: keyed_def hm_values_mem)
qed

lemma ensures_stored:
  assumes "aside m" and "\<And>s a s'. auth_ok s \<Longrightarrow> m s = (Ok a, s') \<Longrightarrow> hm_get (db_accounts s) (acc_id a) = Some a"
  shows "ensures auth_ok P m agrees"
proof (rule ensuresI)
  show "auth_ok s \<Longrightarrow> auth_ok (snd (m s))" for s
    by (rule keepsD [OF aside_keeps [OF assms(1)]])
  show "agrees a s'" if "auth_ok s" "m s = (Ok a, s')" for s a s'
    using assms(2) [OF that] leaves_run [of db_accounts m, OF _ that(2)] assms(1)
    by (simp add: agrees_def aside_def)
qed

lemma ensures_fetch [ensures_rules]:
  "ensures auth_ok P (fetch_account i) agrees"
  "ensures auth_ok P (fetch_account_with_email_verification k) agrees"
  "ensures auth_ok P (fetch_account_with_password_reset k) agrees"
  "ensures auth_ok P (fetch_account_with_deletion_token k) agrees"
  by (rule ensures_stored, rule aside_rules,
      auto simp: fetch_account_def fetch_account_with_email_verification_def
        fetch_account_with_password_reset_def fetch_account_with_deletion_token_def auth_ok_def
        dest: keyed_get keyed_find)+

lemma ensures_found [ensures_rules]:
  "ensures auth_ok P (fetch_account_by_normalised_email m)
     (\<lambda>found s. case found of None \<Rightarrow> True | Some a \<Rightarrow> agrees a s)"
  by (auto simp: ensures_def fetch_account_by_normalised_email_def agrees_def auth_ok_def
      dest: keyed_find split: option.splits)

lemma map_err_Ok: "map_err f m s = (Ok x, s') \<longleftrightarrow> m s = (Ok x, s')"
  by (auto simp: map_err_def split: prod.splits outcome.splits)

lemma ensures_map_err: "ensures I P m Q \<Longrightarrow> ensures I P (map_err f m) Q"
  by (auto simp: ensures_def map_err_def split: prod.splits outcome.splits)

lemma ensures_account_guard [ensures_rules]: "ensures auth_ok P (account_guard r) agrees"
  unfolding account_guard_def
  by (rule ensures_bind [where R = "\<lambda>_ _. True"])
     (auto intro: ensures_drop aside_keeps aside_rules ensures_map_err ensures_rules)

text \<open>Saving the account a handler read keeps the sessions in order, as it is disabled when it was.\<close>

lemma ensures_save [ensures_rules]: "ensures auth_ok (agrees a) (save_account a) (\<lambda>_. agrees a)"
  by (auto simp: ensures_def save_account_def agrees_def auth_ok_def enabled_in_def keyed_insert
      split: option.splits if_splits) fastforce

lemma ensures_save_enabled:
  "\<not> acc_disabled a \<Longrightarrow> ensures auth_ok P (save_account a) (\<lambda>_. agrees a)"
  by (auto simp: ensures_def save_account_def agrees_def auth_ok_def enabled_in_def keyed_insert
      split: option.splits if_splits)

lemma ensures_delete_all:
  "ensures auth_ok (\<lambda>_. True) (account_delete_all_sessions a None)
     (\<lambda>_ s. \<forall>k x. hm_get (db_sessions s) k = Some x \<longrightarrow> ss_user_id x \<noteq> acc_id a)"
  by (auto simp: ensures_def account_delete_all_sessions_def delete_all_sessions_db_def auth_private_def
      auth_publish_def auth_ok_def enabled_in_def keyed_def hm_get_retain split: option.splits if_splits)

lemma keeps_delete_all [keeps_rules]: "keeps auth_ok (account_delete_all_sessions a ex)"
  by (auto simp: keeps_def account_delete_all_sessions_def delete_all_sessions_db_def auth_private_def
      auth_publish_def auth_ok_def enabled_in_def keyed_def hm_get_retain split: option.splits if_splits)

lemma keeps_save_without_sessions:
  "ensures auth_ok (\<lambda>s. \<forall>k x. hm_get (db_sessions s) k = Some x \<longrightarrow> ss_user_id x \<noteq> acc_id a)
     (save_account a) (\<lambda>_ _. True)"
  by (auto simp: ensures_def save_account_def auth_ok_def enabled_in_def keyed_insert
      split: option.splits if_splits)

lemma keeps_disable [keeps_rules]: "keeps auth_ok (account_disable a)"
  unfolding account_disable_def Let_def
  by (rule keeps_ensures, rule ensures_bind,
      rule ensures_delete_all [of "a\<lparr>acc_disabled := True\<rparr>"], rule ensures_then)
     (auto intro: keeps_save_without_sessions ensures_conseq)

lemma keeps_schedule [keeps_rules]: "keeps auth_ok (schedule_deletion e a)"
  unfolding schedule_deletion_def by (intro keeps_rules aside_keeps aside_rules)

lemma ensures_save_session:
  "ensures auth_ok (\<lambda>s. enabled_in s (ss_user_id x)) (save_session x) (\<lambda>_ _. True)"
  by (auto simp: ensures_def save_session_def auth_ok_def enabled_in_def keyed_insert split: if_splits)

lemma ensures_create_session:
  assumes "\<not> acc_disabled a"
  shows "ensures auth_ok (agrees a) (create_session e a n) (\<lambda>_ _. True)"
proof -
  have save: "ensures auth_ok (agrees a) (save_session x) (\<lambda>_ _. True)" if "ss_user_id x = acc_id a" for x
    by (rule ensures_pre [OF ensures_save_session]) (use assms that in \<open>auto simp: enabled_in_def agrees_def\<close>)
  show ?thesis
    unfolding create_session_def Let_def
    by (intro ensures_bind [OF aside_ensures] ensures_then keeps_rules aside_keeps aside_rules save) simp
qed

section \<open>Methods\<close>

text \<open>A step that only derives an account from another one.\<close>

definition derives :: "account \<Rightarrow> account auth_io \<Rightarrow> bool" where
  "derives a m \<longleftrightarrow>
     aside m \<and> (\<forall>s b s'. m s = (Ok b, s') \<longrightarrow> acc_id b = acc_id a \<and> acc_disabled b = acc_disabled a)"

named_theorems derives_rules

lemma derives_bind [derives_rules]: "aside m \<Longrightarrow> (\<And>x. derives a (f x)) \<Longrightarrow> derives a (bindM m f)"
  by (auto simp: derives_def bindM_eq_Ok intro: aside_bind)

lemma derives_ret [derives_rules]:
  "acc_id b = acc_id a \<Longrightarrow> acc_disabled b = acc_disabled a \<Longrightarrow> derives a (ret b)"
  by (auto simp: derives_def intro: aside_rules)

lemma derives_cases [derives_rules]:
  "derives a (throw err)"
  "derives a m \<Longrightarrow> derives a m' \<Longrightarrow> derives a (if c then m else m')"
  by (auto simp: derives_def intro: aside_rules)

lemma derives_ensures: "derives a m \<Longrightarrow> ensures auth_ok (agrees a) m agrees"
  using aside_ensures [of m a] by (auto simp: derives_def ensures_def agrees_def) (metis prod.collapse)+

lemma ensures_save_ret: "ensures auth_ok (agrees a) (bindM (save_account a) (\<lambda>_. ret a)) agrees"
  by (rule ensures_bind [OF ensures_save]) (rule ensures_ret)

lemma ensures_mailing [ensures_rules]:
  "ensures auth_ok (agrees a) (start_email_verification e a) agrees"
  "ensures auth_ok (agrees a) (start_password_reset e a b) agrees"
  unfolding start_email_verification_def start_password_reset_def
  by (rule ensures_bind [OF derives_ensures ensures_save_ret], intro derives_rules aside_rules; simp)+

lemma ensures_email_move [ensures_rules]:
  "ensures auth_ok (agrees a) (start_email_move e a m) agrees"
  unfolding start_email_move_def
  by (rule ensures_bind [OF aside_ensures], rule aside_rules,
      rule ensures_bind [OF derives_ensures ensures_save_ret], intro derives_rules aside_rules; simp)

lemma ensures_consume [ensures_rules]: "ensures auth_ok (agrees a) (consume_mfa_response e a r t) agrees"
proof -
  have ret: "ensures auth_ok (agrees a) (ret a) agrees"
    by (rule ensures_ret)
  have save: "ensures auth_ok (agrees a) (bindM (save_account b) (\<lambda>_. ret b)) agrees"
    if "b = a\<lparr>acc_mfa := m\<rparr>" for b m
    using ensures_save_ret [of b] that by simp
  show ?thesis
    unfolding consume_mfa_response_def Let_def
    by (cases r) (auto intro!: ensures_rules ensures_bind [OF aside_ensures] aside_rules ret save)
qed

text \<open>A handler that has read an account and goes on with it.\<close>

definition holds :: "account \<Rightarrow> 'a auth_io \<Rightarrow> bool" where
  "holds a m \<longleftrightarrow> ensures auth_ok (agrees a) m (\<lambda>_ _. True)"

lemma holds_keeps: "keeps auth_ok m \<Longrightarrow> holds a m"
  unfolding holds_def by (rule ensures_drop)

lemma holds_end: "aside m \<Longrightarrow> holds a m"
  by (rule holds_keeps [OF aside_keeps])

lemma holds_aside: "aside m \<Longrightarrow> (\<And>x. holds a (f x)) \<Longrightarrow> holds a (bindM m f)"
  unfolding holds_def by (rule ensures_bind [OF aside_ensures])

lemma holds_agrees:
  "ensures auth_ok (agrees a) m agrees \<Longrightarrow> (\<And>b. holds b (f b)) \<Longrightarrow> holds a (bindM m f)"
  unfolding holds_def by (rule ensures_bind)

lemma holds_save: "agrees b = agrees a \<Longrightarrow> holds a (save_account b)"
  using ensures_conseq [OF ensures_save [of b], of "agrees b" "\<lambda>_ _. True"] by (simp add: holds_def)

lemma holds_save_then: "agrees b = agrees a \<Longrightarrow> holds b (f ()) \<Longrightarrow> holds a (bindM (save_account b) f)"
  using ensures_bind [OF ensures_save [of b], of f "\<lambda>_ _. True"] by (simp add: holds_def)

lemma keeps_read:
  "ensures auth_ok (\<lambda>_. True) m agrees \<Longrightarrow> (\<And>a. holds a (f a)) \<Longrightarrow> keeps auth_ok (bindM m f)"
  unfolding holds_def by (rule keeps_ensures, rule ensures_bind)

lemmas keeps_guarded = keeps_read [OF ensures_account_guard]
lemmas keeps_fetched = keeps_read [OF ensures_fetch(1)] keeps_read [OF ensures_fetch(2)]
  keeps_read [OF ensures_fetch(3)] keeps_read [OF ensures_fetch(4)]

lemma keeps_aside: "aside m \<Longrightarrow> (\<And>x. keeps auth_ok (f x)) \<Longrightarrow> keeps auth_ok (bindM m f)"
  by (rule keeps_bind [OF aside_keeps])

lemma ensures_by_email:
  assumes "ensures auth_ok (\<lambda>_. True) m Q" and "\<And>a. ensures auth_ok (agrees a) (f a) Q"
  shows "ensures auth_ok P (bindM (fetch_account_by_normalised_email k)
           (\<lambda>found. case found of None \<Rightarrow> m | Some a \<Rightarrow> f a)) Q"
  by (rule ensures_bind [OF ensures_found], rule ensures_option)
     (auto intro: ensures_pre [OF assms(1)] ensures_pre [OF assms(2)])

lemma keeps_by_email:
  "keeps auth_ok m \<Longrightarrow> (\<And>a. holds a (f a)) \<Longrightarrow>
   keeps auth_ok (bindM (fetch_account_by_normalised_email k) (\<lambda>found. case found of None \<Rightarrow> m | Some a \<Rightarrow> f a))"
  unfolding holds_def by (rule keeps_ensures, rule ensures_by_email) (auto intro: ensures_drop)

lemma ensures_start: "aside m \<Longrightarrow> (\<And>x. ensures auth_ok (\<lambda>_. True) (f x) Q) \<Longrightarrow> ensures auth_ok (\<lambda>_. True) (bindM m f) Q"
  by (rule ensures_bind [OF ensures_drop [OF aside_keeps]])

lemma ensures_save_new:
  "ensures auth_ok (\<lambda>_. \<not> acc_disabled b) (bindM (save_account b) (\<lambda>_. ret b)) agrees"
proof (cases "acc_disabled b")
  case True
  then show ?thesis
    by (auto simp: ensures_def)
next
  case False
  then show ?thesis
    by (intro ensures_bind [OF ensures_save_enabled] ensures_ret) auto
qed

lemma ensures_verify_new:
  assumes "\<not> acc_disabled a"
  shows "ensures auth_ok (\<lambda>_. True) (start_email_verification e a) agrees"
proof -
  have "ensures auth_ok (\<lambda>_. True) m (\<lambda>b _. \<not> acc_disabled b)" if "derives a m" for m
    using that assms keepsD [OF aside_keeps] by (auto simp: derives_def ensures_def) (metis prod.collapse)+
  then show ?thesis
    unfolding start_email_verification_def
    by (rule ensures_bind [OF _ ensures_save_new]) (intro derives_rules aside_rules; simp)
qed

lemma ensures_account_new: "ensures auth_ok (\<lambda>_. True) (account_new e m p v) agrees"
proof -
  have tail: "ensures auth_ok (agrees a) (bindM (auth_global (CreateAccount a)) (\<lambda>_. ret a)) agrees" for a
    by (intro ensures_bind [OF aside_ensures] aside_rules ensures_ret)
  have new: "ensures auth_ok (\<lambda>_. True)
      (bindM (if v then start_email_verification e a else bindM (save_account a) (\<lambda>_. ret a))
         (\<lambda>a. bindM (auth_global (CreateAccount a)) (\<lambda>_. ret a))) agrees" if "\<not> acc_disabled a" for a
    by (rule ensures_bind [OF ensures_if tail])
       (use that in \<open>auto intro: ensures_verify_new ensures_pre [OF ensures_save_new]\<close>)
  show ?thesis
    unfolding account_new_def Let_def
    by (intro ensures_start aside_rules ensures_by_email new ensures_if ensures_mailing) simp
qed

section \<open>Routes\<close>

lemma keeps_session_routes [keeps_rules]:
  "keeps auth_ok (session_delete x)"
  by (auto simp: keeps_def session_delete_def delete_session_def auth_private_def auth_publish_def bindM_def
      auth_ok_def enabled_in_def keyed_remove split: if_splits)

lemma holds_finish: "holds a (finish_login e a n)"
  unfolding finish_login_def
proof (cases "acc_disabled a")
  case False
  then have "ensures auth_ok (agrees a) (bindM (create_session e a name) (\<lambda>session.
      bindM (notify_login session) (\<lambda>_. ret (Response_Success session, Some (ss_token session))))) (\<lambda>_ _. True)" for name
    by (intro ensures_then ensures_create_session keeps_rules aside_keeps aside_rules)
  then show "holds a (if acc_disabled a then ret (Response_Disabled (acc_id a) None, None)
      else bindM (create_session e a (case n of None \<Rightarrow> ''Unknown'' | Some n \<Rightarrow> n)) (\<lambda>session.
        bindM (notify_login session) (\<lambda>_. ret (Response_Success session, Some (ss_token session)))))"
    using False by (simp add: holds_def)
qed (simp add: holds_end aside_rules)

text \<open>Logging in by password gives the account as it was saved, or an answer.\<close>

lemma derives_failure: "derives a (record_failure e a)"
  unfolding record_failure_def Let_def
  by (cases "acc_lockout a") (auto intro!: derives_rules aside_rules)

definition login_account :: "response_login + account \<Rightarrow> auth_db \<Rightarrow> bool" where
  "login_account r s = (case r of Inl _ \<Rightarrow> True | Inr a \<Rightarrow> agrees a s)"

lemma ensures_login_with_password:
  "ensures auth_ok (\<lambda>_. True) (login_with_password e m p) login_account"
proof -
  have fail: "ensures auth_ok (agrees a) (bindM (record_failure e a) (\<lambda>a. bindM (save_account a) (\<lambda>_. throw err))) login_account" for a err
    by (rule ensures_bind [OF derives_ensures [OF derives_failure]], rule ensures_bind [OF ensures_save])
       (rule ensures_fail)
  have clear: "ensures auth_ok (agrees a) (if acc_lockout a \<noteq> None
        then bindM (save_account (a\<lparr>acc_lockout := None\<rparr>)) (\<lambda>_. ret (a\<lparr>acc_lockout := None\<rparr>)) else ret a) agrees" for a
    using ensures_save_ret [of "a\<lparr>acc_lockout := None\<rparr>"] by (auto intro: ensures_ret)
  have inl: "ensures auth_ok (agrees a) (bindM (mfa_challenge e a) (\<lambda>r. ret (Inl r))) login_account" for a
    by (rule ensures_bind [OF aside_ensures], rule aside_rules, rule ensures_ret) (simp add: login_account_def)
  have inr: "ensures auth_ok (agrees a) (ret (Inr a)) login_account" for a
    by (rule ensures_ret) (simp add: login_account_def)
  have check: "ensures auth_ok (agrees a) (check_login_password e a p) login_account" for a
    unfolding check_login_password_def
    by (cases "verify_password e a p", simp_all only: outcome.case)
       (rule ensures_bind [OF clear], rule ensures_if, rule inl, rule inr, rule fail, rule ensures_fail)
  show ?thesis
    unfolding login_with_password_def
    by (intro ensures_start aside_rules ensures_by_email ensures_bind [OF aside_ensures] ensures_fail check)
qed

lemma ensures_login_with_ticket:
  "ensures auth_ok (\<lambda>_. True) (login_with_ticket e t r) agrees"
  unfolding login_with_ticket_def
  by (intro ensures_start aside_rules ensures_bind [OF ensures_fetch(1)] ensures_option ensures_consume
      ensures_bind [OF aside_ensures] ensures_ret)

lemma keeps_login [keeps_rules]: "keeps auth_ok (login e d)"
proof (cases d)
  case (Login_Email m p n)
  have "ensures auth_ok (login_account r) (case r of Inl answer \<Rightarrow> ret (answer, None) | Inr a \<Rightarrow> finish_login e a n)
      (\<lambda>_ _. True)" for r
  proof (cases r)
    case (Inr a)
    have "login_account (Inr a) = agrees a"
      by (simp add: login_account_def fun_eq_iff)
    with Inr holds_finish [of a e n] show ?thesis
      by (simp add: holds_def)
  qed (auto intro: ensures_ret)
  then show ?thesis
    unfolding login_def Login_Email data_login.case
    by (rule keeps_ensures [OF ensures_bind [OF ensures_login_with_password]])
next
  case (Login_MFA t r n)
  then show ?thesis
    by (simp add: login_def keeps_read [OF ensures_login_with_ticket] holds_finish)
qed

lemma keeps_edit [keeps_rules]: "keeps auth_ok (session_edit r i n)"
proof -
  have "keeps auth_ok (bindM (fetch_session i) (\<lambda>x. bindM (guard (u \<noteq> ss_user_id x) er) (\<lambda>_.
      bindM (save_session (x\<lparr>ss_name := n\<rparr>)) (\<lambda>_. ret (ss_id x, n)))))" for u er
    using keyed_insert [of ss_id _ "x\<lparr>ss_name := n\<rparr>" for x]
    by (auto simp: keeps_def fetch_session_def save_session_def bindM_def guard_def auth_ok_def enabled_in_def
        ok_or_def dest: keyed_get split: option.splits if_splits)
  then show ?thesis
    unfolding session_edit_def by (rule keeps_aside [OF aside_guards(2)])
qed

lemma keeps_sessions [keeps_rules]:
  "keeps auth_ok (session_fetch_all r)" "keeps auth_ok (session_logout r)"
  "keeps auth_ok (session_revoke e r i)" "keeps auth_ok (session_revoke_all e r b)"
  unfolding session_fetch_all_def session_logout_def session_revoke_def session_revoke_all_def
  by (intro keeps_aside aside_rules keeps_rules)+

lemma keeps_mfa_reads [keeps_rules]:
  "keeps auth_ok (mfa_fetch_recovery e r)" "keeps auth_ok (mfa_fetch_status r)"
  "keeps auth_ok (get_mfa_methods r)" "keeps auth_ok (route_fetch_account r)"
  unfolding mfa_fetch_recovery_def mfa_fetch_status_def get_mfa_methods_def route_fetch_account_def
  by (intro aside_keeps aside_rules)+

lemma keeps_totp [keeps_rules]:
  "keeps auth_ok (totp_disable e r)" "keeps auth_ok (totp_enable e r p)"
  unfolding totp_disable_def totp_enable_def
  by (rule keeps_guarded, rule holds_aside, rule aside_rules, rule holds_save, simp)+

lemma keeps_mfa_secrets [keeps_rules]:
  "keeps auth_ok (mfa_generate_recovery e r)" "keeps auth_ok (totp_generate_secret e r)"
  unfolding mfa_generate_recovery_def totp_generate_secret_def case_prod_unfold
  by (rule keeps_guarded, rule holds_aside, rule aside_rules, rule holds_aside, rule aside_rules,
      rule holds_save_then, simp, rule holds_end, rule aside_rules)+

lemma ensures_attempt_account:
  "ensures auth_ok P (attempt (account_guard r)) (\<lambda>found s. \<forall>a. found = Some a \<longrightarrow> agrees a s)"
  using ensures_account_guard [of P r]
  by (auto simp: ensures_def attempt_def split: prod.splits outcome.splits)

lemma bindM_throw: "bindM (throw er) f = throw er"
  by (simp add: fun_eq_iff)

lemma keeps_create_ticket [keeps_rules]: "keeps auth_ok (mfa_create_ticket e r p)"
proof -
  have tail: "holds a (bindM (consume_mfa_response e a p None) (\<lambda>a. bindM (ticket_new e (acc_id a) True)
      (\<lambda>ticket. bindM (save_ticket ticket) (\<lambda>_. ret ticket))))" for a
    by (intro holds_agrees [OF ensures_consume] holds_end aside_rules)
  let ?then = "\<lambda>a. bindM (consume_mfa_response e a p None) (\<lambda>a. bindM (ticket_new e (acc_id a) True)
      (\<lambda>ticket. bindM (save_ticket ticket) (\<lambda>_. ret ticket)))"
  have none: "keeps auth_ok (bindM (case found of None \<Rightarrow> throw (AuthErr InvalidToken)
      | Some ticket \<Rightarrow> bindM (delete_ticket (mt_id ticket)) (\<lambda>_. fetch_account (mt_account_id ticket))) ?then)" for found
  proof (cases found)
    case None
    show ?thesis
      unfolding None option.case bindM_throw by (intro keeps_rules)
  next
    case (Some t)
    then show ?thesis
      unfolding Some option.case bindM_assoc by (intro keeps_aside aside_steps keeps_fetched(1) tail)
  qed
  have some: "holds a (bindM (case found of None \<Rightarrow> ret a | Some ticket \<Rightarrow> throw (GeneralErr OperationFailed)) ?then)" for a found
    by (cases found, simp_all only: option.case bindM_throw)
       (rule holds_agrees [OF ensures_ret tail], assumption, intro holds_end aside_rules)
  have "ensures auth_ok (\<lambda>s. \<forall>a. acct = Some a \<longrightarrow> agrees a s)
      (bindM (attempt (unvalidated_ticket_guard e r)) (\<lambda>existing_ticket.
       bindM (case (acct, existing_ticket) of
              (Some _, Some _) \<Rightarrow> throw (GeneralErr OperationFailed)
            | (Some a, None) \<Rightarrow> ret a
            | (None, Some ticket) \<Rightarrow>
                bindM (delete_ticket (mt_id ticket)) (\<lambda>_. fetch_account (mt_account_id ticket))
            | (None, None) \<Rightarrow> throw (AuthErr InvalidToken)) ?then)) (\<lambda>_ _. True)" for acct
  proof (cases acct)
    case None
    show ?thesis
      unfolding None by (rule ensures_drop, rule keeps_aside, intro aside_rules) (simp add: none)
  next
    case (Some a)
    with holds_aside [OF _ some, of "attempt (unvalidated_ticket_guard e r)" a "\<lambda>x. x"] show ?thesis
      by (simp add: holds_def aside_rules)
  qed
  then show ?thesis
    unfolding mfa_create_ticket_def
    by (rule keeps_ensures [OF ensures_bind [OF ensures_attempt_account]])
qed

lemma keeps_account_changes [keeps_rules]:
  "keeps auth_ok (change_email e r m p)" "keeps auth_ok (change_password e r q p)"
  unfolding change_email_def change_password_def
  by (intro keeps_aside aside_rules keeps_guarded holds_aside holds_agrees [OF ensures_email_move]
      holds_end holds_save; simp)+

lemma keeps_deletions [keeps_rules]:
  "keeps auth_ok (confirm_deletion e k)" "keeps auth_ok (disable_account e r)"
  unfolding confirm_deletion_def disable_account_def
  by (intro keeps_rules aside_keeps aside_rules)+

lemma ensures_cancel_subscription:
  "ensures auth_ok (agrees a)
     (case acc_subscription a of
        None \<Rightarrow> ret (False, a)
      | Some sub \<Rightarrow>
          if sb_provider sub = ''stripe''
          then bindM (cancel_stripe e sub) (\<lambda>failed.
               bindM (save_account (a\<lparr>acc_subscription := None\<rparr>)) (\<lambda>_.
               ret (failed, a\<lparr>acc_subscription := None\<rparr>)))
          else ret (False, a)) (\<lambda>_ _. True)"
proof -
  have "holds a (bindM (cancel_stripe e sub) (\<lambda>failed.
      bindM (save_account (a\<lparr>acc_subscription := None\<rparr>)) (\<lambda>_. ret (failed, a\<lparr>acc_subscription := None\<rparr>))))" for sub
    by (rule holds_aside, rule aside_rules, rule holds_save_then, simp, rule holds_end, rule aside_rules)
  then show ?thesis
    by (auto simp: holds_def intro!: ensures_option ensures_if ensures_ret)
qed

lemma keeps_delete_account [keeps_rules]: "keeps auth_ok (delete_account e r)"
  unfolding delete_account_def
proof (rule keeps_guarded, rule holds_aside, rule aside_rules)
  fix a x
  show "holds a (bindM (case acc_subscription a of
              None \<Rightarrow> ret (False, a)
            | Some sub \<Rightarrow>
                if sb_provider sub = ''stripe''
                then bindM (cancel_stripe e sub) (\<lambda>failed.
                     bindM (save_account (a\<lparr>acc_subscription := None\<rparr>)) (\<lambda>_.
                     ret (failed, a\<lparr>acc_subscription := None\<rparr>)))
                else ret (False, a)) (\<lambda>(stripe_cancellation_failed, a).
     bindM (schedule_deletion e a) (\<lambda>_. ret stripe_cancellation_failed)))"
    unfolding holds_def by (intro ensures_then ensures_cancel_subscription keeps_rules)
qed

lemma keeps_password_reset [keeps_rules]: "keeps auth_ok (password_reset e k p b)"
  unfolding password_reset_def Let_def
  by (intro keeps_fetched(3) holds_aside aside_methods holds_save_then holds_keeps keeps_rules) simp

lemma keeps_resend [keeps_rules]: "keeps auth_ok (resend_verification e m c)"
proof -
  have "holds a (case acc_verification a of
            EV_Verified \<Rightarrow> bindM (start_password_reset e a True) (\<lambda>_. ret ())
          | EV_Pending _ _ \<Rightarrow> bindM (start_email_verification e a) (\<lambda>_. ret ())
          | EV_Moving _ _ _ \<Rightarrow> ret ())" for a
    by (cases "acc_verification a")
       (simp_all only: email_verification.case; intro holds_agrees [OF ensures_mailing(1)]
         holds_agrees [OF ensures_mailing(2)] holds_end aside_rules)+
  then show ?thesis
    unfolding resend_verification_def by (intro keeps_aside aside_methods aside_const keeps_by_email keeps_rules)
qed

lemma ensures_attempt: "ensures I P m Q \<Longrightarrow> ensures I P (attempt m) (\<lambda>_ _. True)"
  by (auto simp: ensures_def attempt_def split: prod.splits outcome.splits)

lemma keeps_send_reset [keeps_rules]: "keeps auth_ok (send_password_reset e m c)"
proof -
  have "holds a (if is_pending (acc_verification a) then ret ()
         else bindM (attempt (start_password_reset e a False)) (\<lambda>_. ret ()))" for a
    unfolding holds_def
    by (intro ensures_if ensures_then ensures_attempt [OF ensures_mailing(2)] ensures_ret keeps_rules) simp
  then show ?thesis
    unfolding send_password_reset_def by (intro keeps_aside aside_methods aside_const keeps_by_email keeps_rules)
qed

lemma keeps_verify_email [keeps_rules]: "keeps auth_ok (verify_email e k)"
proof -
  define f :: "account \<Rightarrow> (mfa_ticket option \<times> account) auth_io" where "f = (\<lambda>a. case acc_verification a of
              EV_Moving new_email _ _ \<Rightarrow>
                bindM (lift (normalise_email e new_email)) (\<lambda>normalised.
                ret (None, a\<lparr>acc_email := new_email, acc_email_normalised := normalised\<rparr>))
            | _ \<Rightarrow>
                bindM (ticket_new e (acc_id a) False) (\<lambda>ticket.
                (let ticket = ticket\<lparr>mt_authorised := True\<rparr>
                 in bindM (save_ticket ticket) (\<lambda>_. ret (Some ticket, a)))))"
  have aside: "aside (f a)" for a
    unfolding f_def Let_def
    by (cases "acc_verification a") (simp_all only: email_verification.case; intro aside_rules)+
  have "agrees b = agrees a" if "f a s = (Ok (x, b), s')" for a b x s s'
    using that by (auto simp: f_def Let_def bindM_eq_Ok split: email_verification.splits)
  then have "ensures auth_ok (agrees a) (f a) (\<lambda>(x, b). agrees b)" for a
    using aside_ensures [OF aside, of a a] by (auto simp: ensures_def) (metis prod.collapse)
  moreover have "ensures auth_ok (case p of (x, b) \<Rightarrow> agrees b) (case p of (response, a) \<Rightarrow>
      bindM (save_account (a\<lparr>acc_verification := EV_Verified\<rparr>)) (\<lambda>_. ret response)) (\<lambda>_ _. True)" for p
    using holds_save_then [of "b\<lparr>acc_verification := EV_Verified\<rparr>" b "\<lambda>_. ret x" for b x]
    by (cases p) (simp add: holds_def holds_end [unfolded holds_def] aside_rules)
  ultimately have "holds a (bindM (f a) (\<lambda>(response, a).
      bindM (save_account (a\<lparr>acc_verification := EV_Verified\<rparr>)) (\<lambda>_. ret response)))" for a
    unfolding holds_def by (rule ensures_bind)
  then show ?thesis
    unfolding verify_email_def f_def by (rule keeps_fetched(2))
qed

lemma keeps_create_account [keeps_rules]: "keeps auth_ok (create_account e d v)"
proof -
  have "holds a (bindM (if acc_registration_ip a = None
            then bindM (now_utc e) (\<lambda>now.
                 save_account (a\<lparr>acc_registration_ip := sv_ip v, acc_registration_ip_at := Some now\<rparr>))
            else ret ()) (\<lambda>_.
     case invite of
       None \<Rightarrow> ret ()
     | Some i \<Rightarrow> save_account_invite (i\<lparr>ai_claimed_by := Some (acc_id a), ai_used := True\<rparr>)))" for a invite
  proof -
    have "holds a (if acc_registration_ip a = None
            then bindM (now_utc e) (\<lambda>now.
                 save_account (a\<lparr>acc_registration_ip := sv_ip v, acc_registration_ip_at := Some now\<rparr>))
            else ret ())"
      by (simp add: holds_aside aside_rules holds_save holds_end)
    then show ?thesis
      unfolding holds_def by (intro ensures_then aside_keeps aside_rules)
  qed
  then show ?thesis
    unfolding create_account_def by (intro keeps_aside aside_methods aside_login_parts aside_const keeps_read [OF ensures_account_new])
qed

lemma forget_ip_sel: "acc_id (forget_ip t a) = acc_id a" "acc_disabled (forget_ip t a) = acc_disabled a"
  by (simp_all add: forget_ip_def split: option.splits)

lemma hm_get_map_all: "hm_get (map (\<lambda>(k, a). (k, f a)) m) i = map_option f (hm_get m i)"
  by (induction m) (auto simp: hm_get_def)

lemma keyed_map_all: "keyed g m \<Longrightarrow> (\<And>v. g (f v) = g v) \<Longrightarrow> keyed g (map (\<lambda>(k, a). (k, f a)) m)"
  by (auto simp: keyed_def hm_ok_def hm_get_map_all comp_def case_prod_unfold
      hm_get_map_all [unfolded case_prod_unfold])

lemma keeps_prune_ips [keeps_rules]: "keeps auth_ok (prune_registration_ips e)"
proof -
  have "keeps auth_ok (clear_expired_registration_ips t)" for t
    by (auto simp: keeps_def clear_expired_registration_ips_def auth_ok_def enabled_in_def keyed_map_all
        hm_get_map_all forget_ip_sel split: option.splits)
  then show ?thesis
    unfolding prune_registration_ips_def by (intro keeps_aside aside_steps)
qed

text \<open>The accounts of a round stay what they were while the others are marked.\<close>

abbreviation all_agree :: "account list \<Rightarrow> auth_db \<Rightarrow> bool" where
  "all_agree as s \<equiv> \<forall>a\<in>set as. agrees a s"

lemma ensures_for_each_in:
  assumes "\<And>x. x \<in> set ys \<Longrightarrow> ensures I P (f x) (\<lambda>_. P)" and "set xs \<subseteq> set ys"
  shows "ensures I P (for_each xs f) (\<lambda>_. P)"
  using assms(2) by (induction xs) (auto intro: ensures_ret ensures_bind assms(1))

lemma ensures_mark:
  assumes "a \<in> set as"
  shows "ensures auth_ok (all_agree as) (mark_deleted a) (\<lambda>_. all_agree as)"
proof (rule ensuresI)
  have run: "\<exists>b. mark_deleted a s = (Ok b, s\<lparr>db_accounts := hm_insert (acc_id a) b (db_accounts s)\<rparr>)
      \<and> acc_id b = acc_id a \<and> acc_disabled b = acc_disabled a" for s
    by (simp add: mark_deleted_def save_account_def Let_def)
  show "auth_ok (snd (mark_deleted a s))" if "auth_ok s" "all_agree as s" for s
  proof -
    obtain b where b: "mark_deleted a s = (Ok b, s\<lparr>db_accounts := hm_insert (acc_id a) b (db_accounts s)\<rparr>)"
        "acc_id b = acc_id a" "acc_disabled b = acc_disabled a"
      using run by blast
    then have "agrees b s"
      using that(2) assms by (auto simp: agrees_def)
    with ensures_keeps [OF ensures_save that(1), of b] b show ?thesis
      by (simp add: save_account_def)
  qed
  show "all_agree as s'" if "all_agree as s" "mark_deleted a s = (Ok b, s')" for s b s'
    using that run [of s] assms by (auto simp: agrees_def) (metis option.inject)+
qed

lemma ensures_erase: "ensures auth_ok (all_agree as) (erase_user erase a) (\<lambda>_. all_agree as)"
  by (auto simp: ensures_def erase_user_def bindM_def auth_ok_def enabled_in_def agrees_def
      split: option.splits prod.splits)

lemma ensures_due: "ensures auth_ok (\<lambda>_. True) (fetch_accounts_due_for_deletion e) all_agree"
proof -
  have "\<exists>b. hm_get (db_accounts s) (acc_id a) = Some b \<and> acc_disabled b = acc_disabled a"
    if "auth_ok s" "a \<in> set (hm_values (db_accounts s))" for s a
    using that by (auto simp: auth_ok_def keyed_def hm_values_mem)
  moreover have "auth_ok (s\<lparr>au_ticks := n\<rparr>) = auth_ok s" for s n
    by (simp add: auth_ok_def enabled_in_def)
  ultimately show ?thesis
    by (auto simp: ensures_def fetch_accounts_due_for_deletion_def now_utc_def agrees_def)
qed

lemma keeps_delete_accounts [keeps_rules]: "keeps auth_ok (delete_accounts e erase)"
proof -
  have "ensures auth_ok (all_agree as) (for_each as (\<lambda>a. bindM (erase_user erase a) (\<lambda>_.
      bindM (mark_deleted a) (\<lambda>_. ret ())))) (\<lambda>_. all_agree as)" for as
    by (rule ensures_for_each_in [OF _ subset_refl], rule ensures_bind [OF ensures_erase],
        rule ensures_bind [OF ensures_mark], assumption, rule ensures_ret)
  then have "ensures auth_ok (all_agree as) (for_each as (\<lambda>a. bindM (erase_user erase a) (\<lambda>_.
      bindM (mark_deleted a) (\<lambda>_. ret ())))) (\<lambda>_ _. True)" for as
    by (rule ensures_conseq) auto
  then show ?thesis
    unfolding delete_accounts_def by (rule keeps_ensures [OF ensures_bind [OF ensures_due]])
qed

section \<open>Requests\<close>

text \<open>Every request of the authentication routes, and the three tasks.\<close>

datatype auth_call =
    Call_Login data_login
  | Call_Edit auth_request string string
  | Call_Fetch_All auth_request
  | Call_Logout auth_request
  | Call_Revoke auth_request string
  | Call_Revoke_All auth_request "bool option"
  | Call_Create_Ticket auth_request mfa_response
  | Call_Fetch_Recovery auth_request
  | Call_Fetch_Status auth_request
  | Call_Generate_Recovery auth_request
  | Call_Methods auth_request
  | Call_Totp_Disable auth_request
  | Call_Totp_Enable auth_request mfa_response
  | Call_Totp_Secret auth_request
  | Call_Change_Email auth_request string string
  | Call_Change_Password auth_request string string
  | Call_Confirm_Deletion string
  | Call_Create_Account data_create_account shield_validation_input
  | Call_Delete_Account auth_request
  | Call_Disable_Account auth_request
  | Call_Fetch_Account auth_request
  | Call_Password_Reset string string bool
  | Call_Resend_Verification string "string option"
  | Call_Send_Password_Reset string "string option"
  | Call_Verify_Email string
  | Task_Prune_Tickets
  | Task_Prune_Ips
  | Task_Delete_Accounts "user \<Rightarrow> unit io"

definition discard :: "'a auth_io \<Rightarrow> unit auth_io" where
  "discard m = bindM m (\<lambda>_. ret ())"

primrec perform :: "auth_env \<Rightarrow> auth_call \<Rightarrow> unit auth_io" where
  "perform e (Call_Login d) = discard (login e d)"
| "perform e (Call_Edit r i n) = discard (session_edit r i n)"
| "perform e (Call_Fetch_All r) = discard (session_fetch_all r)"
| "perform e (Call_Logout r) = discard (session_logout r)"
| "perform e (Call_Revoke r i) = discard (session_revoke e r i)"
| "perform e (Call_Revoke_All r b) = discard (session_revoke_all e r b)"
| "perform e (Call_Create_Ticket r p) = discard (mfa_create_ticket e r p)"
| "perform e (Call_Fetch_Recovery r) = discard (mfa_fetch_recovery e r)"
| "perform e (Call_Fetch_Status r) = discard (mfa_fetch_status r)"
| "perform e (Call_Generate_Recovery r) = discard (mfa_generate_recovery e r)"
| "perform e (Call_Methods r) = discard (get_mfa_methods r)"
| "perform e (Call_Totp_Disable r) = discard (totp_disable e r)"
| "perform e (Call_Totp_Enable r p) = discard (totp_enable e r p)"
| "perform e (Call_Totp_Secret r) = discard (totp_generate_secret e r)"
| "perform e (Call_Change_Email r m p) = discard (change_email e r m p)"
| "perform e (Call_Change_Password r q p) = discard (change_password e r q p)"
| "perform e (Call_Confirm_Deletion k) = discard (confirm_deletion e k)"
| "perform e (Call_Create_Account d v) = discard (create_account e d v)"
| "perform e (Call_Delete_Account r) = discard (delete_account e r)"
| "perform e (Call_Disable_Account r) = discard (disable_account e r)"
| "perform e (Call_Fetch_Account r) = discard (route_fetch_account r)"
| "perform e (Call_Password_Reset k p b) = discard (password_reset e k p b)"
| "perform e (Call_Resend_Verification m c) = discard (resend_verification e m c)"
| "perform e (Call_Send_Password_Reset m c) = discard (send_password_reset e m c)"
| "perform e (Call_Verify_Email k) = discard (verify_email e k)"
| "perform e Task_Prune_Tickets = discard (prune_mfa_tickets e)"
| "perform e Task_Prune_Ips = discard (prune_registration_ips e)"
| "perform e (Task_Delete_Accounts erase) = discard (delete_accounts e erase)"

definition serve :: "auth_env \<Rightarrow> auth_call list \<Rightarrow> auth_db \<Rightarrow> auth_db" where
  "serve e calls s = fold (\<lambda>c s. snd (perform e c s)) calls s"

lemma keeps_perform: "keeps auth_ok (perform e c)"
  unfolding prune_mfa_tickets_def
  by (cases c) (simp_all only: perform.simps discard_def prune_mfa_tickets_def;
      intro keeps_rules aside_keeps aside_rules)+

lemma serve_ok: "auth_ok s \<Longrightarrow> auth_ok (serve e calls s)"
  by (induction calls arbitrary: s) (auto simp: serve_def dest: keepsD [OF keeps_perform])

text \<open>
  C19: Whatever requests are served, in whatever order and with whatever outcomes, a session never
  outlives its account's right to log in: once an account is disabled (by its owner, by a scheduled
  deletion, or because it was deleted), no session of it is left, and its tokens are refused with
  \<open>InvalidSession\<close>.
\<close>

theorem disabled_accounts_hold_no_session:
  assumes "auth_ok s" and "hm_get (db_accounts (serve e calls s)) ident = Some a" and "acc_disabled a"
  shows "fst (fetch_sessions ident (serve e calls s)) = Ok [] \<and>
         (\<forall>r x. fst (session_guard r (serve e calls s)) = Ok x \<longrightarrow> ss_user_id x \<noteq> ident)"
proof -
  let ?s = "serve e calls s"
  have ok: "auth_ok ?s"
    by (rule serve_ok) (rule assms(1))
  have owned: "ss_user_id x \<noteq> ident" if x: "x \<in> set (hm_values (db_sessions ?s))" for x
  proof -
    obtain k where "hm_get (db_sessions ?s) k = Some x"
      using ok x by (auto simp: auth_ok_def keyed_def hm_values_mem)
    then have "enabled_in ?s (ss_user_id x)"
      using ok by (auto simp: auth_ok_def)
    then show ?thesis
      using assms(2,3) by (auto simp: enabled_in_def)
  qed
  moreover have "x \<in> set (hm_values (db_sessions ?s))" if "fst (session_guard r ?s) = Ok x" for r x
    using that by (auto simp: session_guard_def fetch_session_by_token_def map_err_def ok_or_def find_Some_iff
        split: option.splits)
  ultimately show ?thesis
    by (auto simp: fetch_sessions_def)
qed

section \<open>A sample\<close>

text \<open>
  A server without outside services. A password is stored as itself, identifiers and tokens are
  numbered, and identifiers carry no more of their time than that it is recent.
\<close>

definition numbered :: "char \<Rightarrow> nat \<Rightarrow> string" where
  "numbered c n = replicate (Suc n) c"

definition sample_auth_env :: auth_env where
  "sample_auth_env =
     \<lparr>ae_clock = (\<lambda>n. 1000 * int n), ae_ulid = (\<lambda>_ n. numbered (CHR ''I'') n), ae_ulid_time = (\<lambda>_. Some 0),
      ae_ulid_le = (\<lambda>_ _. True), ae_nanoid = numbered (CHR ''t''), ae_totp_secret = numbered (CHR ''s''),
      ae_totp_code = (\<lambda>_ _. Some ''123456''), ae_verify_encoded = (\<lambda>h p. Some (h = p)),
      ae_hash_encoded = (\<lambda>p _. Some p), ae_lowercase = (\<lambda>x. x), ae_email_ok = (\<lambda>_. True),
      ae_source_list = (\<lambda>_. False), ae_compromised = (\<lambda>_. False), ae_easypwned = None, ae_hcaptcha = None,
      ae_shield = None, ae_smtp = True, ae_mailbox = (\<lambda>_. True), ae_delivers = (\<lambda>_. True),
      ae_expire_verification = 86400, ae_expire_password_reset = 86400, ae_invite_only = False,
      ae_environment = ''test'', ae_stripe = False, ae_stripe_cancels = (\<lambda>_ _. True), ae_ip_retention = 86400\<rparr>"

definition sample_account :: "string \<Rightarrow> string \<Rightarrow> multi_factor_authentication \<Rightarrow> account" where
  "sample_account ident email m =
     \<lparr>acc_id = ident, acc_email = email, acc_email_normalised = email, acc_password = ''correct horse'',
      acc_disabled = False, acc_registration_ip = None, acc_registration_ip_at = None,
      acc_verification = EV_Verified, acc_password_reset = None, acc_deletion = None, acc_lockout = None,
      acc_mfa = m, acc_subscription = None, acc_cash_payment_request = None\<rparr>"

definition sample_session :: "string \<Rightarrow> string \<Rightarrow> string \<Rightarrow> session" where
  "sample_session ident user token =
     \<lparr>ss_id = ident, ss_user_id = user, ss_token = token, ss_name = ''Phone'', ss_last_seen = 0,
      ss_origin = None, ss_subscription = None\<rparr>"

definition sample_ticket :: "string \<Rightarrow> string \<Rightarrow> string \<Rightarrow> mfa_ticket" where
  "sample_ticket ident user token =
     \<lparr>mt_id = ident, mt_account_id = user, mt_token = token, mt_validated = True, mt_authorised = False,
      mt_last_totp_code = None\<rparr>"

text \<open>Ada has a second factor and is logged in; Bob has none.\<close>

definition sample_auth_db :: auth_db where
  "sample_auth_db =
     \<lparr>db_accounts =
        [(''A'', sample_account ''A'' ''ada@x'' \<lparr>totp_token = Totp_Enabled ''K'', recovery_codes = [''r1'']\<rparr>),
         (''B'', sample_account ''B'' ''bob@x'' mfa_default)],
      db_account_invites = [],
      db_sessions = [(''a'', sample_session ''a'' ''A'' ''ta''), (''b'', sample_session ''b'' ''B'' ''tb'')],
      db_mfa_tickets = [(''m'', sample_ticket ''m'' ''A'' ''tm'')],
      au_world = empty_world, au_events = [], au_mails = [], au_pushes = [], au_ticks = 0, au_draws = 0\<rparr>"

lemma sample_auth_ok: "auth_ok sample_auth_db"
  by (auto simp: auth_ok_def keyed_def hm_ok_def hm_get_def enabled_in_def sample_auth_db_def sample_account_def
      sample_session_def sample_ticket_def split: if_splits)

theorem disabled_accounts_hold_no_session_witness:
  "\<exists>a calls. hm_get (db_accounts (serve sample_auth_env calls sample_auth_db)) ''A'' = Some a \<and> acc_disabled a \<and>
     fst (fetch_sessions ''A'' (serve sample_auth_env calls sample_auth_db)) = Ok []"
proof -
  let ?r = "\<lparr>rq_session_token = Some ''ta'', rq_session_cookie = None, rq_mfa_ticket = Some ''tm''\<rparr>"
  let ?calls = "[Call_Disable_Account ?r]"
  have "map_option acc_disabled (hm_get (db_accounts (serve sample_auth_env ?calls sample_auth_db)) ''A'') = Some True"
    by code_simp
  then obtain a where "hm_get (db_accounts (serve sample_auth_env ?calls sample_auth_db)) ''A'' = Some a" "acc_disabled a"
    by auto
  with disabled_accounts_hold_no_session [OF sample_auth_ok this] show ?thesis
    by blast
qed

end
