(* ===== verification/Login_Safety.thy ===== *)
theory Login_Safety
  imports Account_Sessions
begin

text \<open>
  What logging in takes: the credentials behind a session, how many passwords can be tried in a given
  time, what a reset does to the next login, what an outsider learns from asking for one, and what a
  validated ticket is worth.
\<close>

section \<open>The credentials behind a session\<close>

definition second_factor :: "auth_env \<Rightarrow> account \<Rightarrow> mfa_ticket \<Rightarrow> mfa_response \<Rightarrow> bool" where
  "second_factor e a t r =
     (case r of
        Response_Password p \<Rightarrow> \<not> is_active (acc_mfa a) \<and> verify_password e a p = Ok ()
      | Response_Recovery c \<Rightarrow> is_active (acc_mfa a) \<and> c \<in> set (recovery_codes (acc_mfa a))
      | Response_Totp c \<Rightarrow>
          (\<exists>secret. totp_token (acc_mfa a) = Totp_Enabled secret \<and>
             (mt_last_totp_code t = Some c \<or> (\<exists>n. ae_totp_code e secret (ae_clock e n div 1000) = Some c))))"

definition credentials :: "auth_env \<Rightarrow> data_login \<Rightarrow> account \<Rightarrow> auth_db \<Rightarrow> bool" where
  "credentials e data a s =
     (case data of
        Login_Email email password _ \<Rightarrow>
          normalise_email e email = Ok (acc_email_normalised a) \<and> verify_password e a password = Ok () \<and>
          \<not> is_active (acc_mfa a) \<and>
          (\<forall>l t. acc_lockout a = Some l \<longrightarrow> lk_expiry l = Some t \<longrightarrow> (\<exists>n\<ge>au_ticks s. t \<le> ae_clock e n))
      | Login_MFA token response _ \<Rightarrow>
          (\<exists>t\<in>set (hm_values (db_mfa_tickets s)).
             mt_token t = token \<and> mt_account_id t = acc_id a \<and>
             (\<exists>created. ae_ulid_time e (mt_id t) = Some created \<and>
                ae_clock e (au_ticks s) < created + five_minutes) \<and>
             (case response of None \<Rightarrow> mt_authorised t | Some r \<Rightarrow> second_factor e a t r)))"

lemma verify_password_Err: "verify_password e a p \<noteq> Ok u \<Longrightarrow> verify_password e a p = Err (GeneralErr InvalidCredentials)"
  by (auto simp: verify_password_def split: option.splits bool.splits)

lemma fetch_ticket_run:
  assumes "fetch_ticket_by_token e token s = (Ok t, s')"
  obtains created where "t \<in> set (hm_values (db_mfa_tickets s))" "mt_token t = token"
    "ae_ulid_time e (mt_id t) = Some created" "ae_clock e (au_ticks s) < created + five_minutes"
    "s' = s\<lparr>au_ticks := Suc (au_ticks s)\<rparr>"
  using assms by (auto simp: fetch_ticket_by_token_def bindM_eq_Ok now_utc_def guard_def find_Some_iff split: if_splits)

lemma generate_code_run:
  assumes "generate_code e (Totp_Enabled secret) s = (Ok c, s')"
  obtains "ae_totp_code e secret (ae_clock e (au_ticks s) div 1000) = Some c" "s' = s\<lparr>au_ticks := Suc (au_ticks s)\<rparr>"
  using assms by (auto simp: generate_code_def now_utc_def bindM_eq_Ok split: option.splits)

lemma consume_run:
  assumes "consume_mfa_response e a r (Some t) s = (Ok b, s')"
  shows "second_factor e a t r \<and> acc_id b = acc_id a \<and> acc_disabled b = acc_disabled a"
proof (cases r)
  case (Response_Password p)
  with assms show ?thesis
    by (auto simp: consume_mfa_response_def second_factor_def get_methods_def is_active_def bindM_eq_Ok
        split: if_splits totp.splits)
next
  case (Response_Recovery c)
  with assms show ?thesis
    by (auto simp: consume_mfa_response_def second_factor_def get_methods_def is_active_def bindM_eq_Ok Let_def
        split: if_splits totp.splits)
next
  case (Response_Totp c)
  with assms obtain secret where k: "totp_token (acc_mfa a) = Totp_Enabled secret"
    by (auto simp: consume_mfa_response_def get_methods_def split: if_splits totp.splits)
  with assms Response_Totp show ?thesis
    by (auto simp: consume_mfa_response_def second_factor_def get_methods_def is_active_def bindM_eq_Ok
        split: if_splits elim!: generate_code_run)
qed

lemma finish_login_run:
  assumes "finish_login e a n s = (Ok (Response_Success x, c), s')"
  shows "\<not> acc_disabled a \<and> ss_user_id x = acc_id a \<and> c = Some (ss_token x) \<and>
         db_sessions s' = hm_insert (ss_id x) x (db_sessions s) \<and> db_accounts s' = db_accounts s"
proof -
  have notify: "db_sessions s'' = db_sessions s' \<and> db_accounts s'' = db_accounts s'"
    if "notify_login x s' = (r, s'')" for x r s' s''
    using aside_login_parts(4) [of x] that by (auto simp: aside_def leaves_def) (metis snd_conv)+
  from assms show ?thesis
    by (auto simp: finish_login_def create_session_def Let_def bindM_eq_Ok ulid_new_def nanoid_def now_utc_def
        draw_def save_session_def auth_global_def auth_publish_def split: if_splits
        dest!: notify)
qed

lemma by_email_run:
  assumes "auth_ok s" and "fetch_account_by_normalised_email m s = (Ok (Some a), s')"
  shows "s' = s \<and> hm_get (db_accounts s) (acc_id a) = Some a \<and> acc_email_normalised a = m"
  using assms by (auto simp: fetch_account_by_normalised_email_def auth_ok_def dest: keyed_find)

text \<open>Checking the strength of a password changes nothing but the count of draws.\<close>

lemma assert_safe_run:
  assumes "assert_safe e p s = (Ok u, s')"
  obtains n where "s' = s\<lparr>au_draws := n\<rparr>"
  using assms
  by (auto simp: assert_safe_def bindM_eq_Ok draw_def guard_def split: if_splits option.splits)
     (metis auth_db.surjective auth_db.update_convs(10))

lemma check_lockout_run:
  assumes "check_lockout e a s = (Ok u, s')"
  shows "(\<forall>l t. acc_lockout a = Some l \<longrightarrow> lk_expiry l = Some t \<longrightarrow> t \<le> ae_clock e (au_ticks s)) \<and>
         (\<exists>n. s' = s\<lparr>au_ticks := n\<rparr>)"
  using assms
  by (auto simp: check_lockout_def bindM_eq_Ok now_utc_def guard_def split: if_splits option.splits)
     (metis auth_db.surjective auth_db.update_convs(9))+

lemma check_login_Inl: "check_login_password e a p s = (Ok (Inl r), s') \<Longrightarrow> \<exists>t ms. r = Response_MFA t ms"
  by (cases "verify_password e a p")
     (auto simp: check_login_password_def mfa_challenge_def bindM_eq_Ok split: if_splits)

lemma check_login_Inr:
  assumes "check_login_password e a p s = (Ok (Inr b), s')"
  shows "verify_password e a p = Ok () \<and> \<not> is_active (acc_mfa a) \<and> acc_id b = acc_id a \<and> acc_disabled b = acc_disabled a"
  using assms by (cases "verify_password e a p") (auto simp: check_login_password_def bindM_eq_Ok split: if_splits)

lemma login_with_password_steps:
  assumes "auth_ok s" and "login_with_password e email password s = (Ok r, s')"
  obtains a s1 s2 where "normalise_email e email = Ok (acc_email_normalised a)"
    "hm_get (db_accounts s) (acc_id a) = Some a" "assert_safe e password s = (Ok (), s1)"
    "check_lockout e a s1 = (Ok (), s2)" "check_login_password e a password s2 = (Ok r, s')"
proof -
  obtain m found where m: "normalise_email e email = Ok m"
      "fetch_account_by_normalised_email m s = (Ok found, s)"
      "(case found of
       None \<Rightarrow> throw (GeneralErr InvalidCredentials)
     | Some a \<Rightarrow>
         bindM (assert_safe e password) (\<lambda>_.
         bindM (check_lockout e a) (\<lambda>_.
         check_login_password e a password))) s = (Ok r, s')"
    using assms(2) by (auto simp: login_with_password_def bindM_eq_Ok fetch_account_by_normalised_email_def)
  then obtain a where "found = Some a"
    by (cases found) auto
  with m by_email_run [OF assms(1), of m a s] that show thesis
    by (auto simp: bindM_eq_Ok)
qed

lemma login_with_password_answer:
  assumes "auth_ok s" and "login_with_password e email password s = (Ok (Inl r), s')"
  shows "\<exists>t ms. r = Response_MFA t ms"
  using login_with_password_steps [OF assms] check_login_Inl by metis

lemma login_with_password_run:
  assumes "auth_ok s" and "login_with_password e email password s = (Ok (Inr b), s')"
  shows "\<exists>a. hm_get (db_accounts s) (acc_id a) = Some a \<and> acc_id b = acc_id a \<and> acc_disabled b = acc_disabled a \<and>
    credentials e (Login_Email email password n) a s"
proof -
  obtain a s1 s2 where a: "normalise_email e email = Ok (acc_email_normalised a)"
      "hm_get (db_accounts s) (acc_id a) = Some a" and s1: "assert_safe e password s = (Ok (), s1)"
      and s2: "check_lockout e a s1 = (Ok (), s2)" and b: "check_login_password e a password s2 = (Ok (Inr b), s')"
    using login_with_password_steps [OF assms] .
  obtain n where "s1 = s\<lparr>au_draws := n\<rparr>"
    using assert_safe_run [OF s1] .
  with check_lockout_run [OF s2] check_login_Inr [OF b] a show ?thesis
    by (auto simp: credentials_def intro!: exI [of _ a])
qed

lemma login_with_ticket_run:
  assumes "auth_ok s" and "login_with_ticket e token r s = (Ok b, s')"
  shows "\<exists>a. hm_get (db_accounts s) (acc_id a) = Some a \<and> acc_id b = acc_id a \<and> acc_disabled b = acc_disabled a \<and>
    credentials e (Login_MFA token r n) a s"
proof -
  obtain t s1 a where t: "fetch_ticket_by_token e token s = (Ok t, s1)"
      and a: "hm_get (db_accounts s1) (mt_account_id t) = Some a"
      and rest: "(case r of
       Some r \<Rightarrow> consume_mfa_response e a r (Some t)
     | None \<Rightarrow> bindM (guard (\<not> mt_authorised t) (AuthErr InvalidToken)) (\<lambda>_. ret a)) s1 = (Ok b, s')"
    using assms(2) by (auto simp: login_with_ticket_def bindM_eq_Ok fetch_account_def)
  obtain created where created: "t \<in> set (hm_values (db_mfa_tickets s))" "mt_token t = token"
      "ae_ulid_time e (mt_id t) = Some created" "ae_clock e (au_ticks s) < created + five_minutes"
      "s1 = s\<lparr>au_ticks := Suc (au_ticks s)\<rparr>"
    using fetch_ticket_run [OF t] .
  have found: "hm_get (db_accounts s) (mt_account_id t) = Some a"
    using a created(5) by simp
  moreover have "acc_id a = mt_account_id t"
    using found assms(1) keyed_get [of acc_id "db_accounts s"] by (simp add: auth_ok_def)
  moreover have "acc_id b = acc_id a \<and> acc_disabled b = acc_disabled a \<and>
      (case r of None \<Rightarrow> mt_authorised t | Some r \<Rightarrow> second_factor e a t r)"
    using rest consume_run [of e a _ t s1 b s'] by (cases r) (auto split: if_splits)
  ultimately show ?thesis
    using created(1-4) by (intro exI [of _ a]) (auto simp: credentials_def)
qed


fun session_of :: "(response_login \<times> string option) result \<Rightarrow> session option" where
  "session_of (Ok (Response_Success x, _)) = Some x"
| "session_of _ = None"

lemma session_of_Some: "session_of r = Some x \<longleftrightarrow> (\<exists>cookie. r = Ok (Response_Success x, cookie))"
  by (cases r rule: session_of.cases) auto


section \<open>Trying passwords\<close>

text \<open>How many of the passwords were compared with the account's, and the state after them.\<close>

fun guess_run :: "auth_env \<Rightarrow> string \<Rightarrow> string list \<Rightarrow> auth_db \<Rightarrow> nat \<times> auth_db" where
  "guess_run e email [] s = (0, s)"
| "guess_run e email (p # ps) s =
     (case login e (Login_Email email p None) s of
        (r, s1) \<Rightarrow>
          (case guess_run e email ps s1 of
             (n, s2) \<Rightarrow> (if r = Err (GeneralErr InvalidCredentials) then Suc n else n, s2)))"

lemma keyed_Cons:
  assumes "keyed f ((k, v) # m)"
  shows "f v = k" and "k \<notin> fst ` set m" and "keyed f m"
proof -
  have "f (the (hm_get ((k, v) # m) k)) = k" "distinct (map fst ((k, v) # m))"
    using assms by (simp_all add: keyed_def hm_get_def hm_ok_def)
  then show "f v = k" and k: "k \<notin> fst ` set m"
    by (simp_all add: hm_get_def)
  have "f v' = k'" if "hm_get m k' = Some v'" for k' v'
  proof -
    have "(k', v') \<in> set m"
      using that by (simp add: hm_get_def map_of_SomeD)
    with k have "k' \<noteq> k"
      by force
    with that have "hm_get ((k, v) # m) k' = Some v'"
      by (simp add: hm_get_def)
    with assms show ?thesis
      by (rule keyed_get)
  qed
  with assms show "keyed f m"
    by (simp add: keyed_def hm_ok_def)
qed

lemma find_in_place:
  assumes "keyed acc_id m" and "find P (hm_values m) = Some a" and "acc_id b = acc_id a" and "P b"
  shows "find P (hm_values (hm_insert (acc_id a) b m)) = Some b"
  using assms(1,2)
proof (induction m)
  case Nil
  then show ?case
    by (simp add: hm_values_def)
next
  case (Cons q m)
  obtain k v where q: "q = (k, v)"
    by (cases q)
  note k = keyed_Cons [OF Cons.prems(1) [unfolded q]]
  show ?case
  proof (cases "P v")
    case True
    then have "a = v"
      using Cons.prems(2) q by (simp add: hm_values_def)
    with k(1) q assms(3,4) show ?thesis
      by (simp add: hm_values_def hm_insert_def)
  next
    case False
    have found: "find P (hm_values m) = Some a"
      using Cons.prems(2) q False by (simp add: hm_values_def)
    have "hm_get m (acc_id a) = Some a"
      using keyed_find [OF k(3) found] by simp
    then have "acc_id a \<in> fst ` set m"
      by (force simp: hm_get_def dest: map_of_SomeD)
    with k(2) have "acc_id a \<noteq> k"
      by auto
    with Cons.IH [OF k(3) found] q False show ?thesis
      by (simp add: hm_values_def hm_insert_def)
  qed
qed

text \<open>
  The lockout after \<open>k\<close> compared passwords, the first of them not before \<open>start\<close>: when the next one
  can be compared at the earliest.
\<close>

definition locked_for :: "nat \<Rightarrow> timestamp" where
  "locked_for k = (if k < 3 then 0 else if k = 3 then 60000 else 360000 + 3600000 * (int k - 4))"

definition lockout_after :: "timestamp \<Rightarrow> nat \<Rightarrow> lockout option \<Rightarrow> bool" where
  "lockout_after start k l =
     (if k = 0 then l = None
      else if k < 3 then l = Some \<lparr>lk_attempts = int k, lk_expiry = None\<rparr>
      else (\<exists>t. l = Some \<lparr>lk_attempts = int k, lk_expiry = Some t\<rparr> \<and> start + locked_for k \<le> t))"

definition guessing :: "auth_env \<Rightarrow> string \<Rightarrow> string \<Rightarrow> timestamp \<Rightarrow> nat \<Rightarrow> auth_db \<Rightarrow> bool" where
  "guessing e m hash start k s \<longleftrightarrow>
     keyed acc_id (db_accounts s) \<and> start + locked_for (k - 1) \<le> ae_clock e (au_ticks s) \<and>
     (\<exists>a. fetch_account_by_normalised_email m s = (Ok (Some a), s) \<and> acc_password a = hash \<and>
        lockout_after start k (acc_lockout a))"

lemma check_lockout_passes:
  assumes "check_lockout e a s = (r, s')" and "lockout_after start k (acc_lockout a)" and "mono (ae_clock e)"
    and "start \<le> ae_clock e (au_ticks s)"
  shows "\<exists>n. s' = s\<lparr>au_ticks := n\<rparr> \<and> au_ticks s \<le> n \<and>
    (r = Ok () \<and> start + locked_for k \<le> ae_clock e n \<or> r = Err (AuthErr LockedOut))"
proof (cases "k < 3")
  case True
  with assms(2) have "check_lockout e a s = (Ok (), s)"
    by (auto simp: check_lockout_def lockout_after_def split: if_splits)
  with assms(1,4) True show ?thesis
    by (auto simp: locked_for_def intro: exI [of _ "au_ticks s"])
next
  case False
  with assms(2) obtain t where t: "acc_lockout a = Some \<lparr>lk_attempts = int k, lk_expiry = Some t\<rparr>" "start + locked_for k \<le> t"
    by (auto simp: lockout_after_def)
  have "ae_clock e (au_ticks s) \<le> ae_clock e (Suc (au_ticks s))"
    by (rule monoD [OF assms(3)]) simp
  with assms(1) t show ?thesis
    by (auto simp: check_lockout_def now_utc_def guard_def split: if_splits)
qed

lemma record_failure_run:
  assumes "lockout_after start k (acc_lockout a)" and "start + locked_for k \<le> ae_clock e (au_ticks s)"
    and "mono (ae_clock e)"
  shows "\<exists>b n. record_failure e a s = (Ok b, s\<lparr>au_ticks := n\<rparr>) \<and> au_ticks s \<le> n \<and> acc_id b = acc_id a \<and>
    acc_email_normalised b = acc_email_normalised a \<and> acc_password b = acc_password a \<and>
    lockout_after start (Suc k) (acc_lockout b)"
proof (cases "k < 2")
  case True
  then have "k = 0 \<or> k = 1"
    by auto
  with assms(1) show ?thesis
    by (auto simp: record_failure_def lockout_after_def intro!: exI [of _ "au_ticks s"])
next
  case False
  with assms(1) obtain x where "acc_lockout a = Some \<lparr>lk_attempts = int k, lk_expiry = x\<rparr>"
    by (auto simp: lockout_after_def split: if_splits)
  then have run: "record_failure e a s =
      (Ok (a\<lparr>acc_lockout := Some \<lparr>lk_attempts = int (Suc k),
          lk_expiry = Some (ae_clock e (au_ticks s) + 1000 * lockout_seconds (int k + 1))\<rparr>\<rparr>),
       s\<lparr>au_ticks := Suc (au_ticks s)\<rparr>)"
    using False by (simp add: record_failure_def now_utc_def)
  have "locked_for (Suc k) \<le> locked_for k + 1000 * lockout_seconds (int k + 1)"
    using False by (auto simp: locked_for_def lockout_seconds_def)
  then have "lockout_after start (Suc k) (Some \<lparr>lk_attempts = int (Suc k),
      lk_expiry = Some (ae_clock e (au_ticks s) + 1000 * lockout_seconds (int k + 1))\<rparr>)"
    using assms(2) False by (simp add: lockout_after_def)
  with run show ?thesis
    by (intro exI conjI) (assumption, simp_all)
qed

lemma assert_safe_cases:
  assumes "assert_safe e p s = (r, s')"
  shows "\<exists>n. s' = s\<lparr>au_draws := n\<rparr> \<and> (r = Ok () \<or> r = Err (AuthErr ShortPassword) \<or> r = Err (AuthErr CompromisedPassword))"
proof -
  have same: "\<exists>n. s = s\<lparr>au_draws := n\<rparr>" for s :: auth_db
    by (rule exI [of _ "au_draws s"]) simp
  show ?thesis
    using assms same [of s]
    by (cases "ae_easypwned e") (auto simp: assert_safe_def draw_def guard_def bindM_def split: if_splits)
qed

lemma guessing_frame:
  assumes "guessing e m hash start k s" and "mono (ae_clock e)" and "db_accounts s' = db_accounts s"
    and "au_ticks s \<le> au_ticks s'"
  shows "guessing e m hash start k s'"
  using assms monoD [OF assms(2,4)] by (auto simp: guessing_def fetch_account_by_normalised_email_def)

text \<open>A password that does not match and is compared.\<close>

lemma wrong_password_compared:
  assumes "keyed acc_id (db_accounts s)" and "fetch_account_by_normalised_email m s = (Ok (Some a), s)"
    and "lockout_after start k (acc_lockout a)" and "start + locked_for k \<le> ae_clock e (au_ticks s)"
    and "mono (ae_clock e)" and "ae_verify_encoded e (acc_password a) p \<noteq> Some True"
    and "check_login_password e a p s = (r, s')"
  shows "r = Err (GeneralErr InvalidCredentials) \<and> guessing e m (acc_password a) start (Suc k) s'"
proof -
  obtain b n where b: "record_failure e a s = (Ok b, s\<lparr>au_ticks := n\<rparr>)" "au_ticks s \<le> n" "acc_id b = acc_id a"
      "acc_email_normalised b = acc_email_normalised a" "acc_password b = acc_password a"
      "lockout_after start (Suc k) (acc_lockout b)"
    using record_failure_run [OF assms(3,4,5)] by blast
  have "verify_password e a p = Err (GeneralErr InvalidCredentials)"
    using assms(6) by (auto simp: verify_password_def split: option.splits bool.splits)
  then have run: "r = Err (GeneralErr InvalidCredentials)"
      "s' = s\<lparr>au_ticks := n, db_accounts := hm_insert (acc_id a) b (db_accounts s)\<rparr>"
    using assms(7) b(1,3) by (simp_all add: check_login_password_def save_account_def)
  have "find (\<lambda>a. acc_email_normalised a = m) (hm_values (db_accounts s)) = Some a"
    using assms(2) by (simp add: fetch_account_by_normalised_email_def)
  with find_in_place [OF assms(1) this b(3)] b(4)
  have "find (\<lambda>a. acc_email_normalised a = m) (hm_values (db_accounts s')) = Some b"
    using run(2) by (auto simp: find_Some_iff)
  moreover have "keyed acc_id (db_accounts s')"
    using assms(1) b(3) keyed_insert [of acc_id "db_accounts s" b] run(2) by simp
  moreover have "start + locked_for k \<le> ae_clock e (au_ticks s')"
    using assms(4) monoD [OF assms(5) b(2)] run(2) by simp
  ultimately show ?thesis
    using run(1) b(5,6) by (simp add: guessing_def fetch_account_by_normalised_email_def)
qed

lemma guess_step:
  assumes "guessing e m hash start k s" and "mono (ae_clock e)" and "normalise_email e email = Ok m"
    and "ae_verify_encoded e hash p \<noteq> Some True" and "login e (Login_Email email p None) s = (r, s')"
  shows "guessing e m hash start (if r = Err (GeneralErr InvalidCredentials) then Suc k else k) s'"
proof -
  obtain a where a: "fetch_account_by_normalised_email m s = (Ok (Some a), s)" "acc_password a = hash"
      "lockout_after start k (acc_lockout a)" and keyed: "keyed acc_id (db_accounts s)"
      and time: "start \<le> ae_clock e (au_ticks s)"
    using assms(1) by (auto simp: guessing_def locked_for_def split: if_splits)
  obtain r1 s1 where s1: "assert_safe e p s = (r1, s1)"
    by (cases "assert_safe e p s")
  obtain n where n: "s1 = s\<lparr>au_draws := n\<rparr>"
      "r1 = Ok () \<or> r1 = Err (AuthErr ShortPassword) \<or> r1 = Err (AuthErr CompromisedPassword)"
    using assert_safe_cases [OF s1] by blast
  show ?thesis
  proof (cases "r1 = Ok ()")
    case False
    then have "s' = s1" "r \<noteq> Err (GeneralErr InvalidCredentials)"
      using assms(3,5) a(1) s1 n(2) by (auto simp: login_def login_with_password_def)
    then show ?thesis
      using guessing_frame [OF assms(1,2), of s1] n(1) by simp
  next
    case True
    obtain r2 s2 where s2: "check_lockout e a s1 = (r2, s2)"
      by (cases "check_lockout e a s1")
    obtain t where t: "s2 = s1\<lparr>au_ticks := t\<rparr>" "au_ticks s1 \<le> t"
        "r2 = Ok () \<and> start + locked_for k \<le> ae_clock e t \<or> r2 = Err (AuthErr LockedOut)"
      using check_lockout_passes [OF s2 a(3) assms(2)] time n(1) by auto
    show ?thesis
    proof (cases "r2 = Ok ()")
      case False
      then have "s' = s2" "r \<noteq> Err (GeneralErr InvalidCredentials)"
        using assms(3,5) a(1) s1 s2 t(3) True by (auto simp: login_def login_with_password_def)
      then show ?thesis
        using guessing_frame [OF assms(1,2), of s2] n(1) t(1,2) by simp
    next
      case pass: True
      obtain r3 s3 where s3: "check_login_password e a p s2 = (r3, s3)"
        by (cases "check_login_password e a p s2")
      have "r3 = Err (GeneralErr InvalidCredentials) \<and> guessing e m hash start (Suc k) s3"
        using wrong_password_compared [OF _ _ a(3) _ assms(2) _ s3, of m] keyed a(1,2) assms(4) t n(1) pass
        by (simp add: fetch_account_by_normalised_email_def)
      moreover from this have "r = r3'" "s' = s3" if "r3' = Err (GeneralErr InvalidCredentials)" for r3'
        using assms(3,5) a(1) s1 s2 s3 True pass that by (simp_all add: login_def login_with_password_def)
      ultimately show ?thesis
        by simp
    qed
  qed
qed

lemma guess_run_guessing:
  assumes "mono (ae_clock e)" and "normalise_email e email = Ok m"
    and "guessing e m hash start k s" and "\<forall>p\<in>set ps. ae_verify_encoded e hash p \<noteq> Some True"
    and "guess_run e email ps s = (n, s')"
  shows "guessing e m hash start (k + n) s'"
  using assms(3-)
proof (induction ps arbitrary: k s n)
  case Nil
  then show ?case
    by simp
next
  case (Cons p ps)
  obtain r s1 n1 where r: "login e (Login_Email email p None) s = (r, s1)" "guess_run e email ps s1 = (n1, s')"
      "n = (if r = Err (GeneralErr InvalidCredentials) then Suc n1 else n1)"
    using Cons.prems(3) by (auto split: prod.splits)
  with Cons.IH [OF guess_step [OF Cons.prems(1) assms(1,2) _ r(1)] _ r(2)] Cons.prems(2) show ?case
    by (simp split: if_splits)
qed

text \<open>
  C20: Lockout bounds guessing. However many wrong passwords are sent for an account that is not locked
  out yet, and however the clock moves on between them: when \<open>n\<close> of them are compared with the stored
  hash, at least \<open>n - 5\<close> hours pass. The other requests are answered \<open>LockedOut\<close> (or refused as unsafe
  passwords) without being compared.
\<close>

theorem lockout_bounds_guesses:
  assumes "auth_ok s" and "mono (ae_clock e)" and "normalise_email e email = Ok m"
    and "fetch_account_by_normalised_email m s = (Ok (Some a), s)" and "acc_lockout a = None"
    and "\<forall>p\<in>set ps. ae_verify_encoded e (acc_password a) p \<noteq> Some True"
    and "guess_run e email ps s = (n, s')"
  shows "3600000 * (int n - 5) \<le> ae_clock e (au_ticks s') - ae_clock e (au_ticks s)"
proof -
  have "guessing e m (acc_password a) (ae_clock e (au_ticks s)) 0 s"
    using assms(1,4,5) by (auto simp: guessing_def auth_ok_def lockout_after_def locked_for_def)
  then have "guessing e m (acc_password a) (ae_clock e (au_ticks s)) n s'"
    using guess_run_guessing [OF assms(2,3) _ assms(6,7)] by fastforce
  then have "ae_clock e (au_ticks s) + locked_for (n - 1) \<le> ae_clock e (au_ticks s')"
    by (simp add: guessing_def)
  moreover have "3600000 * (int n - 5) \<le> locked_for (n - 1)"
    by (auto simp: locked_for_def)
  ultimately show ?thesis
    by simp
qed

theorem lockout_bounds_guesses_witness:
  "\<exists>s'. guess_run (sample_auth_env\<lparr>ae_clock := \<lambda>n. 3600000 * int n\<rparr>) ''bob@x''
        (replicate 6 ''wrong horse'') sample_auth_db = (6, s') \<and>
     3600000 * (6 - 5) \<le> 3600000 * int (au_ticks s') - 3600000 * int (au_ticks sample_auth_db)"
proof -
  let ?e = "sample_auth_env\<lparr>ae_clock := \<lambda>n. 3600000 * int n\<rparr>"
  let ?a = "sample_account ''B'' ''bob@x'' mfa_default"
  let ?run = "guess_run ?e ''bob@x'' (replicate 6 ''wrong horse'') sample_auth_db"
  have "fst ?run = 6"
    by code_simp
  then obtain s' where run: "?run = (6, s')"
    by (cases ?run) auto
  have "mono (ae_clock ?e)"
    by (simp add: mono_def)
  moreover have "normalise_email ?e ''bob@x'' = Ok ''bob@x''"
    by code_simp
  moreover have "fetch_account_by_normalised_email ''bob@x'' sample_auth_db = (Ok (Some ?a), sample_auth_db)"
    by code_simp
  moreover have "acc_lockout ?a = None"
    by (simp add: sample_account_def)
  moreover have "\<forall>p\<in>set (replicate 6 ''wrong horse''). ae_verify_encoded ?e (acc_password ?a) p \<noteq> Some True"
    by code_simp
  ultimately have "3600000 * (int 6 - 5) \<le> ae_clock ?e (au_ticks s') - ae_clock ?e (au_ticks sample_auth_db)"
    using run by (rule lockout_bounds_guesses [OF sample_auth_ok])
  with run show ?thesis
    by simp
qed

section \<open>What a reset changes\<close>

lemma assert_safe_offline:
  "ae_easypwned e = None \<Longrightarrow>
   assert_safe e p s = (if length p < 8 then Err (AuthErr ShortPassword)
     else if ae_compromised e p then Err (AuthErr CompromisedPassword) else Ok (), s)"
  by (simp add: assert_safe_def guard_def)

lemma finish_login_total:
  assumes "\<not> acc_disabled a"
  shows "\<exists>x cookie s'. finish_login e a n s = (Ok (Response_Success x, cookie), s') \<and> ss_user_id x = acc_id a"
proof -
  have "\<exists>s'. notify_login x s = (Ok (), s')" for x s
    by (auto simp: notify_login_def attempt_def auth_fetch_user_def fetch_user_def ok_or_def bindM_def split: option.splits)
  moreover have "\<exists>x s'. create_session e a name s = (Ok x, s') \<and> ss_user_id x = acc_id a" for name
    by (simp add: create_session_def ulid_new_def nanoid_def now_utc_def draw_def save_session_def
        auth_global_def auth_publish_def bindM_def Let_def)
  ultimately show ?thesis
    using assms unfolding finish_login_def by (auto simp: bindM_eq_Ok) metis
qed

text \<open>What a reset saves.\<close>

lemma password_reset_run:
  assumes "ae_easypwned e = None" and "find (resets_with token) (hm_values (db_accounts s)) = Some a"
    and "password_reset e token password remove s = (Ok (), s')"
  obtains h where "ae_hash_encoded e password (au_draws s) = Some h" "length password \<ge> 8"
    "\<not> ae_compromised e password"
    "db_accounts s' = hm_insert (acc_id a) (a\<lparr>acc_password := h, acc_password_reset := None, acc_lockout := None\<rparr>) (db_accounts s)"
  using assms(2,3) that
  by (auto simp: password_reset_def fetch_account_with_password_reset_def assert_safe_offline [OF assms(1)]
      hash_password_def draw_def bindM_eq_Ok save_account_def account_delete_all_sessions_def
      delete_all_sessions_db_def auth_private_def auth_publish_def Let_def split: if_splits)

lemma login_fresh_account:
  assumes "ae_easypwned e = None" and "length p \<ge> 8" and "\<not> ae_compromised e p" and "normalise_email e email = Ok m"
    and "fetch_account_by_normalised_email m s = (Ok (Some a), s)" and "acc_lockout a = None"
    and "verify_password e a p = Ok ()" and "\<not> is_active (acc_mfa a)" and "\<not> acc_disabled a"
  shows "\<exists>x cookie s'. login e (Login_Email email p n) s = (Ok (Response_Success x, cookie), s') \<and> ss_user_id x = acc_id a"
proof -
  have "login_with_password e email p s = (Ok (Inr a), s)"
    using assms by (simp add: login_with_password_def assert_safe_offline check_lockout_def check_login_password_def)
  with finish_login_total [OF assms(9), of e n s] show ?thesis
    by (simp add: login_def)
qed

lemma keyed_values_insert:
  assumes "keyed f m" and "c \<in> set (hm_values (hm_insert (f b) b m))"
  shows "c = b \<or> c \<in> set (hm_values m) \<and> f c \<noteq> f b"
proof -
  have "hm_ok (hm_insert (f b) b m)" and m: "hm_ok m"
    using assms(1) by (auto simp: keyed_def)
  then obtain k where k: "hm_get (hm_insert (f b) b m) k = Some c"
    using assms(2) hm_values_mem by metis
  then have "c = b \<or> hm_get m k = Some c \<and> k \<noteq> f b"
    by (auto split: if_splits)
  with keyed_get [OF assms(1), of k c] hm_values_mem [OF m, of c] show ?thesis
    by auto
qed


text \<open>Bob asked for a reset, and was locked out meanwhile.\<close>

definition sample_reset_db :: auth_db where
  "sample_reset_db = sample_auth_db\<lparr>db_accounts :=
     [(''B'', (sample_account ''B'' ''bob@x'' mfa_default)
        \<lparr>acc_password_reset := Some \<lparr>pr_token = ''reset'', pr_expiry = 1000000\<rparr>,
         acc_lockout := Some \<lparr>lk_attempts = 5, lk_expiry = Some 3600000\<rparr>\<rparr>)], db_sessions := []\<rparr>"


section \<open>What an outsider learns\<close>

lemma check_captcha_frame:
  "db_accounts (snd (check_captcha e c s)) = db_accounts s"
  "au_draws s = au_draws s' \<Longrightarrow> fst (check_captcha e c s) = fst (check_captcha e c s')"
  by (auto simp: check_captcha_def draw_def guard_def bindM_def split: option.splits)

lemma start_password_reset_no_panic:
  assumes "ae_mailbox e (acc_email a)"
  shows "\<exists>x s'. attempt (start_password_reset e a b) s = (Ok x, s')"
  using assms by (auto simp: attempt_def start_password_reset_def nanoid_def send_email_def draw_def now_utc_def
      save_account_def bindM_def split: prod.splits outcome.splits)

lemma send_password_reset_answer:
  assumes "\<forall>a\<in>set (hm_values (db_accounts s)). ae_mailbox e (acc_email a)"
  shows "fst (send_password_reset e email captcha s) =
    obind (fst (check_captcha e captcha s)) (\<lambda>_. obind (validate_email e email) (\<lambda>_.
    obind (normalise_email e email) (\<lambda>_. Ok ())))"
proof -
  obtain r s1 where r: "check_captcha e captcha s = (r, s1)"
    by (cases "check_captcha e captcha s")
  then have boxes: "\<forall>a\<in>set (hm_values (db_accounts s1)). ae_mailbox e (acc_email a)"
    using assms check_captcha_frame(1) [of e captcha s] by simp
  have found: "fst ((case find (\<lambda>a. acc_email_normalised a = m) (hm_values (db_accounts s1)) of
      None \<Rightarrow> ret ()
    | Some a \<Rightarrow> if is_pending (acc_verification a) then ret ()
                else bindM (attempt (start_password_reset e a False)) (\<lambda>_. ret ())) s1) = Ok ()" for m
  proof (cases "find (\<lambda>a. acc_email_normalised a = m) (hm_values (db_accounts s1))")
    case (Some a)
    then have "ae_mailbox e (acc_email a)"
      using boxes by (auto simp: find_Some_iff)
    with Some start_password_reset_no_panic [of e a False s1] show ?thesis
      by auto
  qed simp
  show ?thesis
    unfolding send_password_reset_def fetch_account_by_normalised_email_def
    using r by (cases r; cases "validate_email e email"; cases "normalise_email e email") (simp_all add: found)
qed

text \<open>
  C22: Asking for a password reset does not tell whether an account exists. With the same state of the
  random sources, \<open>POST /account/reset_password\<close> answers alike on any two databases, provided the
  addresses stored there can be parsed by the mailer.
\<close>

theorem reset_reveals_no_account:
  assumes "\<forall>a\<in>set (hm_values (db_accounts s)). ae_mailbox e (acc_email a)"
    and "\<forall>a\<in>set (hm_values (db_accounts s')). ae_mailbox e (acc_email a)"
    and "au_draws s = au_draws s'"
  shows "fst (send_password_reset e email captcha s) = fst (send_password_reset e email captcha s')"
  using check_captcha_frame(2) [OF assms(3), of e captcha]
  by (simp add: send_password_reset_answer assms)

theorem reset_reveals_no_account_witness:
  "fst (send_password_reset sample_auth_env ''bob@x'' None sample_auth_db) =
   fst (send_password_reset sample_auth_env ''bob@x'' None (sample_auth_db\<lparr>db_accounts := []\<rparr>))"
  by (rule reset_reveals_no_account) (simp_all add: sample_auth_env_def)

text \<open>
  The twin route does tell: without a mail server, asking to verify the address again fails for a
  verified account and succeeds for none.
\<close>

lemma resend_reveals_account:
  assumes "\<not> ae_smtp e" and "ae_hcaptcha e = None" and "validate_email e email = Ok ()"
    and "normalise_email e email = Ok m"
  shows "fst (resend_verification e email c s) =
    (case find (\<lambda>a. acc_email_normalised a = m) (hm_values (db_accounts s)) of
       Some a \<Rightarrow> if acc_verification a = EV_Verified then Err (GeneralErr OperationFailed) else Ok ()
     | None \<Rightarrow> Ok ())"
  using assms
  by (auto simp: resend_verification_def check_captcha_def fetch_account_by_normalised_email_def
      start_password_reset_def start_email_verification_def save_account_def
      split: option.splits email_verification.splits)

section \<open>What a validated ticket is worth\<close>

lemma account_guard_frame:
  assumes "account_guard r s = (Ok a, s')" and "db_sessions t = db_sessions s" and "db_accounts t = db_accounts s"
    and "rq_session_token q = rq_session_token r" and "rq_session_cookie q = rq_session_cookie r"
  shows "account_guard q t = (Ok a, t)"
  using assms
  by (auto simp: account_guard_def session_guard_def fetch_session_by_token_def fetch_account_def map_err_def
      ok_or_def bindM_def split: option.splits)

text \<open>A new ticket is found by its token and claimed.\<close>

lemma fresh_ticket_claimed:
  assumes "keyed mt_id m" and "db_mfa_tickets s = hm_insert (mt_id t) t m"
    and "\<forall>u\<in>set (hm_values m). mt_token u \<noteq> mt_token t" and "mt_validated t"
    and "ae_ulid_time e (mt_id t) = Some created" and "ae_clock e (au_ticks s) < created + five_minutes"
    and "ae_clock e (Suc (au_ticks s)) \<le> created + five_minutes" and "rq_mfa_ticket r = Some (mt_token t)"
  shows "validated_ticket_guard e r s = (Ok t, s\<lparr>au_ticks := Suc (Suc (au_ticks s)),
    db_mfa_tickets := hm_remove (mt_id t) (db_mfa_tickets s)\<rparr>)"
proof -
  have "hm_ok (db_mfa_tickets s)" "hm_get (db_mfa_tickets s) (mt_id t) = Some t"
    using assms(1,2) by (auto simp: keyed_def)
  then have "t \<in> set (hm_values (db_mfa_tickets s))"
    using hm_values_mem by metis
  then obtain u where u: "find (\<lambda>u. mt_token u = mt_token t) (hm_values (db_mfa_tickets s)) = Some u"
    by (cases "find (\<lambda>u. mt_token u = mt_token t) (hm_values (db_mfa_tickets s))") (auto simp: find_None_iff)
  then have "u \<in> set (hm_values (hm_insert (mt_id t) t m))" "mt_token u = mt_token t"
    using assms(2) by (auto simp: find_Some_iff)
  with keyed_values_insert [OF assms(1)] assms(3) have "u = t"
    by blast
  have fetched: "fetch_ticket_by_token e (mt_token t) s = (Ok t, s\<lparr>au_ticks := Suc (au_ticks s)\<rparr>)"
    using u \<open>u = t\<close> assms(5,6) by (simp add: fetch_ticket_by_token_def now_utc_def)
  have "is_expired e t (s\<lparr>au_ticks := Suc (au_ticks s)\<rparr>) = (Ok False, s\<lparr>au_ticks := Suc (Suc (au_ticks s))\<rparr>)"
    using assms(5,7) by (simp add: is_expired_def now_utc_def bindM_def)
  then have "claim e t (s\<lparr>au_ticks := Suc (au_ticks s)\<rparr>) = (Ok (), s\<lparr>au_ticks := Suc (Suc (au_ticks s)),
      db_mfa_tickets := hm_remove (mt_id t) (db_mfa_tickets s)\<rparr>)"
    using assms(2) by (simp add: claim_def delete_ticket_def bindM_def)
  with fetched assms(4,8) show ?thesis
    by (simp add: validated_ticket_guard_def ticket_guard_def map_err_def)
qed

lemma create_ticket_by_password:
  assumes "account_guard r s = (Ok b, s)" and "rq_mfa_ticket r = None" and "\<not> is_active (acc_mfa b)"
    and "verify_password e b password = Ok ()"
  shows "\<exists>t. mfa_create_ticket e r (Response_Password password) s =
      (Ok t, s\<lparr>au_ticks := Suc (au_ticks s), au_draws := Suc (Suc (au_draws s)),
                db_mfa_tickets := hm_insert (mt_id t) t (db_mfa_tickets s)\<rparr>) \<and>
    mt_id t = ae_ulid e (ae_clock e (au_ticks s)) (au_draws s) \<and> mt_account_id t = acc_id b \<and>
    mt_token t = ae_nanoid e (Suc (au_draws s)) \<and> mt_validated t"
proof -
  have "Method_Password \<in> set (get_methods (acc_mfa b))"
    using assms(3) by (simp add: get_methods_def is_active_def split: totp.splits)
  with assms show ?thesis
    by (simp add: mfa_create_ticket_def attempt_def unvalidated_ticket_guard_def ticket_guard_def
        consume_mfa_response_def ticket_new_def ulid_new_def nanoid_def now_utc_def draw_def save_ticket_def)
qed

text \<open>
  C39: A validated ticket is not tied to the account it was issued for. Someone who holds a session of
  account \<open>a\<close>, which has a second factor, and any account \<open>b\<close> of their own without one, switches the
  second factor of \<open>a\<close> off: \<open>PUT /mfa/ticket\<close> on \<open>b\<close> with the password of \<open>b\<close> gives a ticket, and
  \<open>DELETE /mfa/totp\<close> on \<open>a\<close> accepts it. No factor of \<open>a\<close> is asked for.
\<close>

theorem foreign_ticket_disables_totp:
  assumes "auth_ok s" and "account_guard rb s = (Ok b, s)" and "rq_mfa_ticket rb = None"
    and "\<not> is_active (acc_mfa b)" and "verify_password e b password = Ok ()"
    and "account_guard ra s = (Ok a, s)" and "is_active (acc_mfa a)"
    and "ae_ulid_time e (ae_ulid e (ae_clock e (au_ticks s)) (au_draws s)) = Some (ae_clock e (au_ticks s))"
    and "\<forall>t\<in>set (hm_values (db_mfa_tickets s)). mt_token t \<noteq> ae_nanoid e (Suc (au_draws s))"
    and "\<And>n. ae_clock e (Suc n) < ae_clock e n + 60000"
  shows "\<exists>t s1 s2. mfa_create_ticket e rb (Response_Password password) s = (Ok t, s1) \<and> mt_account_id t = acc_id b \<and>
    totp_disable e (ra\<lparr>rq_mfa_ticket := Some (mt_token t)\<rparr>) s1 = (Ok (), s2) \<and>
    (\<exists>a'. hm_get (db_accounts s2) (acc_id a) = Some a' \<and> \<not> is_active (acc_mfa a'))"
proof -
  obtain t where t: "mfa_create_ticket e rb (Response_Password password) s =
      (Ok t, s\<lparr>au_ticks := Suc (au_ticks s), au_draws := Suc (Suc (au_draws s)),
                db_mfa_tickets := hm_insert (mt_id t) t (db_mfa_tickets s)\<rparr>)" (is "_ = (Ok t, ?s1)")
      "mt_id t = ae_ulid e (ae_clock e (au_ticks s)) (au_draws s)" "mt_account_id t = acc_id b"
      "mt_token t = ae_nanoid e (Suc (au_draws s))" "mt_validated t"
    using create_ticket_by_password [OF assms(2-5)] by blast
  let ?r = "ra\<lparr>rq_mfa_ticket := Some (mt_token t)\<rparr>"
  let ?s2 = "?s1\<lparr>au_ticks := Suc (Suc (Suc (au_ticks s))),
      db_mfa_tickets := hm_remove (mt_id t) (hm_insert (mt_id t) t (db_mfa_tickets s))\<rparr>"
  have a: "account_guard ?r ?s1 = (Ok a, ?s1)"
    by (rule account_guard_frame [OF assms(6)]) simp_all
  have "validated_ticket_guard e ?r ?s1 = (Ok t, ?s2)"
  proof -
    have "keyed mt_id (db_mfa_tickets s)"
      using assms(1) by (simp add: auth_ok_def)
    moreover have "ae_clock e (Suc (au_ticks s)) < ae_clock e (au_ticks s) + five_minutes"
        "ae_clock e (Suc (Suc (au_ticks s))) \<le> ae_clock e (au_ticks s) + five_minutes"
      using assms(10) [of "au_ticks s"] assms(10) [of "Suc (au_ticks s)"] by (simp_all add: five_minutes_def)
    ultimately show ?thesis
      using fresh_ticket_claimed [of "db_mfa_tickets s" ?s1 t e "ae_clock e (au_ticks s)" ?r] t assms(8,9) by simp
  qed
  with a have "totp_disable e ?r ?s1 = save_account (a\<lparr>acc_mfa := (acc_mfa a)\<lparr>totp_token := Totp_Disabled\<rparr>\<rparr>) ?s2"
    by (simp add: totp_disable_def)
  then obtain s2 where "totp_disable e ?r ?s1 = (Ok (), s2)"
      "hm_get (db_accounts s2) (acc_id a) = Some (a\<lparr>acc_mfa := (acc_mfa a)\<lparr>totp_token := Totp_Disabled\<rparr>\<rparr>)"
    by (simp add: save_account_def)
  moreover have "\<not> is_active (acc_mfa (a\<lparr>acc_mfa := (acc_mfa a)\<lparr>totp_token := Totp_Disabled\<rparr>\<rparr>))"
    by (simp add: is_active_def)
  ultimately show ?thesis
    using t(1,3) by blast
qed

theorem foreign_ticket_disables_totp_witness:
  "\<exists>t s1 s2. mfa_create_ticket sample_auth_env
      \<lparr>rq_session_token = Some ''tb'', rq_session_cookie = None, rq_mfa_ticket = None\<rparr>
      (Response_Password ''correct horse'') sample_auth_db = (Ok t, s1) \<and> mt_account_id t = ''B'' \<and>
    totp_disable sample_auth_env
      \<lparr>rq_session_token = Some ''ta'', rq_session_cookie = None, rq_mfa_ticket = Some (mt_token t)\<rparr> s1 = (Ok (), s2)"
proof -
  let ?b = "sample_account ''B'' ''bob@x'' mfa_default"
  let ?a = "sample_account ''A'' ''ada@x'' \<lparr>totp_token = Totp_Enabled ''K'', recovery_codes = [''r1'']\<rparr>"
  let ?r = "\<lambda>k. \<lparr>rq_session_token = Some k, rq_session_cookie = None, rq_mfa_ticket = None\<rparr>"
  have guards: "account_guard (?r ''tb'') sample_auth_db = (Ok ?b, sample_auth_db)"
      "account_guard (?r ''ta'') sample_auth_db = (Ok ?a, sample_auth_db)"
    by code_simp+
  have factors: "\<not> is_active (acc_mfa ?b)" "verify_password sample_auth_env ?b ''correct horse'' = Ok ()" "is_active (acc_mfa ?a)"
    by code_simp+
  have time: "ae_ulid_time sample_auth_env (ae_ulid sample_auth_env (ae_clock sample_auth_env (au_ticks sample_auth_db))
      (au_draws sample_auth_db)) = Some (ae_clock sample_auth_env (au_ticks sample_auth_db))"
    by code_simp
  have fresh: "\<forall>t\<in>set (hm_values (db_mfa_tickets sample_auth_db)).
      mt_token t \<noteq> ae_nanoid sample_auth_env (Suc (au_draws sample_auth_db))"
    by code_simp
  have "ae_clock sample_auth_env (Suc n) < ae_clock sample_auth_env n + 60000" for n
    by (simp add: sample_auth_env_def)
  with foreign_ticket_disables_totp [OF sample_auth_ok guards(1) _ factors(1,2) guards(2) factors(3) time fresh]
  show ?thesis
    by (auto simp: sample_account_def)
qed

end
