(* ===== verification/Message_Routes.thy ===== *)
theory Message_Routes
  imports Message_Create Channels Reactions Route_Samples
begin

text \<open>
  The routes on single messages (\<open>crates/delta/src/routes/channels/message_*.rs\<close>): editing,
  deleting, deleting in bulk, pinning, unpinning, reacting and taking reactions back.
  \<open>message_route_env\<close> adds to the environment of a request what these routes take from
  outside: the derived \<open>apply_options\<close>, the identifier of a new message, the limits of the
  user, the validation of an embed and the time an identifier encodes (crate \<open>ulid\<close>, in
  milliseconds; the clock is read in nanoseconds).
\<close>

section \<open>Environment\<close>

record message_route_env =
  mr_route :: route_env
  mr_apply_options :: "partial_message \<Rightarrow> message \<Rightarrow> message"
  mr_new_id :: string
  mr_message_length :: nat
  mr_message_reactions :: nat
  mr_emoji :: emoji_rules
  mr_validate_embed :: "sendable_embed \<Rightarrow> unit result"
  mr_ulid_ms :: "string \<Rightarrow> int option"
  mr_clock_ns :: int

record data_edit_message =
  dem_content :: "string option"
  dem_embeds :: "sendable_embed list option"

record options_unreact =
  ou_user_id :: "string option"
  ou_remove_all :: "bool option"

abbreviation message_perms ::
    "message_route_env \<Rightarrow> user \<Rightarrow> channel \<Rightarrow> (u64 \<times> database_permission_query) io" where
  "message_perms env \<equiv> channel_perms (mr_route env)"

section \<open>Editing\<close>

definition create_embed :: "message_route_env \<Rightarrow> message \<Rightarrow> sendable_embed \<Rightarrow> embed io" where
  "create_embed env m e =
     bindM (lift (mr_validate_embed env e)) (\<lambda>_.
     bindM (case se_media e of
              Some ident \<Rightarrow> bindM (use_attachment ident (ms_id m) (ms_author m)) (\<lambda>f. ret (Some f))
            | None \<Rightarrow> ret None) (\<lambda>media.
     ret (Embed_Text \<lparr>te_icon_url = se_icon_url e, te_url = se_url e, te_title = se_title e,
            te_description = se_description e, te_media = media, te_colour = se_colour e\<rparr>)))"

fun create_embeds :: "message_route_env \<Rightarrow> message \<Rightarrow> sendable_embed list \<Rightarrow> embed list io" where
  "create_embeds env m [] = ret []"
| "create_embeds env m (e # es) =
     bindM (create_embed env m e) (\<lambda>embed.
     bindM (create_embeds env m es) (\<lambda>embeds. ret (embed # embeds)))"

definition is_text_embed :: "embed \<Rightarrow> bool" where
  "is_text_embed e \<longleftrightarrow> (case e of Embed_Text _ \<Rightarrow> True | _ \<Rightarrow> False)"

definition message_edit ::
    "message_route_env \<Rightarrow> unit result \<Rightarrow> user \<Rightarrow> string \<Rightarrow> string \<Rightarrow> data_edit_message \<Rightarrow> message io" where
  "message_edit env validation user target msg d =
     bindM (lift validation) (\<lambda>_.
     bindM (lift (validate_sum (dem_content d) (unwrap_or (dem_embeds d) []) (mr_message_length env))) (\<lambda>_.
     bindM (as_channel target) (\<lambda>channel.
     bindM (message_perms env user channel) (\<lambda>(permissions, _).
     bindM (lift (throw_if_lacking_channel_permission permissions CP_SendMessage)) (\<lambda>_.
     bindM (as_message_in_channel msg (channel_id channel)) (\<lambda>message.
     bindM (guard (ms_author message \<noteq> u_id user) (ChannelErr CannotEditMessage)) (\<lambda>_.
     let message = message\<lparr>ms_edited := Some (re_now (mr_route env))\<rparr>;
         partial = default_partial_message
           \<lparr>pms_edited := ms_edited message, pms_content := dem_content d\<rparr>;
         kept = filter is_text_embed (unwrap_or (ms_embeds message) [])
     in
     bindM (case dem_embeds d of
              Some embeds \<Rightarrow>
                bindM (lift (throw_if_lacking_channel_permission permissions CP_SendEmbeds)) (\<lambda>_.
                create_embeds env message embeds)
            | None \<Rightarrow> ret kept) (\<lambda>new_embeds.
     bindM (message_update (mr_apply_options env) message
              (partial\<lparr>pms_embeds := Some new_embeds\<rparr>) []) (\<lambda>message.
     bindM (case (has_channel_permission permissions CP_SendEmbeds, dem_content d) of
              (True, Some content) \<Rightarrow> queue_task (T_Embeds (ms_channel message) (ms_id message) content)
            | _ \<Rightarrow> ret ()) (\<lambda>_.
     ret message))))))))))"

section \<open>Deleting\<close>

definition route_message_delete ::
    "message_route_env \<Rightarrow> user \<Rightarrow> string option \<Rightarrow> string \<Rightarrow> string \<Rightarrow> unit io" where
  "route_message_delete env user reason target msg =
     bindM (as_message_in_channel msg target) (\<lambda>message.
     bindM (if ms_author message \<noteq> u_id user then
              bindM (as_channel target) (\<lambda>channel.
              bindM (message_perms env user channel) (\<lambda>(permissions, _).
              bindM (lift (throw_if_lacking_channel_permission permissions CP_ManageMessages)) (\<lambda>_.
              ret (Some channel))))
            else ret None) (\<lambda>channel.
     bindM (message_delete message) (\<lambda>_.
     case Option.bind channel channel_server of
       Some server \<Rightarrow>
         audit_insert (mr_route env) (A_MessageDelete (ms_author message) (ms_channel message)) server
           reason (u_id user) (Some (ms_author message))
     | None \<Rightarrow> ret ())))"

text \<open>
  Seven days in nanoseconds. An identifier from the future makes \<open>elapsed()\<close> fail, and the
  route panics.
\<close>

definition bulk_delete_age :: int where
  "bulk_delete_age = 7 * 24 * 3600 * 10 ^ 9"

definition check_message_age :: "message_route_env \<Rightarrow> string \<Rightarrow> unit io" where
  "check_message_age env ident =
     bindM (lift (ok_or (GeneralErr InvalidOperation) (mr_ulid_ms env ident))) (\<lambda>ms.
     let elapsed = mr_clock_ns env - ms * 10 ^ 6
     in if elapsed < 0 then panic ''Time went backwards''
        else guard (elapsed > bulk_delete_age) (GeneralErr InvalidOperation))"

definition bulk_delete_messages ::
    "message_route_env \<Rightarrow> unit result \<Rightarrow> user \<Rightarrow> string option \<Rightarrow> string \<Rightarrow> string list \<Rightarrow> unit io" where
  "bulk_delete_messages env validation user reason target ids =
     bindM (lift validation) (\<lambda>_.
     bindM (for_each ids (check_message_age env)) (\<lambda>_.
     bindM (as_channel target) (\<lambda>channel.
     bindM (message_perms env user channel) (\<lambda>(permissions, _).
     bindM (lift (throw_if_lacking_channel_permission permissions CP_ManageMessages)) (\<lambda>_.
     bindM (bulk_delete target ids) (\<lambda>_.
     case channel_server channel of
       Some server \<Rightarrow>
         audit_insert (mr_route env) (A_MessageBulkDelete (channel_id channel) (length ids)) server
           reason (u_id user) None
     | None \<Rightarrow> ret ()))))))"

section \<open>Pinning\<close>

text \<open>The permission is asked for in every channel but a direct message.\<close>

definition may_pin :: "message_route_env \<Rightarrow> user \<Rightarrow> channel \<Rightarrow> unit io" where
  "may_pin env user channel =
     (case channel of
        DirectMessage _ \<Rightarrow> ret ()
      | _ \<Rightarrow>
          bindM (message_perms env user channel) (\<lambda>(permissions, _).
          lift (throw_if_lacking_channel_permission permissions CP_ManageMessages)))"

definition message_pin ::
    "message_route_env \<Rightarrow> user \<Rightarrow> string option \<Rightarrow> string \<Rightarrow> string \<Rightarrow> unit io" where
  "message_pin env user reason target msg =
     bindM (as_channel target) (\<lambda>channel.
     bindM (may_pin env user channel) (\<lambda>_.
     bindM (as_message_in_channel msg (channel_id channel)) (\<lambda>message.
     bindM (guard (unwrap_or (ms_pinned message) False) (ChannelErr AlreadyPinned)) (\<lambda>_.
     bindM (message_update (mr_apply_options env) message
              (default_partial_message\<lparr>pms_pinned := Some True\<rparr>) []) (\<lambda>message.
     bindM (send_message
              (into_message (mr_new_id env) (SM_MessagePinned (ms_id message) (u_id user))
                 (channel_id channel))
              (as_author_for_system user) None None channel False) (\<lambda>_.
     case channel_server channel of
       Some server \<Rightarrow>
         audit_insert (mr_route env)
           (A_MessagePin (ms_id message) (ms_author message) (ms_channel message)) server reason
           (u_id user) (Some (ms_author message))
     | None \<Rightarrow> ret ()))))))"

definition message_unpin ::
    "message_route_env \<Rightarrow> user \<Rightarrow> string option \<Rightarrow> string \<Rightarrow> string \<Rightarrow> unit io" where
  "message_unpin env user reason target msg =
     bindM (as_channel target) (\<lambda>channel.
     bindM (may_pin env user channel) (\<lambda>_.
     bindM (as_message_in_channel msg (channel_id channel)) (\<lambda>message.
     bindM (guard (\<not> unwrap_or (ms_pinned message) False) (ChannelErr NotPinned)) (\<lambda>_.
     bindM (message_update (mr_apply_options env) message default_partial_message [FM_Pinned]) (\<lambda>message.
     bindM (send_message
              (into_message (mr_new_id env) (SM_MessageUnpinned (ms_id message) (u_id user))
                 (channel_id channel))
              (as_author_for_system user) None None channel False) (\<lambda>_.
     case channel_server channel of
       Some server \<Rightarrow>
         audit_insert (mr_route env)
           (A_MessageUnpin (ms_id message) (ms_author message) (ms_channel message)) server reason
           (u_id user) (Some (ms_author message))
     | None \<Rightarrow> ret ()))))))"

section \<open>Reactions\<close>

definition react_message ::
    "message_route_env \<Rightarrow> user \<Rightarrow> string \<Rightarrow> string \<Rightarrow> string \<Rightarrow> unit io" where
  "react_message env user target msg emoji =
     bindM (as_channel target) (\<lambda>channel.
     bindM (message_perms env user channel) (\<lambda>(permissions, _).
     bindM (lift (throw_if_lacking_channel_permission permissions CP_React)) (\<lambda>_.
     bindM (as_message_in_channel msg (channel_id channel)) (\<lambda>message.
     add_reaction (mr_emoji env) (mr_message_reactions env) message user emoji))))"

definition unreact_message ::
    "message_route_env \<Rightarrow> user \<Rightarrow> string \<Rightarrow> string \<Rightarrow> string \<Rightarrow> options_unreact \<Rightarrow> unit io" where
  "unreact_message env user target msg emoji options =
     bindM (as_channel target) (\<lambda>channel.
     bindM (message_perms env user channel) (\<lambda>(permissions, _).
     bindM (lift (throw_if_lacking_channel_permission permissions CP_React)) (\<lambda>_.
     let remove_all = unwrap_or (ou_remove_all options) False
     in
     bindM (if ou_user_id options \<noteq> None \<or> remove_all
            then lift (throw_if_lacking_channel_permission permissions CP_ManageMessages)
            else ret ()) (\<lambda>_.
     bindM (as_message_in_channel msg (channel_id channel)) (\<lambda>message.
     if remove_all then clear_reaction message emoji
     else remove_reaction message (unwrap_or (ou_user_id options) (u_id user)) emoji)))))"

definition clear_reactions :: "message_route_env \<Rightarrow> user \<Rightarrow> string \<Rightarrow> string \<Rightarrow> unit io" where
  "clear_reactions env user target msg =
     bindM (as_channel target) (\<lambda>channel.
     bindM (message_perms env user channel) (\<lambda>(permissions, _).
     bindM (lift (throw_if_lacking_channel_permission permissions CP_ManageMessages)) (\<lambda>_.
     bindM (as_message_in_channel msg (channel_id channel)) (\<lambda>message.
     bindM (message_update (mr_apply_options env) message
              (default_partial_message\<lparr>pms_reactions := Some []\<rparr>) []) (\<lambda>_.
     ret ())))))"

section \<open>Reading\<close>

definition message_fetch :: "message_route_env \<Rightarrow> user \<Rightarrow> string \<Rightarrow> string \<Rightarrow> message io" where
  "message_fetch env user target msg =
     bindM (as_channel target) (\<lambda>channel.
     bindM (message_perms env user channel) (\<lambda>(permissions, _).
     bindM (lift (throw_if_lacking_channel_permission permissions CP_ViewChannel)) (\<lambda>_.
     bindM (fetch_message msg) (\<lambda>message.
     bindM (guard (ms_channel message \<noteq> channel_id channel) not_found) (\<lambda>_.
     ret message)))))"

definition channel_fetch :: "message_route_env \<Rightarrow> user \<Rightarrow> string \<Rightarrow> channel io" where
  "channel_fetch env user target =
     bindM (as_channel target) (\<lambda>channel.
     bindM (message_perms env user channel) (\<lambda>(permissions, _).
     bindM (lift (throw_if_lacking_channel_permission permissions CP_ViewChannel)) (\<lambda>_.
     ret channel)))"

section \<open>Requests\<close>

datatype message_request =
    MR_Edit "unit result" string string data_edit_message
  | MR_Delete "string option" string string
  | MR_BulkDelete "unit result" "string option" string "string list"
  | MR_Pin "string option" string string
  | MR_Unpin "string option" string string
  | MR_React string string string
  | MR_Unreact string string string options_unreact
  | MR_ClearReactions string string

definition run_message_request ::
    "message_route_env \<Rightarrow> user \<Rightarrow> message_request \<Rightarrow> unit io" where
  "run_message_request env user req =
     (case req of
        MR_Edit v target msg d \<Rightarrow> bindM (message_edit env v user target msg d) (\<lambda>_. ret ())
      | MR_Delete reason target msg \<Rightarrow> route_message_delete env user reason target msg
      | MR_BulkDelete v reason target ids \<Rightarrow> bulk_delete_messages env v user reason target ids
      | MR_Pin reason target msg \<Rightarrow> message_pin env user reason target msg
      | MR_Unpin reason target msg \<Rightarrow> message_unpin env user reason target msg
      | MR_React target msg emoji \<Rightarrow> react_message env user target msg emoji
      | MR_Unreact target msg emoji options \<Rightarrow> unreact_message env user target msg emoji options
      | MR_ClearReactions target msg \<Rightarrow> clear_reactions env user target msg)"

end
