(* ===== verification/Message_Rights.thy ===== *)
theory Message_Rights
  imports Message_Routes Hoare
begin

text \<open>
  Who changes whose messages: the rights behind every change that a request on a message makes
  to a stored message, and the hole in it, direct messages that anybody can pin in.
\<close>

section \<open>Rights\<close>

definition holds_in ::
    "message_route_env \<Rightarrow> world \<Rightarrow> user \<Rightarrow> string \<Rightarrow> channel_permission \<Rightarrow> bool" where
  "holds_in env w u cid perm \<longleftrightarrow>
     (\<exists>c p q. hm_get (db_channels w) cid = Some c \<and>
        calculate_channel_permissions
          (DatabasePermissionQuery (re_pdb (mr_route env) w) (re_now (mr_route env)))
          (channel_query u c) = Some (p, q) \<and>
        has_channel_permission p perm)"

definition in_direct_message :: "world \<Rightarrow> string \<Rightarrow> bool" where
  "in_direct_message w cid \<longleftrightarrow> (\<exists>d. hm_get (db_channels w) cid = Some (DirectMessage d))"

text \<open>Reactions of everybody else are the same.\<close>

definition same_for_others :: "string \<Rightarrow> (string \<times> string list) list \<Rightarrow> (string \<times> string list) list \<Rightarrow> bool" where
  "same_for_others u rs rs' \<longleftrightarrow>
     (\<forall>e v. v \<noteq> u \<longrightarrow> ((e, v) \<in> reaction_pairs rs') = ((e, v) \<in> reaction_pairs rs))"

definition may_become ::
    "message_route_env \<Rightarrow> world \<Rightarrow> user \<Rightarrow> message \<Rightarrow> message option \<Rightarrow> bool" where
  "may_become env w u m m' \<longleftrightarrow>
     (case m' of
        None \<Rightarrow> ms_author m = u_id u \<or> holds_in env w u (ms_channel m) CP_ManageMessages
      | Some m' \<Rightarrow>
          m' = m \<or>
          ms_author m = u_id u \<and> holds_in env w u (ms_channel m) CP_SendMessage \<and>
            (\<exists>c e t. m' = m\<lparr>ms_content := c, ms_embeds := e, ms_edited := t\<rparr>) \<or>
          (holds_in env w u (ms_channel m) CP_ManageMessages \<or> in_direct_message w (ms_channel m)) \<and>
            (\<exists>p. m' = m\<lparr>ms_pinned := p\<rparr>) \<or>
          holds_in env w u (ms_channel m) CP_ManageMessages \<and> (\<exists>rs. m' = m\<lparr>ms_reactions := rs\<rparr>) \<or>
          holds_in env w u (ms_channel m) CP_React \<and>
            (\<exists>rs. m' = m\<lparr>ms_reactions := rs\<rparr> \<and> same_for_others (u_id u) (ms_reactions m) rs))"

definition rightful :: "message_route_env \<Rightarrow> user \<Rightarrow> world \<Rightarrow> world \<Rightarrow> bool" where
  "rightful env u w w' \<longleftrightarrow>
     (\<forall>i m. hm_get (db_messages w) i = Some m \<longrightarrow> may_become env w u m (hm_get (db_messages w') i))"

definition messages_ok :: "world \<Rightarrow> bool" where
  "messages_ok w \<longleftrightarrow> world_ok w \<and>
     (\<forall>i m. hm_get (db_messages w) i = Some m \<longrightarrow> reactions_ok (ms_reactions m))"

lemma may_become_same [simp]: "may_become env w u m (Some m)"
  by (simp add: may_become_def)

lemma may_become_reactions:
  "holds_in env w u (ms_channel m) CP_ManageMessages \<Longrightarrow> may_become env w u m (Some (m\<lparr>ms_reactions := rs\<rparr>))"
  unfolding may_become_def by (simp, blast)

lemma may_become_own_reactions:
  "holds_in env w u (ms_channel m) CP_React \<Longrightarrow> same_for_others (u_id u) (ms_reactions m) rs \<Longrightarrow>
   may_become env w u m (Some (m\<lparr>ms_reactions := rs\<rparr>))"
  unfolding may_become_def by (simp, blast)

lemma rightful_same [simp]: "rightful env u w w"
  by (simp add: rightful_def)

lemma rightful_messages: "db_messages w' = db_messages w \<Longrightarrow> rightful env u w w'"
  by (simp add: rightful_def)

section \<open>Reading steps\<close>

text \<open>\<open>known A w\<close>: nothing has changed yet, and \<open>A\<close> holds.\<close>

abbreviation known :: "world \<Rightarrow> bool \<Rightarrow> world \<Rightarrow> bool" where
  "known w0 A w \<equiv> w = w0 \<and> A"

lemma reads_channel:
  assumes "world_ok w0"
  shows "ensures (rightful env u w0) (known w0 A) (as_channel t)
     (\<lambda>c. known w0 (A \<and> hm_get (db_channels w0) t = Some c \<and> channel_id c = t))"
  using assms
  by (intro ensuresI)
     (auto simp: as_channel_def bindM_eq_Ok fetch_channel_def fetch_server_def world_ok_def bindM_def guard_def
      dest: keyed_get split: option.splits if_splits outcome.splits)

lemma reads_perms:
  "ensures (rightful env u w0) (known w0 (A \<and> hm_get (db_channels w0) t = Some c \<and> channel_id c = t))
     (message_perms env u c)
     (\<lambda>r. known w0 (A \<and> hm_get (db_channels w0) t = Some c \<and> channel_id c = t \<and>
        (\<forall>perm. has_channel_permission (fst r) perm \<longrightarrow> holds_in env w0 u t perm)))"
  by (intro ensuresI)
     (auto simp: channel_permissions_io_def holds_in_def split: option.splits)

lemma reads_message:
  assumes "world_ok w0"
  shows "ensures (rightful env u w0) (known w0 A) (as_message_in_channel i c)
     (\<lambda>m. known w0 (A \<and> hm_get (db_messages w0) i = Some m \<and> ms_channel m = c \<and> ms_id m = i))"
  using assms
  by (intro ensuresI)
     (auto simp: as_message_in_channel_def bindM_def fetch_message_def guard_def ok_or_def world_ok_def
      dest: keyed_get split: option.splits if_splits)

section \<open>Changing steps\<close>

abbreviation unsent :: "world \<Rightarrow> bool \<Rightarrow> world \<Rightarrow> bool" where
  "unsent w0 A w \<equiv> db_messages w = db_messages w0 \<and> A"

lemma changes:
  assumes "\<And>w. A \<Longrightarrow> db_messages w = db_messages w0 \<Longrightarrow> rightful env u w0 (snd (m w))"
  shows "ensures (rightful env u w0) (unsent w0 A) m (\<lambda>_ _. True)"
  using assms by (intro ensuresI) auto

lemma keeps_rightful:
  assumes "leaves db_messages m"
  shows "keeps (rightful env u w0) m"
  using leavesD [OF assms] by (auto simp: keeps_def rightful_def)

lemma passes_unsent:
  assumes "leaves db_messages m"
  shows "ensures (rightful env u w0) (unsent w0 A) m (\<lambda>_. unsent w0 A)"
  using leavesD [OF assms] by (auto simp: ensures_def rightful_def)

lemma leaves_messages [leaves_rules]:
  "leaves db_messages (publish c e)" "leaves db_messages (queue_task t)"
  "leaves db_messages (insert_audit_log_entry a)" "leaves db_messages (use_attachment i j k)"
  "leaves db_messages (mark_attachments_as_deleted is)" "leaves db_messages (fetch_messages_by_id is)"
  by (auto simp: leaves_def publish_def queue_task_def insert_audit_log_entry_def use_attachment_def
      find_and_use_attachment_def mark_attachments_as_deleted_def fetch_messages_by_id_def Let_def
      split: option.splits)

lemma leaves_messages_audit [leaves_rules]: "leaves db_messages (audit_insert env a s r u t)"
  unfolding audit_insert_def by (intro leaves_rules)

lemma leaves_messages_embeds [leaves_rules]: "leaves db_messages (create_embeds env m es)"
proof (induction es)
  case (Cons e es)
  then show ?case
    unfolding create_embeds.simps create_embed_def by (intro leaves_rules)
qed (simp add: leaves_def)

lemma update_rightful:
  assumes "db_messages w = db_messages w0" and "hm_get (db_messages w0) i = Some m" and "ms_id m' = i"
    and "ms_id (fold message_remove_field remove (ap partial m')) = i"
    and "may_become env w0 u m (Some (fold message_remove_field remove (ap partial m)))"
  shows "rightful env u w0 (snd (message_update ap m' partial remove w))"
  using assms
  by (auto simp: rightful_def message_update_def Let_def update_message_def publish_def bindM_def
      hm_contains_def)

lemma throw_Ok: "throw_if_lacking_channel_permission p q = Ok x \<longleftrightarrow> has_channel_permission p q"
  by (simp add: throw_if_lacking_channel_permission_def)

text \<open>Sending a system message adds a message; it replaces none.\<close>

definition all_stored :: "world \<Rightarrow> world \<Rightarrow> bool" where
  "all_stored w0 w \<longleftrightarrow> (\<forall>i. hm_contains (db_messages w0) i \<longrightarrow> hm_contains (db_messages w) i)"

lemma insert_then_leaves:
  assumes "\<And>x. leaves db_messages (f x)"
  shows "db_messages (snd (bindM (insert_message m) f w)) =
     (if hm_contains (db_messages w) (ms_id m) then db_messages w
      else hm_insert (ms_id m) m (db_messages w))"
  using leavesD [OF assms] by (simp add: bindM_def insert_message_def)

lemma send_message_stored:
  "db_messages (snd (send_message m a us mem c ge w)) =
     (if hm_contains (db_messages w) (ms_id m) then db_messages w
      else hm_insert (ms_id m) m (db_messages w))"
  unfolding send_message_def send_without_notifications_def bindM_assoc
  by (rule insert_then_leaves) (intro leaves_rules)

lemma send_message_fresh:
  "\<not> hm_contains (db_messages w) (ms_id m) \<Longrightarrow> fst (send_message m a us mem c ge w) = Ok ()"
  by (simp add: send_message_def send_without_notifications_def bindM_def insert_message_def publish_def
      queue_task_def Let_def split: option.split bool.split)

lemma send_rightful:
  "ensures (rightful env u w0) (all_stored w0) (send_message m a us mem c ge) (\<lambda>_ _. True)"
  by (intro ensuresI)
     (auto simp: send_message_stored rightful_def all_stored_def hm_contains_def)

section \<open>The routes\<close>

lemma ensures_channel_kinds:
  "(\<And>d. c = DirectMessage d \<Longrightarrow> ensures I P m Q) \<Longrightarrow> (\<not> is_direct_dm c \<Longrightarrow> ensures I P m' Q) \<Longrightarrow>
   ensures I P (case c of DirectMessage _ \<Rightarrow> m | _ \<Rightarrow> m') Q"
  by (cases c) simp_all

lemma known_unsent: "ensures I (unsent w0 A) m Q \<Longrightarrow> (\<And>w. P w \<Longrightarrow> unsent w0 A w) \<Longrightarrow> ensures I P m Q"
  by (erule ensures_pre) simp

lemma some_priority_parts:
  "some_priority_message (default_partial_message\<lparr>pms_edited := t, pms_content := c, pms_embeds := Some es\<rparr>) m =
     m\<lparr>ms_content := or_else c (ms_content m), ms_embeds := Some es, ms_edited := or_else t (ms_edited m)\<rparr>"
  "some_priority_message (default_partial_message\<lparr>pms_pinned := Some p\<rparr>) m = m\<lparr>ms_pinned := Some p\<rparr>"
  "some_priority_message (default_partial_message\<lparr>pms_reactions := Some rs\<rparr>) m = m\<lparr>ms_reactions := rs\<rparr>"
  "some_priority_message default_partial_message m = m"
  by (simp_all add: some_priority_message_def default_partial_message_def)

lemma known_lift: "ensures I (known w0 A) (lift r) (\<lambda>x. known w0 (A \<and> r = Ok x))"
  by (cases r) (simp_all add: ensures_def)

lemma known_guard: "ensures I (known w0 A) (guard c e) (\<lambda>_. known w0 (A \<and> \<not> c))"
  by (simp add: ensures_def guard_def)

lemma known_fact: "(A \<Longrightarrow> ensures I (known w0 A) m Q) \<Longrightarrow> ensures I (known w0 A) m Q"
  by (auto simp: ensures_def)

lemmas known_rules =
  ensures_bind [OF known_lift] ensures_bind [OF known_guard] ensures_bind [OF reads_channel]
  ensures_bind [OF reads_perms] ensures_bind [OF reads_message] ensures_prod

text \<open>What the reading steps of a route establish about the message and its channel.\<close>

definition located :: "world \<Rightarrow> string \<Rightarrow> string \<Rightarrow> message \<Rightarrow> bool" where
  "located w t i m \<longleftrightarrow> hm_get (db_messages w) i = Some m \<and> ms_id m = i \<and> ms_channel m = t"

lemmas passes = ensures_bind [OF passes_unsent]
lemmas then_leaves = ensures_then [OF changes keeps_rightful]

lemma edit_rightful:
  assumes "world_ok w0" and "mr_apply_options env = some_priority_message"
  shows "ensures (rightful env u w0) (known w0 True) (message_edit env v u t i d) (\<lambda>_ _. True)"
  unfolding message_edit_def Let_def assms(2)
proof (intro known_rules assms, goal_cases)
  case (1 _ _ c _ p _ _ m)
  let ?A = "located w0 t i m \<and> ms_author m = u_id u \<and> holds_in env w0 u t CP_SendMessage"
  show ?case
  proof (rule known_unsent [where A = ?A and ?w0.0 = w0], rule passes, goal_cases)
    case 1
    show ?case by (intro leaves_rules)
  next
    case (2 es)
    show ?case
      by (rule then_leaves, rule update_rightful)
         (auto simp: located_def some_priority_parts may_become_def intro!: leaves_rules)
  qed (auto simp: located_def throw_Ok 1)
qed

lemma delete_step:
  assumes "located w0 t i m" and "ms_author m = u_id u \<or> holds_in env w0 u t CP_ManageMessages"
  shows "ensures (rightful env u w0) (unsent w0 True) (message_delete m) (\<lambda>_ _. True)"
  unfolding message_delete_def Let_def
proof (rule passes, goal_cases)
  case 2
  show ?case
    by (rule then_leaves)
       (use assms in \<open>auto simp: located_def delete_message_db_def rightful_def may_become_def
          intro!: leaves_rules\<close>)
qed (intro leaves_rules)

lemma delete_rightful:
  assumes "world_ok w0"
  shows "ensures (rightful env u w0) (known w0 True) (route_message_delete env u r t i) (\<lambda>_ _. True)"
  unfolding route_message_delete_def
proof (intro known_rules assms, goal_cases)
  case (1 m)
  let ?A = "located w0 t i m \<and>
      (ms_author m = u_id u \<or> holds_in env w0 u t CP_ManageMessages)"
  show ?case
  proof (rule ensures_bind [where R = "\<lambda>_. known w0 ?A"], goal_cases)
    case 1
    show ?case
      by (intro ensures_if known_rules assms ensures_ret) (auto simp: located_def throw_Ok)
  next
    case (2 channel)
    show ?case
    proof (rule known_fact)
      assume ?A
      then show ?case
        by (intro ensures_then keeps_rightful leaves_rules
            known_unsent [OF delete_step, where ?w0.0 = w0]) auto
    qed
  qed
qed


lemma pin_steps:
  assumes "located w0 t i m" and "holds_in env w0 u t CP_ManageMessages \<or> in_direct_message w0 t"
    and "remove = [] \<and> partial = default_partial_message\<lparr>pms_pinned := Some True\<rparr> \<or>
         remove = [FM_Pinned] \<and> partial = default_partial_message"
  shows "ensures (rightful env u w0) (unsent w0 True) (message_update some_priority_message m partial remove)
     (\<lambda>_. all_stored w0)"
proof (rule ensuresI)
  obtain p where p: "fold message_remove_field remove (some_priority_message partial m) = m\<lparr>ms_pinned := p\<rparr>"
    using assms(3) by (auto simp: some_priority_parts)
  show "rightful env u w0 (snd (message_update some_priority_message m partial remove w))"
    if "unsent w0 True w" for w
    by (rule update_rightful [where i = i and m = m])
       (use that assms(1,2) p in \<open>auto simp: located_def may_become_def\<close>)
  show "all_stored w0 w'"
    if "unsent w0 True w" "message_update some_priority_message m partial remove w = (Ok x, w')" for w x w'
    using that
    by (auto simp: message_update_def Let_def update_message_def publish_def bindM_eq_Ok all_stored_def
        hm_contains_def split: if_splits)
qed


lemma may_pin_reads:
  "ensures (rightful env u w0)
     (known w0 (A \<and> hm_get (db_channels w0) t = Some c \<and> channel_id c = t)) (may_pin env u c)
     (\<lambda>_. known w0 (channel_id c = t \<and>
        (holds_in env w0 u t CP_ManageMessages \<or> in_direct_message w0 t)))"
proof (cases "is_direct_dm c")
  case True
  then obtain d where "c = DirectMessage d"
    by (cases c) simp_all
  then show ?thesis
    by (auto simp: ensures_def may_pin_def in_direct_message_def)
next
  case False
  then have may_pin: "may_pin env u c = bindM (message_perms env u c) (\<lambda>(permissions, _).
      lift (throw_if_lacking_channel_permission permissions CP_ManageMessages))"
    by (cases c) (simp_all add: may_pin_def)
  show ?thesis
    unfolding may_pin
    by (intro ensuresI) (auto simp: bindM_eq_Ok bindM_def channel_permissions_io_def throw_Ok
        holds_in_def split: option.splits)
qed

lemma pin_rest:
  assumes "remove = [] \<and> partial = default_partial_message\<lparr>pms_pinned := Some True\<rparr> \<or>
      remove = [FM_Pinned] \<and> partial = default_partial_message"
    and "\<And>m'. leaves db_messages (rest m')"
  shows "ensures (rightful env u w0)
     (known w0 (((channel_id c = t \<and> (holds_in env w0 u t CP_ManageMessages \<or> in_direct_message w0 t)) \<and>
        hm_get (db_messages w0) i = Some m \<and> ms_channel m = channel_id c \<and> ms_id m = i) \<and> B))
     (bindM (message_update some_priority_message m partial remove) (\<lambda>m'.
        bindM (send_message (sys m') a us mem c' ge) (\<lambda>_. rest m'))) (\<lambda>_ _. True)"
proof (rule known_fact, goal_cases)
  case 1
  then have at: "located w0 t i m" "holds_in env w0 u t CP_ManageMessages \<or> in_direct_message w0 t"
    by (auto simp: located_def)
  show ?case
    by (rule known_unsent [where A = True and ?w0.0 = w0], rule ensures_bind [OF pin_steps [OF at assms(1)]])
       (auto intro!: ensures_then [OF send_rightful] keeps_rightful assms(2))
qed

lemma pin_rightful:
  assumes "world_ok w0" and "mr_apply_options env = some_priority_message"
  shows "ensures (rightful env u w0) (known w0 True) (message_pin env u r t i) (\<lambda>_ _. True)"
    and "ensures (rightful env u w0) (known w0 True) (message_unpin env u r t i) (\<lambda>_ _. True)"
  unfolding message_pin_def message_unpin_def assms(2)
  by (intro known_rules ensures_bind [OF may_pin_reads] assms(1) pin_rest leaves_rules; simp)+

lemma clear_rightful:
  assumes "world_ok w0" and "mr_apply_options env = some_priority_message"
  shows "ensures (rightful env u w0) (known w0 True) (clear_reactions env u t i) (\<lambda>_ _. True)"
  unfolding clear_reactions_def assms(2)
proof (intro known_rules assms(1), goal_cases)
  case (1 c _ p _ _ m)
  let ?A = "located w0 t i m \<and> holds_in env w0 u t CP_ManageMessages"
  show ?case
  proof (rule known_unsent [where A = ?A and ?w0.0 = w0], rule then_leaves, goal_cases)
    case (1 w)
    then show ?case
      by (intro update_rightful [where i = i and m = m])
         (auto simp: located_def some_priority_parts may_become_reactions)
  qed (auto simp: located_def throw_Ok 1 intro!: leaves_rules)
qed

lemma bulk_gone:
  assumes "world_ok w0" and "holds_in env w0 u t CP_ManageMessages"
    and "\<And>m. m \<in> set ms \<Longrightarrow> hm_get (db_messages w0) (ms_id m) = Some m"
    and "db_messages w = db_messages w0"
  shows "rightful env u w0 (snd (delete_messages t (map ms_id (filter (\<lambda>m. ms_channel m = t) ms)) w))"
  unfolding rightful_def
proof (intro allI impI)
  fix i m
  assume m: "hm_get (db_messages w0) i = Some m"
  let ?ids = "map ms_id (filter (\<lambda>m. ms_channel m = t) ms)"
  have "ms_channel m = t" if "i \<in> set ?ids"
    using that assms(3) m by auto
  moreover have "hm_get (db_messages (snd (delete_messages t ?ids w))) i =
      (if ms_channel m \<noteq> t \<and> i \<notin> set ?ids then Some m else None)"
    using assms(1,4) m by (simp add: delete_messages_def world_ok_def keyed_def hm_get_retain)
  ultimately show "may_become env w0 u m (hm_get (db_messages (snd (delete_messages t ?ids w))) i)"
    using assms(2) by (auto simp: may_become_def)
qed

lemma fetched_messages:
  assumes "world_ok w" and "fetch_messages_by_id ids w = (Ok ms, w')" and "m \<in> set ms"
  shows "hm_get (db_messages w) (ms_id m) = Some m"
proof -
  from assms(2) have "list_all2 (\<lambda>i m. hm_get (db_messages w) i = Some m) ids ms"
    by (auto simp: fetch_messages_by_id_def collect_results_Ok ok_or_def split: option.splits
        elim!: list_all2_mono)
  then obtain i where "hm_get (db_messages w) i = Some m"
    using assms(3) by (auto simp: list_all2_conv_all_nth in_set_conv_nth)
  with assms(1) show ?thesis
    by (auto simp: world_ok_def dest: keyed_get)
qed

lemma bulk_step:
  assumes "world_ok w0"
  shows "ensures (rightful env u w0) (known w0 (holds_in env w0 u t CP_ManageMessages))
     (bulk_delete t ids) (\<lambda>_ _. True)"
proof (rule known_fact)
  assume holds: "holds_in env w0 u t CP_ManageMessages"
  show "ensures (rightful env u w0) (known w0 (holds_in env w0 u t CP_ManageMessages))
     (bulk_delete t ids) (\<lambda>_ _. True)"
    unfolding bulk_delete_def Let_def
  proof (rule ensures_bind [where R = "\<lambda>ms. known w0
        (\<forall>m\<in>set ms. hm_get (db_messages w0) (ms_id m) = Some m)"], goal_cases)
    case 1
    show ?case
      using fetched_messages [OF assms]
      by (intro ensuresI) (auto simp: fetch_messages_by_id_def)
  next
    case (2 ms)
    let ?A = "\<forall>m\<in>set ms. hm_get (db_messages w0) (ms_id m) = Some m"
    show ?case
      by (rule known_unsent [where A = ?A and ?w0.0 = w0], rule then_leaves,
          rule bulk_gone [OF assms holds]) (auto intro: leaves_rules)
  qed
qed

lemma ages_read: "ensures I (known w0 A) (for_each ids (check_message_age env)) (\<lambda>_. known w0 A)"
proof (rule ensures_for_each)
  show "ensures I (known w0 A) (check_message_age env i) (\<lambda>_. known w0 A)" for i
    unfolding check_message_age_def Let_def
    by (intro ensuresI) (auto simp: bindM_def guard_def ok_or_def split: option.splits if_splits)
qed

lemma bulk_rightful:
  assumes "world_ok w0"
  shows "ensures (rightful env u w0) (known w0 True) (bulk_delete_messages env v u r t ids) (\<lambda>_ _. True)"
  unfolding bulk_delete_messages_def
proof (intro ensures_bind [OF known_lift] ensures_bind [OF ages_read] known_rules assms, goal_cases)
  case (1 _ _ c _ p _ _)
  show ?case
    by (rule ensures_then, rule ensures_pre [OF bulk_step [OF assms]])
       (auto simp: throw_Ok 1 intro!: keeps_rightful leaves_rules)
qed


section \<open>Reactions\<close>

text \<open>Each step on the reactions of a message changes that message alone, or nothing.\<close>

lemma reaction_step:
  assumes "located w0 t i m" and "db_messages w = db_messages w0"
    and "db_messages w' = db_messages w \<or>
         db_messages w' = hm_modify i (\<lambda>m. m\<lparr>ms_reactions := f (ms_reactions m)\<rparr>) (db_messages w)"
    and "may_become env w0 u m (Some (m\<lparr>ms_reactions := f (ms_reactions m)\<rparr>))"
  shows "rightful env u w0 w'"
  using assms by (auto simp: rightful_def located_def)

lemma add_reaction_stored:
  "db_messages (snd (add_reaction er n m u e w)) = db_messages w \<or>
   db_messages (snd (add_reaction er n m u e w)) = hm_modify (ms_id m) (\<lambda>x. x\<lparr>ms_reactions :=
     if hm_contains (ms_reactions x) e then hm_modify e (set_insert (u_id u)) (ms_reactions x)
     else ms_reactions x @ [(e, [u_id u])]\<rparr>) (db_messages w)"
proof -
  obtain r where "emoji_can_use er e w = (r, w)"
    using emoji_can_use_state [of er e w] by (cases "emoji_can_use er e w") simp
  then show ?thesis
    by (cases r) (auto simp: add_reaction_def bindM_def guard_def publish_def add_reaction_db_def)
qed

lemma clear_reaction_stored:
  "db_messages (snd (clear_reaction m e w)) = db_messages w \<or>
   db_messages (snd (clear_reaction m e w)) =
     hm_modify (ms_id m) (\<lambda>x. x\<lparr>ms_reactions := map_swap_remove e (ms_reactions x)\<rparr>) (db_messages w)"
  by (auto simp: clear_reaction_def bindM_def publish_def clear_reaction_db_def)

lemma remove_reaction_stored:
  assumes "reactions_ok (ms_reactions m)"
  obtains f where "db_messages (snd (remove_reaction m v e w)) = db_messages w \<or>
     db_messages (snd (remove_reaction m v e w)) =
       hm_modify (ms_id m) (\<lambda>x. x\<lparr>ms_reactions := f (ms_reactions x)\<rparr>) (db_messages w)"
    and "same_for_others v (ms_reactions m) (f (ms_reactions m))"
proof (cases "hm_get (ms_reactions m) e")
  case None
  with that [of id] show ?thesis
    by (simp add: remove_reaction_def same_for_others_def)
next
  case (Some us)
  consider "v \<notin> set us" | "v \<in> set us" "length us = 1" | "v \<in> set us" "length us \<noteq> 1"
    by blast
  then show ?thesis
  proof cases
    case 1
    with Some that [of id] show ?thesis
      by (simp add: remove_reaction_def same_for_others_def guard_def)
  next
    case 2
    then have us: "us = [v]"
      by (auto simp: length_Suc_conv)
    have "same_for_others v (ms_reactions m) (map_swap_remove e (ms_reactions m))"
      using cleared_ok [OF assms, of e] Some us by (auto simp: same_for_others_def reaction_pairs_def)
    with Some 2 show ?thesis
      by (intro that [of "map_swap_remove e"])
         (auto simp: remove_reaction_def guard_def bindM_def publish_def clear_reaction_db_def)
  next
    case 3
    have "same_for_others v (ms_reactions m) (hm_modify e (set_swap_remove v) (ms_reactions m))"
      using unreacted_ok [OF assms Some 3] by (auto simp: same_for_others_def)
    with Some 3 show ?thesis
      by (intro that [of "hm_modify e (set_swap_remove v)"])
         (auto simp: remove_reaction_def guard_def bindM_def publish_def remove_reaction_db_def)
  qed
qed

lemma react_rightful:
  assumes "messages_ok w0"
  shows "ensures (rightful env u w0) (known w0 True) (react_message env u t i e) (\<lambda>_ _. True)"
  unfolding react_message_def
proof (intro known_rules, goal_cases)
  case (3 c _ p _ _ m)
  let ?A = "located w0 t i m \<and> holds_in env w0 u t CP_React"
  show ?case
  proof (rule known_unsent [where A = ?A and ?w0.0 = w0], rule changes, goal_cases)
    case (1 w)
    then have m: "located w0 t i m" "ms_id m = i" "holds_in env w0 u (ms_channel m) CP_React"
      "reactions_ok (ms_reactions m)"
      using assms by (auto simp: located_def messages_ok_def)
    let ?rs = "if hm_contains (ms_reactions m) e then hm_modify e (set_insert (u_id u)) (ms_reactions m)
      else ms_reactions m @ [(e, [u_id u])]"
    have "same_for_others (u_id u) (ms_reactions m) ?rs"
      unfolding same_for_others_def reacted_ok(2) [OF m(4)] by simp
    from may_become_own_reactions [OF m(3) this] show ?case
      by (rule reaction_step [OF m(1) 1(2) add_reaction_stored [of _ _ m, unfolded m(2)]])
  qed (auto simp: located_def throw_Ok 3)
qed (use assms in \<open>auto simp: messages_ok_def\<close>)

lemma unreact_step:
  assumes "located w0 t i m" and "reactions_ok (ms_reactions m)" and "holds_in env w0 u t CP_React"
    and "v \<noteq> u_id u \<or> all \<Longrightarrow> holds_in env w0 u t CP_ManageMessages"
    and "db_messages w = db_messages w0"
  shows "rightful env u w0 (snd ((if all then clear_reaction m e else remove_reaction m v e) w))"
proof (cases all)
  case True
  with assms(1,4) have "may_become env w0 u m (Some (m\<lparr>ms_reactions := rs\<rparr>))" for rs
    by (auto simp: located_def intro: may_become_reactions)
  with True assms(1) show ?thesis
    using reaction_step [OF assms(1,5), of _ "map_swap_remove e"] clear_reaction_stored [of m e w]
    by (auto simp: located_def)
next
  case False
  obtain f where f: "db_messages (snd (remove_reaction m v e w)) = db_messages w \<or>
      db_messages (snd (remove_reaction m v e w)) =
        hm_modify (ms_id m) (\<lambda>x. x\<lparr>ms_reactions := f (ms_reactions x)\<rparr>) (db_messages w)"
      "same_for_others v (ms_reactions m) (f (ms_reactions m))"
    using remove_reaction_stored [OF assms(2)] by blast
  have "may_become env w0 u m (Some (m\<lparr>ms_reactions := f (ms_reactions m)\<rparr>))"
    using assms(1,3,4) f(2)
    by (cases "v = u_id u") (auto simp: located_def intro: may_become_reactions may_become_own_reactions)
  with False f(1) assms(1) show ?thesis
    using reaction_step [OF assms(1,5), of _ f] by (auto simp: located_def)
qed

lemma unreact_rightful:
  assumes "messages_ok w0"
  shows "ensures (rightful env u w0) (known w0 True) (unreact_message env u t i e opts) (\<lambda>_ _. True)"
proof -
  have ok: "world_ok w0"
    using assms by (simp add: messages_ok_def)
  let ?all = "unwrap_or (ou_remove_all opts) False" and ?v = "unwrap_or (ou_user_id opts) (u_id u)"
  have escalate: "ensures (rightful env u w0) (known w0 A)
      (if ou_user_id opts \<noteq> None \<or> ?all
       then lift (throw_if_lacking_channel_permission p CP_ManageMessages) else ret ())
      (\<lambda>_. known w0 (A \<and> (?v \<noteq> u_id u \<or> ?all \<longrightarrow> has_channel_permission p CP_ManageMessages)))" for A p
    by (auto simp: ensures_def throw_Ok throw_if_lacking_channel_permission_def)
  show ?thesis
    unfolding unreact_message_def Let_def
  proof (intro known_rules ensures_bind [OF escalate] ok, goal_cases)
    case (1 c _ p _ _ _ m)
    let ?A = "located w0 t i m \<and> holds_in env w0 u t CP_React \<and>
        (?v \<noteq> u_id u \<or> ?all \<longrightarrow> holds_in env w0 u t CP_ManageMessages)"
    show ?case
    proof (rule known_unsent [where A = ?A and ?w0.0 = w0], rule changes, goal_cases)
      case (1 w)
      with assms show ?case
        by (intro unreact_step [where t = t and i = i]) (auto simp: messages_ok_def located_def)
    qed (auto simp: located_def throw_Ok 1)
  qed
qed

lemma request_rightful:
  assumes "messages_ok w" and "mr_apply_options env = some_priority_message"
  shows "rightful env u w (snd (run_message_request env u req w))"
proof -
  have ok: "world_ok w"
    using assms(1) by (simp add: messages_ok_def)
  have "ensures (rightful env u w) (known w True) (run_message_request env u req) (\<lambda>_ _. True)"
    unfolding run_message_request_def
    by (cases req)
       (auto intro: ensures_then [OF edit_rightful [simplified]] delete_rightful [simplified]
          bulk_rightful [simplified] pin_rightful [simplified] react_rightful [simplified]
          unreact_rightful [simplified] clear_rightful [simplified] ok assms)
  from ensures_keeps [OF this] show ?thesis
    by simp
qed

section \<open>Who changes whose messages\<close>


definition sample_message_env :: message_route_env where
  "sample_message_env =
     \<lparr>mr_route = sample_route_env, mr_apply_options = some_priority_message, mr_new_id = ''Q'',
      mr_message_length = 100, mr_message_reactions = 5,
      mr_emoji = \<lparr>er_is_ulid = (\<lambda>_. False), er_sanitize = (\<lambda>e. e), er_permissible = (\<lambda>_. True)\<rparr>,
      mr_validate_embed = (\<lambda>_. Ok ()), mr_ulid_ms = (\<lambda>_. Some 0), mr_clock_ns = 5\<rparr>"

lemma polled_messages_ok: "messages_ok polled_world"
  using polled_world_ok
  by (auto simp: messages_ok_def polled_world_def hm_get_def sample_message_def default_message_def
      reactions_ok_def split: if_splits)


section \<open>Direct messages\<close>

text \<open>
  C38: Pinning asks for no permission in a direct message, not even to be one of the two. With
  the identifiers of a direct message and of an unpinned message in it, any user whatsoever can
  pin that message, and a system message that names the user is posted there.
\<close>

theorem anybody_pins_in_direct_messages:
  assumes "world_ok w" and "mr_apply_options env = some_priority_message"
    and "hm_get (db_channels w) t = Some (DirectMessage d)"
    and "hm_get (db_messages w) i = Some m" and "ms_channel m = t" and "\<not> unwrap_or (ms_pinned m) False"
    and "hm_get (db_messages w) (mr_new_id env) = None"
  shows "\<exists>w'. message_pin env u reason t i w = (Ok (), w') \<and>
           hm_get (db_messages w') i = Some (m\<lparr>ms_pinned := Some True\<rparr>) \<and>
           hm_get (db_messages w') (mr_new_id env) =
             Some (into_message (mr_new_id env) (SM_MessagePinned i (u_id u)) t)"
proof -
  have ids: "dm_id d = t" "ms_id m = i" "i \<noteq> mr_new_id env"
    using assms by (auto simp: world_ok_def dest: keyed_get)
  let ?sys = "into_message (mr_new_id env) (SM_MessagePinned i (u_id u)) t"
  obtain w1 where up: "message_update some_priority_message m
        (default_partial_message\<lparr>pms_pinned := Some True\<rparr>) [] w = (Ok (m\<lparr>ms_pinned := Some True\<rparr>), w1)"
      "db_messages w1 = hm_modify i (\<lambda>m. m\<lparr>ms_pinned := Some True\<rparr>) (db_messages w)"
    using assms(4) ids
    by (simp add: message_update_def some_priority_parts update_message_def hm_contains_def publish_def)
  have sys: "ms_id ?sys = mr_new_id env"
    by (simp add: into_message_def)
  let ?send = "send_message ?sys (as_author_for_system u) None None (DirectMessage d) False w1"
  have "\<not> hm_contains (db_messages w1) (ms_id ?sys)"
    using assms(7) ids(3) up(2) sys by (simp add: hm_contains_def)
  from send_message_fresh [OF this] obtain w2 where send: "?send = (Ok (), w2)"
    by (metis prod.collapse)
  have "db_messages w2 = hm_insert (mr_new_id env) ?sys (db_messages w1)"
    using send_message_stored [of ?sys "as_author_for_system u" None None "DirectMessage d" False w1]
      send assms(7) ids(3) up(2)
    by (simp add: hm_contains_def sys)
  moreover have "message_pin env u reason t i w = (Ok (), w2)"
    using assms(2-6) ids up(1) send
    by (simp add: message_pin_def may_pin_def as_channel_def fetch_channel_def as_message_in_channel_def
        fetch_message_def guard_def)
  ultimately show ?thesis
    using assms(4) ids(3) up(2) by simp
qed

definition private_message :: message where
  "private_message = default_message\<lparr>ms_id := ''P'', ms_channel := ''D'', ms_author := ''A''\<rparr>"

definition private_world :: world where
  "private_world = sample_world\<lparr>db_messages := [(''P'', private_message)]\<rparr>"

theorem anybody_pins_in_direct_messages_witness:
  "\<exists>w'. \<not> contains_user (DirectMessage sample_dm) ''O'' \<and>
     message_pin sample_message_env (sample_user ''O'') None ''D'' ''P'' private_world = (Ok (), w') \<and>
     hm_get (db_messages w') ''P'' = Some (private_message\<lparr>ms_pinned := Some True\<rparr>)"
proof -
  have "world_ok private_world"
    using sample_world_ok
    by (simp add: private_world_def world_ok_def keyed_def hm_ok_def hm_get_def private_message_def)
  moreover have "hm_get (db_channels private_world) ''D'' = Some (DirectMessage sample_dm)"
    "hm_get (db_messages private_world) ''P'' = Some private_message"
    "hm_get (db_messages private_world) (mr_new_id sample_message_env) = None"
    by (simp_all add: private_world_def sample_world_def hm_get_def sample_message_env_def)
  moreover have "\<not> contains_user (DirectMessage sample_dm) ''O''"
    by (simp add: sample_dm_def)
  ultimately show ?thesis
    using anybody_pins_in_direct_messages [of private_world sample_message_env "''D''" sample_dm "''P''"
        private_message "sample_user ''O''" None]
    by (auto simp: private_message_def default_message_def sample_message_env_def)
qed

end
