(* ===== verification/Spec2Isabelle.thy ===== *)
theory Spec2Isabelle
  imports Relationships Message_Properties Reactions Group_Channels Member_Edits Oauth_Flow Ratelimits Login_Safety
    Message_Rights
begin

text \<open>
  A verification of the backend of a chat service (Rust, a fork of Stoat): the permission system,
  the database models with their in-memory store, the message parser, the routes for messages,
  groups, servers and moderation, the OAuth server, the rate limiters, and accounts with login,
  second factors and sessions.

  \<^bold>\<open>The program and the theories.\<close> Requests reach the REST server (\<open>crates/delta\<close>), whose rate
  limiter and request guards run first. A route reads models from the database
  (\<open>crates/core/database\<close>), asks the permission calculator (\<open>crates/core/permissions\<close>) what the user
  may do, changes models and publishes events. The other services share these crates.

  \<^item> \<open>Prelude\<close>, \<open>Hoare\<close>: outcomes (\<open>Ok\<close>, \<open>Err\<close>, \<open>Panic\<close>), stateful computations, hash maps, and the
    rules for invariants, triples and frames that the handlers' proofs are made of.
  \<^item> \<open>Results\<close>: \<open>crates/core/result\<close>, the error enumeration and the two HTTP responders.
  \<^item> \<open>Permission_Values\<close>, \<open>Permissions\<close>: \<open>crates/core/permissions\<close>, the flags as 64-bit words, overrides,
    and the three calculators over the query trait. The locales \<open>permission_view\<close> and \<open>channel_view\<close>
    are the trait's contract.
  \<^item> \<open>Models\<close>, \<open>Channel_Model\<close>, \<open>Message_Model\<close>, \<open>World\<close>: the models of \<open>crates/core/database/src/models\<close>,
    with partial updates, and the collections of \<open>ReferenceDb\<close> (\<open>ops/reference.rs\<close> of each model) in
    one state with the published events, queued tasks and broker messages. \<open>Db_Laws\<close> gives the
    well-formedness of the store, that every operation keeps it, and the locale \<open>collection\<close>.
  \<^item> \<open>Permission_Query\<close>, \<open>Bulk_Permissions\<close>, \<open>Access_Control\<close>: \<open>util/permissions.rs\<close> and
    \<open>util/bulk_permissions.rs\<close>; \<open>DatabasePermissionQuery\<close> interprets the trait's locales, and the
    permissions it gives are described bit by bit.
  \<^item> \<open>Relationships\<close>: friends and blocks (\<open>models/users/model.rs\<close>, \<open>routes/users\<close>) as a machine on the
    pair of statuses, with a refinement and an interleaving that breaks it.
  \<^item> \<open>Parser\<close>: \<open>crates/core/parser\<close>, mentions outside code blocks.
  \<^item> \<open>Messaging\<close>, \<open>Message_Create\<close>, \<open>Message_Properties\<close>, \<open>Reactions\<close>: \<open>models/messages/model.rs\<close>,
    \<open>routes/channels/message_send.rs\<close> and \<open>message_poll.rs\<close>.
  \<^item> \<open>Channels\<close>, \<open>Servers\<close>, \<open>Group_Channels\<close>, \<open>Moderation\<close>, \<open>Role_Ranks\<close>, \<open>Member_Edits\<close>: the operations
    of \<open>models/channels\<close>, \<open>servers\<close>, \<open>server_members\<close>, \<open>server_bans\<close>, \<open>audit_logs\<close>, and the routes under
    \<open>routes/channels\<close>, \<open>routes/servers\<close> and \<open>routes/users/open_dm.rs\<close> that use them.
  \<^item> \<open>Oauth\<close>, \<open>Oauth_Text\<close>, \<open>Oauth_Provenance\<close>, \<open>Oauth_Flow\<close>: every endpoint of \<open>routes/oauth.rs\<close>.
  \<^item> \<open>Windows\<close>, \<open>Ratelimits\<close>: \<open>crates/core/ratelimits\<close>, the bucket resolvers of three services and the
    limiter of the OAuth endpoints, both instances of the locale \<open>fixed_window\<close>.
  \<^item> \<open>Accounts\<close>, \<open>Account_Routes\<close>, \<open>Account_Sessions\<close>, \<open>Login_Safety\<close>: \<open>models/accounts\<close>, \<open>sessions\<close>,
    \<open>mfa_tickets\<close>, \<open>account_invites\<close>, their request guards, the routes under \<open>routes/session\<close>,
    \<open>routes/account\<close> and \<open>routes/mfa\<close>, and three tasks of \<open>crond\<close>.
  \<^item> \<open>Samples\<close>, \<open>Route_Samples\<close>: concrete states at which the theorems are applied.

  \<^bold>\<open>How code becomes definitions.\<close> A struct is a record whose selectors carry a prefix, an enum a
  datatype, a route one definition with its guards and early returns in the order of the source. A
  fallible function returns an outcome; a stateful one also the state it leaves, errors and panics
  included, since there are no transactions. A \<open>HashMap\<close> is an association list whose order stands
  for the iteration order, on which no theorem depends. Permission values, counters of the rate
  limiter and casts are words; \<open>i64\<close> values are integers with the casts written out; times are
  milliseconds.

  \<^bold>\<open>What stands outside.\<close> The clock, identifiers and random values, password hashes, TOTP codes,
  digests, the lexer of the parser, \<open>optional_struct\<close>'s derived updates, mail, captcha and voice
  services and the MongoDB driver of the OAuth routes are arguments of the definitions. What is
  assumed of them is a premise of the theorem that needs it, and every such theorem is applied at a
  concrete instance.

  \<^bold>\<open>What is shown.\<close>
  \<^item> Permissions: which role, override or timeout decides each permission of a member; the bulk query
    and the single calculator agree.
  \<^item> Messages: creation is all or nothing, mentions reach only readers, mass mentions need their
    permission, polls and reactions refine sets, the buffering parser equals a definition without a
    buffer.
  \<^item> Groups, servers: groups stay well-formed through any sequence of requests; kicking, banning,
    editing members, reordering roles and changing their grants respect rank; a ban bars rejoining.
  \<^item> OAuth: through any sequence of requests and driver failures, tokens come from consent, codes are
    used once, reuse of a refresh token revokes its family, revoked tokens stay dead, and a token
    shows what its scopes allow.
  \<^item> Rate limits: how many requests pass in a window, and that waiting as told is enough.
  \<^item> Accounts: no session without credentials; no session of a disabled account after any sequence of
    requests; a bound on password guessing; a reset password logs in; asking for a reset reveals no
    account.
  \<^item> Defects, as theorems: silent messages notify, crossing friend requests diverge, anybody can lift
    a mute, and a validated ticket of one account serves for every other.

  \<^bold>\<open>Termination and bounds.\<close> Every definition is total: the recursions are structural or have a
  measure (the parser's remaining tokens, the length of an address), and loops over collections run
  over the list that was read. There is no fuel.

  \<^bold>\<open>Not modelled.\<close> The MongoDB store and its migrations (queries of an external database; where a
  route talks to MongoDB only, it is modelled over the driver or left out), voice (Redis and LiveKit),
  the web-socket server, presence, push delivery, the file, GIF and link services, configuration, the
  payment, gift, theme, discovery and admin routes, passkeys, webhooks, bots, and conversions to the
  API models that only copy fields. Requests run one after the other, except where a theorem
  interleaves their reads and writes.
\<close>

end
